(* ===== verification/Prelude.thy ===== *)
theory Prelude
  imports Main "HOL-Library.Multiset" "HOL-Library.Char_ord" "HOL-Library.List_Lexorder"
begin

text \<open>
  The vocabulary every component shares. Identifiers (\<^verbatim>\<open>uuid.UUID\<close>) are natural numbers,
  timestamps (\<^verbatim>\<open>datetime\<close>, always in UTC) and durations (\<^verbatim>\<open>timedelta\<close>) are integers that
  count microseconds, the resolution Python and PostgreSQL keep. An operation that can
  raise returns a value of a sum type, \<open>Inl\<close> the exception. A database table is the list
  of its rows; the operations the code performs on a table (\<^verbatim>\<open>filter\<close>, \<^verbatim>\<open>first\<close>, \<^verbatim>\<open>update\<close>,
  \<^verbatim>\<open>delete\<close>, \<^verbatim>\<open>create\<close>) are the list functions below, and the lemmas on them are the ones
  the component theories rest on.
\<close>

named_theorems result_simps \<open>rewriting of chained fallible operations\<close>
named_theorems table_simps \<open>row selection, update and deletion on tables\<close>
named_theorems model_defs \<open>definitions of small guards, unfolded in every component\<close>

section \<open>Types\<close>

type_synonym uuid = nat
type_synonym datetime = int
type_synonym timedelta = int

abbreviation seconds :: "int \<Rightarrow> timedelta" where
  "seconds n \<equiv> n * 1000000"

abbreviation minutes :: "int \<Rightarrow> timedelta" where
  "minutes n \<equiv> seconds (n * 60)"

abbreviation hours :: "int \<Rightarrow> timedelta" where
  "hours n \<equiv> minutes (n * 60)"

abbreviation days :: "int \<Rightarrow> timedelta" where
  "days n \<equiv> hours (n * 24)"

section \<open>Fallible operations\<close>

fun bind_result :: "'e + 'a \<Rightarrow> ('a \<Rightarrow> 'e + 'b) \<Rightarrow> 'e + 'b" where
  "bind_result (Inl e) f = Inl e"
| "bind_result (Inr x) f = f x"

lemma bind_result_Inr_iff [simp, result_simps]:
  "bind_result r f = Inr y \<longleftrightarrow> (\<exists>x. r = Inr x \<and> f x = Inr y)"
  by (cases r) auto

lemma bind_result_Inl_iff [result_simps]:
  "bind_result r f = Inl e \<longleftrightarrow> r = Inl e \<or> (\<exists>x. r = Inr x \<and> f x = Inl e)"
  by (cases r) auto

lemma bind_result_assoc [result_simps]:
  "bind_result (bind_result r f) g = bind_result r (\<lambda>x. bind_result (f x) g)"
  by (cases r) auto

text \<open>An early \<^verbatim>\<open>raise\<close>: the exception when the condition holds.\<close>

definition raise_if :: "bool \<Rightarrow> 'e \<Rightarrow> 'e + unit" where
  "raise_if c e = (if c then Inl e else Inr ())"

lemma raise_if_Inr [simp, result_simps]: "raise_if c e = Inr u \<longleftrightarrow> \<not> c"
  by (simp add: raise_if_def)

lemma raise_if_Inl [simp, result_simps]: "raise_if c e = Inl e' \<longleftrightarrow> c \<and> e' = e"
  by (auto simp: raise_if_def)

lemma raise_if_False [simp]: "raise_if False e = Inr ()"
  by (simp add: raise_if_def)

lemma raise_if_True [simp]: "raise_if True e = Inl e"
  by (simp add: raise_if_def)

text \<open>Exceptions re-raised under another class (\<^verbatim>\<open>except ... as exc: raise ...\<close>).\<close>

fun map_error :: "('e \<Rightarrow> 'f) \<Rightarrow> 'e + 'a \<Rightarrow> 'f + 'a" where
  "map_error h (Inl e) = Inl (h e)"
| "map_error h (Inr x) = Inr x"

lemma map_error_Inr_iff [simp, result_simps]: "map_error h r = Inr x \<longleftrightarrow> r = Inr x"
  by (cases r) auto

lemma map_error_Inl_iff [result_simps]: "map_error h r = Inl f \<longleftrightarrow> (\<exists>e. r = Inl e \<and> f = h e)"
  by (cases r) auto

section \<open>Tables\<close>

definition update_rows :: "('r \<Rightarrow> bool) \<Rightarrow> ('r \<Rightarrow> 'r) \<Rightarrow> 'r list \<Rightarrow> 'r list" where
  "update_rows P f t = map (\<lambda>r. if P r then f r else r) t"

definition delete_rows :: "('r \<Rightarrow> bool) \<Rightarrow> 'r list \<Rightarrow> 'r list" where
  "delete_rows P t = filter (\<lambda>r. \<not> P r) t"

definition exists_row :: "('r \<Rightarrow> bool) \<Rightarrow> 'r list \<Rightarrow> bool" where
  "exists_row P t = list_ex P t"

lemma set_update_rows [table_simps]:
  "set (update_rows P f t) = {r \<in> set t. \<not> P r} \<union> f ` {r \<in> set t. P r}"
  by (auto simp: update_rows_def)

lemma set_delete_rows [table_simps]: "set (delete_rows P t) = {r \<in> set t. \<not> P r}"
  by (auto simp: delete_rows_def)

lemma exists_row_iff [table_simps]: "exists_row P t \<longleftrightarrow> (\<exists>r \<in> set t. P r)"
  by (simp add: exists_row_def list_ex_iff)

lemma length_update_rows [simp]: "length (update_rows P f t) = length t"
  by (simp add: update_rows_def)

lemma map_update_rows:
  "(\<And>r. P r \<Longrightarrow> g (f r) = g r) \<Longrightarrow> map g (update_rows P f t) = map g t"
  by (auto simp: update_rows_def)

lemma update_rows_None: "(\<And>r. r \<in> set t \<Longrightarrow> \<not> P r) \<Longrightarrow> update_rows P f t = t"
  by (induction t) (auto simp: update_rows_def)

lemma delete_rows_None: "(\<And>r. r \<in> set t \<Longrightarrow> \<not> P r) \<Longrightarrow> delete_rows P t = t"
  by (induction t) (auto simp: delete_rows_def)

lemma find_Some_iff_in: "find P t = Some r \<Longrightarrow> r \<in> set t \<and> P r"
  by (induction t) (auto split: if_splits)

lemma find_None_iff_all: "find P t = None \<longleftrightarrow> (\<forall>r \<in> set t. \<not> P r)"
  by (auto simp: find_None_iff)

lemma find_update_rows [table_simps]:
  "(\<And>r. Q r \<Longrightarrow> P (f r) = P r) \<Longrightarrow>
     find P (update_rows Q f t) = map_option (\<lambda>r. if Q r then f r else r) (find P t)"
  by (induction t) (auto simp: update_rows_def)

lemma filter_update_rows_other:
  "(\<And>r. r \<in> set t \<Longrightarrow> Q r \<Longrightarrow> \<not> P r \<and> \<not> P (f r)) \<Longrightarrow> filter P (update_rows Q f t) = filter P t"
  by (induction t) (auto simp: update_rows_def)

lemma distinct_map_snoc:
  "distinct (map k t) \<Longrightarrow> (\<And>x. x \<in> set t \<Longrightarrow> k x \<noteq> k r) \<Longrightarrow> distinct (map k (t @ [r]))"
  by (auto dest: sym)

lemma update_rows_keeps:
  "(\<And>x. k (f x) = k x) \<Longrightarrow> x \<in> set t \<Longrightarrow> \<exists>x' \<in> set (update_rows Q f t). k x' = k x"
  by (rule bexI [of _ "if Q x then f x else x"]) (auto simp: update_rows_def)

lemma find_append: "find P (xs @ ys) = (case find P xs of None \<Rightarrow> find P ys | Some r \<Rightarrow> Some r)"
  by (induction xs) auto

text \<open>A row is found by its key when keys are unique.\<close>

lemma find_by_key:
  "distinct (map key t) \<Longrightarrow> r \<in> set t \<Longrightarrow> find (\<lambda>x. key x = key r) t = Some r"
  by (induction t) (auto simp: image_iff)

lemma find_by_key_iff:
  "distinct (map key t) \<Longrightarrow> find (\<lambda>x. key x = k) t = Some r \<longleftrightarrow> r \<in> set t \<and> key r = k"
  using find_by_key [of key t r] by (auto dest: find_Some_iff_in)

lemma distinct_key_inj:
  "distinct (map key t) \<Longrightarrow> r \<in> set t \<Longrightarrow> s \<in> set t \<Longrightarrow> key r = key s \<Longrightarrow> r = s"
  by (auto simp: distinct_map inj_on_def)

lemma list_ex_any [simp]: "list_ex P xs \<longleftrightarrow> (\<exists>x \<in> set xs. P x)"
  by (simp add: list_ex_iff)

section \<open>Secrets that can be redeemed once\<close>

text \<open>
  Enrolment tokens, account tokens, login challenges and recovery codes share one contract: a
  redemption that succeeds spends the secret, and a spent secret is refused for ever. \<open>ident\<close> says
  which secrets count as the same one (their stored hash), \<open>inv\<close> what the table must satisfy.
  \<open>redemptions\<close> runs a sequence of attempts, each with its own arguments (time, identifiers),
  and returns the secrets that were redeemed, in order.
\<close>

fun redemptions :: "('s \<Rightarrow> 'a \<Rightarrow> 'k \<Rightarrow> 'e + ('s \<times> 'r)) \<Rightarrow> 's \<Rightarrow> ('a \<times> 'k) list \<Rightarrow> 'k list" where
  "redemptions redeem s [] = []"
| "redemptions redeem s ((a, k) # attempts) = (case redeem s a k of
      Inl e \<Rightarrow> redemptions redeem s attempts
    | Inr (s', r) \<Rightarrow> k # redemptions redeem s' attempts)"

locale single_use =
  fixes redeem :: "'s \<Rightarrow> 'a \<Rightarrow> 'k \<Rightarrow> 'e + ('s \<times> 'r)"
    and ident :: "'k \<Rightarrow> 'i"
    and spent :: "'s \<Rightarrow> 'i \<Rightarrow> bool"
    and inv :: "'s \<Rightarrow> bool"
  assumes redeem_inv: "inv s \<Longrightarrow> redeem s a k = Inr (s', r) \<Longrightarrow> inv s'"
    and redeem_spends: "inv s \<Longrightarrow> redeem s a k = Inr (s', r) \<Longrightarrow> spent s' (ident k)"
    and spent_rejected: "spent s (ident k) \<Longrightarrow> redeem s a k \<noteq> Inr x"
    and spent_stable: "spent s i \<Longrightarrow> redeem s a k = Inr (s', r) \<Longrightarrow> spent s' i"
begin

lemma spent_never_redeemed: "spent s i \<Longrightarrow> i \<notin> ident ` set (redemptions redeem s attempts)"
proof (induction attempts arbitrary: s)
  case (Cons x attempts)
  obtain a k where x: "x = (a, k)" by (cases x)
  show ?case
  proof (cases "redeem s a k")
    case (Inl e)
    then show ?thesis using Cons x by simp
  next
    case (Inr y)
    then obtain s' r where y: "redeem s a k = Inr (s', r)" by (cases y) auto
    have "ident k \<noteq> i" using y spent_rejected [of s k a] Cons.prems by blast
    then show ?thesis
      using y x Cons.IH [OF spent_stable [OF Cons.prems y]] by simp
  qed
qed simp

theorem redeemed_once: "inv s \<Longrightarrow> distinct (map ident (redemptions redeem s attempts))"
proof (induction attempts arbitrary: s)
  case (Cons x attempts)
  obtain a k where x: "x = (a, k)" by (cases x)
  show ?case
    using Cons spent_never_redeemed [OF redeem_spends] redeem_inv x by (auto split: sum.splits)
qed simp

end

section \<open>Sorting by a key\<close>

lemma sort_key_eq_of_mset:
  fixes f :: "'a \<Rightarrow> 'b::linorder"
  assumes "mset xs = mset ys" and "inj_on f (set xs)"
  shows "sort_key f xs = sort_key f ys"
proof (rule properties_for_sort_key)
  show "mset (sort_key f ys) = mset xs" using assms(1) by simp
  show "sorted (map f (sort_key f ys))" by simp
  fix k assume "k \<in> set (sort_key f ys)"
  then have "k \<in> set xs" using mset_eq_setD [OF assms(1)] by simp
  have one: "filter (\<lambda>x. f k = f x) zs = replicate (count (mset zs) k) k"
    if "set zs = set xs" for zs
  proof -
    have "filter (\<lambda>x. f k = f x) zs = filter (\<lambda>x. k = x) zs"
      using \<open>k \<in> set xs\<close> that assms(2) by (intro filter_cong) (auto simp: inj_on_def)
    also have "\<dots> = replicate (count (mset zs) k) k"
      by (induction zs) auto
    finally show ?thesis .
  qed
  have "set (sort_key f ys) = set xs" using mset_eq_setD [OF assms(1)] by simp
  then show "filter (\<lambda>x. f k = f x) (sort_key f ys) = filter (\<lambda>x. f k = f x) xs"
    using one [of "sort_key f ys"] one [of xs] assms(1) by simp
qed

end
