(* ===== verification/Py_Stdlib.thy ===== *)
theory Py_Stdlib
  imports Complex_Main Prelude
begin

text \<open>
  The parts of the Python language and standard library the program uses: the \<^verbatim>\<open>str\<close>
  methods, numbers of type \<^verbatim>\<open>float\<close> with their special values, and the syntax
  \<^verbatim>\<open>ipaddress.ip_address\<close> accepts. A \<^verbatim>\<open>str\<close> is a \<^typ>\<open>string\<close>; the white space is Python's, and
  case mapping is that of the ASCII letters.
\<close>

section \<open>Characters\<close>

abbreviation ord :: "char \<Rightarrow> nat" where
  "ord c \<equiv> of_char c"

definition is_space :: "char \<Rightarrow> bool" where
  "is_space c \<longleftrightarrow> (9 \<le> ord c \<and> ord c \<le> 13) \<or> (28 \<le> ord c \<and> ord c \<le> 32)
     \<or> ord c = 133 \<or> ord c = 160"

definition is_upper_ascii :: "char \<Rightarrow> bool" where
  "is_upper_ascii c \<longleftrightarrow> 65 \<le> ord c \<and> ord c \<le> 90"

definition is_lower_ascii :: "char \<Rightarrow> bool" where
  "is_lower_ascii c \<longleftrightarrow> 97 \<le> ord c \<and> ord c \<le> 122"

definition is_digit_ascii :: "char \<Rightarrow> bool" where
  "is_digit_ascii c \<longleftrightarrow> 48 \<le> ord c \<and> ord c \<le> 57"

definition is_alnum_ascii :: "char \<Rightarrow> bool" where
  "is_alnum_ascii c \<longleftrightarrow> is_upper_ascii c \<or> is_lower_ascii c \<or> is_digit_ascii c"

definition is_hex_ascii :: "char \<Rightarrow> bool" where
  "is_hex_ascii c \<longleftrightarrow> is_digit_ascii c \<or> (65 \<le> ord c \<and> ord c \<le> 70) \<or> (97 \<le> ord c \<and> ord c \<le> 102)"

definition lower_char :: "char \<Rightarrow> char" where
  "lower_char c = (if is_upper_ascii c then char_of (ord c + 32) else c)"

definition upper_char :: "char \<Rightarrow> char" where
  "upper_char c = (if is_lower_ascii c then char_of (ord c - 32) else c)"

text \<open>\<^verbatim>\<open>ord(character) < 32 or ord(character) == 127\<close>, the test several validators make.\<close>

definition is_control :: "char \<Rightarrow> bool" where
  "is_control c \<longleftrightarrow> ord c < 32 \<or> ord c = 127"

lemma ord_lower_char: "ord (lower_char c) = (if is_upper_ascii c then ord c + 32 else ord c)"
  by (auto simp: lower_char_def is_upper_ascii_def)

lemma lower_char_not_upper [simp]: "\<not> is_upper_ascii (lower_char c)"
  by (auto simp: ord_lower_char is_upper_ascii_def)

lemma lower_char_idem [simp]: "lower_char (lower_char c) = lower_char c"
  using lower_char_not_upper [of c] by (simp add: lower_char_def [of "lower_char c"])

lemma ord_upper_char: "ord (upper_char c) = (if is_lower_ascii c then ord c - 32 else ord c)"
  by (auto simp: upper_char_def is_lower_ascii_def)

lemma upper_char_not_lower [simp]: "\<not> is_lower_ascii (upper_char c)"
  by (auto simp: ord_upper_char is_lower_ascii_def)

lemma upper_char_idem [simp]: "upper_char (upper_char c) = upper_char c"
  using upper_char_not_lower [of c] by (simp add: upper_char_def [of "upper_char c"])

lemma is_space_lower [simp]: "is_space (lower_char c) \<longleftrightarrow> is_space c"
  by (auto simp: is_space_def ord_lower_char is_upper_ascii_def)

lemma is_space_upper [simp]: "is_space (upper_char c) \<longleftrightarrow> is_space c"
  by (auto simp: is_space_def ord_upper_char is_lower_ascii_def)

section \<open>String methods\<close>

definition lower :: "string \<Rightarrow> string" where
  "lower s = map lower_char s"

definition upper :: "string \<Rightarrow> string" where
  "upper s = map upper_char s"

definition rstrip_on :: "(char \<Rightarrow> bool) \<Rightarrow> string \<Rightarrow> string" where
  "rstrip_on P s = rev (dropWhile P (rev s))"

definition strip_on :: "(char \<Rightarrow> bool) \<Rightarrow> string \<Rightarrow> string" where
  "strip_on P s = rstrip_on P (dropWhile P s)"

definition strip :: "string \<Rightarrow> string" where
  "strip s = strip_on is_space s"

text \<open>\<^verbatim>\<open>s.split(c)\<close> for a one-character separator; the result is never empty.\<close>

fun split_on :: "char \<Rightarrow> string \<Rightarrow> string list" where
  "split_on c [] = [[]]"
| "split_on c (x # xs) =
     (if x = c then [] # split_on c xs
      else (case split_on c xs of [] \<Rightarrow> [[x]] | p # ps \<Rightarrow> (x # p) # ps))"

text \<open>\<^verbatim>\<open>s.split()\<close>: the maximal runs of characters that are not white space.\<close>

function split_ws :: "string \<Rightarrow> string list" where
  "split_ws s =
     (case dropWhile is_space s of
        [] \<Rightarrow> []
      | t \<Rightarrow> takeWhile (\<lambda>c. \<not> is_space c) t # split_ws (dropWhile (\<lambda>c. \<not> is_space c) t))"
  by pat_completeness auto
termination
proof (relation "measure length", simp)
  fix s x xs
  assume d: "dropWhile is_space s = x # xs"
  then have "\<not> is_space x" using hd_dropWhile [of is_space s] by simp
  moreover have "length (x # xs) \<le> length s" using length_dropWhile_le [of is_space s] d by simp
  ultimately show "(dropWhile (\<lambda>c. \<not> is_space c) (x # xs), s) \<in> measure length"
    using length_dropWhile_le [of "\<lambda>c. \<not> is_space c" xs] by simp
qed

declare split_ws.simps [simp del]

text \<open>\<^verbatim>\<open>s.partition(c)\<close>: the part before the first separator, whether there is one, the rest.\<close>

definition partition_on :: "char \<Rightarrow> string \<Rightarrow> string \<times> bool \<times> string" where
  "partition_on c s =
     (case dropWhile (\<lambda>x. x \<noteq> c) s of
        [] \<Rightarrow> (s, False, [])
      | _ # rest \<Rightarrow> (takeWhile (\<lambda>x. x \<noteq> c) s, True, rest))"

definition startswith :: "string \<Rightarrow> string \<Rightarrow> bool" where
  "startswith s p \<longleftrightarrow> take (length p) s = p"

definition endswith :: "string \<Rightarrow> string \<Rightarrow> bool" where
  "endswith s p \<longleftrightarrow> length p \<le> length s \<and> drop (length s - length p) s = p"

definition removeprefix :: "string \<Rightarrow> string \<Rightarrow> string" where
  "removeprefix s p = (if startswith s p then drop (length p) s else s)"

definition replace_char :: "char \<Rightarrow> string \<Rightarrow> string \<Rightarrow> string" where
  "replace_char c r s = concat (map (\<lambda>x. if x = c then r else [x]) s)"

text \<open>\<^verbatim>\<open>part in s\<close> on strings.\<close>

fun contains :: "string \<Rightarrow> string \<Rightarrow> bool" where
  "contains s p = (startswith s p \<or> (case s of [] \<Rightarrow> False | _ # t \<Rightarrow> contains t p))"

declare contains.simps [simp del]

lemma lower_idem [simp]: "lower (lower s) = lower s"
  by (simp add: lower_def)

lemma upper_idem [simp]: "upper (upper s) = upper s"
  by (simp add: upper_def)

lemma lower_append [simp]: "lower (a @ b) = lower a @ lower b"
  by (simp add: lower_def)

lemma length_lower [simp]: "length (lower s) = length s"
  by (simp add: lower_def)

lemma set_rstrip_on: "set (rstrip_on P s) \<subseteq> set s"
  using set_dropWhileD by (fastforce simp: rstrip_on_def)

lemma set_strip_on: "set (strip_on P s) \<subseteq> set s"
  using set_rstrip_on [of P "dropWhile P s"] set_dropWhileD by (fastforce simp: strip_on_def)

lemma length_rstrip_on: "length (rstrip_on P s) \<le> length s"
  using length_dropWhile_le [of P "rev s"] by (simp add: rstrip_on_def)

lemma length_strip_on: "length (strip_on P s) \<le> length s"
  using length_rstrip_on [of P "dropWhile P s"] length_dropWhile_le [of P s]
  by (simp add: strip_on_def)

lemma last_rstrip_on: "rstrip_on P s \<noteq> [] \<Longrightarrow> \<not> P (last (rstrip_on P s))"
  using hd_dropWhile [of P "rev s"] by (simp add: rstrip_on_def last_rev)

lemma rstrip_on_id: "s = [] \<or> \<not> P (last s) \<Longrightarrow> rstrip_on P s = s"
  by (cases s rule: rev_cases) (auto simp: rstrip_on_def)

lemma rstrip_on_idem [simp]: "rstrip_on P (rstrip_on P s) = rstrip_on P s"
  using last_rstrip_on [of P s] by (metis rstrip_on_id)

lemma dropWhile_rstrip_on:
  "dropWhile P s = s \<Longrightarrow> dropWhile P (rstrip_on P s) = rstrip_on P s"
proof (cases s)
  case (Cons x xs)
  moreover assume "dropWhile P s = s"
  ultimately have "\<not> P x" by (metis dropWhile.simps(2) length_Cons length_dropWhile_le not_less_eq_eq)
  then have "rstrip_on P s \<noteq> [] \<and> hd (rstrip_on P s) = x"
    using Cons by (simp add: rstrip_on_def dropWhile_append)
  with \<open>\<not> P x\<close> show ?thesis by (cases "rstrip_on P s") auto
qed (simp add: rstrip_on_def)

lemma strip_on_idem [simp]: "strip_on P (strip_on P s) = strip_on P s"
  by (simp add: strip_on_def dropWhile_rstrip_on)

lemma strip_idem [simp]: "strip (strip s) = strip s"
  by (simp add: strip_def)

lemma split_on_nonempty [simp]: "split_on c s \<noteq> []"
  by (induction s) (auto split: list.splits)

lemma split_on_no_sep: "p \<in> set (split_on c s) \<Longrightarrow> c \<notin> set p"
  by (induction s arbitrary: p) (auto split: if_splits list.splits)

lemma removeprefix_append [simp]: "removeprefix (p @ s) p = s"
  by (simp add: removeprefix_def startswith_def)

section \<open>Floating-point values\<close>

text \<open>
  The \<^verbatim>\<open>float\<close>s the program handles are only compared with constants. A finite value is a
  rational; the infinities and NaN are kept apart since the comparisons treat them
  differently: NaN fails every one of them.
\<close>

datatype pyfloat = Finite rat | PosInf | NegInf | NaN

fun float_ge :: "pyfloat \<Rightarrow> rat \<Rightarrow> bool" where
  "float_ge (Finite x) b = (b \<le> x)"
| "float_ge PosInf b = True"
| "float_ge NegInf b = False"
| "float_ge NaN b = False"

fun float_le :: "pyfloat \<Rightarrow> rat \<Rightarrow> bool" where
  "float_le (Finite x) b = (x \<le> b)"
| "float_le PosInf b = False"
| "float_le NegInf b = True"
| "float_le NaN b = False"

definition opt_all :: "('a \<Rightarrow> bool) \<Rightarrow> 'a option \<Rightarrow> bool" where
  "opt_all P x = (case x of None \<Rightarrow> True | Some y \<Rightarrow> P y)"

lemma opt_all_simps [simp]: "opt_all P None" "opt_all P (Some y) = P y"
  by (simp_all add: opt_all_def)

text \<open>
  Arithmetic on \<^verbatim>\<open>float\<close>s is that of IEEE 754 binary64 with rounding to nearest, ties to even:
  \<open>binary64 x\<close> is the value nearest to the rational \<open>x\<close> (the program's magnitudes are far from
  the limits of the exponent), and \<^verbatim>\<open>round(x)\<close> rounds to an integer in the same way.
\<close>

definition round_half_even :: "rat \<Rightarrow> int" where
  "round_half_even x = (let f = \<lfloor>x\<rfloor>; d = x - of_int f in
     if d < 1 / 2 then f else if d > 1 / 2 then f + 1 else if even f then f else f + 1)"

definition pow2 :: "int \<Rightarrow> rat" where
  "pow2 e = (if e \<ge> 0 then 2 ^ nat e else 1 / 2 ^ nat (- e))"

function ilog2 :: "int \<Rightarrow> int" where
  "ilog2 n = (if n < 2 then 0 else 1 + ilog2 (n div 2))"
  by pat_completeness auto
termination
  by (relation "measure nat") auto

declare ilog2.simps [simp del]

definition binary_exponent :: "rat \<Rightarrow> int" where
  "binary_exponent x = (let (p, q) = quotient_of \<bar>x\<bar>; e = ilog2 p - ilog2 q
     in if \<bar>x\<bar> < pow2 e then e - 1 else e)"

definition binary64 :: "rat \<Rightarrow> rat" where
  "binary64 x = (if x = 0 then 0 else
     let u = pow2 (binary_exponent x - 52) in of_int (round_half_even (x / u)) * u)"

text \<open>\<^verbatim>\<open>round(delta.total_seconds() * 1000)\<close>.\<close>

definition py_total_milliseconds :: "timedelta \<Rightarrow> int" where
  "py_total_milliseconds d = round_half_even (binary64 (binary64 (of_int d / 1000000) * 1000))"

section \<open>IP addresses\<close>

text \<open>
  The strings \<^verbatim>\<open>ipaddress.ip_address\<close> accepts: it tries \<^verbatim>\<open>IPv4Address\<close>, then \<^verbatim>\<open>IPv6Address\<close>,
  and raises \<^verbatim>\<open>ValueError\<close> when both fail.
\<close>

fun decimal_value :: "nat \<Rightarrow> string \<Rightarrow> nat" where
  "decimal_value acc [] = acc"
| "decimal_value acc (c # cs) = decimal_value (10 * acc + (ord c - 48)) cs"

definition ipv4_octet :: "string \<Rightarrow> bool" where
  "ipv4_octet s \<longleftrightarrow> s \<noteq> [] \<and> list_all is_digit_ascii s \<and> length s \<le> 3
     \<and> (s = ''0'' \<or> hd s \<noteq> CHR ''0'') \<and> decimal_value 0 s \<le> 255"

definition ipv4_address :: "string \<Rightarrow> bool" where
  "ipv4_address s \<longleftrightarrow> length (split_on (CHR ''.'') s) = 4 \<and> list_all ipv4_octet (split_on (CHR ''.'') s)"

definition ipv6_hextet :: "string \<Rightarrow> bool" where
  "ipv6_hextet s \<longleftrightarrow> s \<noteq> [] \<and> list_all is_hex_ascii s \<and> length s \<le> 4"

text \<open>The parts between colons; an empty inner part is the position of \<^verbatim>\<open>::\<close>.\<close>

definition ipv6_parts :: "string list \<Rightarrow> bool" where
  "ipv6_parts parts \<longleftrightarrow>
     (let n = length parts;
          skips = filter (\<lambda>i. parts ! i = []) [1..<n - 1]
      in 3 \<le> n \<and> n \<le> 9 \<and>
         (case skips of
            [] \<Rightarrow> n = 8 \<and> list_all ipv6_hextet parts
          | [k] \<Rightarrow>
              (let hi = take k parts; lo = drop (k + 1) parts;
                   hi' = (if hd parts = [] then tl hi else hi);
                   lo' = (if last parts = [] then butlast lo else lo)
               in (hd parts = [] \<longrightarrow> hi' = []) \<and> (last parts = [] \<longrightarrow> lo' = [])
                  \<and> length hi' + length lo' < 8
                  \<and> list_all ipv6_hextet hi' \<and> list_all ipv6_hextet lo')
          | _ \<Rightarrow> False))"

definition ipv6_address :: "string \<Rightarrow> bool" where
  "ipv6_address s \<longleftrightarrow>
     (case partition_on (CHR ''%'') s of (addr, scoped, scope) \<Rightarrow>
        (scoped \<longrightarrow> scope \<noteq> [] \<and> CHR ''%'' \<notin> set scope) \<and>
        (let parts = split_on (CHR '':'') addr; l = last parts
         in if CHR ''.'' \<in> set l
            then 3 \<le> length parts \<and> ipv4_address l \<and> ipv6_parts (butlast parts @ [''0'', ''0''])
            else ipv6_parts parts))"

definition ip_address :: "string \<Rightarrow> bool" where
  "ip_address s \<longleftrightarrow> CHR ''/'' \<notin> set s \<and> (ipv4_address s \<or> ipv6_address s)"

lemma ip_address_examples:
  "ip_address ''192.0.2.1''" "ip_address ''2001:db8::1''" "ip_address ''::''"
  "ip_address ''::ffff:10.0.0.1''" "ip_address ''fe80::1%eth0''"
  "\<not> ip_address ''192.0.2.01''" "\<not> ip_address ''256.0.0.1''" "\<not> ip_address ''1::2::3''"
  "\<not> ip_address ''dns.example''" "\<not> ip_address '':1:2:3:4:5:6:7''" "\<not> ip_address ''1:2:3:4:5:6:7''"
  by code_simp+

section \<open>Decimal numbers\<close>

text \<open>\<^verbatim>\<open>str(n)\<close> of a natural number.\<close>

fun dec :: "nat \<Rightarrow> string" where
  "dec n = (if n < 10 then [char_of (48 + n)] else dec (n div 10) @ [char_of (48 + n mod 10)])"

declare dec.simps [simp del]

lemma decimal_value_append:
  "decimal_value a (s @ [c]) = 10 * decimal_value a s + (ord c - 48)"
  by (induction s arbitrary: a) auto

lemma decimal_value_dec: "decimal_value 0 (dec n) = n"
proof (induction n rule: dec.induct)
  case (1 n)
  then show ?case by (subst dec.simps) (auto simp: decimal_value_append)
qed

lemma dec_inject [simp]: "dec m = dec n \<longleftrightarrow> m = n"
  by (metis decimal_value_dec)

text \<open>\<^verbatim>\<open>sep.join(parts)\<close>.\<close>

fun join_with :: "string \<Rightarrow> string list \<Rightarrow> string" where
  "join_with sep [] = ''''"
| "join_with sep [x] = x"
| "join_with sep (x # y # xs) = x @ sep @ join_with sep (y # xs)"

end
