(* ===== verification/Probe_Configuration.thy ===== *)
theory Probe_Configuration
  imports Py_Stdlib
begin

text \<open>
  The typed probe configurations of \<^verbatim>\<open>schemas/monitoring.py\<close>: one record per Pydantic model,
  with the field constraints, the field and model validators and the normalisation they
  perform, then \<^verbatim>\<open>validate_probe_configuration\<close> and \<^verbatim>\<open>serialize_probe_configuration\<close>. The input
  of a validator is the model's field values as Pydantic decodes them from JSON, absent
  fields already at their declared default (the \<open>_defaults\<close> constants); decoding itself,
  and the rejection of undeclared keys, is Pydantic's. The normalised JSON object
  \<^verbatim>\<open>model_dump\<close> returns is represented by the validated record.
\<close>

section \<open>Data\<close>

datatype probe_type = ICMP | HTTP | TCP | DNS | TLS

datatype address_family = Auto | Ipv4 | Ipv6
datatype http_scheme = Http | Https
datatype http_method = GET | HEAD
datatype resolver_mode = System | Explicit
datatype dns_transport = UdpWithTcpFallback | TcpOnly
datatype dns_query_type = QA | QAAAA | QCNAME | QMX | QNS | QTXT | QPTR
datatype tls_version = TLS12 | TLS13

record icmp_probe_configuration =
  icmp_schema_version :: int
  packet_count :: int
  packet_interval_ms :: int
  per_packet_timeout_ms :: "int option"
  payload_size_bytes :: int
  icmp_address_family :: address_family
  maximum_packet_loss_percent :: "pyfloat option"
  maximum_average_rtt_ms :: "pyfloat option"

record http_header_assertion =
  header_name :: string
  header_value :: string

record http_probe_configuration =
  http_schema_version :: int
  http_scheme :: http_scheme
  http_port :: "int option"
  http_path :: string
  http_method :: http_method
  follow_redirects :: bool
  maximum_redirects :: int
  host_header :: "string option"
  request_headers :: "(string \<times> string) list"
  expected_status_codes :: "int list"
  expected_header_values :: "http_header_assertion list"
  expected_body_contains :: "string list"
  maximum_response_bytes :: int
  http_address_family :: address_family

record tcp_probe_configuration =
  tcp_schema_version :: int
  tcp_port :: int
  tcp_address_family :: address_family

record dns_probe_configuration =
  dns_schema_version :: int
  resolver_mode :: resolver_mode
  resolver_address :: "string option"
  resolver_port :: int
  dns_transport :: dns_transport
  query_name :: "string option"
  query_type :: dns_query_type
  recursion_desired :: bool
  expected_response_codes :: "string list"
  expected_answers :: "string list"

record tls_probe_configuration =
  tls_schema_version :: int
  tls_port :: int
  server_name :: "string option"
  tls_address_family :: address_family
  minimum_tls_version :: tls_version
  expiry_warning_days :: int

datatype typed_probe_configuration =
    IcmpConfiguration icmp_probe_configuration
  | HttpConfiguration http_probe_configuration
  | TcpConfiguration tcp_probe_configuration
  | DnsConfiguration dns_probe_configuration
  | TlsConfiguration tls_probe_configuration

text \<open>
  A Pydantic \<^verbatim>\<open>ValidationError\<close> and a plain \<^verbatim>\<open>ValueError\<close> are different exceptions for the
  handlers above: the first is a subclass of the second.
\<close>

datatype configuration_error = ValidationError string | ValueError string

section \<open>Declared defaults\<close>

definition icmp_defaults :: icmp_probe_configuration where
  "icmp_defaults = \<lparr> icmp_schema_version = 1, packet_count = 20, packet_interval_ms = 50,
     per_packet_timeout_ms = None, payload_size_bytes = 56, icmp_address_family = Auto,
     maximum_packet_loss_percent = None, maximum_average_rtt_ms = None \<rparr>"

definition http_defaults :: http_probe_configuration where
  "http_defaults = \<lparr> http_schema_version = 1, http_scheme = Https, http_port = None,
     http_path = ''/'', http_method = GET, follow_redirects = True, maximum_redirects = 5,
     host_header = None, request_headers = [], expected_status_codes = [200..399],
     expected_header_values = [], expected_body_contains = [],
     maximum_response_bytes = 1024 * 1024, http_address_family = Auto \<rparr>"

definition tcp_defaults :: "int \<Rightarrow> tcp_probe_configuration" where
  "tcp_defaults port = \<lparr> tcp_schema_version = 1, tcp_port = port, tcp_address_family = Auto \<rparr>"

definition dns_defaults :: dns_probe_configuration where
  "dns_defaults = \<lparr> dns_schema_version = 1, resolver_mode = System, resolver_address = None,
     resolver_port = 53, dns_transport = UdpWithTcpFallback, query_name = None,
     query_type = QA, recursion_desired = True, expected_response_codes = [''NOERROR''],
     expected_answers = [] \<rparr>"

definition tls_defaults :: tls_probe_configuration where
  "tls_defaults = \<lparr> tls_schema_version = 1, tls_port = 443, server_name = None,
     tls_address_family = Auto, minimum_tls_version = TLS12, expiry_warning_days = 30 \<rparr>"

section \<open>Field constraints and validators\<close>

definition between :: "int \<Rightarrow> int \<Rightarrow> int \<Rightarrow> bool" where
  "between lo hi x \<longleftrightarrow> lo \<le> x \<and> x \<le> hi"

definition length_between :: "nat \<Rightarrow> nat \<Rightarrow> 'a list \<Rightarrow> bool" where
  "length_between lo hi s \<longleftrightarrow> lo \<le> length s \<and> length s \<le> hi"

definition validate_icmp :: "icmp_probe_configuration \<Rightarrow> configuration_error + icmp_probe_configuration" where
  "validate_icmp c =
     (if icmp_schema_version c = 1
         \<and> between 1 100 (packet_count c)
         \<and> between 10 1000 (packet_interval_ms c)
         \<and> opt_all (between 1 60000) (per_packet_timeout_ms c)
         \<and> between 0 1400 (payload_size_bytes c)
         \<and> opt_all (\<lambda>x. float_ge x 0 \<and> float_le x 100) (maximum_packet_loss_percent c)
         \<and> opt_all (\<lambda>x. float_ge x 0) (maximum_average_rtt_ms c)
      then Inr c else Inl (ValidationError ''IcmpProbeConfiguration''))"

text \<open>The header name pattern \<^verbatim>\<open>[!#$%&'*+.^_`|~0-9A-Za-z-]+\<close>.\<close>

definition header_name_char :: "char \<Rightarrow> bool" where
  "header_name_char c \<longleftrightarrow> is_alnum_ascii c \<or>
     ord c \<in> {33, 35, 36, 37, 38, 39, 42, 43, 45, 46, 94, 95, 96, 124, 126}"

definition http_header_name :: "string \<Rightarrow> bool" where
  "http_header_name s \<longleftrightarrow> s \<noteq> [] \<and> list_all header_name_char s"

definition http_forbidden_headers :: "string list" where
  "http_forbidden_headers = [''authorization'', ''cookie'', ''proxy-authorization'']"

definition no_control :: "string \<Rightarrow> bool" where
  "no_control s \<longleftrightarrow> \<not> list_ex is_control s"

definition validate_header_assertion :: "http_header_assertion \<Rightarrow> bool" where
  "validate_header_assertion h \<longleftrightarrow>
     length_between 1 128 (header_name h) \<and> length (header_value h) \<le> 1024
     \<and> http_header_name (header_name h) \<and> no_control (header_value h)"

definition validate_path :: "string \<Rightarrow> bool" where
  "validate_path s \<longleftrightarrow> length_between 1 2048 s \<and> startswith s ''/'' \<and> no_control s"

text \<open>The label test the host header and the TLS server name share.\<close>

definition valid_label :: "string \<Rightarrow> bool" where
  "valid_label l \<longleftrightarrow>
     \<not> (l = [] \<or> 63 < length l \<or> startswith l ''-'' \<or> endswith l ''-''
        \<or> \<not> list_all (\<lambda>c. is_alnum_ascii c \<or> c = CHR ''-'') l)"

definition valid_hostname :: "string \<Rightarrow> bool" where
  "valid_hostname s \<longleftrightarrow> list_all valid_label (split_on (CHR ''.'') s)"

definition rstrip_dots :: "string \<Rightarrow> string" where
  "rstrip_dots s = rstrip_on (\<lambda>c. c = CHR ''.'') s"

definition validate_host_header :: "string \<Rightarrow> bool" where
  "validate_host_header s \<longleftrightarrow> length_between 1 253 s \<and> valid_hostname (rstrip_dots s)"

definition validate_request_header :: "string \<times> string \<Rightarrow> bool" where
  "validate_request_header h \<longleftrightarrow>
     length_between 1 128 (fst h) \<and> length (snd h) \<le> 1024
     \<and> http_header_name (fst h) \<and> lower (fst h) \<notin> set http_forbidden_headers
     \<and> no_control (snd h)"

definition validate_status_codes :: "int list \<Rightarrow> bool" where
  "validate_status_codes cs \<longleftrightarrow>
     length_between 1 200 cs \<and> list_all (between 100 599) cs \<and> distinct cs"

definition validate_http :: "http_probe_configuration \<Rightarrow> configuration_error + http_probe_configuration" where
  "validate_http c =
     (if http_schema_version c = 1
         \<and> opt_all (between 1 65535) (http_port c)
         \<and> validate_path (http_path c)
         \<and> between 0 10 (maximum_redirects c)
         \<and> opt_all validate_host_header (host_header c)
         \<and> length (request_headers c) \<le> 32 \<and> list_all validate_request_header (request_headers c)
         \<and> validate_status_codes (expected_status_codes c)
         \<and> length (expected_header_values c) \<le> 32
         \<and> list_all validate_header_assertion (expected_header_values c)
         \<and> length (expected_body_contains c) \<le> 16
         \<and> list_all (\<lambda>s. length_between 1 1024 s \<and> no_control s) (expected_body_contains c)
         \<and> between 1 (4 * 1024 * 1024) (maximum_response_bytes c)
      then Inr c else Inl (ValidationError ''HttpProbeConfiguration''))"

definition validate_tcp :: "tcp_probe_configuration \<Rightarrow> configuration_error + tcp_probe_configuration" where
  "validate_tcp c =
     (if tcp_schema_version c = 1 \<and> between 1 65535 (tcp_port c)
      then Inr c else Inl (ValidationError ''TcpProbeConfiguration''))"

definition validate_resolver :: "resolver_mode \<Rightarrow> string option \<Rightarrow> dns_transport \<Rightarrow> bool" where
  "validate_resolver mode address transport \<longleftrightarrow>
     (case mode of
        Explicit \<Rightarrow> (case address of None \<Rightarrow> False
                     | Some a \<Rightarrow> length_between 2 45 a \<and> ip_address a)
      | System \<Rightarrow> address = None \<and> transport = UdpWithTcpFallback)"

definition normalize_query_name :: "string \<Rightarrow> string" where
  "normalize_query_name s = lower (rstrip_dots (strip s))"

definition validate_query_name :: "string \<Rightarrow> bool" where
  "validate_query_name s \<longleftrightarrow>
     length_between 1 253 s \<and> normalize_query_name s \<noteq> [] \<and> no_control (normalize_query_name s)"

definition dns_response_codes :: "string list" where
  "dns_response_codes = [''NOERROR'', ''FORMERR'', ''SERVFAIL'', ''NXDOMAIN'', ''NOTIMP'', ''REFUSED'']"

definition normalize_response_codes :: "string list \<Rightarrow> string list" where
  "normalize_response_codes cs = map (\<lambda>c. upper (strip c)) cs"

definition validate_response_codes :: "string list \<Rightarrow> bool" where
  "validate_response_codes cs \<longleftrightarrow>
     length_between 1 16 cs
     \<and> list_all (\<lambda>c. c \<in> set dns_response_codes) (normalize_response_codes cs)
     \<and> distinct (normalize_response_codes cs)"

definition validate_dns :: "dns_probe_configuration \<Rightarrow> configuration_error + dns_probe_configuration" where
  "validate_dns c =
     (if dns_schema_version c = 1
         \<and> validate_resolver (resolver_mode c) (resolver_address c) (dns_transport c)
         \<and> between 1 65535 (resolver_port c)
         \<and> opt_all validate_query_name (query_name c)
         \<and> validate_response_codes (expected_response_codes c)
         \<and> length (expected_answers c) \<le> 32
         \<and> list_all (\<lambda>s. length_between 1 1024 s \<and> no_control s) (expected_answers c)
      then Inr (c\<lparr> query_name := map_option normalize_query_name (query_name c),
                   expected_response_codes := normalize_response_codes (expected_response_codes c) \<rparr>)
      else Inl (ValidationError ''DnsProbeConfiguration''))"

definition normalize_server_name :: "string \<Rightarrow> string" where
  "normalize_server_name s = lower (rstrip_dots (strip s))"

definition validate_server_name :: "string \<Rightarrow> bool" where
  "validate_server_name s \<longleftrightarrow>
     length_between 1 253 s \<and> \<not> ip_address (normalize_server_name s)
     \<and> valid_hostname (normalize_server_name s)"

definition validate_tls :: "tls_probe_configuration \<Rightarrow> configuration_error + tls_probe_configuration" where
  "validate_tls c =
     (if tls_schema_version c = 1
         \<and> between 1 65535 (tls_port c)
         \<and> opt_all validate_server_name (server_name c)
         \<and> between 0 3650 (expiry_warning_days c)
      then Inr (c\<lparr> server_name := map_option normalize_server_name (server_name c) \<rparr>)
      else Inl (ValidationError ''TlsProbeConfiguration''))"

section \<open>The two entry points\<close>

definition validate_probe_configuration ::
  "probe_type \<Rightarrow> typed_probe_configuration \<Rightarrow> configuration_error + typed_probe_configuration" where
  "validate_probe_configuration pt configuration =
     (case (pt, configuration) of
        (ICMP, IcmpConfiguration c) \<Rightarrow> map_sum id IcmpConfiguration (validate_icmp c)
      | (HTTP, HttpConfiguration c) \<Rightarrow>
          bind_result (validate_http c) (\<lambda>v.
          bind_result (raise_if (http_method v = HEAD \<and> expected_body_contains v \<noteq> [])
            (ValueError ''HTTP HEAD monitors cannot contain body assertions'')) (\<lambda>_.
          Inr (HttpConfiguration v)))
      | (TCP, TcpConfiguration c) \<Rightarrow> map_sum id TcpConfiguration (validate_tcp c)
      | (DNS, DnsConfiguration c) \<Rightarrow> map_sum id DnsConfiguration (validate_dns c)
      | (TLS, TlsConfiguration c) \<Rightarrow> map_sum id TlsConfiguration (validate_tls c)
      | _ \<Rightarrow> Inl (ValidationError ''configuration of another probe type''))"

text \<open>
  \<^verbatim>\<open>validated.per_packet_timeout_ms or available_ms\<close>: a configured timeout is at least 1, so
  only an absent one is replaced.
\<close>

definition icmp_available_ms :: "icmp_probe_configuration \<Rightarrow> int \<Rightarrow> int" where
  "icmp_available_ms c timeout_seconds =
     timeout_seconds * 1000 - (packet_count c - 1) * packet_interval_ms c"

definition fit_icmp ::
  "icmp_probe_configuration \<Rightarrow> int \<Rightarrow> configuration_error + icmp_probe_configuration" where
  "fit_icmp c timeout_seconds =
     (let available_ms = icmp_available_ms c timeout_seconds;
          packet_timeout_ms = (case per_packet_timeout_ms c of
             None \<Rightarrow> available_ms | Some t \<Rightarrow> (if t = 0 then available_ms else t))
      in bind_result (raise_if (available_ms < 1 \<or> packet_timeout_ms > available_ms)
           (ValueError ''ICMP packet sequence does not fit within monitor timeout'')) (\<lambda>_.
         Inr (c\<lparr> per_packet_timeout_ms := Some packet_timeout_ms \<rparr>)))"

definition serialize_probe_configuration ::
  "probe_type \<Rightarrow> typed_probe_configuration \<Rightarrow> int option \<Rightarrow>
     configuration_error + typed_probe_configuration" where
  "serialize_probe_configuration pt configuration timeout_seconds =
     bind_result (validate_probe_configuration pt configuration) (\<lambda>validated.
       (case (validated, timeout_seconds) of
          (IcmpConfiguration c, Some t) \<Rightarrow> map_sum id IcmpConfiguration (fit_icmp c t)
        | _ \<Rightarrow> Inr validated))"

definition schema_version :: "typed_probe_configuration \<Rightarrow> int" where
  "schema_version c = (case c of
      IcmpConfiguration i \<Rightarrow> icmp_schema_version i | HttpConfiguration h \<Rightarrow> http_schema_version h
    | TcpConfiguration t \<Rightarrow> tcp_schema_version t | DnsConfiguration d \<Rightarrow> dns_schema_version d
    | TlsConfiguration t \<Rightarrow> tls_schema_version t)"

section \<open>Facts about validation\<close>

lemmas validator_defs [model_defs] = between_def length_between_def validate_icmp_def
  validate_http_def validate_tcp_def validate_dns_def validate_tls_def

lemma map_sum_Inr_iff [simp]: "map_sum f g r = Inr y \<longleftrightarrow> (\<exists>x. r = Inr x \<and> y = g x)"
  by (cases r) auto

lemma map_sum_Inl_iff [simp]: "map_sum f g r = Inl e \<longleftrightarrow> (\<exists>x. r = Inl x \<and> e = f x)"
  by (cases r) auto

lemma validate_icmp_Inr: "validate_icmp c = Inr v \<Longrightarrow> v = c"
  by (auto simp: validate_icmp_def split: if_splits)

lemma validate_http_Inr: "validate_http c = Inr v \<Longrightarrow> v = c"
  by (auto simp: validate_http_def split: if_splits)

lemma validate_tcp_Inr: "validate_tcp c = Inr v \<Longrightarrow> v = c"
  by (auto simp: validate_tcp_def split: if_splits)

lemma validated_schema_versions:
  "validate_icmp i = Inr i' \<Longrightarrow> icmp_schema_version i' = 1"
  "validate_http h = Inr h' \<Longrightarrow> http_schema_version h' = 1"
  "validate_tcp t = Inr t' \<Longrightarrow> tcp_schema_version t' = 1"
  "validate_dns d = Inr d' \<Longrightarrow> dns_schema_version d' = 1"
  "validate_tls l = Inr l' \<Longrightarrow> tls_schema_version l' = 1"
  by (auto simp: validate_icmp_def validate_http_def validate_tcp_def validate_dns_def
      validate_tls_def split: if_splits)

text \<open>The shape of a validated configuration is that of its probe type.\<close>

fun type_of_configuration :: "typed_probe_configuration \<Rightarrow> probe_type" where
  "type_of_configuration (IcmpConfiguration c) = ICMP"
| "type_of_configuration (HttpConfiguration c) = HTTP"
| "type_of_configuration (TcpConfiguration c) = TCP"
| "type_of_configuration (DnsConfiguration c) = DNS"
| "type_of_configuration (TlsConfiguration c) = TLS"

lemma validate_probe_configuration_cases:
  assumes "validate_probe_configuration pt c = Inr v"
  obtains (icmp) i where "pt = ICMP" "c = IcmpConfiguration i" "v = c" "validate_icmp i = Inr i"
  | (http) h where "pt = HTTP" "c = HttpConfiguration h" "v = c" "validate_http h = Inr h"
      "\<not> (http_method h = HEAD \<and> expected_body_contains h \<noteq> [])"
  | (tcp) t where "pt = TCP" "c = TcpConfiguration t" "v = c" "validate_tcp t = Inr t"
  | (dns) d d' where "pt = DNS" "c = DnsConfiguration d" "v = DnsConfiguration d'" "validate_dns d = Inr d'"
  | (tls) t t' where "pt = TLS" "c = TlsConfiguration t" "v = TlsConfiguration t'" "validate_tls t = Inr t'"
  using assms
  by (cases pt; cases c)
    (auto simp: validate_probe_configuration_def dest: validate_icmp_Inr validate_http_Inr validate_tcp_Inr)

lemma serialize_Inr_validated:
  assumes "serialize_probe_configuration pt c t = Inr v"
  obtains w where "validate_probe_configuration pt c = Inr w"
    "v = w \<or> (\<exists>i i' k. w = IcmpConfiguration i \<and> t = Some k \<and> v = IcmpConfiguration i' \<and> fit_icmp i k = Inr i')"
proof -
  from assms obtain w where w: "validate_probe_configuration pt c = Inr w"
    and v: "(case (w, t) of (IcmpConfiguration i, Some k) \<Rightarrow> map_sum id IcmpConfiguration (fit_icmp i k)
             | _ \<Rightarrow> Inr w) = Inr v"
    by (auto simp: serialize_probe_configuration_def)
  show thesis
    using v by (intro that [OF w]) (cases w; cases t; auto)
qed

lemma fit_icmp_Inr:
  "fit_icmp c t = Inr c' \<Longrightarrow>
     \<exists>k. c' = c\<lparr>per_packet_timeout_ms := Some k\<rparr> \<and> k \<le> icmp_available_ms c t
       \<and> 1 \<le> icmp_available_ms c t
       \<and> (per_packet_timeout_ms c = None \<longrightarrow> k = icmp_available_ms c t)
       \<and> (\<forall>p. per_packet_timeout_ms c = Some p \<longrightarrow> p \<noteq> 0 \<longrightarrow> k = p)"
  by (auto simp: fit_icmp_def Let_def split: option.splits if_splits)

lemma validate_icmp_timeout:
  "validate_icmp c = Inr c \<Longrightarrow> per_packet_timeout_ms c = Some p \<Longrightarrow> 1 \<le> p"
  by (simp add: validate_icmp_def split: if_splits) (simp add: between_def)

lemma serialize_icmp_Inr:
  assumes "serialize_probe_configuration ICMP (IcmpConfiguration c) (Some t) = Inr v"
  obtains c' where "validate_icmp c = Inr c" "fit_icmp c t = Inr c'" "v = IcmpConfiguration c'"
proof -
  have ok: "validate_probe_configuration ICMP (IcmpConfiguration c) = map_sum id IcmpConfiguration (validate_icmp c)"
    by (simp add: validate_probe_configuration_def)
  show thesis
  proof (cases "validate_icmp c")
    case (Inl e)
    with assms ok show thesis by (simp add: serialize_probe_configuration_def)
  next
    case (Inr d)
    with validate_icmp_Inr [OF Inr] have d: "validate_icmp c = Inr c" by simp
    then have "map_sum id IcmpConfiguration (fit_icmp c t) = Inr v"
      using assms ok by (simp add: serialize_probe_configuration_def)
    with d show thesis by (cases "fit_icmp c t") (auto intro: that)
  qed
qed

lemma schema_version_serialized:
  assumes "serialize_probe_configuration pt c t = Inr v"
  shows "schema_version v = 1"
proof -
  obtain w where w: "validate_probe_configuration pt c = Inr w" and v: "v = w \<or> (\<exists>i i' k. w = IcmpConfiguration i
      \<and> t = Some k \<and> v = IcmpConfiguration i' \<and> fit_icmp i k = Inr i')"
    using assms by (rule serialize_Inr_validated)
  have "schema_version w = 1"
    using w by (cases rule: validate_probe_configuration_cases)
      (simp_all add: schema_version_def validated_schema_versions)
  with v show ?thesis by (auto simp: schema_version_def dest: fit_icmp_Inr)
qed

lemma type_of_serialized:
  assumes "serialize_probe_configuration pt c t = Inr v"
  shows "type_of_configuration v = pt"
proof -
  obtain w where w: "validate_probe_configuration pt c = Inr w" and v: "v = w \<or> (\<exists>i i' k. w = IcmpConfiguration i
      \<and> t = Some k \<and> v = IcmpConfiguration i' \<and> fit_icmp i k = Inr i')"
    using assms by (rule serialize_Inr_validated)
  have "type_of_configuration w = pt"
    using w by (cases rule: validate_probe_configuration_cases) auto
  with v show ?thesis by auto
qed

subsection \<open>Host names\<close>

lemma valid_label_chars: "valid_label l \<Longrightarrow> c \<in> set l \<Longrightarrow> is_alnum_ascii c \<or> c = CHR ''-''"
  by (auto simp: valid_label_def list_all_iff)

lemma split_on_chars: "c \<in> set s \<Longrightarrow> c = sep \<or> (\<exists>p \<in> set (split_on sep s). c \<in> set p)"
  by (induction s) (auto split: list.splits)

lemma valid_hostname_chars:
  "valid_hostname s \<Longrightarrow> c \<in> set s \<Longrightarrow> is_alnum_ascii c \<or> c = CHR ''-'' \<or> c = CHR ''.''"
  unfolding valid_hostname_def list_all_iff
  by (drule split_on_chars [where sep = "CHR ''.''"]) (blast dest: valid_label_chars)

lemma not_space_hostname_char:
  "is_alnum_ascii c \<or> c = CHR ''-'' \<or> c = CHR ''.'' \<Longrightarrow> \<not> is_space c"
  unfolding is_alnum_ascii_def is_upper_ascii_def is_lower_ascii_def is_digit_ascii_def is_space_def
  by (elim disjE) simp_all

lemma strip_no_space: "(\<And>c. c \<in> set s \<Longrightarrow> \<not> is_space c) \<Longrightarrow> strip s = s"
proof -
  assume ns: "\<And>c. c \<in> set s \<Longrightarrow> \<not> is_space c"
  then have "dropWhile is_space s = s" by (cases s) auto
  moreover have "s = [] \<or> \<not> is_space (last s)" using ns by (cases s rule: rev_cases) auto
  ultimately show ?thesis by (simp add: strip_def strip_on_def rstrip_on_id)
qed

lemma lower_eq_dot [simp]: "lower_char c = CHR ''.'' \<longleftrightarrow> c = CHR ''.''"
proof
  assume a: "lower_char c = CHR ''.''"
  then have "ord (lower_char c) = 46" by simp
  then have "ord c = ord (CHR ''.'')"
    by (auto simp: ord_lower_char is_upper_ascii_def split: if_splits)
  then show "c = CHR ''.''" by (simp only: of_char_eq_iff)
qed (simp add: lower_char_def is_upper_ascii_def)

lemma rstrip_dots_lower: "rstrip_dots (lower s) = lower (rstrip_dots s)"
  by (simp add: rstrip_dots_def rstrip_on_def lower_def rev_map dropWhile_map comp_def)

lemma normalize_server_name_idem:
  assumes "valid_hostname (normalize_server_name s)"
  shows "normalize_server_name (normalize_server_name s) = normalize_server_name s"
proof -
  have "strip (normalize_server_name s) = normalize_server_name s"
    using assms by (intro strip_no_space) (metis valid_hostname_chars not_space_hostname_char)
  then show ?thesis
    by (simp add: normalize_server_name_def rstrip_dots_lower) (simp add: rstrip_dots_def)
qed

lemma valid_hostname_nonempty: "valid_hostname s \<Longrightarrow> s \<noteq> []"
  by (auto simp: valid_hostname_def valid_label_def)

lemma length_normalize_server_name: "length (normalize_server_name s) \<le> length s"
  using length_rstrip_on length_strip_on
  by (simp add: normalize_server_name_def rstrip_dots_def strip_def) (meson le_trans)

lemma validate_server_name_normalized:
  assumes "validate_server_name s"
  shows "validate_server_name (normalize_server_name s)"
proof -
  have "length (normalize_server_name s) \<le> 253"
    using assms length_normalize_server_name [of s] by (simp add: validate_server_name_def length_between_def)
  moreover have "normalize_server_name s \<noteq> []"
    using assms valid_hostname_nonempty by (auto simp: validate_server_name_def)
  ultimately show ?thesis
    using assms normalize_server_name_idem [of s]
    by (auto simp: validate_server_name_def length_between_def Suc_le_eq)
qed

lemma validate_tls_idem: "validate_tls c = Inr v \<Longrightarrow> validate_tls v = Inr v"
proof -
  assume a: "validate_tls c = Inr v"
  then have v: "v = c\<lparr>server_name := map_option normalize_server_name (server_name c)\<rparr>"
    and ok: "tls_schema_version c = 1" "between 1 65535 (tls_port c)"
      "opt_all validate_server_name (server_name c)" "between 0 3650 (expiry_warning_days c)"
    by (auto simp: validate_tls_def split: if_splits)
  show ?thesis
  proof (cases "server_name c")
    case None
    with v ok show ?thesis by (simp add: validate_tls_def)
  next
    case (Some n)
    with ok have n: "validate_server_name n" by simp
    then have "normalize_server_name (normalize_server_name n) = normalize_server_name n"
      by (intro normalize_server_name_idem) (simp add: validate_server_name_def)
    with v ok Some validate_server_name_normalized [OF n] show ?thesis
      by (simp add: validate_tls_def)
  qed
qed

subsection \<open>DNS names and response codes\<close>

lemma strip_upper: "strip (upper s) = upper (strip s)"
  by (simp add: strip_def strip_on_def rstrip_on_def upper_def dropWhile_map rev_map comp_def)

lemma normalize_response_codes_idem [simp]:
  "normalize_response_codes (normalize_response_codes cs) = normalize_response_codes cs"
  by (simp add: normalize_response_codes_def strip_upper)

lemma normalize_query_name_idem:
  assumes "\<And>c. c \<in> set (strip s) \<Longrightarrow> \<not> is_space c"
  shows "normalize_query_name (normalize_query_name s) = normalize_query_name s"
proof -
  have "set (rstrip_dots (strip s)) \<subseteq> set (strip s)"
    using set_rstrip_on by (simp add: rstrip_dots_def)
  then have "\<not> is_space c" if "c \<in> set (normalize_query_name s)" for c
    using that assms by (auto simp: normalize_query_name_def lower_def)
  then have "strip (normalize_query_name s) = normalize_query_name s"
    by (rule strip_no_space)
  then show ?thesis
    by (simp add: normalize_query_name_def rstrip_dots_lower) (simp add: rstrip_dots_def)
qed

lemma length_normalize_query_name: "length (normalize_query_name s) \<le> length s"
  using length_rstrip_on length_strip_on
  by (simp add: normalize_query_name_def rstrip_dots_def strip_def) (meson le_trans)

text \<open>The names whose normal form is a fixed point: no white space strictly inside.\<close>

definition plain_query_name :: "dns_probe_configuration \<Rightarrow> bool" where
  "plain_query_name d \<longleftrightarrow> opt_all (\<lambda>s. \<forall>c \<in> set (strip s). \<not> is_space c) (query_name d)"

lemma validate_query_name_normalized:
  assumes "validate_query_name s" and "\<forall>c \<in> set (strip s). \<not> is_space c"
  shows "validate_query_name (normalize_query_name s)"
  using assms normalize_query_name_idem [of s] length_normalize_query_name [of s]
  by (auto simp: validate_query_name_def length_between_def Suc_le_eq)

lemma validate_response_codes_normalized:
  "validate_response_codes cs \<Longrightarrow> validate_response_codes (normalize_response_codes cs)"
  by (simp add: validate_response_codes_def length_between_def)
    (simp add: normalize_response_codes_def)

lemma validate_dns_idem:
  assumes "validate_dns d = Inr v" and "plain_query_name d"
  shows "validate_dns v = Inr v"
proof -
  let ?q = "map_option normalize_query_name (query_name d)"
  let ?r = "normalize_response_codes (expected_response_codes d)"
  have v: "v = d\<lparr>query_name := ?q, expected_response_codes := ?r\<rparr>"
    and ok: "dns_schema_version d = 1"
      "validate_resolver (resolver_mode d) (resolver_address d) (dns_transport d)"
      "between 1 65535 (resolver_port d)" "opt_all validate_query_name (query_name d)"
      "validate_response_codes (expected_response_codes d)" "length (expected_answers d) \<le> 32"
      "list_all (\<lambda>s. length_between 1 1024 s \<and> no_control s) (expected_answers d)"
    using assms(1) by (auto simp: validate_dns_def split: if_splits)
  have "opt_all validate_query_name ?q \<and> map_option normalize_query_name ?q = ?q"
    using ok(4) assms(2) validate_query_name_normalized normalize_query_name_idem
    by (cases "query_name d") (auto simp: plain_query_name_def)
  then show ?thesis
    using ok validate_response_codes_normalized [OF ok(5)] by (simp add: v validate_dns_def)
qed

section \<open>Properties\<close>

text \<open>C28: the packet sequence of a serialised ICMP monitor fits its timeout. The last packet
  is sent after \<open>packet_count - 1\<close> gaps and still has its whole per-packet timeout, at least
  one millisecond, before the monitor's timeout ends; nothing else of the configuration
  changes.\<close>

theorem icmp_sequence_fits_timeout:
  assumes "serialize_probe_configuration ICMP (IcmpConfiguration c) (Some t) = Inr v"
  shows "\<exists>k. v = IcmpConfiguration (c\<lparr>per_packet_timeout_ms := Some k\<rparr>) \<and> 1 \<le> k \<and>
     (packet_count c - 1) * packet_interval_ms c + k \<le> t * 1000 \<and>
     (\<forall>p. per_packet_timeout_ms c = Some p \<longrightarrow> k = p)"
proof -
  obtain c' where ok: "validate_icmp c = Inr c" and fit: "fit_icmp c t = Inr c'"
    and v: "v = IcmpConfiguration c'"
    using assms by (rule serialize_icmp_Inr)
  obtain k where k: "c' = c\<lparr>per_packet_timeout_ms := Some k\<rparr>" "k \<le> icmp_available_ms c t"
    "1 \<le> icmp_available_ms c t" "per_packet_timeout_ms c = None \<longrightarrow> k = icmp_available_ms c t"
    "\<forall>p. per_packet_timeout_ms c = Some p \<longrightarrow> p \<noteq> 0 \<longrightarrow> k = p"
    using fit_icmp_Inr [OF fit] by (elim exE conjE) (rule that)
  have "1 \<le> k \<and> (\<forall>p. per_packet_timeout_ms c = Some p \<longrightarrow> k = p)"
  proof (cases "per_packet_timeout_ms c")
    case None
    with k(3,4) show ?thesis by simp
  next
    case (Some p)
    have "1 \<le> p" using ok Some by (rule validate_icmp_timeout)
    moreover from this have "p \<noteq> 0" by simp
    with k(5) Some have "k = p" by blast
    ultimately show ?thesis using Some by simp
  qed
  moreover have "(packet_count c - 1) * packet_interval_ms c + k \<le> t * 1000"
    using k(2) unfolding icmp_available_ms_def by linarith
  ultimately show ?thesis using k(1) v by blast
qed

theorem icmp_sequence_fits_timeout_witness:
  "serialize_probe_configuration ICMP (IcmpConfiguration icmp_defaults) (Some 5) =
     Inr (IcmpConfiguration (icmp_defaults\<lparr>per_packet_timeout_ms := Some 4050\<rparr>)) \<and>
   (\<exists>k. IcmpConfiguration (icmp_defaults\<lparr>per_packet_timeout_ms := Some 4050\<rparr>) =
        IcmpConfiguration (icmp_defaults\<lparr>per_packet_timeout_ms := Some k\<rparr>) \<and> 1 \<le> k \<and>
     (packet_count icmp_defaults - 1) * packet_interval_ms icmp_defaults + k \<le> 5 * 1000 \<and>
     (\<forall>p. per_packet_timeout_ms icmp_defaults = Some p \<longrightarrow> k = p))"
proof -
  have h: "serialize_probe_configuration ICMP (IcmpConfiguration icmp_defaults) (Some 5) =
     Inr (IcmpConfiguration (icmp_defaults\<lparr>per_packet_timeout_ms := Some 4050\<rparr>))"
    by code_simp
  show ?thesis by (rule conjI [OF h icmp_sequence_fits_timeout [OF h]])
qed



text \<open>No accepted HTTP monitor can send a credential-bearing header under any
  capitalisation, or smuggle a line break or another control character through a header
  name or value, its path or a body assertion; a HEAD monitor has no body assertions.\<close>

theorem http_configuration_safe:
  assumes "validate_probe_configuration HTTP (HttpConfiguration h) = Inr v"
  shows "(\<forall>(n, x) \<in> set (request_headers h).
            lower n \<notin> {''authorization'', ''cookie'', ''proxy-authorization''} \<and>
            (\<forall>c \<in> set n \<union> set x. \<not> is_control c)) \<and>
         (\<forall>c \<in> set (http_path h). \<not> is_control c) \<and>
         (http_method h = HEAD \<longrightarrow> expected_body_contains h = [])"
proof -
  have ok: "validate_http h = Inr h" "http_method h = HEAD \<longrightarrow> expected_body_contains h = []"
    using assms by (auto elim!: validate_probe_configuration_cases)
  then have "list_all validate_request_header (request_headers h)" "validate_path (http_path h)"
    by (simp_all add: validate_http_def split: if_splits)
  moreover have "\<not> is_control c" if "header_name_char c" for c
    using that by (auto simp: header_name_char_def is_control_def is_alnum_ascii_def
        is_upper_ascii_def is_lower_ascii_def is_digit_ascii_def)
  ultimately show ?thesis
    using ok(2) by (auto simp: list_all_iff validate_request_header_def validate_path_def
        http_header_name_def no_control_def http_forbidden_headers_def)
qed

theorem http_configuration_safe_witness:
  "validate_probe_configuration HTTP
     (HttpConfiguration (http_defaults\<lparr>expected_status_codes := [200], request_headers := [(''X-Probe'', ''1'')]\<rparr>))
     = Inr (HttpConfiguration (http_defaults\<lparr>expected_status_codes := [200], request_headers := [(''X-Probe'', ''1'')]\<rparr>)) \<and>
   lower ''X-Probe'' \<notin> {''authorization'', ''cookie'', ''proxy-authorization''}"
proof -
  have h: "validate_probe_configuration HTTP
     (HttpConfiguration (http_defaults\<lparr>expected_status_codes := [200], request_headers := [(''X-Probe'', ''1'')]\<rparr>))
     = Inr (HttpConfiguration (http_defaults\<lparr>expected_status_codes := [200], request_headers := [(''X-Probe'', ''1'')]\<rparr>))"
    by code_simp
  show ?thesis using h http_configuration_safe [OF h] by simp
qed

section \<open>Where normalisation leaves the schema\<close>

text \<open>The timeout \<^verbatim>\<open>serialize_probe_configuration\<close> fills in for an ICMP monitor is bounded by the
  monitor's timeout only, not by the schema's own limit of 60000 ms, so the stored
  configuration of a monitor with a long timeout does not validate.
\<close>

theorem icmp_filled_timeout_leaves_schema:
  assumes "validate_icmp c = Inr c" and "per_packet_timeout_ms c = None"
    and "60000 < icmp_available_ms c t"
  shows "\<exists>v e. serialize_probe_configuration ICMP (IcmpConfiguration c) (Some t) = Inr v \<and>
     validate_probe_configuration ICMP v = Inl (ValidationError e)"
  using assms
  by (auto simp: serialize_probe_configuration_def validate_probe_configuration_def fit_icmp_def
      Let_def validate_icmp_def between_def raise_if_def)

theorem icmp_filled_timeout_leaves_schema_witness:
  "\<exists>v e. serialize_probe_configuration ICMP (IcmpConfiguration icmp_defaults) (Some 120) = Inr v \<and>
     validate_probe_configuration ICMP v = Inl (ValidationError e)"
proof (rule icmp_filled_timeout_leaves_schema)
  show "validate_icmp icmp_defaults = Inr icmp_defaults" by code_simp
  show "per_packet_timeout_ms icmp_defaults = None" by code_simp
  show "60000 < icmp_available_ms icmp_defaults 120" by code_simp
qed

end
