(* ===== verification/Models.thy ===== *)
theory Models
  imports Probe_Configuration
begin

text \<open>
  The monitoring database: one record per model class of \<^verbatim>\<open>models/monitoring.py\<close> (and \<^verbatim>\<open>Realm\<close>
  of \<^verbatim>\<open>models/auth.py\<close>), one table per class, and the integrity constraints of the models and
  of migration 0006. A table with a one-to-one relation to \<^verbatim>\<open>Agent\<close> is a map from the agent's
  identifier; the other tables are lists of rows. \<^verbatim>\<open>created_at\<close> and \<^verbatim>\<open>updated_at\<close> are kept only
  where some code reads them. \<open>wf_db\<close> collects what the constraints and the realm checks of
  the domain code establish together.
\<close>

section \<open>Rows\<close>

record realm =
  realm_id :: uuid
  realm_name :: string
  realm_slug :: string
  realm_is_active :: bool
  realm_created_at :: datetime

record agent =
  agent_id :: uuid
  agent_realm :: uuid
  agent_name :: string
  agent_description :: "string option"
  agent_enabled :: bool
  agent_archived_at :: "datetime option"

record agent_group =
  agent_group_id :: uuid
  agent_group_realm :: uuid
  agent_group_parent :: "uuid option"
  agent_group_name :: string
  agent_group_description :: "string option"
  agent_group_enabled :: bool
  agent_group_archived_at :: "datetime option"

record agent_group_membership =
  agm_realm :: uuid
  agm_group :: uuid
  agm_agent :: uuid

record agent_credential =
  credential_id :: uuid
  credential_realm :: uuid
  credential_agent :: uuid
  credential_name :: string
  credential_hash :: string
  credential_created_at :: datetime
  credential_last_used_at :: "datetime option"
  credential_expires_at :: "datetime option"
  credential_revoked_at :: "datetime option"

record agent_enrolment_token =
  token_id :: uuid
  token_realm :: uuid
  token_agent :: uuid
  token_hash :: string
  token_expires_at :: datetime
  token_consumed_at :: "datetime option"
  token_revoked_at :: "datetime option"

record probe_capability =
  schema_versions :: "int list"
  available :: bool

record agent_capabilities =
  probes :: "(string \<times> probe_capability) list"
  runtime :: "(string \<times> bool) list"
  external_tools :: "(string \<times> string) list"

datatype database_health = DbHealthy | DbDegraded | DbUnhealthy
datatype scheduler_state = SchedulerRunning | SchedulerDegraded | SchedulerStopped

record agent_operational_state =
  op_realm :: uuid
  last_heartbeat_at :: datetime
  op_agent_version :: string
  op_platform :: string
  op_architecture :: string
  op_hostname :: string
  op_capabilities :: agent_capabilities
  op_active_configuration_revision :: int
  op_known_desired_configuration_revision :: int
  op_queue_depth :: int
  op_queue_bytes :: int
  op_oldest_pending_observation_at :: "datetime option"
  op_database_health :: database_health
  op_scheduler_state :: scheduler_state
  op_agent_time :: datetime
  clock_offset_ms :: int
  op_warnings :: "string list"

record target =
  target_id :: uuid
  target_realm :: uuid
  target_name :: string
  target_description :: "string option"
  target_address :: string
  target_enabled :: bool
  target_archived_at :: "datetime option"

record target_group =
  target_group_id :: uuid
  target_group_realm :: uuid
  target_group_parent :: "uuid option"
  target_group_name :: string
  target_group_description :: "string option"
  target_group_archived_at :: "datetime option"

record target_group_membership =
  tgm_realm :: uuid
  tgm_group :: uuid
  tgm_target :: uuid

record monitor =
  monitor_id :: uuid
  monitor_realm :: uuid
  monitor_target :: uuid
  monitor_name :: string
  monitor_description :: "string option"
  monitor_probe_type :: probe_type
  interval_seconds :: int
  timeout_seconds :: int
  monitor_configuration :: typed_probe_configuration
  monitor_enabled :: bool
  monitor_revision :: int
  monitor_archived_at :: "datetime option"

record monitor_agent_assignment =
  maa_realm :: uuid
  maa_monitor :: uuid
  maa_agent :: uuid
  maa_enabled :: bool

record monitor_agent_group_assignment =
  mga_realm :: uuid
  mga_monitor :: uuid
  mga_group :: uuid
  mga_enabled :: bool

record agent_configuration_state =
  cs_realm :: uuid
  desired_revision :: int
  desired_content_hash :: string
  acknowledged_revision :: int
  acknowledged_content_hash :: string
  acknowledged_at :: "datetime option"

text \<open>The JSON document stored in a snapshot, as \<^verbatim>\<open>get_or_create_configuration\<close> builds it.\<close>

record monitor_entry =
  entry_monitor_id :: uuid
  entry_target_id :: uuid
  entry_monitor_revision :: int
  entry_target_address :: string
  entry_probe_type :: string
  entry_probe_schema_version :: int
  entry_interval_seconds :: int
  entry_timeout_seconds :: int
  entry_missed_run_policy :: string
  entry_configuration :: typed_probe_configuration

record configuration_content =
  configuration_schema_version :: int
  content_agent_id :: uuid
  content_realm_id :: uuid
  content_monitors :: "monitor_entry list"

record agent_configuration_snapshot =
  snapshot_realm :: uuid
  snapshot_agent :: uuid
  snapshot_revision :: int
  snapshot_content_hash :: string
  snapshot_configuration :: configuration_content
  snapshot_created_at :: datetime

fun probe_type_str :: "probe_type \<Rightarrow> string" where
  "probe_type_str ICMP = ''icmp''"
| "probe_type_str HTTP = ''http''"
| "probe_type_str TCP = ''tcp''"
| "probe_type_str DNS = ''dns''"
| "probe_type_str TLS = ''tls''"

section \<open>The database\<close>

record monitoring_db =
  agents :: "agent list"
  agent_groups :: "agent_group list"
  agent_group_memberships :: "agent_group_membership list"
  agent_credentials :: "agent_credential list"
  agent_enrolment_tokens :: "agent_enrolment_token list"
  agent_operational_states :: "uuid \<rightharpoonup> agent_operational_state"
  targets :: "target list"
  target_groups :: "target_group list"
  target_group_memberships :: "target_group_membership list"
  monitors :: "monitor list"
  monitor_agent_assignments :: "monitor_agent_assignment list"
  monitor_agent_group_assignments :: "monitor_agent_group_assignment list"
  agent_configuration_states :: "uuid \<rightharpoonup> agent_configuration_state"
  agent_configuration_snapshots :: "agent_configuration_snapshot list"

definition empty_db :: monitoring_db where
  "empty_db = \<lparr> agents = [], agent_groups = [], agent_group_memberships = [],
     agent_credentials = [], agent_enrolment_tokens = [], agent_operational_states = Map.empty,
     targets = [], target_groups = [], target_group_memberships = [], monitors = [],
     monitor_agent_assignments = [], monitor_agent_group_assignments = [],
     agent_configuration_states = Map.empty, agent_configuration_snapshots = [] \<rparr>"

definition find_agent :: "monitoring_db \<Rightarrow> uuid \<Rightarrow> agent option" where
  "find_agent db i = find (\<lambda>a. agent_id a = i) (agents db)"

definition find_agent_group :: "monitoring_db \<Rightarrow> uuid \<Rightarrow> agent_group option" where
  "find_agent_group db i = find (\<lambda>g. agent_group_id g = i) (agent_groups db)"

definition find_target :: "monitoring_db \<Rightarrow> uuid \<Rightarrow> target option" where
  "find_target db i = find (\<lambda>t. target_id t = i) (targets db)"

text \<open>The joined filters \<^verbatim>\<open>agent__enabled=True, agent__archived_at=None\<close> and their analogues for
  groups and targets.\<close>

definition agent_active :: "monitoring_db \<Rightarrow> uuid \<Rightarrow> bool" where
  "agent_active db i = (case find_agent db i of None \<Rightarrow> False
     | Some a \<Rightarrow> agent_enabled a \<and> agent_archived_at a = None)"

definition agent_group_active :: "monitoring_db \<Rightarrow> uuid \<Rightarrow> bool" where
  "agent_group_active db i = (case find_agent_group db i of None \<Rightarrow> False
     | Some g \<Rightarrow> agent_group_enabled g \<and> agent_group_archived_at g = None)"

definition target_active :: "monitoring_db \<Rightarrow> uuid \<Rightarrow> bool" where
  "target_active db i = (case find_target db i of None \<Rightarrow> False
     | Some t \<Rightarrow> target_enabled t \<and> target_archived_at t = None)"

lemmas lookup_defs [model_defs] = find_agent_def find_agent_group_def find_target_def
  agent_active_def agent_group_active_def target_active_def

section \<open>Integrity\<close>

text \<open>
  Unique keys (\<^verbatim>\<open>unique_together\<close>, the sibling-name indexes and the primary keys), one per
  table. The \<^verbatim>\<open>NULLS NOT DISTINCT\<close> of the group indexes makes two roots of one realm siblings.
\<close>

definition agent_name_taken :: "monitoring_db \<Rightarrow> uuid \<Rightarrow> string \<Rightarrow> bool" where
  "agent_name_taken db r n = exists_row (\<lambda>a. agent_realm a = r \<and> agent_name a = n) (agents db)"

definition target_name_taken :: "monitoring_db \<Rightarrow> uuid \<Rightarrow> string \<Rightarrow> bool" where
  "target_name_taken db r n = exists_row (\<lambda>t. target_realm t = r \<and> target_name t = n) (targets db)"

definition monitor_name_taken :: "monitoring_db \<Rightarrow> uuid \<Rightarrow> string \<Rightarrow> bool" where
  "monitor_name_taken db r n =
     exists_row (\<lambda>m. monitor_realm m = r \<and> monitor_name m = n) (monitors db)"

definition agent_group_name_taken :: "monitoring_db \<Rightarrow> uuid \<Rightarrow> uuid option \<Rightarrow> string \<Rightarrow> bool" where
  "agent_group_name_taken db r p n = exists_row (\<lambda>g. agent_group_realm g = r \<and>
     agent_group_parent g = p \<and> agent_group_name g = n) (agent_groups db)"

definition target_group_name_taken :: "monitoring_db \<Rightarrow> uuid \<Rightarrow> uuid option \<Rightarrow> string \<Rightarrow> bool" where
  "target_group_name_taken db r p n = exists_row (\<lambda>g. target_group_realm g = r \<and>
     target_group_parent g = p \<and> target_group_name g = n) (target_groups db)"

text \<open>The check constraint \<^verbatim>\<open>agent_config_revisions_valid\<close>.\<close>

definition revisions_valid :: "agent_configuration_state \<Rightarrow> bool" where
  "revisions_valid st \<longleftrightarrow> 0 \<le> desired_revision st \<and> 0 \<le> acknowledged_revision st
     \<and> acknowledged_revision st \<le> desired_revision st"

text \<open>Columns: \<^verbatim>\<open>INTEGER\<close> and \<^verbatim>\<open>BIGINT\<close> hold 32 and 64 bits; a text never holds the null character.\<close>

definition int4 :: "int \<Rightarrow> bool" where "int4 n \<longleftrightarrow> - (2 ^ 31) \<le> n \<and> n < 2 ^ 31"
definition int8 :: "int \<Rightarrow> bool" where "int8 n \<longleftrightarrow> - (2 ^ 63) \<le> n \<and> n < 2 ^ 63"

definition text_ok :: "string \<Rightarrow> bool" where
  "text_ok s \<longleftrightarrow> list_all (\<lambda>c. ord c \<noteq> 0) s"

text \<open>The check constraints on \<^verbatim>\<open>monitor\<close>.\<close>

definition monitor_row_valid :: "monitor \<Rightarrow> bool" where
  "monitor_row_valid m \<longleftrightarrow> 1 \<le> interval_seconds m \<and> 1 \<le> timeout_seconds m
     \<and> timeout_seconds m < interval_seconds m \<and> 0 < monitor_revision m"

text \<open>Primary keys.\<close>

definition unique_ids :: "monitoring_db \<Rightarrow> bool" where
  "unique_ids db \<longleftrightarrow> distinct (map agent_id (agents db))
     \<and> distinct (map agent_group_id (agent_groups db))
     \<and> distinct (map target_id (targets db))
     \<and> distinct (map target_group_id (target_groups db))
     \<and> distinct (map monitor_id (monitors db))"

text \<open>Foreign keys, strengthened by the realm checks: both ends of every relationship belong
  to the realm the relationship names.\<close>

definition in_realm_agent :: "monitoring_db \<Rightarrow> uuid \<Rightarrow> uuid \<Rightarrow> bool" where
  "in_realm_agent db r i \<longleftrightarrow> (\<exists>a \<in> set (agents db). agent_id a = i \<and> agent_realm a = r)"

definition in_realm_group :: "monitoring_db \<Rightarrow> uuid \<Rightarrow> uuid \<Rightarrow> bool" where
  "in_realm_group db r i \<longleftrightarrow>
     (\<exists>g \<in> set (agent_groups db). agent_group_id g = i \<and> agent_group_realm g = r)"

definition in_realm_target :: "monitoring_db \<Rightarrow> uuid \<Rightarrow> uuid \<Rightarrow> bool" where
  "in_realm_target db r i \<longleftrightarrow> (\<exists>t \<in> set (targets db). target_id t = i \<and> target_realm t = r)"

definition in_realm_target_group :: "monitoring_db \<Rightarrow> uuid \<Rightarrow> uuid \<Rightarrow> bool" where
  "in_realm_target_group db r i \<longleftrightarrow>
     (\<exists>g \<in> set (target_groups db). target_group_id g = i \<and> target_group_realm g = r)"

definition in_realm_monitor :: "monitoring_db \<Rightarrow> uuid \<Rightarrow> uuid \<Rightarrow> bool" where
  "in_realm_monitor db r i \<longleftrightarrow>
     (\<exists>m \<in> set (monitors db). monitor_id m = i \<and> monitor_realm m = r)"

definition realm_coherent :: "monitoring_db \<Rightarrow> bool" where
  "realm_coherent db \<longleftrightarrow>
     (\<forall>m \<in> set (agent_group_memberships db).
        in_realm_group db (agm_realm m) (agm_group m) \<and> in_realm_agent db (agm_realm m) (agm_agent m))
   \<and> (\<forall>m \<in> set (target_group_memberships db).
        in_realm_target_group db (tgm_realm m) (tgm_group m)
        \<and> in_realm_target db (tgm_realm m) (tgm_target m))
   \<and> (\<forall>m \<in> set (monitors db). in_realm_target db (monitor_realm m) (monitor_target m))
   \<and> (\<forall>x \<in> set (monitor_agent_assignments db).
        in_realm_monitor db (maa_realm x) (maa_monitor x) \<and> in_realm_agent db (maa_realm x) (maa_agent x))
   \<and> (\<forall>x \<in> set (monitor_agent_group_assignments db).
        in_realm_monitor db (mga_realm x) (mga_monitor x) \<and> in_realm_group db (mga_realm x) (mga_group x))
   \<and> (\<forall>g \<in> set (agent_groups db). \<forall>p. agent_group_parent g = Some p \<longrightarrow>
        in_realm_group db (agent_group_realm g) p)
   \<and> (\<forall>g \<in> set (target_groups db). \<forall>p. target_group_parent g = Some p \<longrightarrow>
        in_realm_target_group db (target_group_realm g) p)
   \<and> (\<forall>a st. agent_configuration_states db a = Some st \<longrightarrow> in_realm_agent db (cs_realm st) a)
   \<and> (\<forall>a st. agent_operational_states db a = Some st \<longrightarrow> in_realm_agent db (op_realm st) a)"

definition wf_db :: "monitoring_db \<Rightarrow> bool" where
  "wf_db db \<longleftrightarrow> unique_ids db \<and> realm_coherent db"

lemmas in_realm_defs = in_realm_agent_def in_realm_group_def in_realm_target_def
  in_realm_target_group_def in_realm_monitor_def

lemma wf_empty_db: "wf_db empty_db"
  by (simp add: wf_db_def unique_ids_def realm_coherent_def empty_db_def)

section \<open>Lookups\<close>

lemma find_agent_iff:
  "unique_ids db \<Longrightarrow> find_agent db i = Some a \<longleftrightarrow> a \<in> set (agents db) \<and> agent_id a = i"
  by (simp add: unique_ids_def find_agent_def find_by_key_iff)

lemma find_agent_group_iff:
  "unique_ids db \<Longrightarrow>
     find_agent_group db i = Some g \<longleftrightarrow> g \<in> set (agent_groups db) \<and> agent_group_id g = i"
  by (simp add: unique_ids_def find_agent_group_def find_by_key_iff)

lemma find_target_iff:
  "unique_ids db \<Longrightarrow> find_target db i = Some t \<longleftrightarrow> t \<in> set (targets db) \<and> target_id t = i"
  by (simp add: unique_ids_def find_target_def find_by_key_iff)

lemma agent_realm_unique:
  "unique_ids db \<Longrightarrow> in_realm_agent db r i \<Longrightarrow> in_realm_agent db r' i \<Longrightarrow> r = r'"
  by (auto simp: unique_ids_def in_realm_agent_def dest: distinct_key_inj)

lemma monitor_realm_unique:
  "unique_ids db \<Longrightarrow> in_realm_monitor db r i \<Longrightarrow> in_realm_monitor db r' i \<Longrightarrow> r = r'"
  by (auto simp: unique_ids_def in_realm_monitor_def dest: distinct_key_inj)

lemma target_realm_unique:
  "unique_ids db \<Longrightarrow> in_realm_target db r i \<Longrightarrow> in_realm_target db r' i \<Longrightarrow> r = r'"
  by (auto simp: unique_ids_def in_realm_target_def dest: distinct_key_inj)

end
