(* ===== verification/Agent_Protocol.thy ===== *)
theory Agent_Protocol
  imports Models
begin

text \<open>
  \<^verbatim>\<open>agents/protocol.py\<close>: the error every agent endpoint answers with, and the check of the
  protocol version.
\<close>

record agent_protocol_error =
  status_code :: int
  code :: string
  message :: string
  retryable :: bool
  details :: "(string \<times> string) list"

definition AgentProtocolError ::
  "int \<Rightarrow> string \<Rightarrow> string \<Rightarrow> bool \<Rightarrow> (string \<times> string) list \<Rightarrow> agent_protocol_error" where
  "AgentProtocolError sc c m r d =
     \<lparr> status_code = sc, code = c, message = m, retryable = r, details = d \<rparr>"

lemma AgentProtocolError_simps [simp]:
  "status_code (AgentProtocolError sc c m r d) = sc"
  "code (AgentProtocolError sc c m r d) = c"
  "retryable (AgentProtocolError sc c m r d) = r"
  by (simp_all add: AgentProtocolError_def)

definition MINIMUM_PROTOCOL_VERSION :: int where "MINIMUM_PROTOCOL_VERSION = 1"
definition MAXIMUM_PROTOCOL_VERSION :: int where "MAXIMUM_PROTOCOL_VERSION = 1"

definition require_supported_protocol :: "int \<Rightarrow> agent_protocol_error + unit" where
  "require_supported_protocol v =
     raise_if (\<not> (MINIMUM_PROTOCOL_VERSION \<le> v \<and> v \<le> MAXIMUM_PROTOCOL_VERSION))
       (AgentProtocolError 409 ''incompatible_protocol'' ''Agent protocol version is not supported.''
          False [(''minimum_protocol_version'', ''1''), (''maximum_protocol_version'', ''1'')])"

lemma require_supported_protocol_Inr [simp]: "require_supported_protocol v = Inr u \<longleftrightarrow> v = 1"
  by (auto simp: require_supported_protocol_def MINIMUM_PROTOCOL_VERSION_def
      MAXIMUM_PROTOCOL_VERSION_def)

end
