(* ===== verification/Py_Uuid.thy ===== *)
theory Py_Uuid
  imports Py_Stdlib
begin

text \<open>
  \<^verbatim>\<open>uuid.UUID\<close> as the program uses it: \<^verbatim>\<open>str(u)\<close>, the canonical 8-4-4-4-12 form, and
  \<^verbatim>\<open>UUID(text)\<close>, which drops the prefixes \<^verbatim>\<open>urn:\<close> and \<^verbatim>\<open>uuid:\<close>, the braces and the hyphens and
  reads the 32 remaining characters with \<^verbatim>\<open>int(text, 16)\<close>. Reading what was printed gives the
  identifier back.
\<close>

section \<open>Hexadecimal digits\<close>

definition hex_char :: "nat \<Rightarrow> char" where
  "hex_char d = char_of (if d < 10 then 48 + d else 87 + d)"

definition hex_val :: "char \<Rightarrow> nat" where
  "hex_val c = (if is_digit_ascii c then ord c - 48
     else if is_lower_ascii c then ord c - 87 else ord c - 55)"

fun hex_digits :: "nat \<Rightarrow> nat \<Rightarrow> string" where
  "hex_digits 0 n = []"
| "hex_digits (Suc k) n = hex_digits k (n div 16) @ [hex_char (n mod 16)]"

text \<open>The digits of \<^verbatim>\<open>int(text, 16)\<close>: a single underscore may separate two digits.\<close>

fun hex_literal :: "nat \<Rightarrow> bool \<Rightarrow> string \<Rightarrow> nat option" where
  "hex_literal acc digit_before [] = (if digit_before then Some acc else None)"
| "hex_literal acc digit_before (c # cs) =
     (if is_hex_ascii c then hex_literal (16 * acc + hex_val c) True cs
      else if c = CHR ''_'' \<and> digit_before then hex_literal acc False cs
      else None)"

text \<open>\<^verbatim>\<open>int(text, 16)\<close>, restricted to the values a \<^verbatim>\<open>UUID\<close> accepts; a minus sign is only
  harmless before zero.\<close>

definition int_base16 :: "string \<Rightarrow> nat option" where
  "int_base16 s =
     (let t = strip s;
          negative = startswith t ''-'';
          u = (if negative \<or> startswith t ''+'' then tl t else t);
          prefixed = startswith u ''0x'' \<or> startswith u ''0X'';
          v = (if prefixed then drop 2 u else u);
          w = (if prefixed \<and> startswith v ''_'' then tl v else v)
      in case hex_literal 0 False w of None \<Rightarrow> None
         | Some n \<Rightarrow> if negative \<and> n \<noteq> 0 then None else Some n)"

section \<open>Removing a substring\<close>

function remove_sub :: "string \<Rightarrow> string \<Rightarrow> string" where
  "remove_sub p [] = []"
| "remove_sub p (c # s) = (if p \<noteq> [] \<and> startswith (c # s) p
     then remove_sub p (drop (length p) (c # s)) else c # remove_sub p s)"
  by pat_completeness auto
termination
  by (relation "measure (\<lambda>(p, s). length s)") auto

section \<open>Printing and reading\<close>

definition uuid_str :: "uuid \<Rightarrow> string" where
  "uuid_str u = (let h = hex_digits 32 u in
     take 8 h @ ''-'' @ take 4 (drop 8 h) @ ''-'' @ take 4 (drop 12 h) @ ''-'' @
     take 4 (drop 16 h) @ ''-'' @ drop 20 h)"

definition parse_uuid :: "string \<Rightarrow> uuid option" where
  "parse_uuid s =
     (let h = filter (\<lambda>c. c \<noteq> CHR ''-'')
                (strip_on (\<lambda>c. c = CHR ''{'' \<or> c = CHR ''}'') (remove_sub ''uuid:'' (remove_sub ''urn:'' s)))
      in if length h \<noteq> 32 then None
         else case int_base16 h of None \<Rightarrow> None | Some n \<Rightarrow> if n < 2 ^ 128 then Some n else None)"

lemma length_hex_digits [simp]: "length (hex_digits k n) = k"
  by (induction k arbitrary: n) auto

lemma ord_hex_char: "d < 16 \<Longrightarrow> ord (hex_char d) = (if d < 10 then 48 + d else 87 + d)"
  by (simp add: hex_char_def)

lemma hex_char_props:
  assumes "d < 16"
  shows "is_hex_ascii (hex_char d)" "hex_val (hex_char d) = d"
  using assms by (auto simp: is_hex_ascii_def hex_val_def is_digit_ascii_def is_lower_ascii_def ord_hex_char)

lemma hex_digits_hex: "c \<in> set (hex_digits k n) \<Longrightarrow> is_hex_ascii c"
  by (induction k arbitrary: n) (auto simp: hex_char_props)

lemma hex_literal_append:
  "list_all is_hex_ascii s \<Longrightarrow>
     hex_literal acc b (s @ t) = hex_literal (foldl (\<lambda>a c. 16 * a + hex_val c) acc s) (b \<or> s \<noteq> []) t"
  by (induction s arbitrary: acc b) auto

lemma foldl_hex_digits:
  "foldl (\<lambda>a c. 16 * a + hex_val c) acc (hex_digits k n) = acc * 16 ^ k + n mod 16 ^ k"
proof (induction k arbitrary: n)
  case (Suc k)
  have "n mod 16 ^ Suc k = 16 * (n div 16 mod 16 ^ k) + n mod 16"
    using mod_mult2_eq [of n 16 "16 ^ k"] by (simp add: mult.commute)
  with Suc show ?case by (simp add: hex_char_props algebra_simps)
qed simp

lemma hex_digits_read:
  assumes "n < 16 ^ k" and "k \<noteq> 0"
  shows "hex_literal 0 False (hex_digits k n) = Some n"
proof -
  have "list_all is_hex_ascii (hex_digits k n)"
    by (auto simp: list_all_iff intro: hex_digits_hex)
  moreover have "hex_digits k n \<noteq> []" using assms(2) by (metis length_0_conv length_hex_digits)
  ultimately show ?thesis
    using hex_literal_append [of "hex_digits k n" 0 False "[]"] foldl_hex_digits [of 0 k n] assms(1)
    by simp
qed

text \<open>Characters that occur in no hexadecimal digit and are not hyphens.\<close>

lemma not_hex_chars:
  "\<not> is_hex_ascii (CHR ''u'')" "\<not> is_hex_ascii (CHR ''-'')" "\<not> is_hex_ascii (CHR ''+'')"
  "\<not> is_hex_ascii (CHR ''x'')" "\<not> is_hex_ascii (CHR ''X'')" "\<not> is_hex_ascii (CHR ''{'')"
  "\<not> is_hex_ascii (CHR ''}'')" "\<not> is_hex_ascii (CHR ''.'')"
  by code_simp+

lemma hex_not_space: "is_hex_ascii c \<Longrightarrow> \<not> is_space c"
  unfolding is_hex_ascii_def is_digit_ascii_def is_space_def by (elim disjE) simp_all

lemma int_base16_hex:
  assumes "list_all is_hex_ascii s" and "s \<noteq> []"
  shows "int_base16 s = hex_literal 0 False s"
proof -
  have "strip_on is_space s = s"
  proof -
    have "dropWhile is_space s = s" using assms hex_not_space by (cases s) auto
    moreover have "\<not> is_space (last s)" using assms hex_not_space by (auto simp: list_all_iff)
    ultimately show ?thesis by (simp add: strip_on_def rstrip_on_id)
  qed
  moreover have "\<not> startswith s ''-'' \<and> \<not> startswith s ''+''"
    using assms not_hex_chars by (cases s) (auto simp: startswith_def)
  moreover have "\<not> startswith s ''0x'' \<and> \<not> startswith s ''0X''"
    using assms not_hex_chars by (cases s; cases "tl s") (auto simp: startswith_def)
  ultimately show ?thesis by (simp add: int_base16_def strip_def Let_def split: option.splits)
qed

lemma remove_sub_absent:
  "p \<noteq> [] \<Longrightarrow> hd p \<notin> set s \<Longrightarrow> remove_sub p s = s"
  by (induction s) (auto simp: startswith_def neq_Nil_conv)

lemma uuid_str_chars: "c \<in> set (uuid_str u) \<Longrightarrow> is_hex_ascii c \<or> c = CHR ''-''"
  unfolding uuid_str_def Let_def using hex_digits_hex [of c 32 u]
  by (auto dest!: in_set_takeD in_set_dropD)

lemma uuid_str_no_dot: "CHR ''.'' \<notin> set (uuid_str u)"
  using uuid_str_chars not_hex_chars(8) by fastforce

lemma filter_uuid_str: "filter (\<lambda>c. c \<noteq> CHR ''-'') (uuid_str u) = hex_digits 32 u"
proof -
  let ?h = "hex_digits 32 u"
  have keep: "filter (\<lambda>c. c \<noteq> CHR ''-'') xs = xs" if "set xs \<subseteq> set ?h" for xs
    using that hex_digits_hex not_hex_chars(2) by (intro filter_True) blast
  have "take 8 ?h @ take 4 (drop 8 ?h) @ take 4 (drop 12 ?h) @ take 4 (drop 16 ?h) @ drop 20 ?h = ?h"
    using append_take_drop_id [of 8 ?h] append_take_drop_id [of 4 "drop 8 ?h"]
      append_take_drop_id [of 4 "drop 12 ?h"] append_take_drop_id [of 4 "drop 16 ?h"] by simp
  then show ?thesis
    by (simp add: uuid_str_def Let_def keep set_take_subset set_drop_subset
        order.trans [OF set_take_subset set_drop_subset])
qed

theorem parse_uuid_str: "u < 2 ^ 128 \<Longrightarrow> parse_uuid (uuid_str u) = Some u"
proof -
  assume u: "u < 2 ^ 128"
  let ?s = "uuid_str u"
  have no: "CHR ''u'' \<notin> set ?s" using uuid_str_chars not_hex_chars(1) by fastforce
  then have r: "remove_sub ''uuid:'' (remove_sub ''urn:'' ?s) = ?s"
    by (simp add: remove_sub_absent)
  have nb: "\<not> (c = CHR ''{'' \<or> c = CHR ''}'')" if "c \<in> set ?s" for c
    using uuid_str_chars [OF that] not_hex_chars(6,7) by auto
  have ne: "?s \<noteq> []" by (simp add: uuid_str_def Let_def)
  have "dropWhile (\<lambda>c. c = CHR ''{'' \<or> c = CHR ''}'') ?s = ?s" using nb ne by (cases ?s) auto
  then have st: "strip_on (\<lambda>c. c = CHR ''{'' \<or> c = CHR ''}'') ?s = ?s"
    using nb [OF last_in_set [OF ne]] unfolding strip_on_def by (simp add: rstrip_on_id)
  have "int_base16 (hex_digits 32 u) = Some u"
    using hex_digits_read [of u 32] u int_base16_hex [of "hex_digits 32 u"] hex_digits_hex
    by (auto simp: list_all_iff simp del: hex_digits.simps) (metis length_hex_digits list.size(3) zero_neq_numeral)
  with u show ?thesis
    by (simp add: parse_uuid_def r st filter_uuid_str)
qed

lemma parse_uuid_rejects:
  "parse_uuid ''12345678'' = None" "parse_uuid ''g2345678-1234-5678-1234-567812345678'' = None"
  by code_simp+

end
