(* ===== verification/Agent_Credentials.thy ===== *)
theory Agent_Credentials
  imports Agent_Protocol Py_Uuid
begin

text \<open>
  \<^verbatim>\<open>agents/credentials.py\<close>: enrolment tokens, their exchange for a credential, and the
  authentication of agent requests. \<^verbatim>\<open>hash_token\<close> (SHA-256 of \<^verbatim>\<open>auth/security.py\<close>) is a parameter;
  so are the random secrets, the new identifiers and the clock. The table of realms is an
  argument of the authentication, which joins it.
\<close>

section \<open>Operations\<close>

datatype credential_error = EnrolmentError string | AgentDoesNotExist | CredentialIntegrityError

record agent_authentication =
  auth_realm :: realm
  auth_agent :: agent
  auth_credential :: agent_credential

text \<open>\<^verbatim>\<open>ttl or timedelta(minutes=...)\<close>: an absent or a zero duration means the configured one.\<close>

definition issue_enrolment_token ::
  "(string \<Rightarrow> string) \<Rightarrow> int \<Rightarrow> monitoring_db \<Rightarrow> datetime \<Rightarrow> uuid \<Rightarrow> string \<Rightarrow> realm \<Rightarrow> agent \<Rightarrow>
     timedelta option \<Rightarrow> credential_error + (monitoring_db \<times> agent_enrolment_token \<times> string)" where
  "issue_enrolment_token hash_token enrolment_ttl_minutes db now new_id raw_token rlm agt ttl =
     (let lifetime = (case ttl of None \<Rightarrow> minutes enrolment_ttl_minutes
                      | Some d \<Rightarrow> if d = 0 then minutes enrolment_ttl_minutes else d);
          expires_at = now + lifetime
      in bind_result (raise_if (\<not> exists_row (\<lambda>a. agent_id a = agent_id agt \<and>
             agent_realm a = realm_id rlm) (agents db)) AgentDoesNotExist) (\<lambda>_.
         let tokens = update_rows (\<lambda>t. token_realm t = realm_id rlm \<and> token_agent t = agent_id agt \<and>
               token_consumed_at t = None \<and> token_revoked_at t = None)
               (\<lambda>t. t\<lparr> token_revoked_at := Some now \<rparr>) (agent_enrolment_tokens db);
             tok = \<lparr> token_id = new_id, token_realm = realm_id rlm, token_agent = agent_id agt,
                     token_hash = hash_token raw_token, token_expires_at = expires_at,
                     token_consumed_at = None, token_revoked_at = None \<rparr>
         in bind_result (raise_if (exists_row (\<lambda>t. token_id t = new_id \<or>
               token_hash t = hash_token raw_token) tokens) CredentialIntegrityError) (\<lambda>_.
            Inr (db\<lparr> agent_enrolment_tokens := tokens @ [tok] \<rparr>, tok, raw_token))))"

definition exchange_enrolment_token ::
  "(string \<Rightarrow> string) \<Rightarrow> monitoring_db \<Rightarrow> datetime \<times> uuid \<times> string \<Rightarrow> string \<Rightarrow>
     credential_error + (monitoring_db \<times> agent \<times> agent_credential \<times> string)" where
  "exchange_enrolment_token hash_token db args raw_token = (case args of (now, new_id, secret) \<Rightarrow>
     (case find (\<lambda>t. token_hash t = hash_token raw_token) (agent_enrolment_tokens db) of
        None \<Rightarrow> Inl (EnrolmentError ''Enrolment token is invalid or expired'')
      | Some t \<Rightarrow>
         if token_consumed_at t \<noteq> None \<or> token_revoked_at t \<noteq> None \<or> token_expires_at t \<le> now
         then Inl (EnrolmentError ''Enrolment token is invalid or expired'') else
         (case find (\<lambda>a. agent_id a = token_agent t \<and> agent_realm a = token_realm t) (agents db) of
            None \<Rightarrow> Inl (EnrolmentError ''Enrolment token is invalid or expired'')
          | Some agt \<Rightarrow>
             if \<not> agent_enabled agt \<or> agent_archived_at agt \<noteq> None
             then Inl (EnrolmentError ''Enrolment token is invalid or expired'') else
             let name = ''Enrolled '' @ uuid_str new_id;
                 credential = \<lparr> credential_id = new_id, credential_realm = token_realm t,
                   credential_agent = token_agent t, credential_name = name,
                   credential_hash = hash_token secret, credential_created_at = now,
                   credential_last_used_at = None, credential_expires_at = None,
                   credential_revoked_at = None \<rparr>
             in bind_result (raise_if (exists_row (\<lambda>c. credential_id c = new_id \<or>
                   (credential_realm c = token_realm t \<and> credential_agent c = token_agent t \<and>
                    credential_name c = name)) (agent_credentials db)) CredentialIntegrityError) (\<lambda>_.
                Inr (db\<lparr> agent_credentials := agent_credentials db @ [credential],
                        agent_enrolment_tokens := update_rows (\<lambda>x. token_id x = token_id t)
                          (\<lambda>x. x\<lparr> token_consumed_at := Some now \<rparr>) (agent_enrolment_tokens db) \<rparr>,
                     agt, credential, uuid_str new_id @ ''.'' @ secret)))))"

definition not_authenticated :: agent_protocol_error where
  "not_authenticated = AgentProtocolError 401 ''not_authenticated''
     ''Agent authentication is required.'' False []"

definition invalid_credential :: agent_protocol_error where
  "invalid_credential = AgentProtocolError 401 ''invalid_credential''
     ''Agent credential is invalid or expired.'' False []"

text \<open>The inner joins of \<^verbatim>\<open>select_related("agent", "realm")\<close>.\<close>

definition joined_credential ::
  "realm list \<Rightarrow> monitoring_db \<Rightarrow> uuid \<Rightarrow> (agent_credential \<times> agent \<times> realm) option" where
  "joined_credential realms db i =
     (case find (\<lambda>c. credential_id c = i) (agent_credentials db) of None \<Rightarrow> None
      | Some c \<Rightarrow> (case find_agent db (credential_agent c) of None \<Rightarrow> None
        | Some a \<Rightarrow> (case find (\<lambda>r. realm_id r = credential_realm c) realms of None \<Rightarrow> None
          | Some r \<Rightarrow> Some (c, a, r))))"

definition credential_valid :: "(string \<Rightarrow> string) \<Rightarrow> datetime \<Rightarrow> string \<Rightarrow> agent_credential \<Rightarrow> agent \<Rightarrow> bool" where
  "credential_valid hash_token now secret c a \<longleftrightarrow>
     credential_hash c = hash_token secret \<and> credential_revoked_at c = None \<and>
     (case credential_expires_at c of None \<Rightarrow> True | Some e \<Rightarrow> e > now) \<and>
     agent_enabled a \<and> agent_archived_at a = None"

definition authenticate_agent ::
  "(string \<Rightarrow> string) \<Rightarrow> realm list \<Rightarrow> monitoring_db \<Rightarrow> datetime \<Rightarrow> string option \<Rightarrow>
     agent_protocol_error + (monitoring_db \<times> agent_authentication)" where
  "authenticate_agent hash_token realms db now header =
     (let authorization = (case header of None \<Rightarrow> '''' | Some h \<Rightarrow> h);
          (scheme, separator, raw_credential) = partition_on (CHR '' '') authorization
      in if lower scheme \<noteq> ''bearer'' \<or> \<not> separator then Inl not_authenticated else
         let (identifier, separator, secret) = partition_on (CHR ''.'') raw_credential
         in (case Option.bind (parse_uuid identifier) (joined_credential realms db) of
               None \<Rightarrow> Inl invalid_credential
             | Some (c, a, r) \<Rightarrow>
                 if \<not> (separator \<and> credential_valid hash_token now secret c a) then Inl invalid_credential
                 else
                   let c' = c\<lparr> credential_last_used_at := Some now \<rparr>
                   in Inr (db\<lparr> agent_credentials := update_rows (\<lambda>x. credential_id x = credential_id c)
                             (\<lambda>x. x\<lparr> credential_last_used_at := Some now \<rparr>) (agent_credentials db) \<rparr>,
                           \<lparr> auth_realm = r, auth_agent = a, auth_credential = c' \<rparr>)))"

definition revoke_enrolment_token ::
  "monitoring_db \<Rightarrow> datetime \<Rightarrow> realm \<Rightarrow> agent \<Rightarrow> uuid \<Rightarrow> monitoring_db \<times> bool" where
  "revoke_enrolment_token db now rlm agt i =
     (let hit = (\<lambda>t. token_id t = i \<and> token_realm t = realm_id rlm \<and> token_agent t = agent_id agt \<and>
                   token_consumed_at t = None \<and> token_revoked_at t = None)
      in (db\<lparr> agent_enrolment_tokens := update_rows hit (\<lambda>t. t\<lparr> token_revoked_at := Some now \<rparr>)
               (agent_enrolment_tokens db) \<rparr>, exists_row hit (agent_enrolment_tokens db)))"

definition revoke_credential ::
  "monitoring_db \<Rightarrow> datetime \<Rightarrow> realm \<Rightarrow> uuid \<Rightarrow> monitoring_db \<times> bool" where
  "revoke_credential db now rlm i =
     (let hit = (\<lambda>c. credential_id c = i \<and> credential_realm c = realm_id rlm \<and>
                   credential_revoked_at c = None)
      in (db\<lparr> agent_credentials := update_rows hit (\<lambda>c. c\<lparr> credential_revoked_at := Some now \<rparr>)
               (agent_credentials db) \<rparr>, exists_row hit (agent_credentials db)))"

section \<open>Enrolment tokens are redeemed once\<close>

definition token_spent :: "monitoring_db \<Rightarrow> string \<Rightarrow> bool" where
  "token_spent db h =
     (case find (\<lambda>t. token_hash t = h) (agent_enrolment_tokens db) of
        None \<Rightarrow> False | Some t \<Rightarrow> token_consumed_at t \<noteq> None)"

lemma exchange_Inr:
  assumes "exchange_enrolment_token h db (now, cid, secret) raw = Inr (db', agt, c, shown)"
  obtains t where "find (\<lambda>t. token_hash t = h raw) (agent_enrolment_tokens db) = Some t"
    "token_consumed_at t = None" "token_revoked_at t = None" "now < token_expires_at t"
    "find (\<lambda>a. agent_id a = token_agent t \<and> agent_realm a = token_realm t) (agents db) = Some agt"
    "agent_enabled agt" "agent_archived_at agt = None"
    "c = \<lparr> credential_id = cid, credential_realm = token_realm t,
           credential_agent = token_agent t, credential_name = ''Enrolled '' @ uuid_str cid,
           credential_hash = h secret, credential_created_at = now,
           credential_last_used_at = None, credential_expires_at = None,
           credential_revoked_at = None \<rparr>"
    "\<not> exists_row (\<lambda>x. credential_id x = cid) (agent_credentials db)"
    "db' = db\<lparr> agent_credentials := agent_credentials db @ [c],
               agent_enrolment_tokens := update_rows (\<lambda>x. token_id x = token_id t)
                 (\<lambda>x. x\<lparr> token_consumed_at := Some now \<rparr>) (agent_enrolment_tokens db) \<rparr>"
    "shown = uuid_str cid @ ''.'' @ secret"
  using assms that
  by (auto simp: exchange_enrolment_token_def Let_def exists_row_iff split: option.splits if_splits)

lemma exchange_marks:
  assumes "exchange_enrolment_token h db a raw = Inr (db', r)"
  obtains t now where "find (\<lambda>t. token_hash t = h raw) (agent_enrolment_tokens db) = Some t"
    "agent_enrolment_tokens db' = update_rows (\<lambda>x. token_id x = token_id t)
      (\<lambda>x. x\<lparr> token_consumed_at := Some now \<rparr>) (agent_enrolment_tokens db)"
  using assms that
  by (auto simp: exchange_enrolment_token_def Let_def split: option.splits if_splits prod.splits)

interpretation enrolment: single_use "exchange_enrolment_token h" h token_spent "\<lambda>_. True" for h
proof
  show "token_spent s' (h k)" if "exchange_enrolment_token h s a k = Inr (s', r)" for s a k s' r
    using that by (rule exchange_marks) (simp add: token_spent_def find_update_rows)
  show "exchange_enrolment_token h s a k \<noteq> Inr x" if "token_spent s (h k)" for s k a x
    using that by (auto simp: token_spent_def exchange_enrolment_token_def
        split: option.splits prod.splits)
  show "token_spent s' i" if "token_spent s i"
    "exchange_enrolment_token h s a k' = Inr (s', r)" for s i a k' s' r
    using that(2)
  proof (rule exchange_marks)
    fix t now
    assume "agent_enrolment_tokens s' = update_rows (\<lambda>x. token_id x = token_id t)
      (\<lambda>x. x\<lparr> token_consumed_at := Some now \<rparr>) (agent_enrolment_tokens s)"
    then show ?thesis
      using that(1) by (auto simp: token_spent_def find_update_rows split: option.splits)
  qed
qed simp

text \<open>C23: however attempts to enrol are interleaved, and at whatever times, an enrolment token
  is exchanged for a credential at most once.\<close>

theorem enrolment_token_redeemed_once:
  "distinct (map hash_token (redemptions (exchange_enrolment_token hash_token) db attempts))"
  by (rule enrolment.redeemed_once) simp

section \<open>Credential life cycle\<close>

text \<open>
  The operations on tokens and credentials as the endpoints issue them, in any order and at
  any time. An operation that raises leaves the database as it was: each runs in a
  transaction or changes nothing before it raises.
\<close>

datatype credential_op =
    IssueToken datetime uuid string realm agent "timedelta option"
  | ExchangeToken "datetime \<times> uuid \<times> string" string
  | Authenticate datetime "string option"
  | RevokeToken datetime realm agent uuid
  | RevokeCredential datetime realm uuid

fun credential_exec ::
  "(string \<Rightarrow> string) \<Rightarrow> int \<Rightarrow> realm list \<Rightarrow> credential_op \<Rightarrow> monitoring_db \<Rightarrow> monitoring_db" where
  "credential_exec h ttl realms (IssueToken now i raw rlm agt d) db =
     (case issue_enrolment_token h ttl db now i raw rlm agt d of Inl e \<Rightarrow> db | Inr (db', r) \<Rightarrow> db')"
| "credential_exec h ttl realms (ExchangeToken a raw) db =
     (case exchange_enrolment_token h db a raw of Inl e \<Rightarrow> db | Inr (db', r) \<Rightarrow> db')"
| "credential_exec h ttl realms (Authenticate now header) db =
     (case authenticate_agent h realms db now header of Inl e \<Rightarrow> db | Inr (db', r) \<Rightarrow> db')"
| "credential_exec h ttl realms (RevokeToken now rlm agt i) db = fst (revoke_enrolment_token db now rlm agt i)"
| "credential_exec h ttl realms (RevokeCredential now rlm i) db = fst (revoke_credential db now rlm i)"

text \<open>Tokens that could still be exchanged but for their expiry.\<close>

definition active_tokens :: "monitoring_db \<Rightarrow> uuid \<Rightarrow> uuid \<Rightarrow> agent_enrolment_token list" where
  "active_tokens db r a = filter (\<lambda>t. token_realm t = r \<and> token_agent t = a \<and>
     token_consumed_at t = None \<and> token_revoked_at t = None) (agent_enrolment_tokens db)"

lemma length_filter_update_le:
  "(\<And>x. Q x \<Longrightarrow> P (f x) \<Longrightarrow> P x) \<Longrightarrow> length (filter P (update_rows Q f t)) \<le> length (filter P t)"
  by (induction t) (auto simp: update_rows_def)

lemma authenticate_Inr:
  assumes "authenticate_agent h realms db now header = Inr (db', au)"
  obtains c secret where "c \<in> set (agent_credentials db)"
    "joined_credential realms db (credential_id c) = Some (c, auth_agent au, auth_realm au)"
    "credential_valid h now secret c (auth_agent au)"
    "auth_credential au = c\<lparr> credential_last_used_at := Some now \<rparr>"
    "db' = db\<lparr> agent_credentials := update_rows (\<lambda>x. credential_id x = credential_id c)
       (\<lambda>x. x\<lparr> credential_last_used_at := Some now \<rparr>) (agent_credentials db) \<rparr>"
proof -
  obtain i c a r secret where
    j: "joined_credential realms db i = Some (c, a, r)" and v: "credential_valid h now secret c a"
    and db': "db' = db\<lparr> agent_credentials := update_rows (\<lambda>x. credential_id x = credential_id c)
         (\<lambda>x. x\<lparr> credential_last_used_at := Some now \<rparr>) (agent_credentials db) \<rparr>"
    and au: "au = \<lparr> auth_realm = r, auth_agent = a, auth_credential = c\<lparr> credential_last_used_at := Some now \<rparr> \<rparr>"
    using assms by (auto simp: authenticate_agent_def Let_def bind_eq_Some_conv
        split: prod.splits if_splits option.splits)
  from j have "find (\<lambda>c. credential_id c = i) (agent_credentials db) = Some c"
    by (auto simp: joined_credential_def split: option.splits)
  then have "c \<in> set (agent_credentials db)" "credential_id c = i"
    by (auto dest: find_Some_iff_in)
  with j v db' au show thesis by (intro that [of c secret]) auto
qed

lemma active_tokens_exec:
  "length (active_tokens (credential_exec h ttl realms op db) r a) \<le> max 1 (length (active_tokens db r a))"
proof (cases op)
  case (IssueToken now i raw rlm agt d)
  show ?thesis
  proof (cases "issue_enrolment_token h ttl db now i raw rlm agt d")
    case (Inr y)
    let ?hit = "\<lambda>t. token_realm t = realm_id rlm \<and> token_agent t = agent_id agt \<and>
      token_consumed_at t = None \<and> token_revoked_at t = None"
    let ?act = "\<lambda>t. token_realm t = r \<and> token_agent t = a \<and> token_consumed_at t = None \<and> token_revoked_at t = None"
    obtain tok where db': "agent_enrolment_tokens (fst y) =
        update_rows ?hit (\<lambda>t. t\<lparr> token_revoked_at := Some now \<rparr>) (agent_enrolment_tokens db) @ [tok]"
      and tok: "token_realm tok = realm_id rlm" "token_agent tok = agent_id agt"
      using Inr by (auto simp: issue_enrolment_token_def Let_def)
    have le: "length (filter ?act (update_rows ?hit (\<lambda>t. t\<lparr> token_revoked_at := Some now \<rparr>)
        (agent_enrolment_tokens db))) \<le> length (active_tokens db r a)"
      unfolding active_tokens_def by (rule length_filter_update_le) auto
    have "filter ?act (update_rows ?hit (\<lambda>t. t\<lparr> token_revoked_at := Some now \<rparr>)
        (agent_enrolment_tokens db)) = []" if "r = realm_id rlm" "a = agent_id agt"
      using that by (auto simp: filter_empty_conv update_rows_def)
    then show ?thesis
      using IssueToken Inr le db' tok by (auto simp: active_tokens_def split: prod.splits)
  qed (simp add: IssueToken)
next
  case (ExchangeToken args raw)
  show ?thesis
  proof (cases "exchange_enrolment_token h db args raw")
    case (Inr y)
    obtain db' res where y: "y = (db', res)" by (cases y)
    obtain t now where "find (\<lambda>t. token_hash t = h raw) (agent_enrolment_tokens db) = Some t"
      "agent_enrolment_tokens db' = update_rows (\<lambda>x. token_id x = token_id t)
      (\<lambda>x. x\<lparr> token_consumed_at := Some now \<rparr>) (agent_enrolment_tokens db)"
      using Inr [unfolded y] by (rule exchange_marks)
    then show ?thesis
      unfolding ExchangeToken credential_exec.simps Inr y
      by (simp add: active_tokens_def) (intro max.coboundedI2 length_filter_update_le, simp)
  qed (simp add: ExchangeToken)
next
  case (Authenticate now header)
  show ?thesis
  proof (cases "authenticate_agent h realms db now header")
    case (Inr y)
    then show ?thesis
      by (cases y) (auto simp: Authenticate active_tokens_def elim: authenticate_Inr)
  qed (simp add: Authenticate)
next
  case (RevokeToken now rlm agt i)
  then show ?thesis
    by (simp add: revoke_enrolment_token_def active_tokens_def Let_def)
      (intro max.coboundedI2 length_filter_update_le, simp)
next
  case (RevokeCredential now rlm i)
  then show ?thesis by (simp add: revoke_credential_def active_tokens_def Let_def)
qed

text \<open>C24: no sequence of operations leaves an agent with two usable enrolment tokens.\<close>

theorem at_most_one_active_token:
  assumes "length (active_tokens db r a) \<le> 1"
  shows "length (active_tokens (fold (credential_exec hash_token ttl realms) ops db) r a) \<le> 1"
  using assms
proof (induction ops arbitrary: db)
  case (Cons op ops)
  have "length (active_tokens (credential_exec hash_token ttl realms op db) r a) \<le> 1"
    using active_tokens_exec [of hash_token ttl realms op db r a] Cons.prems by simp
  then show ?case using Cons.IH by simp
qed simp

theorem at_most_one_active_token_witness:
  "length (active_tokens (fold (credential_exec id 30 [])
     [IssueToken 0 7 ''t1'' \<lparr> realm_id = 1, realm_name = ''r'', realm_slug = ''r'',
        realm_is_active = True, realm_created_at = 0 \<rparr>
        \<lparr> agent_id = 5, agent_realm = 1, agent_name = ''a'', agent_description = None,
          agent_enabled = True, agent_archived_at = None \<rparr> None,
      IssueToken 10 8 ''t2'' \<lparr> realm_id = 1, realm_name = ''r'', realm_slug = ''r'',
        realm_is_active = True, realm_created_at = 0 \<rparr>
        \<lparr> agent_id = 5, agent_realm = 1, agent_name = ''a'', agent_description = None,
          agent_enabled = True, agent_archived_at = None \<rparr> None]
     (empty_db\<lparr> agents := [\<lparr> agent_id = 5, agent_realm = 1, agent_name = ''a'',
        agent_description = None, agent_enabled = True, agent_archived_at = None \<rparr>] \<rparr>)) 1 5) \<le> 1"
  by (rule at_most_one_active_token) (simp add: active_tokens_def empty_db_def)

text \<open>A credential that is revoked, and stays so.\<close>

definition credential_revoked :: "monitoring_db \<Rightarrow> uuid \<Rightarrow> bool" where
  "credential_revoked db i \<longleftrightarrow> i \<in> set (map credential_id (agent_credentials db)) \<and>
     list_all (\<lambda>c. credential_id c = i \<longrightarrow> credential_revoked_at c \<noteq> None) (agent_credentials db)"

lemma credential_revoked_update:
  assumes "\<And>c. credential_id (f c) = credential_id c"
    and "\<And>c. credential_revoked_at c \<noteq> None \<Longrightarrow> credential_revoked_at (f c) \<noteq> None"
    and "credential_revoked db i" and "agent_credentials db' = update_rows Q f (agent_credentials db)"
  shows "credential_revoked db' i"
proof -
  have "map credential_id (agent_credentials db') = map credential_id (agent_credentials db)"
    unfolding assms(4) using assms(1) by (rule map_update_rows)
  moreover have "list_all (\<lambda>c. credential_id c = i \<longrightarrow> credential_revoked_at c \<noteq> None) (agent_credentials db')"
    using assms(1-3) unfolding assms(4)
    by (auto simp: credential_revoked_def list_all_iff update_rows_def)
  ultimately show ?thesis using assms(3) unfolding credential_revoked_def by simp
qed

lemma credential_revoked_exec:
  assumes "credential_revoked db i"
  shows "credential_revoked (credential_exec h ttl realms op db) i"
proof (cases op)
  case (IssueToken now j raw rlm agt d)
  then show ?thesis
    using assms by (auto simp: issue_enrolment_token_def Let_def credential_revoked_def
        split: sum.splits)
next
  case (ExchangeToken a raw)
  show ?thesis
  proof (cases "exchange_enrolment_token h db a raw")
    case (Inr y)
    obtain now cid secret db' agt c shown where e: "a = (now, cid, secret)" "y = (db', agt, c, shown)"
      by (cases a; cases y) auto
    have "agent_credentials db' = agent_credentials db @ [c]" "credential_id c = cid"
      "\<not> exists_row (\<lambda>x. credential_id x = cid) (agent_credentials db)"
      using Inr unfolding e by (auto elim!: exchange_Inr)
    then show ?thesis
      using assms Inr by (auto simp: ExchangeToken e credential_revoked_def exists_row_iff)
  qed (simp add: ExchangeToken assms)
next
  case (Authenticate now header)
  show ?thesis
  proof (cases "authenticate_agent h realms db now header")
    case (Inr y)
    then obtain db' au where y: "authenticate_agent h realms db now header = Inr (db', au)"
      by (cases y) auto
    then have "credential_revoked db' i"
      by (rule authenticate_Inr) (intro credential_revoked_update [OF _ _ assms], auto)
    then show ?thesis by (simp add: Authenticate y)
  qed (simp add: Authenticate assms)
next
  case (RevokeToken now rlm agt j)
  then show ?thesis using assms by (simp add: revoke_enrolment_token_def Let_def credential_revoked_def)
next
  case (RevokeCredential now rlm j)
  have "credential_revoked (fst (revoke_credential db now rlm j)) i"
    by (intro credential_revoked_update [OF _ _ assms]) (auto simp: revoke_credential_def Let_def)
  then show ?thesis by (simp add: RevokeCredential)
qed

lemma credential_revoked_rejected:
  assumes "credential_revoked db i" and "authenticate_agent h realms db now header = Inr (db', au)"
  shows "credential_id (auth_credential au) \<noteq> i"
  using assms(2)
proof (rule authenticate_Inr)
  fix c secret
  assume "c \<in> set (agent_credentials db)" "credential_valid h now secret c (auth_agent au)"
    "auth_credential au = c\<lparr> credential_last_used_at := Some now \<rparr>"
  then show ?thesis using assms(1) by (auto simp: credential_revoked_def credential_valid_def list_all_iff)
qed

lemma revoke_credential_revokes:
  assumes "distinct (map credential_id (agent_credentials db))"
    and "revoke_credential db now rlm i = (db', True)"
  shows "credential_revoked db' i"
proof -
  let ?hit = "\<lambda>c. credential_id c = i \<and> credential_realm c = realm_id rlm \<and> credential_revoked_at c = None"
  obtain c where c: "c \<in> set (agent_credentials db)" "?hit c"
    using assms(2) by (auto simp: revoke_credential_def Let_def exists_row_iff)
  have db': "agent_credentials db' = update_rows ?hit (\<lambda>c. c\<lparr> credential_revoked_at := Some now \<rparr>)
      (agent_credentials db)"
    using assms(2) by (auto simp: revoke_credential_def Let_def)
  have "x = c" if "x \<in> set (agent_credentials db)" "credential_id x = i" for x
    using distinct_key_inj [OF assms(1)] that c by blast
  then show ?thesis
    using c by (auto simp: credential_revoked_def db' update_rows_def image_iff list_all_iff)
qed

text \<open>C25: once a credential has been revoked, no request authenticates with it, whatever
  enrolments, authentications and revocations happen in between.\<close>

theorem revoked_credential_never_authenticates:
  assumes "distinct (map credential_id (agent_credentials db))"
    and "revoke_credential db now rlm i = (db', True)"
    and "authenticate_agent hash_token realms (fold (credential_exec hash_token ttl realms) ops db')
           later header = Inr (db'', au)"
  shows "credential_id (auth_credential au) \<noteq> i"
proof -
  have "credential_revoked (fold (credential_exec hash_token ttl realms) ops d) i"
    if "credential_revoked d i" for d
    using that by (induction ops arbitrary: d) (auto intro: credential_revoked_exec)
  then show ?thesis
    using credential_revoked_rejected [OF _ assms(3)] revoke_credential_revokes [OF assms(1,2)] by blast
qed

text \<open>What an authenticated request rests on: a stored credential whose hash is the hash of
  the presented secret, neither revoked nor expired, of an enabled agent that is not archived;
  nothing but its time of last use changes.\<close>

theorem authenticate_agent_sound:
  assumes "authenticate_agent hash_token realms db now header = Inr (db', au)"
  shows "\<exists>c secret. c \<in> set (agent_credentials db) \<and> credential_hash c = hash_token secret \<and>
     credential_revoked_at c = None \<and> (\<forall>e. credential_expires_at c = Some e \<longrightarrow> now < e) \<and>
     find_agent db (credential_agent c) = Some (auth_agent au) \<and> agent_enabled (auth_agent au) \<and>
     agent_archived_at (auth_agent au) = None \<and> realm_id (auth_realm au) = credential_realm c \<and>
     db' = db\<lparr> agent_credentials := update_rows (\<lambda>x. credential_id x = credential_id c)
       (\<lambda>x. x\<lparr> credential_last_used_at := Some now \<rparr>) (agent_credentials db) \<rparr>"
  using assms
proof (rule authenticate_Inr)
  fix c secret
  assume c: "c \<in> set (agent_credentials db)" "credential_valid hash_token now secret c (auth_agent au)"
    "db' = db\<lparr> agent_credentials := update_rows (\<lambda>x. credential_id x = credential_id c)
       (\<lambda>x. x\<lparr> credential_last_used_at := Some now \<rparr>) (agent_credentials db) \<rparr>"
    and "joined_credential realms db (credential_id c) = Some (c, auth_agent au, auth_realm au)"
  then have "find_agent db (credential_agent c) = Some (auth_agent au)"
    "realm_id (auth_realm au) = credential_realm c"
    by (auto simp: joined_credential_def split: option.splits dest: find_Some_iff_in)
  with c show ?thesis
    by (intro exI [of _ c] exI [of _ secret])
      (auto simp: credential_valid_def split: option.splits)
qed

text \<open>A concrete realm and agent for the examples below.\<close>

definition sample_realm :: realm where
  "sample_realm = \<lparr> realm_id = 1, realm_name = ''r'', realm_slug = ''r'', realm_is_active = True,
     realm_created_at = 0 \<rparr>"

definition sample_agent :: "uuid \<Rightarrow> agent" where
  "sample_agent i = \<lparr> agent_id = i, agent_realm = 1, agent_name = ''a'' @ uuid_str i,
     agent_description = None, agent_enabled = True, agent_archived_at = None \<rparr>"

definition sample_credential :: "uuid \<Rightarrow> string \<Rightarrow> agent_credential" where
  "sample_credential i secret = \<lparr> credential_id = i, credential_realm = 1, credential_agent = 5,
     credential_name = ''c'', credential_hash = secret, credential_created_at = 0,
     credential_last_used_at = None, credential_expires_at = None, credential_revoked_at = None \<rparr>"

lemma partition_on_append:
  "c \<notin> set p \<Longrightarrow> partition_on c (p @ c # r) = (p, True, r)"
  by (induction p) (auto simp: partition_on_def split: list.splits)

lemma authenticate_bearer:
  assumes "i < 2 ^ 128" and "joined_credential realms db i = Some (c, a, r)"
    and "credential_valid h now secret c a"
  shows "authenticate_agent h realms db now (Some (''Bearer '' @ uuid_str i @ ''.'' @ secret)) =
    Inr (db\<lparr> agent_credentials := update_rows (\<lambda>x. credential_id x = credential_id c)
           (\<lambda>x. x\<lparr> credential_last_used_at := Some now \<rparr>) (agent_credentials db) \<rparr>,
         \<lparr> auth_realm = r, auth_agent = a,
           auth_credential = c\<lparr> credential_last_used_at := Some now \<rparr> \<rparr>)"
proof -
  have "partition_on (CHR ''.'') (uuid_str i @ ''.'' @ secret) = (uuid_str i, True, secret)"
    using partition_on_append [OF uuid_str_no_dot] by simp
  moreover have "partition_on (CHR '' '') (''Bearer '' @ x) = (''Bearer'', True, x)" for x
    using partition_on_append [of "CHR '' ''" "''Bearer''" x] by simp
  moreover have "lower ''Bearer'' = ''bearer''" by code_simp
  ultimately show ?thesis
    using assms by (simp add: authenticate_agent_def parse_uuid_str)
qed

text \<open>C26: the credential an enrolment returns authenticates its agent: presented as a bearer
  token at any later time, in the database the enrolment left, it is accepted and identifies
  the enrolled agent and realm.\<close>

theorem enrolled_credential_authenticates:
  assumes "unique_ids db" and "new_id < 2 ^ 128"
    and "exchange_enrolment_token hash_token db (now, new_id, secret) raw = Inr (db', agt, cred, shown)"
    and "find (\<lambda>r. realm_id r = agent_realm agt) realms = Some rlm"
  shows "\<exists>db'' au. authenticate_agent hash_token realms db' later (Some (''Bearer '' @ shown)) = Inr (db'', au) \<and>
     auth_agent au = agt \<and> auth_realm au = rlm \<and> credential_id (auth_credential au) = credential_id cred"
  using assms(3)
proof (rule exchange_Inr)
  fix t
  assume a: "find (\<lambda>a. agent_id a = token_agent t \<and> agent_realm a = token_realm t) (agents db) = Some agt"
    "agent_enabled agt" "agent_archived_at agt = None"
    and c: "cred = \<lparr> credential_id = new_id, credential_realm = token_realm t,
           credential_agent = token_agent t, credential_name = ''Enrolled '' @ uuid_str new_id,
           credential_hash = hash_token secret, credential_created_at = now,
           credential_last_used_at = None, credential_expires_at = None,
           credential_revoked_at = None \<rparr>"
    and fresh: "\<not> exists_row (\<lambda>x. credential_id x = new_id) (agent_credentials db)"
    and db': "db' = db\<lparr> agent_credentials := agent_credentials db @ [cred],
               agent_enrolment_tokens := update_rows (\<lambda>x. token_id x = token_id t)
                 (\<lambda>x. x\<lparr> token_consumed_at := Some now \<rparr>) (agent_enrolment_tokens db) \<rparr>"
    and shown: "shown = uuid_str new_id @ ''.'' @ secret"
  have agt: "agt \<in> set (agents db)" "agent_id agt = token_agent t" "agent_realm agt = token_realm t"
    using a(1) by (auto dest: find_Some_iff_in)
  have "find (\<lambda>x. credential_id x = new_id) (agent_credentials db) = None"
    using fresh by (simp add: find_None_iff_all exists_row_iff)
  then have "find (\<lambda>x. credential_id x = new_id) (agent_credentials db') = Some cred"
    by (simp add: db' find_append c)
  moreover have "find_agent db' (token_agent t) = Some agt"
    using agt find_agent_iff [OF assms(1)] by (simp add: find_agent_def db')
  ultimately have j: "joined_credential realms db' new_id = Some (cred, agt, rlm)"
    using assms(4) agt(3) by (simp add: joined_credential_def c)
  have "credential_valid hash_token later secret cred agt"
    using a(2,3) by (simp add: credential_valid_def c)
  then show ?thesis
    unfolding shown using authenticate_bearer [OF assms(2) j] by simp
qed

lemma sample_credential_joined:
  "joined_credential [sample_realm] (empty_db\<lparr> agents := [sample_agent 5], agent_credentials :=
     [sample_credential 8 ''s8''] \<rparr>) 8 = Some (sample_credential 8 ''s8'', sample_agent 5, sample_realm)"
  "joined_credential [sample_realm] (empty_db\<lparr> agents := [sample_agent 5], agent_credentials :=
     [sample_credential 7 ''s7''\<lparr> credential_revoked_at := Some 3 \<rparr>, sample_credential 8 ''s8''] \<rparr>) 8 =
     Some (sample_credential 8 ''s8'', sample_agent 5, sample_realm)"
  "credential_valid id now ''s8'' (sample_credential 8 ''s8'') (sample_agent 5)"
  by (simp_all add: joined_credential_def sample_realm_def sample_agent_def sample_credential_def
      find_agent_def credential_valid_def)

theorem revoked_credential_never_authenticates_witness:
  "\<exists>db' db'' au. revoke_credential (empty_db\<lparr> agents := [sample_agent 5], agent_credentials :=
       [sample_credential 7 ''s7'', sample_credential 8 ''s8''] \<rparr>) 3 sample_realm 7 = (db', True) \<and>
     authenticate_agent id [sample_realm] db' 9 (Some (''Bearer '' @ uuid_str 8 @ ''.'' @ ''s8'')) =
       Inr (db'', au) \<and> credential_id (auth_credential au) \<noteq> 7"
proof -
  let ?db = "empty_db\<lparr> agents := [sample_agent 5], agent_credentials :=
       [sample_credential 7 ''s7'', sample_credential 8 ''s8''] \<rparr>"
  let ?db' = "empty_db\<lparr> agents := [sample_agent 5], agent_credentials :=
       [sample_credential 7 ''s7''\<lparr> credential_revoked_at := Some 3 \<rparr>, sample_credential 8 ''s8''] \<rparr>"
  have d: "distinct (map credential_id (agent_credentials ?db))"
    by (simp add: sample_credential_def)
  have r: "revoke_credential ?db 3 sample_realm 7 = (?db', True)"
    by (simp add: revoke_credential_def sample_credential_def sample_realm_def update_rows_def
        exists_row_def)
  obtain db'' au where x: "authenticate_agent id [sample_realm] (fold (credential_exec id 30 [sample_realm]) [] ?db') 9
      (Some (''Bearer '' @ uuid_str 8 @ ''.'' @ ''s8'')) = Inr (db'', au)"
    using authenticate_bearer [OF _ sample_credential_joined(2,3)] by auto
  show ?thesis
    using r x revoked_credential_never_authenticates [OF d r x] by auto
qed

theorem authenticate_agent_sound_witness:
  "\<exists>db' au. authenticate_agent id [sample_realm] (empty_db\<lparr> agents := [sample_agent 5],
       agent_credentials := [sample_credential 8 ''s8''] \<rparr>) 9
       (Some (''Bearer '' @ uuid_str 8 @ ''.'' @ ''s8'')) = Inr (db', au) \<and>
     agent_enabled (auth_agent au) \<and> agent_archived_at (auth_agent au) = None"
proof -
  obtain db' au where x: "authenticate_agent id [sample_realm] (empty_db\<lparr> agents := [sample_agent 5],
       agent_credentials := [sample_credential 8 ''s8''] \<rparr>) 9
       (Some (''Bearer '' @ uuid_str 8 @ ''.'' @ ''s8'')) = Inr (db', au)"
    using authenticate_bearer [OF _ sample_credential_joined(1,3)] by auto
  show ?thesis
    using x authenticate_agent_sound [OF x] by auto
qed

definition sample_token :: "uuid \<Rightarrow> string \<Rightarrow> agent_enrolment_token" where
  "sample_token i h = \<lparr> token_id = i, token_realm = 1, token_agent = 5, token_hash = h,
     token_expires_at = 100, token_consumed_at = None, token_revoked_at = None \<rparr>"

theorem enrolled_credential_authenticates_witness:
  "\<exists>db' agt cred shown db'' au.
     exchange_enrolment_token id (empty_db\<lparr> agents := [sample_agent 5],
       agent_enrolment_tokens := [sample_token 3 ''raw''] \<rparr>) (10, 8, ''s8'') ''raw'' =
       Inr (db', agt, cred, shown) \<and>
     authenticate_agent id [sample_realm] db' 20 (Some (''Bearer '' @ shown)) = Inr (db'', au) \<and>
     auth_agent au = agt \<and> credential_id (auth_credential au) = credential_id cred"
proof -
  let ?db = "empty_db\<lparr> agents := [sample_agent 5], agent_enrolment_tokens := [sample_token 3 ''raw''] \<rparr>"
  have u: "unique_ids ?db" by (simp add: unique_ids_def empty_db_def)
  obtain db' cred shown where
    x: "exchange_enrolment_token id ?db (10, 8, ''s8'') ''raw'' = Inr (db', sample_agent 5, cred, shown)"
    by (simp add: exchange_enrolment_token_def sample_token_def sample_agent_def Let_def
        exists_row_def empty_db_def)
  have "find (\<lambda>r. realm_id r = agent_realm (sample_agent 5)) [sample_realm] = Some sample_realm"
    by (simp add: sample_realm_def sample_agent_def)
  from enrolled_credential_authenticates [OF u _ x this, of 20] x show ?thesis by auto
qed

end
