(* ===== verification/Hierarchy.thy ===== *)
theory Hierarchy
  imports Models
begin

text \<open>
  Group hierarchies: \<^verbatim>\<open>_assert_agent_group_parent\<close>, \<^verbatim>\<open>move_agent_group\<close> and their target
  twins of \<^verbatim>\<open>monitoring/domain.py\<close>. The locale \<open>group_hierarchy\<close> states what both copies of the
  ancestor walk promise and proves once that an accepted move closes no cycle; it is
  interpreted on the agent groups and on the target groups.
\<close>

section \<open>Errors of the monitoring domain\<close>

datatype domain_error =
    MonitoringDomainError string
  | RealmBoundaryError string
  | HierarchyError string
  | ResourceStateError string
  | IntegrityError
  | ConfigurationRejected configuration_error

definition MAX_GROUP_DEPTH :: nat where
  "MAX_GROUP_DEPTH = 64"

section \<open>Agent groups\<close>

fun walk_agent_groups ::
  "nat \<Rightarrow> agent_group list \<Rightarrow> agent_group \<Rightarrow> agent_group option \<Rightarrow> domain_error + unit" where
  "walk_agent_groups 0 gs grp current =
     Inl (HierarchyError ''Agent group hierarchy exceeds 64 levels'')"
| "walk_agent_groups (Suc n) gs grp current = (case current of
      None \<Rightarrow> Inr ()
    | Some c \<Rightarrow> (case agent_group_parent c of
        None \<Rightarrow> Inr ()
      | Some p \<Rightarrow>
          if p = agent_group_id grp
          then Inl (HierarchyError ''A group cannot be moved below one of its descendants'')
          else walk_agent_groups n gs grp (find (\<lambda>g. agent_group_id g = p \<and>
                 agent_group_realm g = agent_group_realm grp) gs)))"

definition assert_agent_group_parent ::
  "agent_group list \<Rightarrow> agent_group \<Rightarrow> agent_group option \<Rightarrow> domain_error + unit" where
  "assert_agent_group_parent gs grp parent = (case parent of
      None \<Rightarrow> Inr ()
    | Some p \<Rightarrow>
        bind_result (raise_if (agent_group_realm p \<noteq> agent_group_realm grp)
          (RealmBoundaryError ''A grp parent must belong to the same realm'')) (\<lambda>_.
        bind_result (raise_if (agent_group_archived_at grp \<noteq> None \<or> agent_group_archived_at p \<noteq> None)
          (ResourceStateError ''Archived resources cannot be changed or assigned'')) (\<lambda>_.
        bind_result (raise_if (agent_group_id p = agent_group_id grp)
          (HierarchyError ''A group cannot be its own parent'')) (\<lambda>_.
        walk_agent_groups MAX_GROUP_DEPTH gs grp (Some p)))))"

text \<open>
  The update is rejected by the index \<^verbatim>\<open>agentgroup_realm_parent_name_uniq\<close> when the new parent
  already has another child of that name.
\<close>

definition move_agent_group ::
  "monitoring_db \<Rightarrow> agent_group \<Rightarrow> agent_group option \<Rightarrow> domain_error + monitoring_db" where
  "move_agent_group db grp parent =
     bind_result (assert_agent_group_parent (agent_groups db) grp parent) (\<lambda>_.
     let p = map_option agent_group_id parent in
     bind_result (raise_if (exists_row (\<lambda>g. agent_group_id g \<noteq> agent_group_id grp \<and>
         agent_group_realm g = agent_group_realm grp \<and> agent_group_parent g = p \<and>
         agent_group_name g = agent_group_name grp) (agent_groups db)) IntegrityError) (\<lambda>_.
     Inr (db\<lparr> agent_groups := update_rows (\<lambda>g. agent_group_id g = agent_group_id grp)
            (\<lambda>g. g\<lparr> agent_group_parent := p \<rparr>) (agent_groups db) \<rparr>)))"

section \<open>Target groups\<close>

fun walk_target_groups ::
  "nat \<Rightarrow> target_group list \<Rightarrow> target_group \<Rightarrow> target_group option \<Rightarrow> domain_error + unit" where
  "walk_target_groups 0 gs grp current =
     Inl (HierarchyError ''Target group hierarchy exceeds 64 levels'')"
| "walk_target_groups (Suc n) gs grp current = (case current of
      None \<Rightarrow> Inr ()
    | Some c \<Rightarrow> (case target_group_parent c of
        None \<Rightarrow> Inr ()
      | Some p \<Rightarrow>
          if p = target_group_id grp
          then Inl (HierarchyError ''A group cannot be moved below one of its descendants'')
          else walk_target_groups n gs grp (find (\<lambda>g. target_group_id g = p \<and>
                 target_group_realm g = target_group_realm grp) gs)))"

definition assert_target_group_parent ::
  "target_group list \<Rightarrow> target_group \<Rightarrow> target_group option \<Rightarrow> domain_error + unit" where
  "assert_target_group_parent gs grp parent = (case parent of
      None \<Rightarrow> Inr ()
    | Some p \<Rightarrow>
        bind_result (raise_if (target_group_realm p \<noteq> target_group_realm grp)
          (RealmBoundaryError ''A grp parent must belong to the same realm'')) (\<lambda>_.
        bind_result (raise_if (target_group_archived_at grp \<noteq> None \<or> target_group_archived_at p \<noteq> None)
          (ResourceStateError ''Archived resources cannot be changed or assigned'')) (\<lambda>_.
        bind_result (raise_if (target_group_id p = target_group_id grp)
          (HierarchyError ''A group cannot be its own parent'')) (\<lambda>_.
        walk_target_groups MAX_GROUP_DEPTH gs grp (Some p)))))"

definition move_target_group ::
  "monitoring_db \<Rightarrow> target_group \<Rightarrow> target_group option \<Rightarrow> domain_error + monitoring_db" where
  "move_target_group db grp parent =
     bind_result (assert_target_group_parent (target_groups db) grp parent) (\<lambda>_.
     let p = map_option target_group_id parent in
     bind_result (raise_if (exists_row (\<lambda>g. target_group_id g \<noteq> target_group_id grp \<and>
         target_group_realm g = target_group_realm grp \<and> target_group_parent g = p \<and>
         target_group_name g = target_group_name grp) (target_groups db)) IntegrityError) (\<lambda>_.
     Inr (db\<lparr> target_groups := update_rows (\<lambda>g. target_group_id g = target_group_id grp)
            (\<lambda>g. g\<lparr> target_group_parent := p \<rparr>) (target_groups db) \<rparr>)))"

lemmas walk_at_numeral =
  walk_agent_groups.simps(2) [of "pred_numeral k" for k, folded numeral_eq_Suc]
  walk_target_groups.simps(2) [of "pred_numeral k" for k, folded numeral_eq_Suc]

section \<open>The contract of an ancestor walk\<close>

text \<open>The edges from a group to its parent.\<close>

definition parent_edges :: "('g \<Rightarrow> uuid) \<Rightarrow> ('g \<Rightarrow> uuid option) \<Rightarrow> 'g list \<Rightarrow> (uuid \<times> uuid) set" where
  "parent_edges gid gparent gs = {(gid g, p) | g p. g \<in> set gs \<and> gparent g = Some p}"

lemma parent_edges_simps [simp]:
  "parent_edges gid gparent [] = {}"
  "parent_edges gid gparent (g # gs) =
     (case gparent g of None \<Rightarrow> {} | Some p \<Rightarrow> {(gid g, p)}) \<union> parent_edges gid gparent gs"
  by (auto simp: parent_edges_def split: option.splits)

text \<open>Every parent is a group of the same realm.\<close>

definition parents_coherent ::
  "('g \<Rightarrow> uuid) \<Rightarrow> ('g \<Rightarrow> uuid) \<Rightarrow> ('g \<Rightarrow> uuid option) \<Rightarrow> 'g list \<Rightarrow> bool" where
  "parents_coherent gid grealm gparent gs \<longleftrightarrow> (\<forall>g \<in> set gs. \<forall>p. gparent g = Some p \<longrightarrow>
     (\<exists>q \<in> set gs. gid q = p \<and> grealm q = grealm g))"

locale group_hierarchy =
  fixes gid :: "'g \<Rightarrow> uuid"
    and grealm :: "'g \<Rightarrow> uuid"
    and gparent :: "'g \<Rightarrow> uuid option"
    and set_parent :: "uuid option \<Rightarrow> 'g \<Rightarrow> 'g"
    and walk :: "nat \<Rightarrow> 'g list \<Rightarrow> 'g \<Rightarrow> 'g option \<Rightarrow> domain_error + unit"
    and assert_parent :: "'g list \<Rightarrow> 'g \<Rightarrow> 'g option \<Rightarrow> domain_error + unit"
  assumes gid_set_parent: "gid (set_parent pr g) = gid g"
    and grealm_set_parent: "grealm (set_parent pr g) = grealm g"
    and gparent_set_parent: "gparent (set_parent pr g) = pr"
    and walk_zero: "walk 0 gs g current \<noteq> Inr ()"
    and walk_parent: "walk (Suc n) gs g (Some c) = Inr () \<Longrightarrow> gparent c = Some p \<Longrightarrow>
      p \<noteq> gid g \<and> walk n gs g (find (\<lambda>x. gid x = p \<and> grealm x = grealm g) gs) = Inr ()"
    and assert_parent_Inr: "assert_parent gs g (Some c) = Inr () \<Longrightarrow>
      grealm c = grealm g \<and> gid c \<noteq> gid g \<and> walk MAX_GROUP_DEPTH gs g (Some c) = Inr ()"
begin

text \<open>A walk that succeeds visits every ancestor, so the group is not among them.\<close>

lemma walk_no_path:
  assumes "distinct (map gid gs)" and "parents_coherent gid grealm gparent gs"
    and "walk n gs g (Some c) = Inr ()" and "c \<in> set gs" and "grealm c = grealm g"
    and "gid c \<noteq> gid g"
  shows "(gid c, gid g) \<notin> (parent_edges gid gparent gs)\<^sup>*"
  using assms(3-6)
proof (induction n arbitrary: c)
  case 0
  then show ?case by (simp add: walk_zero)
next
  case (Suc n)
  show ?case
  proof
    assume "(gid c, gid g) \<in> (parent_edges gid gparent gs)\<^sup>*"
    then obtain p where p: "(gid c, p) \<in> parent_edges gid gparent gs"
      "(p, gid g) \<in> (parent_edges gid gparent gs)\<^sup>*"
      using Suc.prems(4) by (meson converse_rtranclE)
    then obtain c' where "c' \<in> set gs" "gid c' = gid c" "gparent c' = Some p"
      by (auto simp: parent_edges_def)
    then have cp: "gparent c = Some p"
      using distinct_key_inj [OF assms(1)] Suc.prems(2) by blast
    note next_step = walk_parent [OF Suc.prems(1) cp]
    obtain q where "q \<in> set gs" "gid q = p" "grealm q = grealm g"
      using assms(2) Suc.prems(2,3) cp unfolding parents_coherent_def by metis
    then obtain q' where q': "find (\<lambda>x. gid x = p \<and> grealm x = grealm g) gs = Some q'"
      by (metis (mono_tags, lifting) find_None_iff_all not_None_eq)
    then have "q' \<in> set gs" "gid q' = p" "grealm q' = grealm g"
      by (auto dest: find_Some_iff_in)
    with Suc.IH [of q'] next_step q' p(2) show False by auto
  qed
qed

lemma parent_edges_reparent:
  assumes "distinct (map gid gs)"
  shows "parent_edges gid gparent (update_rows (\<lambda>x. gid x = gid g) (set_parent (map_option gid pr)) gs)
    \<subseteq> parent_edges gid gparent gs \<union> (case pr of None \<Rightarrow> {} | Some p \<Rightarrow> {(gid g, gid p)})"
  by (cases pr) (auto simp: parent_edges_def update_rows_def gid_set_parent gparent_set_parent
      split: if_splits)

theorem reparent_acyclic:
  assumes "distinct (map gid gs)" and "parents_coherent gid grealm gparent gs"
    and "acyclic (parent_edges gid gparent gs)"
    and "\<forall>p. pr = Some p \<longrightarrow> p \<in> set gs" and "assert_parent gs g pr = Inr ()"
  shows "acyclic (parent_edges gid gparent
     (update_rows (\<lambda>x. gid x = gid g) (set_parent (map_option gid pr)) gs))"
proof (cases pr)
  case None
  then show ?thesis
    using assms(3) parent_edges_reparent [OF assms(1), of g None] by (auto intro: acyclic_subset)
next
  case (Some p)
  with assms(4,5) have p: "p \<in> set gs" "grealm p = grealm g" "gid p \<noteq> gid g"
    "walk MAX_GROUP_DEPTH gs g (Some p) = Inr ()"
    using assert_parent_Inr by auto
  have "(gid p, gid g) \<notin> (parent_edges gid gparent gs)\<^sup>*"
    using walk_no_path [OF assms(1,2) p(4,1,2,3)] .
  then have "acyclic (insert (gid g, gid p) (parent_edges gid gparent gs))"
    using assms(3) by (simp add: acyclic_insert)
  then show ?thesis
    using parent_edges_reparent [OF assms(1), of g pr] Some by (auto intro: acyclic_subset)
qed

lemma reparent_coherent:
  assumes "parents_coherent gid grealm gparent gs" and "g \<in> set gs" and "distinct (map gid gs)"
    and "\<forall>p. pr = Some p \<longrightarrow> p \<in> set gs" and "assert_parent gs g pr = Inr ()"
  shows "parents_coherent gid grealm gparent
     (update_rows (\<lambda>x. gid x = gid g) (set_parent (map_option gid pr)) gs)"
    (is "parents_coherent _ _ _ ?gs'")
  unfolding parents_coherent_def
proof (intro ballI allI impI)
  have keep: "\<exists>q' \<in> set ?gs'. gid q' = gid q \<and> grealm q' = grealm q" if "q \<in> set gs" for q
    using that
    by (intro bexI [of _ "if gid q = gid g then set_parent (map_option gid pr) q else q"])
      (auto simp: update_rows_def gid_set_parent grealm_set_parent)
  fix x p assume x: "x \<in> set ?gs'" "gparent x = Some p"
  show "\<exists>q \<in> set ?gs'. gid q = p \<and> grealm q = grealm x"
  proof (cases "gid x = gid g")
    case True
    then obtain y where "y \<in> set gs" "gid y = gid g" "x = set_parent (map_option gid pr) y"
      using x(1) by (auto simp: set_update_rows gid_set_parent)
    moreover from this have "y = g" using distinct_key_inj [OF assms(3)] assms(2) by blast
    ultimately obtain c where "pr = Some c" "gid c = p" "grealm x = grealm g"
      using x(2) by (auto simp: gparent_set_parent grealm_set_parent)
    then show ?thesis
      using keep [of c] assms(4,5) assert_parent_Inr [of gs g c] by auto
  next
    case False
    then have "x \<in> set gs" using x(1) by (auto simp: set_update_rows gid_set_parent)
    then obtain q where "q \<in> set gs" "gid q = p" "grealm q = grealm x"
      using assms(1) x(2) unfolding parents_coherent_def by blast
    then show ?thesis using keep [of q] by auto
  qed
qed

end

interpretation agent_hierarchy: group_hierarchy agent_group_id agent_group_realm
  agent_group_parent "\<lambda>p g. g\<lparr> agent_group_parent := p \<rparr>" walk_agent_groups
  assert_agent_group_parent
  by unfold_locales (auto simp: assert_agent_group_parent_def split: if_splits)

interpretation target_hierarchy: group_hierarchy target_group_id target_group_realm
  target_group_parent "\<lambda>p g. g\<lparr> target_group_parent := p \<rparr>" walk_target_groups
  assert_target_group_parent
  by unfold_locales (auto simp: assert_target_group_parent_def split: if_splits)

section \<open>Moves keep the hierarchy\<close>

abbreviation agent_group_edges :: "monitoring_db \<Rightarrow> (uuid \<times> uuid) set" where
  "agent_group_edges db \<equiv> parent_edges agent_group_id agent_group_parent (agent_groups db)"

abbreviation target_group_edges :: "monitoring_db \<Rightarrow> (uuid \<times> uuid) set" where
  "target_group_edges db \<equiv> parent_edges target_group_id target_group_parent (target_groups db)"

lemma wf_agent_parents:
  "wf_db db \<Longrightarrow> distinct (map agent_group_id (agent_groups db)) \<and>
     parents_coherent agent_group_id agent_group_realm agent_group_parent (agent_groups db)"
  by (simp add: wf_db_def unique_ids_def realm_coherent_def parents_coherent_def in_realm_group_def)

lemma wf_target_parents:
  "wf_db db \<Longrightarrow> distinct (map target_group_id (target_groups db)) \<and>
     parents_coherent target_group_id target_group_realm target_group_parent (target_groups db)"
  by (simp add: wf_db_def unique_ids_def realm_coherent_def parents_coherent_def
      in_realm_target_group_def)

lemma move_agent_group_Inr:
  assumes "move_agent_group db g pr = Inr db'"
  shows "assert_agent_group_parent (agent_groups db) g pr = Inr () \<and>
    db' = db\<lparr> agent_groups := update_rows (\<lambda>x. agent_group_id x = agent_group_id g)
      (\<lambda>x. x\<lparr> agent_group_parent := map_option agent_group_id pr \<rparr>) (agent_groups db) \<rparr>"
  using assms by (simp add: move_agent_group_def Let_def)

lemma move_target_group_Inr:
  assumes "move_target_group db g pr = Inr db'"
  shows "assert_target_group_parent (target_groups db) g pr = Inr () \<and>
    db' = db\<lparr> target_groups := update_rows (\<lambda>x. target_group_id x = target_group_id g)
      (\<lambda>x. x\<lparr> target_group_parent := map_option target_group_id pr \<rparr>) (target_groups db) \<rparr>"
  using assms by (simp add: move_target_group_def Let_def)

text \<open>C27: moving an agent group keeps the hierarchy a forest inside one realm: if the parent
  links had no cycle and stayed within realms, they still do afterwards.\<close>

theorem move_agent_group_keeps_forest:
  assumes "wf_db db" and "acyclic (agent_group_edges db)" and "g \<in> set (agent_groups db)"
    and "\<forall>p. pr = Some p \<longrightarrow> p \<in> set (agent_groups db)" and "move_agent_group db g pr = Inr db'"
  shows "acyclic (agent_group_edges db') \<and>
    parents_coherent agent_group_id agent_group_realm agent_group_parent (agent_groups db')"
  using move_agent_group_Inr [OF assms(5)] wf_agent_parents [OF assms(1)] assms(2-4)
    agent_hierarchy.reparent_acyclic [of "agent_groups db" pr g]
    agent_hierarchy.reparent_coherent [of "agent_groups db" g pr] by simp

definition sample_agent_group :: "uuid \<Rightarrow> uuid option \<Rightarrow> string \<Rightarrow> agent_group" where
  "sample_agent_group i p n = \<lparr> agent_group_id = i, agent_group_realm = 1, agent_group_parent = p,
     agent_group_name = n, agent_group_description = None, agent_group_enabled = True,
     agent_group_archived_at = None \<rparr>"

theorem move_agent_group_keeps_forest_witness:
  "\<exists>db'. move_agent_group (empty_db\<lparr> agent_groups := [sample_agent_group 1 None ''a'',
        sample_agent_group 2 (Some 1) ''b'', sample_agent_group 3 None ''c''] \<rparr>)
      (sample_agent_group 2 (Some 1) ''b'') (Some (sample_agent_group 3 None ''c'')) = Inr db' \<and>
    agent_group_edges db' = {(2, 3)} \<and> acyclic (agent_group_edges db')"
proof -
  let ?db = "empty_db\<lparr> agent_groups := [sample_agent_group 1 None ''a'',
        sample_agent_group 2 (Some 1) ''b'', sample_agent_group 3 None ''c''] \<rparr>"
  let ?db' = "empty_db\<lparr> agent_groups := [sample_agent_group 1 None ''a'',
        sample_agent_group 2 (Some 3) ''b'', sample_agent_group 3 None ''c''] \<rparr>"
  have m: "move_agent_group ?db (sample_agent_group 2 (Some 1) ''b'')
      (Some (sample_agent_group 3 None ''c'')) = Inr ?db'"
    by (simp add: move_agent_group_def assert_agent_group_parent_def MAX_GROUP_DEPTH_def walk_at_numeral
        sample_agent_group_def exists_row_def update_rows_def)
  have e: "agent_group_edges ?db = {(2, 1)}" "agent_group_edges ?db' = {(2, 3)}"
    by (simp_all add: sample_agent_group_def)
  have "wf_db ?db"
    by (simp add: wf_db_def unique_ids_def realm_coherent_def in_realm_group_def empty_db_def
        sample_agent_group_def)
  moreover have "acyclic (agent_group_edges ?db)"
    unfolding e by (simp add: acyclic_insert wf_acyclic)
  ultimately show ?thesis
    using m e move_agent_group_keeps_forest [OF _ _ _ _ m] by auto
qed

text \<open>The same for target groups.\<close>

theorem move_target_group_keeps_forest:
  assumes "wf_db db" and "acyclic (target_group_edges db)" and "g \<in> set (target_groups db)"
    and "\<forall>p. pr = Some p \<longrightarrow> p \<in> set (target_groups db)" and "move_target_group db g pr = Inr db'"
  shows "acyclic (target_group_edges db') \<and>
    parents_coherent target_group_id target_group_realm target_group_parent (target_groups db')"
  using move_target_group_Inr [OF assms(5)] wf_target_parents [OF assms(1)] assms(2-4)
    target_hierarchy.reparent_acyclic [of "target_groups db" pr g]
    target_hierarchy.reparent_coherent [of "target_groups db" g pr] by simp

theorem move_target_group_keeps_forest_witness:
  "acyclic (target_group_edges (empty_db\<lparr> target_groups := [] \<rparr>)) \<and>
   (\<exists>db'. move_target_group (empty_db\<lparr> target_groups := [
        \<lparr> target_group_id = 1, target_group_realm = 1, target_group_parent = None,
          target_group_name = ''a'', target_group_description = None, target_group_archived_at = None \<rparr>,
        \<lparr> target_group_id = 2, target_group_realm = 1, target_group_parent = None,
          target_group_name = ''b'', target_group_description = None, target_group_archived_at = None \<rparr>] \<rparr>)
      \<lparr> target_group_id = 2, target_group_realm = 1, target_group_parent = None,
          target_group_name = ''b'', target_group_description = None, target_group_archived_at = None \<rparr>
      (Some \<lparr> target_group_id = 1, target_group_realm = 1, target_group_parent = None,
          target_group_name = ''a'', target_group_description = None, target_group_archived_at = None \<rparr>) = Inr db' \<and>
    acyclic (target_group_edges db'))"
proof -
  let ?g = "\<lambda>i p n. \<lparr> target_group_id = i, target_group_realm = 1, target_group_parent = p,
          target_group_name = n, target_group_description = None, target_group_archived_at = None \<rparr>"
  let ?db = "empty_db\<lparr> target_groups := [?g 1 None ''a'', ?g 2 None ''b''] \<rparr>"
  have m: "move_target_group ?db (?g 2 None ''b'') (Some (?g 1 None ''a'')) =
      Inr (empty_db\<lparr> target_groups := [?g 1 None ''a'', ?g 2 (Some 1) ''b''] \<rparr>)"
    by (simp add: move_target_group_def assert_target_group_parent_def MAX_GROUP_DEPTH_def walk_at_numeral
        exists_row_def update_rows_def)
  have e: "target_group_edges ?db = {}" "target_group_edges (empty_db\<lparr> target_groups := [] \<rparr>) = {}"
    by simp_all
  have wf: "wf_db ?db"
    by (simp add: wf_db_def unique_ids_def realm_coherent_def in_realm_target_group_def empty_db_def)
  have "acyclic (target_group_edges (empty_db\<lparr> target_groups := [?g 1 None ''a'', ?g 2 (Some 1) ''b''] \<rparr>))"
    using move_target_group_keeps_forest [OF wf _ _ _ m] unfolding e by (simp add: wf_acyclic)
  then show ?thesis using m unfolding e by (simp add: wf_acyclic)
qed

end
