(* ===== verification/Domain.thy ===== *)
theory Domain
  imports Hierarchy
begin

text \<open>
  The monitoring domain operations of \<^verbatim>\<open>monitoring/domain.py\<close>: monitors, memberships,
  assignments, archiving, and the bumping of the desired configuration revision of every
  agent an operation affects. Each operation takes the rows its caller has loaded, in the
  order of the source's parameters, and returns the changed database with its result, or
  the error it raises. A new row's identifier is an argument; one already in use violates the
  primary key.
\<close>

section \<open>Guards\<close>

definition require_same_realm :: "realm \<Rightarrow> uuid list \<Rightarrow> domain_error + unit" where
  "require_same_realm rlm resource_realms = raise_if (list_ex (\<lambda>r. r \<noteq> realm_id rlm) resource_realms)
     (RealmBoundaryError ''All related resources must belong to the active realm'')"

definition require_active :: "datetime option list \<Rightarrow> domain_error + unit" where
  "require_active archived = raise_if (list_ex (\<lambda>x. x \<noteq> None) archived)
     (ResourceStateError ''Archived resources cannot be changed or assigned'')"

definition validate_schedule :: "int \<Rightarrow> int \<Rightarrow> domain_error + unit" where
  "validate_schedule interval timeout =
     bind_result (raise_if (interval < 1)
       (MonitoringDomainError ''Monitor interval must be at least one second'')) (\<lambda>_.
     raise_if (timeout < 1 \<or> timeout \<ge> interval)
       (MonitoringDomainError ''Monitor timeout must be positive and shorter than its interval''))"

lemma require_same_realm_Inr [simp]:
  "require_same_realm rlm rs = Inr u \<longleftrightarrow> (\<forall>r \<in> set rs. r = realm_id rlm)"
  by (auto simp: require_same_realm_def)

lemma require_active_Inr [simp]: "require_active xs = Inr u \<longleftrightarrow> (\<forall>x \<in> set xs. x = None)"
  by (auto simp: require_active_def)

lemma validate_schedule_Inr [simp]:
  "validate_schedule i t = Inr u \<longleftrightarrow> 1 \<le> i \<and> 1 \<le> t \<and> t < i"
  by (auto simp: validate_schedule_def)

section \<open>Desired revisions\<close>

definition new_configuration_state :: "uuid \<Rightarrow> agent_configuration_state" where
  "new_configuration_state r = \<lparr> cs_realm = r, desired_revision = 0, desired_content_hash = '''',
     acknowledged_revision = 0, acknowledged_content_hash = '''', acknowledged_at = None \<rparr>"

definition bump_state ::
  "uuid \<Rightarrow> uuid \<Rightarrow> (uuid \<rightharpoonup> agent_configuration_state) \<Rightarrow> (uuid \<rightharpoonup> agent_configuration_state)" where
  "bump_state r a states =
     (let st = (case states a of None \<Rightarrow> new_configuration_state r | Some st \<Rightarrow> st)
      in states(a \<mapsto> st\<lparr> desired_revision := desired_revision st + 1, desired_content_hash := '''' \<rparr>))"

text \<open>One iteration per distinct agent; the order is that of a Python set, here of the list.\<close>

definition bump_configuration_revisions :: "uuid list \<Rightarrow> uuid \<Rightarrow> monitoring_db \<Rightarrow> monitoring_db" where
  "bump_configuration_revisions ids r db =
     db\<lparr> agent_configuration_states := fold (bump_state r) (remdups ids) (agent_configuration_states db) \<rparr>"

section \<open>Effective assignments\<close>

definition effective_agent_ids :: "monitoring_db \<Rightarrow> monitor \<Rightarrow> uuid list" where
  "effective_agent_ids db m =
     (if monitor_archived_at m \<noteq> None \<or> \<not> monitor_enabled m then [] else
      let direct_ids = map maa_agent (filter (\<lambda>x. maa_realm x = monitor_realm m \<and>
            maa_monitor x = monitor_id m \<and> maa_enabled x \<and> agent_active db (maa_agent x))
            (monitor_agent_assignments db));
          group_ids = map mga_group (filter (\<lambda>x. mga_realm x = monitor_realm m \<and>
            mga_monitor x = monitor_id m \<and> mga_enabled x \<and> agent_group_active db (mga_group x))
            (monitor_agent_group_assignments db));
          group_agent_ids = map agm_agent (filter (\<lambda>x. agm_realm x = monitor_realm m \<and>
            agm_group x \<in> set group_ids \<and> agent_active db (agm_agent x))
            (agent_group_memberships db))
      in remdups (direct_ids @ group_agent_ids))"

section \<open>Monitors\<close>

definition create_monitor ::
  "monitoring_db \<Rightarrow> uuid \<Rightarrow> realm \<Rightarrow> target \<Rightarrow> string \<Rightarrow> probe_type \<Rightarrow> int \<Rightarrow> int \<Rightarrow>
     typed_probe_configuration \<Rightarrow> string option \<Rightarrow> domain_error + (monitoring_db \<times> monitor)" where
  "create_monitor db new_id rlm tgt name pt interval timeout configuration description =
     bind_result (require_same_realm rlm [target_realm tgt]) (\<lambda>_.
     bind_result (require_active [target_archived_at tgt]) (\<lambda>_.
     bind_result (raise_if (\<not> target_enabled tgt)
       (ResourceStateError ''Disabled targets cannot receive new monitors'')) (\<lambda>_.
     bind_result (validate_schedule interval timeout) (\<lambda>_.
     bind_result (map_error ConfigurationRejected
       (serialize_probe_configuration pt configuration (Some timeout))) (\<lambda>normalized.
     bind_result (raise_if (monitor_name_taken db (realm_id rlm) name \<or>
         exists_row (\<lambda>m. monitor_id m = new_id) (monitors db)) IntegrityError) (\<lambda>_.
     let m = \<lparr> monitor_id = new_id, monitor_realm = realm_id rlm, monitor_target = target_id tgt,
               monitor_name = name, monitor_description = description, monitor_probe_type = pt,
               interval_seconds = interval, timeout_seconds = timeout,
               monitor_configuration = normalized, monitor_enabled = True, monitor_revision = 1,
               monitor_archived_at = None \<rparr>
     in Inr (db\<lparr> monitors := monitors db @ [m] \<rparr>, m)))))))"

definition monitor_changed ::
  "monitor \<Rightarrow> target \<Rightarrow> probe_type \<Rightarrow> int \<Rightarrow> int \<Rightarrow> typed_probe_configuration \<Rightarrow> bool" where
  "monitor_changed m tgt pt interval timeout normalized \<longleftrightarrow>
     monitor_target m \<noteq> target_id tgt \<or> monitor_probe_type m \<noteq> pt \<or>
     interval_seconds m \<noteq> interval \<or> timeout_seconds m \<noteq> timeout \<or>
     monitor_configuration m \<noteq> normalized"

definition update_monitor_behavior ::
  "monitoring_db \<Rightarrow> monitor \<Rightarrow> realm \<Rightarrow> target \<Rightarrow> probe_type \<Rightarrow> int \<Rightarrow> int \<Rightarrow>
     typed_probe_configuration \<Rightarrow> domain_error + (monitoring_db \<times> monitor)" where
  "update_monitor_behavior db m rlm tgt pt interval timeout configuration =
     bind_result (require_same_realm rlm [monitor_realm m, target_realm tgt]) (\<lambda>_.
     bind_result (require_active [monitor_archived_at m, target_archived_at tgt]) (\<lambda>_.
     bind_result (raise_if (\<not> target_enabled tgt)
       (ResourceStateError ''Disabled targets cannot receive monitors'')) (\<lambda>_.
     bind_result (validate_schedule interval timeout) (\<lambda>_.
     bind_result (map_error ConfigurationRejected
       (serialize_probe_configuration pt configuration (Some timeout))) (\<lambda>normalized.
     if \<not> monitor_changed m tgt pt interval timeout normalized then Inr (db, m) else
     let m' = m\<lparr> monitor_target := target_id tgt, monitor_probe_type := pt,
                 interval_seconds := interval, timeout_seconds := timeout,
                 monitor_configuration := normalized, monitor_revision := monitor_revision m + 1 \<rparr>;
         db' = db\<lparr> monitors := update_rows (\<lambda>x. monitor_id x = monitor_id m)
           (\<lambda>x. x\<lparr> monitor_target := monitor_target m', monitor_probe_type := monitor_probe_type m',
              interval_seconds := interval_seconds m', timeout_seconds := timeout_seconds m',
              monitor_configuration := monitor_configuration m',
              monitor_revision := monitor_revision m' \<rparr>) (monitors db) \<rparr>
     in Inr (bump_configuration_revisions (effective_agent_ids db' m') (realm_id rlm) db', m'))))))"

section \<open>Memberships\<close>

definition add_agent_to_group ::
  "monitoring_db \<Rightarrow> realm \<Rightarrow> agent_group \<Rightarrow> agent \<Rightarrow>
     domain_error + (monitoring_db \<times> agent_group_membership)" where
  "add_agent_to_group db rlm grp agt =
     bind_result (require_same_realm rlm [agent_group_realm grp, agent_realm agt]) (\<lambda>_.
     bind_result (require_active [agent_group_archived_at grp, agent_archived_at agt]) (\<lambda>_.
     (case find (\<lambda>x. agm_realm x = realm_id rlm \<and> agm_group x = agent_group_id grp \<and>
             agm_agent x = agent_id agt) (agent_group_memberships db) of
        Some membership \<Rightarrow> Inr (db, membership)
      | None \<Rightarrow>
         let membership = \<lparr> agm_realm = realm_id rlm, agm_group = agent_group_id grp,
                            agm_agent = agent_id agt \<rparr>;
             db' = db\<lparr> agent_group_memberships := agent_group_memberships db @ [membership] \<rparr>;
             monitor_ids = filter (\<lambda>x. mga_realm x = realm_id rlm \<and> mga_group x = agent_group_id grp \<and>
               mga_enabled x) (monitor_agent_group_assignments db')
         in Inr (if monitor_ids \<noteq> [] then bump_configuration_revisions [agent_id agt] (realm_id rlm) db'
                 else db', membership))))"

definition add_target_to_group ::
  "monitoring_db \<Rightarrow> realm \<Rightarrow> target_group \<Rightarrow> target \<Rightarrow>
     domain_error + (monitoring_db \<times> target_group_membership)" where
  "add_target_to_group db rlm grp tgt =
     bind_result (require_same_realm rlm [target_group_realm grp, target_realm tgt]) (\<lambda>_.
     bind_result (require_active [target_group_archived_at grp, target_archived_at tgt]) (\<lambda>_.
     (case find (\<lambda>x. tgm_realm x = realm_id rlm \<and> tgm_group x = target_group_id grp \<and>
             tgm_target x = target_id tgt) (target_group_memberships db) of
        Some membership \<Rightarrow> Inr (db, membership)
      | None \<Rightarrow>
         let membership = \<lparr> tgm_realm = realm_id rlm, tgm_group = target_group_id grp,
                            tgm_target = target_id tgt \<rparr>
         in Inr (db\<lparr> target_group_memberships := target_group_memberships db @ [membership] \<rparr>,
                 membership))))"

definition remove_agent_from_group ::
  "monitoring_db \<Rightarrow> realm \<Rightarrow> agent_group \<Rightarrow> agent \<Rightarrow> domain_error + (monitoring_db \<times> bool)" where
  "remove_agent_from_group db rlm grp agt =
     bind_result (require_same_realm rlm [agent_group_realm grp, agent_realm agt]) (\<lambda>_.
     let hit = (\<lambda>x. agm_realm x = realm_id rlm \<and> agm_group x = agent_group_id grp \<and>
                  agm_agent x = agent_id agt);
         deleted = exists_row hit (agent_group_memberships db);
         db' = db\<lparr> agent_group_memberships := delete_rows hit (agent_group_memberships db) \<rparr>;
         has_assignments = exists_row (\<lambda>x. mga_realm x = realm_id rlm \<and>
           mga_group x = agent_group_id grp \<and> mga_enabled x) (monitor_agent_group_assignments db')
     in Inr (if deleted \<and> has_assignments
             then bump_configuration_revisions [agent_id agt] (realm_id rlm) db' else db', deleted))"

section \<open>Assignments\<close>

definition assign_monitor_to_agent ::
  "monitoring_db \<Rightarrow> realm \<Rightarrow> monitor \<Rightarrow> agent \<Rightarrow>
     domain_error + (monitoring_db \<times> monitor_agent_assignment)" where
  "assign_monitor_to_agent db rlm m agt =
     bind_result (require_same_realm rlm [monitor_realm m, agent_realm agt]) (\<lambda>_.
     bind_result (require_active [monitor_archived_at m, agent_archived_at agt]) (\<lambda>_.
     bind_result (raise_if (\<not> monitor_enabled m \<or> \<not> agent_enabled agt)
       (ResourceStateError ''Disabled resources cannot receive new assignments'')) (\<lambda>_.
     let hit = (\<lambda>x. maa_realm x = realm_id rlm \<and> maa_monitor x = monitor_id m \<and>
                  maa_agent x = agent_id agt);
         assignment = \<lparr> maa_realm = realm_id rlm, maa_monitor = monitor_id m,
                        maa_agent = agent_id agt, maa_enabled = True \<rparr>
     in (case find hit (monitor_agent_assignments db) of
        None \<Rightarrow> Inr (bump_configuration_revisions [agent_id agt] (realm_id rlm)
          (db\<lparr> monitor_agent_assignments := monitor_agent_assignments db @ [assignment] \<rparr>), assignment)
      | Some old \<Rightarrow>
         if maa_enabled old then Inr (db, old)
         else Inr (bump_configuration_revisions [agent_id agt] (realm_id rlm)
           (db\<lparr> monitor_agent_assignments := update_rows hit (\<lambda>x. x\<lparr> maa_enabled := True \<rparr>)
                 (monitor_agent_assignments db) \<rparr>), old\<lparr> maa_enabled := True \<rparr>)))))"

definition active_group_members :: "monitoring_db \<Rightarrow> realm \<Rightarrow> agent_group \<Rightarrow> uuid list" where
  "active_group_members db rlm grp = map agm_agent (filter (\<lambda>x. agm_realm x = realm_id rlm \<and>
     agm_group x = agent_group_id grp \<and> agent_active db (agm_agent x)) (agent_group_memberships db))"

definition assign_monitor_to_agent_group ::
  "monitoring_db \<Rightarrow> realm \<Rightarrow> monitor \<Rightarrow> agent_group \<Rightarrow>
     domain_error + (monitoring_db \<times> monitor_agent_group_assignment)" where
  "assign_monitor_to_agent_group db rlm m grp =
     bind_result (require_same_realm rlm [monitor_realm m, agent_group_realm grp]) (\<lambda>_.
     bind_result (require_active [monitor_archived_at m, agent_group_archived_at grp]) (\<lambda>_.
     bind_result (raise_if (\<not> monitor_enabled m \<or> \<not> agent_group_enabled grp)
       (ResourceStateError ''Disabled resources cannot receive new assignments'')) (\<lambda>_.
     let hit = (\<lambda>x. mga_realm x = realm_id rlm \<and> mga_monitor x = monitor_id m \<and>
                  mga_group x = agent_group_id grp);
         assignment = \<lparr> mga_realm = realm_id rlm, mga_monitor = monitor_id m,
                        mga_group = agent_group_id grp, mga_enabled = True \<rparr>
     in (case find hit (monitor_agent_group_assignments db) of
        None \<Rightarrow>
          let db' = db\<lparr> monitor_agent_group_assignments :=
                      monitor_agent_group_assignments db @ [assignment] \<rparr>
          in Inr (bump_configuration_revisions (active_group_members db' rlm grp) (realm_id rlm) db',
                  assignment)
      | Some old \<Rightarrow>
         if mga_enabled old then Inr (db, old)
         else
          let db' = db\<lparr> monitor_agent_group_assignments := update_rows hit
                      (\<lambda>x. x\<lparr> mga_enabled := True \<rparr>) (monitor_agent_group_assignments db) \<rparr>
          in Inr (bump_configuration_revisions (active_group_members db' rlm grp) (realm_id rlm) db',
                  old\<lparr> mga_enabled := True \<rparr>)))))"

definition unassign_monitor_from_agent ::
  "monitoring_db \<Rightarrow> realm \<Rightarrow> monitor \<Rightarrow> agent \<Rightarrow> domain_error + (monitoring_db \<times> bool)" where
  "unassign_monitor_from_agent db rlm m agt =
     bind_result (require_same_realm rlm [monitor_realm m, agent_realm agt]) (\<lambda>_.
     let hit = (\<lambda>x. maa_realm x = realm_id rlm \<and> maa_monitor x = monitor_id m \<and>
                  maa_agent x = agent_id agt);
         deleted = exists_row hit (monitor_agent_assignments db);
         db' = db\<lparr> monitor_agent_assignments := delete_rows hit (monitor_agent_assignments db) \<rparr>
     in Inr (if deleted then bump_configuration_revisions [agent_id agt] (realm_id rlm) db' else db',
             deleted))"

definition unassign_monitor_from_agent_group ::
  "monitoring_db \<Rightarrow> realm \<Rightarrow> monitor \<Rightarrow> agent_group \<Rightarrow> domain_error + (monitoring_db \<times> bool)" where
  "unassign_monitor_from_agent_group db rlm m grp =
     bind_result (require_same_realm rlm [monitor_realm m, agent_group_realm grp]) (\<lambda>_.
     let agent_ids = active_group_members db rlm grp;
         hit = (\<lambda>x. mga_realm x = realm_id rlm \<and> mga_monitor x = monitor_id m \<and>
                  mga_group x = agent_group_id grp);
         deleted = exists_row hit (monitor_agent_group_assignments db);
         db' = db\<lparr> monitor_agent_group_assignments :=
                     delete_rows hit (monitor_agent_group_assignments db) \<rparr>
     in Inr (if deleted then bump_configuration_revisions agent_ids (realm_id rlm) db' else db',
             deleted))"

section \<open>Archiving\<close>

definition archive_target ::
  "monitoring_db \<Rightarrow> datetime \<Rightarrow> realm \<Rightarrow> target \<Rightarrow> domain_error + monitoring_db" where
  "archive_target db now rlm tgt =
     bind_result (require_same_realm rlm [target_realm tgt]) (\<lambda>_.
     if target_archived_at tgt \<noteq> None then Inr db else
     let db1 = db\<lparr> targets := update_rows (\<lambda>t. target_id t = target_id tgt)
                 (\<lambda>t. t\<lparr> target_enabled := False, target_archived_at := Some now \<rparr>) (targets db) \<rparr>;
         hit = (\<lambda>m. monitor_realm m = realm_id rlm \<and> monitor_target m = target_id tgt \<and>
                  monitor_archived_at m = None);
         affected = concat (map (effective_agent_ids db1) (filter hit (monitors db1)));
         db2 = db1\<lparr> monitors := update_rows hit
                  (\<lambda>m. m\<lparr> monitor_enabled := False, monitor_archived_at := Some now \<rparr>) (monitors db1) \<rparr>
     in Inr (bump_configuration_revisions affected (realm_id rlm) db2))"

end
