(* ===== verification/Agent_Configuration.thy ===== *)
theory Agent_Configuration
  imports Agent_Credentials Domain
begin

text \<open>
  \<^verbatim>\<open>agents/configuration.py\<close> and \<^verbatim>\<open>agents/heartbeat.py\<close>: the generation of an agent's
  configuration snapshot, its acknowledgement, and heartbeats. The digest (SHA-256 of the
  canonical JSON document) is a parameter. A raised error rolls the transaction back, so an
  operation that fails returns no database.
\<close>

section \<open>Operations\<close>

datatype configuration_failure =
    ProtocolFailure agent_protocol_error
  | StateIntegrityError
  | StateDoesNotExist

definition assigned_monitor_ids :: "monitoring_db \<Rightarrow> realm \<Rightarrow> agent \<Rightarrow> uuid list" where
  "assigned_monitor_ids db rlm agt =
     (let direct_ids = map maa_monitor (filter (\<lambda>x. maa_realm x = realm_id rlm \<and>
            maa_agent x = agent_id agt \<and> maa_enabled x) (monitor_agent_assignments db));
          group_ids = map agm_group (filter (\<lambda>x. agm_realm x = realm_id rlm \<and>
            agm_agent x = agent_id agt \<and> agent_group_active db (agm_group x))
            (agent_group_memberships db));
          grouped_ids = map mga_monitor (filter (\<lambda>x. mga_realm x = realm_id rlm \<and>
            mga_group x \<in> set group_ids \<and> mga_enabled x) (monitor_agent_group_assignments db))
      in remdups (direct_ids @ grouped_ids))"

definition incompatible_capability :: "monitor \<Rightarrow> agent_protocol_error" where
  "incompatible_capability m = AgentProtocolError 409 ''incompatible_capability''
     ''An assigned monitor is not supported by this agent.'' False
     [(''monitor_id'', uuid_str (monitor_id m)), (''probe_type'', probe_type_str (monitor_probe_type m))]"

definition check_capability :: "monitor \<Rightarrow> agent_capabilities \<Rightarrow> agent_protocol_error + unit" where
  "check_capability m capabilities =
     raise_if (case map_of (probes capabilities) (probe_type_str (monitor_probe_type m)) of
         None \<Rightarrow> True
       | Some probe \<Rightarrow> \<not> available probe \<or>
           schema_version (monitor_configuration m) \<notin> set (schema_versions probe))
       (incompatible_capability m)"

definition monitor_entry_of :: "monitor \<Rightarrow> target \<Rightarrow> monitor_entry" where
  "monitor_entry_of m t = \<lparr> entry_monitor_id = monitor_id m, entry_target_id = monitor_target m,
     entry_monitor_revision = monitor_revision m, entry_target_address = target_address t,
     entry_probe_type = probe_type_str (monitor_probe_type m),
     entry_probe_schema_version = schema_version (monitor_configuration m),
     entry_interval_seconds = interval_seconds m, entry_timeout_seconds = timeout_seconds m,
     entry_missed_run_policy = ''skip'', entry_configuration = monitor_configuration m \<rparr>"

text \<open>The monitors to deliver, joined with their targets, ordered by identifier.\<close>

definition deliverable_monitors :: "monitoring_db \<Rightarrow> realm \<Rightarrow> agent \<Rightarrow> (monitor \<times> target) list" where
  "deliverable_monitors db rlm agt =
     (let monitor_ids = assigned_monitor_ids db rlm agt
      in map (\<lambda>m. (m, the (find_target db (monitor_target m))))
           (sort_key monitor_id (filter (\<lambda>m. monitor_id m \<in> set monitor_ids \<and>
              monitor_realm m = realm_id rlm \<and> monitor_enabled m \<and> monitor_archived_at m = None \<and>
              target_active db (monitor_target m)) (monitors db))))"

fun build_entries ::
  "agent_capabilities \<Rightarrow> (monitor \<times> target) list \<Rightarrow> agent_protocol_error + monitor_entry list" where
  "build_entries capabilities [] = Inr []"
| "build_entries capabilities ((m, t) # rest) =
     bind_result (check_capability m capabilities) (\<lambda>_.
     bind_result (build_entries capabilities rest) (\<lambda>entries.
     Inr (monitor_entry_of m t # entries)))"

definition content_of :: "realm \<Rightarrow> agent \<Rightarrow> monitor_entry list \<Rightarrow> configuration_content" where
  "content_of rlm agt entries = \<lparr> configuration_schema_version = 1, content_agent_id = agent_id agt,
     content_realm_id = realm_id rlm, content_monitors = entries \<rparr>"

definition get_or_create_state ::
  "monitoring_db \<Rightarrow> realm \<Rightarrow> agent \<Rightarrow> configuration_failure + agent_configuration_state" where
  "get_or_create_state db rlm agt = (case agent_configuration_states db (agent_id agt) of
      None \<Rightarrow> Inr (new_configuration_state (realm_id rlm))
    | Some st \<Rightarrow> if cs_realm st = realm_id rlm then Inr st else Inl StateIntegrityError)"

definition capabilities_required :: agent_protocol_error where
  "capabilities_required = AgentProtocolError 409 ''capabilities_required''
     ''Send a heartbeat before requesting configuration.'' True []"

definition configuration_revision_conflict :: agent_protocol_error where
  "configuration_revision_conflict = AgentProtocolError 409 ''configuration_revision_conflict''
     ''Desired configuration changed while its snapshot was generated.'' True []"

definition unknown_configuration :: agent_protocol_error where
  "unknown_configuration = AgentProtocolError 409 ''unknown_configuration''
     ''The acknowledged configuration was not issued to this agent.'' False []"

record configuration_result =
  result_snapshot :: agent_configuration_snapshot
  result_content :: configuration_content

definition get_or_create_configuration ::
  "(configuration_content \<Rightarrow> string) \<Rightarrow> monitoring_db \<Rightarrow> datetime \<Rightarrow> realm \<Rightarrow> agent \<Rightarrow>
     configuration_failure + (monitoring_db \<times> configuration_result)" where
  "get_or_create_configuration digest db now rlm agt =
     bind_result (get_or_create_state db rlm agt) (\<lambda>stored.
     let st = (if desired_revision stored = 0 then stored\<lparr> desired_revision := 1 \<rparr> else stored) in
     (case agent_operational_states db (agent_id agt) of
        None \<Rightarrow> Inl (ProtocolFailure capabilities_required)
      | Some operational \<Rightarrow>
        if op_realm operational \<noteq> realm_id rlm then Inl (ProtocolFailure capabilities_required) else
        bind_result (map_error ProtocolFailure
          (build_entries (op_capabilities operational) (deliverable_monitors db rlm agt))) (\<lambda>entries.
        let hash_input = content_of rlm agt entries;
            content_hash = digest hash_input;
            found = find (\<lambda>s. snapshot_realm s = realm_id rlm \<and> snapshot_agent s = agent_id agt \<and>
                       snapshot_revision s = desired_revision st) (agent_configuration_snapshots db);
            snapshot = (case found of Some s \<Rightarrow> s
              | None \<Rightarrow> \<lparr> snapshot_realm = realm_id rlm, snapshot_agent = agent_id agt,
                         snapshot_revision = desired_revision st, snapshot_content_hash = content_hash,
                         snapshot_configuration = hash_input, snapshot_created_at = now \<rparr>);
            snapshots = (if found = None then agent_configuration_snapshots db @ [snapshot]
                         else agent_configuration_snapshots db)
        in bind_result (raise_if (snapshot_content_hash snapshot \<noteq> content_hash)
             (ProtocolFailure configuration_revision_conflict)) (\<lambda>_.
           let saved = (if desired_content_hash st \<noteq> content_hash
                        then st\<lparr> desired_content_hash := content_hash \<rparr> else stored)
           in Inr (db\<lparr> agent_configuration_states :=
                       (agent_configuration_states db)(agent_id agt \<mapsto> saved),
                     agent_configuration_snapshots := snapshots \<rparr>,
                   \<lparr> result_snapshot = snapshot, result_content = hash_input \<rparr>)))))"

definition acknowledge_configuration ::
  "monitoring_db \<Rightarrow> realm \<Rightarrow> agent \<Rightarrow> int \<Rightarrow> string \<Rightarrow> datetime \<Rightarrow>
     configuration_failure + (monitoring_db \<times> agent_configuration_state)" where
  "acknowledge_configuration db rlm agt revision content_hash activated_at =
     (let digest = removeprefix content_hash ''sha256:'' in
      bind_result (raise_if (\<not> exists_row (\<lambda>s. snapshot_realm s = realm_id rlm \<and>
          snapshot_agent s = agent_id agt \<and> snapshot_revision s = revision \<and>
          snapshot_content_hash s = digest) (agent_configuration_snapshots db))
        (ProtocolFailure unknown_configuration)) (\<lambda>_.
      (case agent_configuration_states db (agent_id agt) of
         None \<Rightarrow> Inl StateDoesNotExist
       | Some st \<Rightarrow>
          if cs_realm st \<noteq> realm_id rlm then Inl StateDoesNotExist
          else if revision \<ge> acknowledged_revision st then
            let st' = st\<lparr> acknowledged_revision := revision, acknowledged_content_hash := digest,
                         acknowledged_at := Some activated_at \<rparr>
            in bind_result (raise_if (\<not> revisions_valid st') StateIntegrityError) (\<lambda>_.
               Inr (db\<lparr> agent_configuration_states :=
                      (agent_configuration_states db)(agent_id agt \<mapsto> st') \<rparr>, st'))
          else Inr (db, st))))"

section \<open>Heartbeats\<close>

record agent_heartbeat_request =
  hb_protocol_version :: int
  hb_agent_version :: string
  hb_platform :: string
  hb_architecture :: string
  hb_hostname :: string
  hb_capabilities :: agent_capabilities
  hb_active_configuration_revision :: int
  hb_known_desired_configuration_revision :: int
  hb_queue_depth :: int
  hb_queue_bytes :: int
  hb_oldest_pending_observation_at :: "datetime option"
  hb_database_health :: database_health
  hb_scheduler_state :: scheduler_state
  hb_agent_time :: datetime
  hb_warnings :: "string list"

text \<open>What the columns of \<^verbatim>\<open>agent_operational_states\<close> hold: the counters are \<^verbatim>\<open>BIGINT\<close>.\<close>

definition operational_row_ok :: "agent_operational_state \<Rightarrow> bool" where
  "operational_row_ok op \<longleftrightarrow> int8 (op_active_configuration_revision op) \<and>
     int8 (op_known_desired_configuration_revision op) \<and> int8 (op_queue_depth op) \<and> int8 (op_queue_bytes op) \<and>
     int8 (clock_offset_ms op) \<and> list_all text_ok (op_agent_version op # op_platform op # op_architecture op #
       op_hostname op # op_warnings op)"

definition record_heartbeat ::
  "monitoring_db \<Rightarrow> datetime \<Rightarrow> realm \<Rightarrow> agent \<Rightarrow> agent_heartbeat_request \<Rightarrow>
     configuration_failure + (monitoring_db \<times> agent_operational_state \<times> agent_configuration_state)" where
  "record_heartbeat db received_at rlm agt payload =
     (let op = \<lparr> op_realm = realm_id rlm, last_heartbeat_at = received_at,
            op_agent_version = hb_agent_version payload, op_platform = hb_platform payload,
            op_architecture = hb_architecture payload, op_hostname = hb_hostname payload,
            op_capabilities = hb_capabilities payload,
            op_active_configuration_revision = hb_active_configuration_revision payload,
            op_known_desired_configuration_revision = hb_known_desired_configuration_revision payload,
            op_queue_depth = hb_queue_depth payload, op_queue_bytes = hb_queue_bytes payload,
            op_oldest_pending_observation_at = hb_oldest_pending_observation_at payload,
            op_database_health = hb_database_health payload,
            op_scheduler_state = hb_scheduler_state payload, op_agent_time = hb_agent_time payload,
            clock_offset_ms = py_total_milliseconds (received_at - hb_agent_time payload),
            op_warnings = hb_warnings payload \<rparr>
      in bind_result (raise_if (\<not> operational_row_ok op \<or>
             (case agent_operational_states db (agent_id agt) of None \<Rightarrow> False
             | Some old \<Rightarrow> op_realm old \<noteq> realm_id rlm)) StateIntegrityError) (\<lambda>_.
         bind_result (get_or_create_state db rlm agt) (\<lambda>st.
         Inr (db\<lparr> agent_operational_states := (agent_operational_states db)(agent_id agt \<mapsto> op),
                 agent_configuration_states := (agent_configuration_states db)(agent_id agt \<mapsto> st) \<rparr>,
              op, st))))"

end
