(* ===== verification/Observations.thy ===== *)
theory Observations
  imports Agent_Configuration Agent_Credentials "HOL-Library.Sublist"
begin

text \<open>
  Observation uploads: the result schemas of \<^verbatim>\<open>schemas/agent_protocol.py\<close>, the tables of the
  observation migrations with their constraints, and \<^verbatim>\<open>agents/observations.py\<close>. The canonical
  payload hash and the texts PostgreSQL accepts as an \<^verbatim>\<open>INET\<close> value are parameters.
\<close>

section \<open>Typed results\<close>

record icmp_result =
  packets_sent :: int
  packets_received :: int
  packet_loss_percent :: pyfloat
  min_rtt_ms :: "pyfloat option"
  avg_rtt_ms :: "pyfloat option"
  median_rtt_ms :: "pyfloat option"
  max_rtt_ms :: "pyfloat option"
  p95_rtt_ms :: "pyfloat option"
  jitter_ms :: "pyfloat option"
  rtt_samples_ms :: "pyfloat list"

record http_result =
  http_result_method :: string
  http_result_scheme :: string
  http_status_code :: "int option"
  redirect_count :: int
  response_size_bytes :: "int option"
  dns_ms :: "pyfloat option"
  http_connect_ms :: "pyfloat option"
  tls_ms :: "pyfloat option"
  ttfb_ms :: "pyfloat option"
  total_ms :: "pyfloat option"
  http_assertions_total :: int
  http_assertions_failed :: int
  final_url_redacted :: "string option"

record tcp_result =
  tcp_result_port :: int
  address_used :: "string option"
  tcp_connect_ms :: "pyfloat option"

record dns_answer =
  answer_type :: string
  answer_name :: string
  answer_ttl :: "int option"
  answer_value :: string

record dns_result =
  dns_resolver_address :: "string option"
  dns_query_name :: string
  dns_query_type :: string
  response_code :: "string option"
  response_ms :: "pyfloat option"
  answer_count :: int
  dns_answers :: "dns_answer list"
  truncated :: bool
  authoritative :: bool
  dns_assertions_total :: int
  dns_assertions_failed :: int

record tls_result =
  tls_result_port :: int
  tls_server_name :: string
  tls_protocol_version :: "string option"
  cipher_suite :: "string option"
  handshake_ms :: "pyfloat option"
  certificate_present :: bool
  hostname_valid :: "bool option"
  chain_valid :: "bool option"
  not_before :: "datetime option"
  not_after :: "datetime option"
  days_remaining :: "pyfloat option"
  subject_name :: "string option"
  issuer_name :: "string option"
  serial_number :: "string option"
  fingerprint_sha256 :: "string option"

datatype observation_result =
    IcmpObservationResult icmp_result
  | HttpObservationResult http_result
  | TcpObservationResult tcp_result
  | DnsObservationResult dns_result
  | TlsObservationResult tls_result

abbreviation non_negative :: "pyfloat option \<Rightarrow> bool" where
  "non_negative \<equiv> opt_all (\<lambda>x. float_ge x 0)"

abbreviation at_most :: "nat \<Rightarrow> string option \<Rightarrow> bool" where
  "at_most n \<equiv> opt_all (\<lambda>s. length s \<le> n)"

abbreviation sized :: "nat \<Rightarrow> nat \<Rightarrow> string \<Rightarrow> bool" where
  "sized lo hi s \<equiv> lo \<le> length s \<and> length s \<le> hi"

definition icmp_result_valid :: "icmp_result \<Rightarrow> bool" where
  "icmp_result_valid r \<longleftrightarrow> 1 \<le> packets_sent r \<and> packets_sent r \<le> 100 \<and>
     0 \<le> packets_received r \<and> packets_received r \<le> 100 \<and>
     float_ge (packet_loss_percent r) 0 \<and> float_le (packet_loss_percent r) 100 \<and>
     non_negative (min_rtt_ms r) \<and> non_negative (avg_rtt_ms r) \<and> non_negative (median_rtt_ms r) \<and>
     non_negative (max_rtt_ms r) \<and> non_negative (p95_rtt_ms r) \<and> non_negative (jitter_ms r) \<and>
     length (rtt_samples_ms r) \<le> 100 \<and> list_all (\<lambda>x. float_ge x 0) (rtt_samples_ms r) \<and>
     packets_received r \<le> packets_sent r \<and> int (length (rtt_samples_ms r)) = packets_received r"

definition http_result_valid :: "http_result \<Rightarrow> bool" where
  "http_result_valid r \<longleftrightarrow> http_result_method r \<in> {''GET'', ''HEAD''} \<and> http_result_scheme r \<in> {''http'', ''https''} \<and>
     opt_all (\<lambda>c. 100 \<le> c \<and> c \<le> 599) (http_status_code r) \<and>
     0 \<le> redirect_count r \<and> redirect_count r \<le> 20 \<and> opt_all (\<lambda>n. 0 \<le> n) (response_size_bytes r) \<and>
     non_negative (dns_ms r) \<and> non_negative (http_connect_ms r) \<and> non_negative (tls_ms r) \<and>
     non_negative (ttfb_ms r) \<and> non_negative (total_ms r) \<and>
     0 \<le> http_assertions_total r \<and> http_assertions_total r \<le> 100 \<and>
     0 \<le> http_assertions_failed r \<and> http_assertions_failed r \<le> 100 \<and>
     at_most 2048 (final_url_redacted r) \<and> http_assertions_failed r \<le> http_assertions_total r"

definition tcp_result_valid :: "tcp_result \<Rightarrow> bool" where
  "tcp_result_valid r \<longleftrightarrow> 1 \<le> tcp_result_port r \<and> tcp_result_port r \<le> 65535 \<and> opt_all (sized 2 45) (address_used r) \<and>
     non_negative (tcp_connect_ms r)"

definition dns_record_types :: "string list" where
  "dns_record_types = [''A'', ''AAAA'', ''CNAME'', ''MX'', ''NS'', ''PTR'', ''TXT'']"

definition dns_answer_valid :: "dns_answer \<Rightarrow> bool" where
  "dns_answer_valid a \<longleftrightarrow> answer_type a \<in> set dns_record_types \<and> sized 1 253 (answer_name a) \<and>
     opt_all (\<lambda>n. 0 \<le> n) (answer_ttl a) \<and> sized 1 1024 (answer_value a)"

definition dns_result_valid :: "dns_result \<Rightarrow> bool" where
  "dns_result_valid r \<longleftrightarrow> opt_all (sized 2 45) (dns_resolver_address r) \<and> sized 1 253 (dns_query_name r) \<and>
     dns_query_type r \<in> set dns_record_types \<and> at_most 32 (response_code r) \<and> non_negative (response_ms r) \<and>
     0 \<le> answer_count r \<and> answer_count r \<le> 100 \<and> length (dns_answers r) \<le> 100 \<and>
     list_all dns_answer_valid (dns_answers r) \<and>
     0 \<le> dns_assertions_total r \<and> dns_assertions_total r \<le> 100 \<and>
     0 \<le> dns_assertions_failed r \<and> dns_assertions_failed r \<le> 100 \<and>
     int (length (dns_answers r)) = answer_count r \<and> dns_assertions_failed r \<le> dns_assertions_total r"

text \<open>\<^verbatim>\<open>^[0-9a-f]{64}$\<close>; pydantic's regex engine matches \<^verbatim>\<open>$\<close> at the end of the text only.\<close>

definition sha256_hex :: "string \<Rightarrow> bool" where
  "sha256_hex s \<longleftrightarrow> length s = 64 \<and> list_all (\<lambda>c. is_digit_ascii c \<or> (97 \<le> ord c \<and> ord c \<le> 102)) s"

definition tls_result_valid :: "tls_result \<Rightarrow> bool" where
  "tls_result_valid r \<longleftrightarrow> 1 \<le> tls_result_port r \<and> tls_result_port r \<le> 65535 \<and> sized 1 253 (tls_server_name r) \<and>
     at_most 32 (tls_protocol_version r) \<and> at_most 160 (cipher_suite r) \<and> non_negative (handshake_ms r) \<and>
     at_most 500 (subject_name r) \<and> at_most 500 (issuer_name r) \<and> at_most 160 (serial_number r) \<and>
     opt_all sha256_hex (fingerprint_sha256 r) \<and>
     (case (not_before r, not_after r) of (Some b, Some a) \<Rightarrow> \<not> a < b | _ \<Rightarrow> True)"

fun result_valid :: "observation_result \<Rightarrow> bool" where
  "result_valid (IcmpObservationResult r) = icmp_result_valid r"
| "result_valid (HttpObservationResult r) = http_result_valid r"
| "result_valid (TcpObservationResult r) = tcp_result_valid r"
| "result_valid (DnsObservationResult r) = dns_result_valid r"
| "result_valid (TlsObservationResult r) = tls_result_valid r"

text \<open>\<^verbatim>\<open>expected_result_types\<close>: the probe type a result class belongs to.\<close>

fun result_probe_type :: "observation_result \<Rightarrow> probe_type" where
  "result_probe_type (IcmpObservationResult _) = ICMP"
| "result_probe_type (HttpObservationResult _) = HTTP"
| "result_probe_type (TcpObservationResult _) = TCP"
| "result_probe_type (DnsObservationResult _) = DNS"
| "result_probe_type (TlsObservationResult _) = TLS"

section \<open>Observations\<close>

datatype execution_status = Completed | Failed
datatype assessment = Healthy | Unhealthy | Unknown
datatype error_category = ETimeout | EResolution | EConnection | ETls | EProtocol | EAssertion | EPermission
  | EInvalidConfiguration | EResourceLimit | EInternal

record agent_observation =
  obs_scheduled_at :: datetime
  obs_id :: uuid
  obs_monitor_id :: uuid
  obs_monitor_revision :: int
  obs_probe_type :: probe_type
  obs_started_at :: datetime
  obs_finished_at :: datetime
  obs_execution_status :: execution_status
  obs_assessment :: assessment
  obs_error_category :: "error_category option"
  obs_error_code :: "string option"
  obs_error_message :: "string option"
  obs_agent_clock_offset_ms :: "int option"
  obs_result :: "observation_result option"

definition observation_valid :: "agent_observation \<Rightarrow> bool" where
  "observation_valid ob \<longleftrightarrow> 1 \<le> obs_monitor_revision ob \<and> at_most 120 (obs_error_code ob) \<and>
     at_most 500 (obs_error_message ob) \<and> opt_all result_valid (obs_result ob) \<and>
     \<not> (obs_started_at ob < obs_scheduled_at ob \<or> obs_finished_at ob < obs_started_at ob) \<and>
     \<not> (obs_execution_status ob = Completed \<and>
         (case obs_result ob of None \<Rightarrow> True | Some r \<Rightarrow> result_probe_type r \<noteq> obs_probe_type ob)) \<and>
     \<not> (obs_execution_status ob = Failed \<and> obs_result ob \<noteq> None)"

record agent_observation_upload =
  up_protocol_version :: int
  up_result_schema_version :: int
  up_agent_config_revision :: int
  up_batch_id :: uuid
  up_observations :: "agent_observation list"

definition upload_valid :: "agent_observation_upload \<Rightarrow> bool" where
  "upload_valid u \<longleftrightarrow> 1 \<le> up_protocol_version u \<and> 1 \<le> up_result_schema_version u \<and>
     1 \<le> up_agent_config_revision u \<and> 1 \<le> length (up_observations u) \<and> length (up_observations u) \<le> 500 \<and>
     list_all observation_valid (up_observations u)"

datatype disposition = Accepted | Duplicate | Rejected

record agent_observation_result =
  res_scheduled_at :: datetime
  res_observation_id :: uuid
  res_disposition :: disposition
  res_code :: "string option"
  res_retryable :: bool

section \<open>Tables\<close>

record observation_row =
  row_scheduled_at :: datetime
  row_observation_id :: uuid
  row_realm :: uuid
  row_agent :: uuid
  row_monitor :: uuid
  row_probe_type :: probe_type
  row_monitor_revision :: int
  row_agent_config_revision :: int
  row_started_at :: datetime
  row_finished_at :: datetime
  row_received_at :: datetime
  row_execution_status :: execution_status
  row_assessment :: assessment
  row_error_category :: "error_category option"
  row_error_code :: "string option"
  row_error_message :: "string option"
  row_agent_clock_offset_ms :: "int option"
  row_payload_hash :: string

record typed_row =
  typed_scheduled_at :: datetime
  typed_observation_id :: uuid
  typed_realm :: uuid
  typed_agent :: uuid
  typed_monitor :: uuid
  typed_result :: observation_result

text \<open>\<open>typed_results p\<close> is the table \<^verbatim>\<open>specifications[p]\<close> names: \<^verbatim>\<open>icmp_results\<close>, \<^verbatim>\<open>http_results\<close> and so on.\<close>

record observation_store =
  observations :: "observation_row list"
  typed_results :: "probe_type \<Rightarrow> typed_row list"

definition empty_store :: observation_store where
  "empty_store = \<lparr> observations = [], typed_results = (\<lambda>_. []) \<rparr>"

definition observation_row_ok :: "observation_row \<Rightarrow> bool" where
  "observation_row_ok r \<longleftrightarrow> int8 (row_monitor_revision r) \<and> int8 (row_agent_config_revision r) \<and>
     opt_all int4 (row_agent_clock_offset_ms r) \<and> opt_all text_ok (row_error_code r) \<and>
     opt_all text_ok (row_error_message r) \<and> at_most 120 (row_error_code r) \<and> at_most 500 (row_error_message r) \<and>
     0 < row_monitor_revision r \<and> 0 < row_agent_config_revision r \<and>
     row_started_at r \<ge> row_scheduled_at r \<and> row_finished_at r \<ge> row_started_at r"

text \<open>Constraints of the five result tables, with the packet count of the latest migration.\<close>

fun typed_result_ok :: "(string \<Rightarrow> bool) \<Rightarrow> observation_result \<Rightarrow> bool" where
  "typed_result_ok inet (IcmpObservationResult r) \<longleftrightarrow> 1 \<le> packets_sent r \<and> packets_sent r \<le> 100 \<and>
     0 \<le> packets_received r \<and> packets_received r \<le> packets_sent r \<and>
     int (length (rtt_samples_ms r)) = packets_received r \<and>
     float_ge (packet_loss_percent r) 0 \<and> float_le (packet_loss_percent r) 100 \<and> non_negative (min_rtt_ms r)"
| "typed_result_ok inet (HttpObservationResult r) \<longleftrightarrow> http_result_method r \<in> {''GET'', ''HEAD''} \<and>
     http_result_scheme r \<in> {''http'', ''https''} \<and> opt_all (\<lambda>c. 100 \<le> c \<and> c \<le> 599) (http_status_code r) \<and>
     int4 (redirect_count r) \<and> int4 (http_assertions_total r) \<and> opt_all int8 (response_size_bytes r) \<and>
     0 \<le> redirect_count r \<and> 0 \<le> http_assertions_total r \<and> 0 \<le> http_assertions_failed r \<and>
     http_assertions_failed r \<le> http_assertions_total r \<and> opt_all (\<lambda>n. 0 \<le> n) (response_size_bytes r) \<and>
     opt_all text_ok (final_url_redacted r) \<and> at_most 2048 (final_url_redacted r)"
| "typed_result_ok inet (TcpObservationResult r) \<longleftrightarrow> 1 \<le> tcp_result_port r \<and> tcp_result_port r \<le> 65535 \<and>
     (case address_used r of None \<Rightarrow> False | Some a \<Rightarrow> inet a) \<and> non_negative (tcp_connect_ms r)"
| "typed_result_ok inet (DnsObservationResult r) \<longleftrightarrow>
     (case dns_resolver_address r of None \<Rightarrow> False | Some a \<Rightarrow> inet a) \<and>
     text_ok (dns_query_name r) \<and> length (dns_query_name r) \<le> 253 \<and>
     dns_query_type r \<in> set (''SOA'' # dns_record_types) \<and>
     opt_all text_ok (response_code r) \<and> at_most 32 (response_code r) \<and> non_negative (response_ms r) \<and>
     0 \<le> answer_count r \<and> int4 (answer_count r) \<and> int4 (dns_assertions_total r) \<and>
     list_all (\<lambda>a. text_ok (answer_name a) \<and> text_ok (answer_value a)) (dns_answers r) \<and>
     0 \<le> dns_assertions_total r \<and> 0 \<le> dns_assertions_failed r \<and> dns_assertions_failed r \<le> dns_assertions_total r"
| "typed_result_ok inet (TlsObservationResult r) \<longleftrightarrow> 1 \<le> tls_result_port r \<and> tls_result_port r \<le> 65535 \<and>
     text_ok (tls_server_name r) \<and> length (tls_server_name r) \<le> 253 \<and>
     list_all (opt_all text_ok) [tls_protocol_version r, cipher_suite r, subject_name r, issuer_name r,
       serial_number r, fingerprint_sha256 r] \<and>
     at_most 32 (tls_protocol_version r) \<and> at_most 160 (cipher_suite r) \<and> at_most 500 (subject_name r) \<and>
     at_most 500 (issuer_name r) \<and> at_most 160 (serial_number r) \<and> at_most 64 (fingerprint_sha256 r) \<and>
     non_negative (handshake_ms r) \<and>
     (case (not_before r, not_after r) of (Some b, Some a) \<Rightarrow> a \<ge> b | _ \<Rightarrow> True)"

section \<open>Ingestion\<close>

definition MAXIMUM_OBSERVATION_AGE :: timedelta where "MAXIMUM_OBSERVATION_AGE = days 30"
definition MAXIMUM_FUTURE_SKEW :: timedelta where "MAXIMUM_FUTURE_SKEW = minutes 5"

definition rejected :: "agent_observation \<Rightarrow> string \<Rightarrow> bool \<Rightarrow> agent_observation_result" where
  "rejected ob c retry = \<lparr> res_scheduled_at = obs_scheduled_at ob, res_observation_id = obs_id ob,
     res_disposition = Rejected, res_code = Some c, res_retryable = retry \<rparr>"

text \<open>A statement the database refuses raises inside the transaction, which rolls back.\<close>

datatype ingest_error = DatabaseError

definition same_identity :: "agent_observation \<Rightarrow> observation_row \<Rightarrow> bool" where
  "same_identity ob r \<longleftrightarrow> row_scheduled_at r = obs_scheduled_at ob \<and> row_observation_id r = obs_id ob"

definition common_row ::
  "agent_authentication \<Rightarrow> datetime \<Rightarrow> int \<Rightarrow> agent_observation \<Rightarrow> string \<Rightarrow> observation_row" where
  "common_row az now config_revision ob h = \<lparr> row_scheduled_at = obs_scheduled_at ob,
     row_observation_id = obs_id ob, row_realm = realm_id (auth_realm az), row_agent = agent_id (auth_agent az),
     row_monitor = obs_monitor_id ob, row_probe_type = obs_probe_type ob,
     row_monitor_revision = obs_monitor_revision ob, row_agent_config_revision = config_revision,
     row_started_at = obs_started_at ob, row_finished_at = obs_finished_at ob, row_received_at = now,
     row_execution_status = obs_execution_status ob, row_assessment = obs_assessment ob,
     row_error_category = obs_error_category ob, row_error_code = obs_error_code ob,
     row_error_message = obs_error_message ob, row_agent_clock_offset_ms = obs_agent_clock_offset_ms ob,
     row_payload_hash = h \<rparr>"

definition insert_common ::
  "observation_store \<Rightarrow> agent_authentication \<Rightarrow> datetime \<Rightarrow> int \<Rightarrow> agent_observation \<Rightarrow> string \<Rightarrow>
     ingest_error + (observation_store \<times> bool)" where
  "insert_common s az now config_revision ob h =
     (let r = common_row az now config_revision ob h in
      bind_result (raise_if (\<not> observation_row_ok r) DatabaseError) (\<lambda>_.
      if exists_row (same_identity ob) (observations s) then Inr (s, False)
      else Inr (s\<lparr> observations := observations s @ [r] \<rparr>, True)))"

definition existing_hash :: "observation_store \<Rightarrow> agent_observation \<Rightarrow> string option" where
  "existing_hash s ob = map_option row_payload_hash (find (same_identity ob) (observations s))"

definition insert_typed_result ::
  "(string \<Rightarrow> bool) \<Rightarrow> observation_store \<Rightarrow> agent_authentication \<Rightarrow> agent_observation \<Rightarrow>
     ingest_error + observation_store" where
  "insert_typed_result inet s az ob = (case obs_result ob of
      None \<Rightarrow> Inr s
    | Some r \<Rightarrow>
       let p = obs_probe_type ob;
           row = \<lparr> typed_scheduled_at = obs_scheduled_at ob, typed_observation_id = obs_id ob,
                   typed_realm = realm_id (auth_realm az), typed_agent = agent_id (auth_agent az),
                   typed_monitor = obs_monitor_id ob, typed_result = r \<rparr>
       in bind_result (raise_if (\<not> typed_result_ok inet r \<or>
            exists_row (\<lambda>x. typed_scheduled_at x = obs_scheduled_at ob \<and> typed_observation_id x = obs_id ob)
              (typed_results s p)) DatabaseError) (\<lambda>_.
          Inr (s\<lparr> typed_results := (typed_results s)(p := typed_results s p @ [row]) \<rparr>)))"

text \<open>\<^verbatim>\<open>{monitor["monitor_id"]: monitor for monitor in ...}\<close>: a later entry replaces an earlier one.\<close>

definition configured :: "configuration_content \<Rightarrow> uuid \<Rightarrow> monitor_entry option" where
  "configured c i = find (\<lambda>e. entry_monitor_id e = i) (rev (content_monitors c))"

definition ingest_one ::
  "(agent_observation \<Rightarrow> string) \<Rightarrow> (string \<Rightarrow> bool) \<Rightarrow> agent_authentication \<Rightarrow> configuration_content \<Rightarrow>
     datetime \<Rightarrow> int \<Rightarrow> observation_store \<Rightarrow> agent_observation \<Rightarrow>
     ingest_error + (observation_store \<times> agent_observation_result)" where
  "ingest_one canonical_hash inet az content now config_revision s ob =
     (case configured content (obs_monitor_id ob) of
        None \<Rightarrow> Inr (s, rejected ob ''monitor_not_in_configuration'' False)
      | Some e \<Rightarrow>
         if entry_probe_type e \<noteq> probe_type_str (obs_probe_type ob)
         then Inr (s, rejected ob ''monitor_not_in_configuration'' False)
         else if entry_monitor_revision e \<noteq> obs_monitor_revision ob
         then Inr (s, rejected ob ''monitor_revision_mismatch'' False)
         else if obs_scheduled_at ob < now - MAXIMUM_OBSERVATION_AGE
         then Inr (s, rejected ob ''observation_too_old'' False)
         else if obs_scheduled_at ob > now + MAXIMUM_FUTURE_SKEW
         then Inr (s, rejected ob ''observation_in_future'' False)
         else
          let h = canonical_hash ob in
          bind_result (insert_common s az now config_revision ob h) (\<lambda>(s1, inserted).
          let answer = (\<lambda>d c. \<lparr> res_scheduled_at = obs_scheduled_at ob, res_observation_id = obs_id ob,
                         res_disposition = d, res_code = c, res_retryable = False \<rparr>) in
          if \<not> inserted then
            (if existing_hash s1 ob = Some h then Inr (s1, answer Duplicate None)
             else Inr (s1, answer Rejected (Some ''idempotency_conflict'')))
          else bind_result (insert_typed_result inet s1 az ob) (\<lambda>s2. Inr (s2, answer Accepted None))))"

fun ingest_all ::
  "('s \<Rightarrow> 'o \<Rightarrow> 'e + ('s \<times> 'r)) \<Rightarrow> 's \<Rightarrow> 'o list \<Rightarrow> 'e + ('s \<times> 'r list)" where
  "ingest_all one s [] = Inr (s, [])"
| "ingest_all one s (ob # obs) =
     bind_result (one s ob) (\<lambda>(s1, r).
     bind_result (ingest_all one s1 obs) (\<lambda>(s2, rs). Inr (s2, r # rs)))"

definition ingest_observations ::
  "(agent_observation \<Rightarrow> string) \<Rightarrow> (string \<Rightarrow> bool) \<Rightarrow> monitoring_db \<Rightarrow> observation_store \<Rightarrow> datetime \<Rightarrow>
     agent_authentication \<Rightarrow> agent_observation_upload \<Rightarrow>
     ingest_error + (observation_store \<times> agent_observation_result list)" where
  "ingest_observations canonical_hash inet db s now az upload =
     (case find (\<lambda>x. snapshot_realm x = realm_id (auth_realm az) \<and> snapshot_agent x = agent_id (auth_agent az) \<and>
             snapshot_revision x = up_agent_config_revision upload) (agent_configuration_snapshots db) of
        None \<Rightarrow> Inr (s, map (\<lambda>ob. rejected ob ''configuration_revision_unavailable'' True) (up_observations upload))
      | Some snapshot \<Rightarrow>
         ingest_all (ingest_one canonical_hash inet az (snapshot_configuration snapshot) now
           (up_agent_config_revision upload)) s (up_observations upload))"

section \<open>Append-only ingestion\<close>

text \<open>
  What the batch loop needs from the treatment of one item: the store only grows, what was answered
  can be answered again from any grown store without changing it, and an invariant is kept.
\<close>

locale ingestor =
  fixes one :: "'s \<Rightarrow> 'o \<Rightarrow> 'e + ('s \<times> 'r)"
    and grown :: "'s \<Rightarrow> 's \<Rightarrow> bool"
    and replayed :: "'r \<Rightarrow> 'r"
    and item_ok :: "'o \<Rightarrow> bool"
    and inv :: "'s \<Rightarrow> bool"
  assumes grown_refl: "grown s s"
    and grown_trans: "grown s t \<Longrightarrow> grown t u \<Longrightarrow> grown s u"
    and one_grows: "one s ob = Inr (t, r) \<Longrightarrow> grown s t"
    and one_replays: "one s ob = Inr (t, r) \<Longrightarrow> grown t u \<Longrightarrow> one u ob = Inr (u, replayed r)"
    and one_inv: "one s ob = Inr (t, r) \<Longrightarrow> item_ok ob \<Longrightarrow> inv s \<Longrightarrow> inv t"
begin

lemma all_grows: "ingest_all one s obs = Inr (t, rs) \<Longrightarrow> grown s t"
  by (induction obs arbitrary: s t rs) (auto intro: grown_refl grown_trans dest: one_grows)

lemma all_replays:
  "ingest_all one s obs = Inr (t, rs) \<Longrightarrow> grown t u \<Longrightarrow> ingest_all one u obs = Inr (u, map replayed rs)"
proof (induction obs arbitrary: s t rs)
  case (Cons ob obs)
  then obtain s1 r rs' where o1: "one s ob = Inr (s1, r)" and o2: "ingest_all one s1 obs = Inr (t, rs')" and "rs = r # rs'"
    by auto
  moreover have "one u ob = Inr (u, replayed r)"
    using one_replays [OF o1] grown_trans [OF all_grows [OF o2]] Cons.prems(2) by blast
  ultimately show ?case using Cons.IH [OF o2 Cons.prems(2)] by simp
qed simp

lemma all_inv: "ingest_all one s obs = Inr (t, rs) \<Longrightarrow> list_all item_ok obs \<Longrightarrow> inv s \<Longrightarrow> inv t"
  by (induction obs arbitrary: s t rs) (auto dest: one_inv)

lemma all_length: "ingest_all one s obs = Inr (t, rs) \<Longrightarrow> length rs = length obs"
  by (induction obs arbitrary: s t rs) auto

end

definition grown :: "observation_store \<Rightarrow> observation_store \<Rightarrow> bool" where
  "grown s t \<longleftrightarrow> prefix (observations s) (observations t) \<and>
     (\<forall>p. prefix (typed_results s p) (typed_results t p))"

definition replayed :: "agent_observation_result \<Rightarrow> agent_observation_result" where
  "replayed r = (if res_disposition r = Accepted then r\<lparr> res_disposition := Duplicate \<rparr> else r)"

definition row_key :: "observation_row \<Rightarrow> datetime \<times> uuid" where
  "row_key r = (row_scheduled_at r, row_observation_id r)"

definition typed_key :: "typed_row \<Rightarrow> datetime \<times> uuid" where
  "typed_key t = (typed_scheduled_at t, typed_observation_id t)"

definition belongs :: "probe_type \<Rightarrow> typed_row \<Rightarrow> observation_row \<Rightarrow> bool" where
  "belongs p t r \<longleftrightarrow> row_key r = typed_key t \<and> row_realm r = typed_realm t \<and> row_agent r = typed_agent t \<and>
     row_monitor r = typed_monitor t \<and> row_probe_type r = p \<and> result_probe_type (typed_result t) = p \<and>
     row_execution_status r = Completed"

definition store_inv :: "observation_store \<Rightarrow> bool" where
  "store_inv s \<longleftrightarrow> distinct (map row_key (observations s)) \<and> (\<forall>p. distinct (map typed_key (typed_results s p))) \<and>
     (\<forall>p. \<forall>t \<in> set (typed_results s p). \<exists>r \<in> set (observations s). belongs p t r) \<and>
     (\<forall>r \<in> set (observations s). row_execution_status r = Completed \<longrightarrow>
        (\<exists>t \<in> set (typed_results s (row_probe_type r)). belongs (row_probe_type r) t r))"

text \<open>The three ways an observation is answered.\<close>

lemma ingest_one_cases:
  assumes "ingest_one ch inet az content now cr s ob = Inr (t, r)"
  obtains (rejected) c where "t = s" "r = rejected ob c False" "\<And>u. ingest_one ch inet az content now cr u ob = Inr (u, r)"
  | (seen) e row where "t = s" "configured content (obs_monitor_id ob) = Some e"
      "entry_probe_type e = probe_type_str (obs_probe_type ob)" "entry_monitor_revision e = obs_monitor_revision ob"
      "\<not> obs_scheduled_at ob < now - MAXIMUM_OBSERVATION_AGE" "\<not> obs_scheduled_at ob > now + MAXIMUM_FUTURE_SKEW"
      "observation_row_ok (common_row az now cr ob (ch ob))" "find (same_identity ob) (observations s) = Some row"
      "r = (if row_payload_hash row = ch ob
            then \<lparr> res_scheduled_at = obs_scheduled_at ob, res_observation_id = obs_id ob, res_disposition = Duplicate,
                   res_code = None, res_retryable = False \<rparr>
            else rejected ob ''idempotency_conflict'' False)"
  | (accepted) e s1 where "configured content (obs_monitor_id ob) = Some e"
      "entry_probe_type e = probe_type_str (obs_probe_type ob)" "entry_monitor_revision e = obs_monitor_revision ob"
      "\<not> obs_scheduled_at ob < now - MAXIMUM_OBSERVATION_AGE" "\<not> obs_scheduled_at ob > now + MAXIMUM_FUTURE_SKEW"
      "observation_row_ok (common_row az now cr ob (ch ob))" "find (same_identity ob) (observations s) = None"
      "s1 = s\<lparr> observations := observations s @ [common_row az now cr ob (ch ob)] \<rparr>"
      "insert_typed_result inet s1 az ob = Inr t"
      "r = \<lparr> res_scheduled_at = obs_scheduled_at ob, res_observation_id = obs_id ob, res_disposition = Accepted,
             res_code = None, res_retryable = False \<rparr>"
proof (cases "configured content (obs_monitor_id ob)")
  case None
  then show ?thesis using assms by (intro rejected [of "''monitor_not_in_configuration''"]) (simp_all add: ingest_one_def)
next
  case (Some e)
  consider (type) "entry_probe_type e \<noteq> probe_type_str (obs_probe_type ob)"
    | (revision) "entry_probe_type e = probe_type_str (obs_probe_type ob)" "entry_monitor_revision e \<noteq> obs_monitor_revision ob"
    | (old) "entry_probe_type e = probe_type_str (obs_probe_type ob)" "entry_monitor_revision e = obs_monitor_revision ob"
        "obs_scheduled_at ob < now - MAXIMUM_OBSERVATION_AGE"
    | (future) "entry_probe_type e = probe_type_str (obs_probe_type ob)" "entry_monitor_revision e = obs_monitor_revision ob"
        "\<not> obs_scheduled_at ob < now - MAXIMUM_OBSERVATION_AGE" "obs_scheduled_at ob > now + MAXIMUM_FUTURE_SKEW"
    | (pass) "entry_probe_type e = probe_type_str (obs_probe_type ob)" "entry_monitor_revision e = obs_monitor_revision ob"
        "\<not> obs_scheduled_at ob < now - MAXIMUM_OBSERVATION_AGE" "\<not> obs_scheduled_at ob > now + MAXIMUM_FUTURE_SKEW"
    by blast
  then show ?thesis
  proof cases
    case type
    then show ?thesis using assms Some
      by (intro rejected [of "''monitor_not_in_configuration''"]) (simp_all add: ingest_one_def)
  next
    case revision
    then show ?thesis using assms Some
      by (intro rejected [of "''monitor_revision_mismatch''"]) (simp_all add: ingest_one_def)
  next
    case old
    then show ?thesis using assms Some
      by (intro rejected [of "''observation_too_old''"]) (simp_all add: ingest_one_def)
  next
    case future
    then show ?thesis using assms Some
      by (intro rejected [of "''observation_in_future''"]) (simp_all add: ingest_one_def)
  next
    case pass
    have ok: "observation_row_ok (common_row az now cr ob (ch ob))"
      using assms by (simp add: ingest_one_def Some pass insert_common_def Let_def)
    show ?thesis
    proof (cases "find (same_identity ob) (observations s)")
      case None
      then have "\<not> exists_row (same_identity ob) (observations s)" by (simp add: find_None_iff_all exists_row_iff)
      then show ?thesis
        using assms by (intro accepted [OF Some pass ok None refl]) (simp_all add: ingest_one_def Some pass ok insert_common_def Let_def)
    next
      case (Some row)
      then have "exists_row (same_identity ob) (observations s)"
        using find_Some_iff_in [OF Some] by (auto simp: exists_row_iff)
      then show ?thesis
        using assms by (intro seen [OF _ \<open>configured content (obs_monitor_id ob) = Some e\<close> pass ok Some])
          (simp_all add: ingest_one_def \<open>configured content (obs_monitor_id ob) = Some e\<close> pass ok insert_common_def Let_def
            existing_hash_def Some rejected_def split: if_splits)
    qed
  qed
qed

lemma insert_typed_result_Inr:
  assumes "insert_typed_result inet s az ob = Inr t"
  obtains (none) "obs_result ob = None" "t = s"
  | (row) r where "obs_result ob = Some r" "typed_result_ok inet r"
      "\<And>x. x \<in> set (typed_results s (obs_probe_type ob)) \<Longrightarrow> typed_key x \<noteq> (obs_scheduled_at ob, obs_id ob)"
      "t = s\<lparr> typed_results := (typed_results s)(obs_probe_type ob := typed_results s (obs_probe_type ob) @
         [\<lparr> typed_scheduled_at = obs_scheduled_at ob, typed_observation_id = obs_id ob,
            typed_realm = realm_id (auth_realm az), typed_agent = agent_id (auth_agent az),
            typed_monitor = obs_monitor_id ob, typed_result = r \<rparr>]) \<rparr>"
proof (cases "obs_result ob")
  case None
  then show thesis using assms by (intro none) (simp_all add: insert_typed_result_def)
next
  case (Some r)
  then show thesis using assms
    by (intro row [OF Some]) (auto simp: insert_typed_result_def Let_def exists_row_iff typed_key_def)
qed

lemma ingest_one_grows:
  assumes "ingest_one ch inet az content now cr s ob = Inr (t, r)"
  shows "grown s t"
  using assms
proof (cases rule: ingest_one_cases)
  case (accepted e s1)
  from accepted(9) show ?thesis
    by (cases rule: insert_typed_result_Inr) (simp_all add: grown_def accepted(8))
qed (simp_all add: grown_def)

lemma grown_trans: "grown s t \<Longrightarrow> grown t u \<Longrightarrow> grown s u"
  unfolding grown_def by (meson prefix_order.trans)

lemma find_grown:
  assumes "find (same_identity ob) (observations s) = Some row" and "grown s u"
  shows "find (same_identity ob) (observations u) = Some row"
proof -
  obtain more where "observations u = observations s @ more" using assms(2) by (auto simp: grown_def prefix_def)
  then show ?thesis using assms(1) by (simp add: find_append)
qed

lemma same_identity_common [simp]: "same_identity ob (common_row az now cr ob h)"
  by (simp add: same_identity_def common_row_def)

lemma ingest_one_replays:
  assumes "ingest_one ch inet az content now cr s ob = Inr (t, r)" and u: "grown t u"
  shows "ingest_one ch inet az content now cr u ob = Inr (u, replayed r)"
  using assms(1)
proof (cases rule: ingest_one_cases)
  case (rejected c)
  then show ?thesis by (simp add: replayed_def rejected_def)
next
  case (seen e row)
  have f: "find (same_identity ob) (observations u) = Some row" using find_grown [OF seen(8)] u seen(1) by simp
  then have "exists_row (same_identity ob) (observations u)"
    using find_Some_iff_in [OF f] unfolding exists_row_iff by blast
  then have "insert_common u az now cr ob (ch ob) = Inr (u, False)" by (simp add: insert_common_def Let_def seen(7))
  then show ?thesis
    by (simp add: ingest_one_def seen(2-6) Let_def existing_hash_def f) (simp add: seen(9) rejected_def replayed_def)
next
  case (accepted e s1)
  let ?row = "common_row az now cr ob (ch ob)"
  have "find (same_identity ob) (observations s1) = Some ?row"
    by (simp add: accepted(8) find_append accepted(7))
  moreover have "observations t = observations s1"
    using accepted(9) by (cases rule: insert_typed_result_Inr) simp_all
  ultimately have f: "find (same_identity ob) (observations u) = Some ?row"
    using find_grown [OF _ u, of ob ?row] by simp
  then have "exists_row (same_identity ob) (observations u)"
    using find_Some_iff_in [OF f] unfolding exists_row_iff by blast
  then have "insert_common u az now cr ob (ch ob) = Inr (u, False)" by (simp add: insert_common_def Let_def accepted(6))
  then show ?thesis
    by (simp add: ingest_one_def accepted(1-5) Let_def existing_hash_def f)
      (simp add: accepted(10) common_row_def replayed_def)
qed

lemma ingest_one_inv:
  assumes "ingest_one ch inet az content now cr s ob = Inr (t, r)" and ob: "observation_valid ob" and inv: "store_inv s"
  shows "store_inv t"
  using assms(1)
proof (cases rule: ingest_one_cases)
  case (accepted e s1)
  let ?row = "common_row az now cr ob (ch ob)"
  have new: "row_key x \<noteq> (obs_scheduled_at ob, obs_id ob)" if "x \<in> set (observations s)" for x
    using accepted(7) that by (auto simp: find_None_iff_all same_identity_def row_key_def)
  have k: "row_key ?row = (obs_scheduled_at ob, obs_id ob)" by (simp add: row_key_def common_row_def)
  from accepted(9) show ?thesis
  proof (cases rule: insert_typed_result_Inr)
    case none
    then have "row_execution_status ?row = Failed"
      using ob by (cases "obs_execution_status ob") (simp_all add: observation_valid_def common_row_def)
    then show ?thesis
      using inv new k unfolding none(2) accepted(8) store_inv_def by (fastforce simp: image_iff)
  next
    case (row res)
    let ?t = "\<lparr> typed_scheduled_at = obs_scheduled_at ob, typed_observation_id = obs_id ob,
            typed_realm = realm_id (auth_realm az), typed_agent = agent_id (auth_agent az),
            typed_monitor = obs_monitor_id ob, typed_result = res \<rparr>"
    have st: "obs_execution_status ob = Completed" "result_probe_type res = obs_probe_type ob"
      using ob row(1) by (cases "obs_execution_status ob"; simp add: observation_valid_def)+
    have b: "belongs (obs_probe_type ob) ?t ?row"
      by (simp add: belongs_def row_key_def typed_key_def common_row_def st)
    have p: "row_probe_type ?row = obs_probe_type ob" by (simp add: common_row_def)
    have obs: "observations t = observations s @ [?row]" by (simp add: row(4) accepted(8))
    have typed: "typed_results t p = typed_results s p @ (if p = obs_probe_type ob then [?t] else [])" for p
      by (simp add: row(4) accepted(8))
    have d: "distinct (map typed_key (typed_results t p))" for p
    proof (cases "p = obs_probe_type ob")
      case True
      have "typed_key x \<noteq> typed_key ?t" if "x \<in> set (typed_results s p)" for x
        using row(3) [of x] that True by (simp add: accepted(8) typed_key_def)
      then have "distinct (map typed_key (typed_results s p @ [?t]))"
        using inv by (intro distinct_map_snoc) (simp_all add: store_inv_def)
      then show ?thesis using True by (simp add: typed)
    qed (use inv in \<open>simp add: typed store_inv_def\<close>)
    have "\<exists>r \<in> set (observations t). belongs p x r" if "x \<in> set (typed_results t p)" for p x
      using that inv b by (auto simp: typed obs store_inv_def split: if_splits)
    moreover have "\<exists>x \<in> set (typed_results t (row_probe_type r)). belongs (row_probe_type r) x r"
      if "r \<in> set (observations t)" "row_execution_status r = Completed" for r
      using that inv b by (auto simp: typed obs store_inv_def p)
    moreover have "distinct (map row_key (observations t))"
      unfolding obs using inv new k by (intro distinct_map_snoc) (simp_all add: store_inv_def)
    ultimately show ?thesis using d unfolding store_inv_def by blast
  qed
qed (use inv in simp_all)

interpretation observation_ingest: ingestor "ingest_one ch inet az content now cr" grown replayed observation_valid store_inv
  for ch inet az content now cr
proof
  show "grown s s" for s by (simp add: grown_def)
qed (fact grown_trans, (rule ingest_one_grows ingest_one_replays ingest_one_inv; assumption)+)

section \<open>Properties\<close>

lemma ingest_observations_Inr:
  assumes "ingest_observations ch inet db s now az up = Inr (t, rs)"
  obtains (unavailable) "t = s" "rs = map (\<lambda>ob. rejected ob ''configuration_revision_unavailable'' True) (up_observations up)"
      "\<And>u. ingest_observations ch inet db u now az up = Inr (u, rs)"
  | (snapshot) snap where "snap \<in> set (agent_configuration_snapshots db)"
      "snapshot_realm snap = realm_id (auth_realm az)" "snapshot_agent snap = agent_id (auth_agent az)"
      "snapshot_revision snap = up_agent_config_revision up"
      "\<And>u. ingest_observations ch inet db u now az up =
         ingest_all (ingest_one ch inet az (snapshot_configuration snap) now (up_agent_config_revision up)) u (up_observations up)"
proof (cases "find (\<lambda>x. snapshot_realm x = realm_id (auth_realm az) \<and> snapshot_agent x = agent_id (auth_agent az) \<and>
      snapshot_revision x = up_agent_config_revision up) (agent_configuration_snapshots db)")
  case None
  then show thesis using assms by (intro unavailable) (simp_all add: ingest_observations_def)
next
  case (Some snap)
  then show thesis
    using find_Some_iff_in [OF Some] by (intro snapshot [of snap]) (simp_all add: ingest_observations_def)
qed

lemma ingest_store_inv:
  assumes "ingest_observations ch inet db s now az up = Inr (t, rs)" and "upload_valid up" and "store_inv s"
  shows "store_inv t"
  using assms(1)
proof (cases rule: ingest_observations_Inr)
  case unavailable
  then show ?thesis using assms(3) by simp
next
  case (snapshot snap)
  then show ?thesis
    using observation_ingest.all_inv assms by (simp add: upload_valid_def)
qed

text \<open>C19: an upload keeps the observation store consistent: one row per identity in every table, every
  typed result belongs to a completed observation of its realm, agent, monitor and probe type, and
  every completed observation has its typed result.\<close>

theorem ingest_keeps_store_consistent:
  assumes "ingest_observations ch inet db s now az up = Inr (t, rs)" and "upload_valid up" and "store_inv s"
  shows "store_inv t"
  using assms by (rule ingest_store_inv)


lemma ingest_all_new_rows:
  assumes "ingest_all (ingest_one ch inet az content now cr) s obs = Inr (t, rs)"
    and "row \<in> set (observations t)" and "row \<notin> set (observations s)"
  shows "\<exists>ob e. ob \<in> set obs \<and> configured content (obs_monitor_id ob) = Some e \<and> row = common_row az now cr ob (ch ob) \<and>
    entry_probe_type e = probe_type_str (obs_probe_type ob) \<and> entry_monitor_revision e = obs_monitor_revision ob \<and>
    \<not> obs_scheduled_at ob < now - MAXIMUM_OBSERVATION_AGE \<and> \<not> obs_scheduled_at ob > now + MAXIMUM_FUTURE_SKEW"
  using assms
proof (induction obs arbitrary: s rs)
  case (Cons ob obs)
  then obtain s1 r rs' where o1: "ingest_one ch inet az content now cr s ob = Inr (s1, r)"
    and o2: "ingest_all (ingest_one ch inet az content now cr) s1 obs = Inr (t, rs')" by auto
  show ?case
  proof (cases "row \<in> set (observations s1)")
    case True
    from o1 show ?thesis
    proof (cases rule: ingest_one_cases)
      case (accepted e s2)
      have "observations s1 = observations s2"
        using accepted(9) by (cases rule: insert_typed_result_Inr) simp_all
      then have "row = common_row az now cr ob (ch ob)" using True Cons.prems(3) by (simp add: accepted(8))
      then show ?thesis using accepted(1-5) by (intro exI [of _ ob] exI [of _ e]) simp
    qed (use True Cons.prems(3) in simp_all)
  next
    case False
    then show ?thesis using Cons.IH [OF o2 Cons.prems(2)] by (meson list.set_intros(2))
  qed
qed simp

text \<open>C21: an agent can only add observations in its own realm and name, of a monitor in the
  configuration issued to it under the named revision, with that configuration's monitor revision and
  probe type, scheduled at most 30 days ago and at most five minutes ahead.\<close>

theorem ingested_observation_authorised:
  assumes "ingest_observations ch inet db s now az up = Inr (t, rs)"
    and "row \<in> set (observations t)" and "row \<notin> set (observations s)"
  shows "row_realm row = realm_id (auth_realm az) \<and> row_agent row = agent_id (auth_agent az) \<and>
    now - days 30 \<le> row_scheduled_at row \<and> row_scheduled_at row \<le> now + minutes 5 \<and>
    (\<exists>snap \<in> set (agent_configuration_snapshots db). snapshot_realm snap = row_realm row \<and>
       snapshot_agent snap = row_agent row \<and> snapshot_revision snap = row_agent_config_revision row \<and>
       (\<exists>e \<in> set (content_monitors (snapshot_configuration snap)). entry_monitor_id e = row_monitor row \<and>
          entry_monitor_revision e = row_monitor_revision row \<and>
          entry_probe_type e = probe_type_str (row_probe_type row)))"
  using assms(1)
proof (cases rule: ingest_observations_Inr)
  case unavailable
  then show ?thesis using assms(2,3) by simp
next
  case (snapshot snap)
  obtain ob e where e: "configured (snapshot_configuration snap) (obs_monitor_id ob) = Some e"
    and row: "row = common_row az now (up_agent_config_revision up) ob (ch ob)"
    and k: "entry_probe_type e = probe_type_str (obs_probe_type ob)" "entry_monitor_revision e = obs_monitor_revision ob"
      "\<not> obs_scheduled_at ob < now - MAXIMUM_OBSERVATION_AGE" "\<not> obs_scheduled_at ob > now + MAXIMUM_FUTURE_SKEW"
    using ingest_all_new_rows [OF _ assms(2,3)] assms(1) snapshot(5) by metis
  have e': "e \<in> set (content_monitors (snapshot_configuration snap))" "entry_monitor_id e = obs_monitor_id ob"
    using find_Some_iff_in [OF e [unfolded configured_def]] by simp_all
  show ?thesis
    using k snapshot(2-4)
    by (auto simp: row common_row_def MAXIMUM_OBSERVATION_AGE_def MAXIMUM_FUTURE_SKEW_def e'
        intro!: bexI [OF _ snapshot(1)] bexI [OF _ e'(1)])
qed

lemma ingest_all_append:
  "ingest_all one s (xs @ ys) = bind_result (ingest_all one s xs) (\<lambda>(s1, rs).
     bind_result (ingest_all one s1 ys) (\<lambda>(s2, rs'). Inr (s2, rs @ rs')))"
proof (induction xs arbitrary: s)
  case Nil
  show ?case by (cases "ingest_all one s ys") auto
next
  case (Cons x xs)
  show ?case
  proof (cases "one s x")
    case (Inr p)
    then obtain s1 r where p: "one s x = Inr (s1, r)" by (cases p) simp
    show ?thesis
    proof (cases "ingest_all one s1 xs")
      case (Inr q)
      then obtain s2 rs where "ingest_all one s1 xs = Inr (s2, rs)" by (cases q) simp
      then show ?thesis by (cases "ingest_all one s2 ys") (auto simp: Cons.IH p)
    qed (simp add: Cons.IH p)
  qed simp
qed

lemma tcp_without_address_refused:
  assumes "configured content (obs_monitor_id ob) = Some e" "entry_probe_type e = probe_type_str (obs_probe_type ob)"
    "entry_monitor_revision e = obs_monitor_revision ob" "now - MAXIMUM_OBSERVATION_AGE \<le> obs_scheduled_at ob"
    "obs_scheduled_at ob \<le> now + MAXIMUM_FUTURE_SKEW"
    and "obs_result ob = Some (TcpObservationResult r)" "address_used r = None"
    and "\<not> exists_row (same_identity ob) (observations s)"
  shows "ingest_one ch inet az content now cr s ob = Inl DatabaseError"
  using assms by (simp add: ingest_one_def insert_common_def insert_typed_result_def Let_def raise_if_def)

text \<open>C22: a completed TCP observation without an address passes the schema but is refused by its table.
  One such new observation anywhere in a batch makes the whole batch fail, so that none of its
  observations is stored.\<close>

theorem tcp_without_address_aborts_batch:
  assumes "find (\<lambda>x. snapshot_realm x = realm_id (auth_realm az) \<and> snapshot_agent x = agent_id (auth_agent az) \<and>
      snapshot_revision x = up_agent_config_revision up) (agent_configuration_snapshots db) = Some snap"
    and "up_observations up = before @ ob # after"
    and "configured (snapshot_configuration snap) (obs_monitor_id ob) = Some e"
    and "entry_probe_type e = probe_type_str (obs_probe_type ob)" "entry_monitor_revision e = obs_monitor_revision ob"
    and "now - days 30 \<le> obs_scheduled_at ob" "obs_scheduled_at ob \<le> now + minutes 5"
    and "obs_result ob = Some (TcpObservationResult r)" "address_used r = None"
    and "\<not> exists_row (same_identity ob) (observations s)"
    and "\<not> exists_row (\<lambda>x. obs_scheduled_at x = obs_scheduled_at ob \<and> obs_id x = obs_id ob) before"
  shows "ingest_observations ch inet db s now az up = Inl DatabaseError"
proof -
  let ?one = "ingest_one ch inet az (snapshot_configuration snap) now (up_agent_config_revision up)"
  have "?one s1 ob = Inl DatabaseError" if b: "ingest_all ?one s before = Inr (s1, rs)" for s1 rs
  proof (rule tcp_without_address_refused)
    show "\<not> exists_row (same_identity ob) (observations s1)"
    proof
      assume "exists_row (same_identity ob) (observations s1)"
      then obtain row where row: "row \<in> set (observations s1)" "same_identity ob row" by (auto simp: exists_row_iff)
      then have "row \<notin> set (observations s)" using assms(10) by (auto simp: exists_row_iff)
      from ingest_all_new_rows [OF b row(1) this] obtain ob' where "ob' \<in> set before"
        "row = common_row az now (up_agent_config_revision up) ob' (ch ob')" by blast
      then show False using row(2) assms(11) by (auto simp: exists_row_iff same_identity_def common_row_def)
    qed
  qed (use assms in \<open>simp_all add: MAXIMUM_OBSERVATION_AGE_def MAXIMUM_FUTURE_SKEW_def\<close>)
  then show ?thesis
    unfolding ingest_observations_def assms(1,2) option.case ingest_all_append
    by (cases "ingest_all ?one s before") (auto intro: ingest_error.exhaust)
qed

section \<open>Concrete uploads\<close>

definition sample_entry :: monitor_entry where
  "sample_entry = \<lparr> entry_monitor_id = 7, entry_target_id = 8, entry_monitor_revision = 1,
     entry_target_address = ''192.0.2.1'', entry_probe_type = ''tcp'', entry_probe_schema_version = 1,
     entry_interval_seconds = 60, entry_timeout_seconds = 5, entry_missed_run_policy = ''skip'',
     entry_configuration = TcpConfiguration \<lparr> tcp_schema_version = 1, tcp_port = 443, tcp_address_family = Auto \<rparr> \<rparr>"

definition sample_snapshot :: agent_configuration_snapshot where
  "sample_snapshot = \<lparr> snapshot_realm = 1, snapshot_agent = 5, snapshot_revision = 1, snapshot_content_hash = ''h'',
     snapshot_configuration = \<lparr> configuration_schema_version = 1, content_agent_id = 5, content_realm_id = 1,
       content_monitors = [sample_entry] \<rparr>, snapshot_created_at = 0 \<rparr>"

definition sample_observation :: "uuid \<Rightarrow> string option \<Rightarrow> agent_observation" where
  "sample_observation i address = \<lparr> obs_scheduled_at = 0, obs_id = i, obs_monitor_id = 7, obs_monitor_revision = 1,
     obs_probe_type = TCP, obs_started_at = 0, obs_finished_at = 0, obs_execution_status = Completed,
     obs_assessment = Healthy, obs_error_category = None, obs_error_code = None, obs_error_message = None,
     obs_agent_clock_offset_ms = None,
     obs_result = Some (TcpObservationResult \<lparr> tcp_result_port = 443, address_used = address, tcp_connect_ms = None \<rparr>) \<rparr>"

definition sample_upload :: "agent_observation list \<Rightarrow> agent_observation_upload" where
  "sample_upload obs = \<lparr> up_protocol_version = 1, up_result_schema_version = 1, up_agent_config_revision = 1,
     up_batch_id = 9, up_observations = obs \<rparr>"

definition sample_authentication :: agent_authentication where
  "sample_authentication = \<lparr> auth_realm = sample_realm, auth_agent = sample_agent 5,
     auth_credential = sample_credential 3 ''s'' \<rparr>"

definition sample_ingest :: "agent_observation list \<Rightarrow> observation_store \<Rightarrow>
    ingest_error + (observation_store \<times> agent_observation_result list)" where
  "sample_ingest obs s = ingest_observations (\<lambda>ob. ''h'') ip_address
     (empty_db\<lparr> agent_configuration_snapshots := [sample_snapshot] \<rparr>) s 0 sample_authentication (sample_upload obs)"

definition sample_store :: observation_store where
  "sample_store = \<lparr> observations = [common_row sample_authentication 0 1 (sample_observation 1 (Some ''192.0.2.1'')) ''h''],
     typed_results = (\<lambda>_. [])(TCP := [\<lparr> typed_scheduled_at = 0, typed_observation_id = 1, typed_realm = 1, typed_agent = 5,
       typed_monitor = 7, typed_result = TcpObservationResult \<lparr> tcp_result_port = 443,
         address_used = Some ''192.0.2.1'', tcp_connect_ms = None \<rparr> \<rparr>]) \<rparr>"

lemmas sample_defs = sample_ingest_def sample_upload_def sample_observation_def sample_entry_def sample_snapshot_def
  sample_authentication_def sample_agent_def sample_realm_def empty_store_def empty_db_def

definition sample_answer :: "disposition \<Rightarrow> agent_observation_result" where
  "sample_answer d = \<lparr> res_scheduled_at = 0, res_observation_id = 1, res_disposition = d, res_code = None,
     res_retryable = False \<rparr>"

lemma sample_ingest_accepts:
  "sample_ingest [sample_observation 1 (Some ''192.0.2.1'')] empty_store = Inr (sample_store, [sample_answer Accepted])"
proof -
  have "ip_address ''192.0.2.1''" by code_simp
  then show ?thesis
    by (simp add: sample_defs ingest_observations_def configured_def ingest_one_def insert_common_def insert_typed_result_def
        Let_def observation_row_ok_def common_row_def int8_def int4_def opt_all_def text_ok_def exists_row_def
        MAXIMUM_OBSERVATION_AGE_def MAXIMUM_FUTURE_SKEW_def sample_store_def sample_answer_def same_identity_def)
qed

lemma sample_upload_valid: "upload_valid (sample_upload [sample_observation 1 (Some ''192.0.2.1'')])"
  by (simp add: upload_valid_def sample_upload_def observation_valid_def sample_observation_def opt_all_def tcp_result_valid_def)

lemma store_inv_empty: "store_inv empty_store"
  by (simp add: store_inv_def empty_store_def)

theorem ingest_keeps_store_consistent_witness: "store_inv sample_store \<and> observations sample_store \<noteq> []"
  using ingest_keeps_store_consistent [OF sample_ingest_accepts [unfolded sample_ingest_def] sample_upload_valid store_inv_empty]
  by (simp add: sample_store_def)


theorem ingested_observation_authorised_witness:
  "row_agent (hd (observations sample_store)) = 5 \<and> row_realm (hd (observations sample_store)) = 1"
  using ingested_observation_authorised [OF sample_ingest_accepts [unfolded sample_ingest_def], of "hd (observations sample_store)"]
  by (simp add: sample_store_def empty_store_def sample_authentication_def sample_agent_def sample_realm_def)

theorem tcp_without_address_aborts_batch_witness:
  "upload_valid (sample_upload [sample_observation 1 (Some ''192.0.2.1''), sample_observation 2 None]) \<and>
   sample_ingest [sample_observation 1 (Some ''192.0.2.1''), sample_observation 2 None] empty_store = Inl DatabaseError"
proof
  show "upload_valid (sample_upload [sample_observation 1 (Some ''192.0.2.1''), sample_observation 2 None])"
    by (simp add: upload_valid_def sample_upload_def observation_valid_def sample_observation_def opt_all_def tcp_result_valid_def)
  show "sample_ingest [sample_observation 1 (Some ''192.0.2.1''), sample_observation 2 None] empty_store = Inl DatabaseError"
    unfolding sample_ingest_def
    by (rule tcp_without_address_aborts_batch [where snap = sample_snapshot and ob = "sample_observation 2 None" and e = sample_entry
          and before = "[sample_observation 1 (Some ''192.0.2.1'')]" and after = "[]"
          and r = "\<lparr> tcp_result_port = 443, address_used = None, tcp_connect_ms = None \<rparr>"])
      (simp_all add: sample_defs configured_def exists_row_def)
qed

end
