(* ===== verification/Auth_Security.thy ===== *)
theory Auth_Security
  imports Models
begin

text \<open>
  Users, realms and sessions: the records of \<^verbatim>\<open>models/auth.py\<close>, \<^verbatim>\<open>auth/security.py\<close>,
  \<^verbatim>\<open>auth/roles.py\<close>, \<^verbatim>\<open>auth/permissions.py\<close> and \<^verbatim>\<open>auth/audit.py\<close>. Redis is a map from keys to a
  session and the time it expires; reading a key at or after that time finds nothing. A
  session's JSON form is identified with the session. The token hash and the random tokens
  are parameters.
\<close>

section \<open>Models\<close>

record user =
  user_id :: uuid
  email :: string
  user_password_hash :: string
  first_name :: string
  last_name :: string
  user_is_active :: bool
  is_superuser :: bool
  email_verified :: bool
  session_version :: int

definition full_name :: "user \<Rightarrow> string" where
  "full_name u = strip (first_name u @ '' '' @ last_name u)"

record realm_membership =
  membership_id :: uuid
  membership_user :: uuid
  membership_realm :: uuid
  membership_role :: string

record webauthn_credential =
  wc_id :: uuid
  wc_user :: uuid
  wc_credential_id :: string
  wc_public_key :: string
  wc_sign_count :: int
  wc_name :: string
  wc_device_type :: string
  wc_backed_up :: bool
  wc_transports :: "string list"
  wc_last_used_at :: "datetime option"
  wc_created_at :: datetime

record two_factor_method =
  tf_id :: uuid
  tf_user :: uuid
  tf_method_type :: string
  tf_secret_encrypted :: string
  tf_is_enabled :: bool
  tf_verified_at :: "datetime option"
  tf_last_used_at :: "datetime option"

record recovery_code =
  rc_id :: uuid
  rc_user :: uuid
  rc_code_hash :: string
  rc_used_at :: "datetime option"

record authentication_challenge =
  ch_id :: uuid
  ch_user :: "uuid option"
  ch_type :: string
  ch_hash :: string
  ch_expires_at :: datetime
  ch_consumed_at :: "datetime option"
  ch_metadata :: "(string \<times> string) list"

text \<open>Audit metadata is JSON.\<close>

datatype json = JNull | JBool bool | JNum int | JStr string | JList "json list" | JDict "(string \<times> json) list"

datatype audit_actor_type = ActorUser | ActorAgent | ActorSystem | ActorAnonymous
datatype audit_outcome = OutcomeSuccess | OutcomeDenied | OutcomeFailure

record audit_event =
  ae_realm :: "uuid option"
  ae_actor_user :: "uuid option"
  ae_actor_type :: audit_actor_type
  ae_action :: string
  ae_outcome :: audit_outcome
  ae_target_type :: "string option"
  ae_target_id :: "string option"
  ae_source_ip :: "string option"
  ae_user_agent :: string
  ae_superuser_bypass :: bool
  ae_metadata :: "(string \<times> json) list"

record session_data =
  sd_user_id :: uuid
  active_realm_id :: "uuid option"
  auth_method :: string
  sd_created_at :: datetime
  last_activity :: datetime
  sd_user_agent :: string
  sd_ip_address :: "string option"
  redis_key :: string
  user_session_version :: int

record auth_db =
  users :: "user list"
  realms :: "realm list"
  realm_memberships :: "realm_membership list"
  webauthn_credentials :: "webauthn_credential list"
  two_factor_methods :: "two_factor_method list"
  recovery_codes :: "recovery_code list"
  authentication_challenges :: "authentication_challenge list"
  audit_events :: "audit_event list"
  redis :: "string \<rightharpoonup> session_data \<times> datetime"

definition empty_auth_db :: auth_db where
  "empty_auth_db = \<lparr> users = [], realms = [], realm_memberships = [], webauthn_credentials = [],
     two_factor_methods = [], recovery_codes = [], authentication_challenges = [],
     audit_events = [], redis = Map.empty \<rparr>"

datatype http_error = HTTPException int string | UnhandledException string

text \<open>The settings of \<^verbatim>\<open>config.py\<close> the sessions depend on.\<close>

record session_settings =
  session_key_prefix :: string
  session_ttl_seconds :: int

record http_request =
  req_cookie :: "string option"
  req_user_agent :: "string option"
  req_client :: "string option"

definition request_user_agent :: "http_request \<Rightarrow> string" where
  "request_user_agent req = (case req_user_agent req of None \<Rightarrow> '''' | Some s \<Rightarrow> s)"

section \<open>Sessions\<close>

definition normalize_email :: "string \<Rightarrow> string" where
  "normalize_email e = lower (strip e)"

definition session_key :: "(string \<Rightarrow> string) \<Rightarrow> session_settings \<Rightarrow> string \<Rightarrow> string" where
  "session_key hash_token settings token = session_key_prefix settings @ hash_token token"

definition redis_get :: "auth_db \<Rightarrow> datetime \<Rightarrow> string \<Rightarrow> session_data option" where
  "redis_get db now key = (case redis db key of None \<Rightarrow> None
     | Some (s, expires) \<Rightarrow> if now < expires then Some s else None)"

definition redis_set :: "auth_db \<Rightarrow> string \<Rightarrow> session_data \<Rightarrow> datetime \<Rightarrow> auth_db" where
  "redis_set db key s expires = db\<lparr> redis := (redis db)(key \<mapsto> (s, expires)) \<rparr>"

definition redis_delete :: "auth_db \<Rightarrow> string \<Rightarrow> auth_db" where
  "redis_delete db key = db\<lparr> redis := (redis db)(key := None) \<rparr>"

definition initial_realm_id :: "auth_db \<Rightarrow> user \<Rightarrow> uuid option" where
  "initial_realm_id db u =
     (case find (\<lambda>m. membership_user m = user_id u) (realm_memberships db) of
        Some m \<Rightarrow> Some (membership_realm m)
      | None \<Rightarrow>
         if is_superuser u
         then map_option realm_id (find (\<lambda>_. True) (sort_key realm_created_at (filter realm_is_active (realms db))))
         else None)"

definition create_session ::
  "(string \<Rightarrow> string) \<Rightarrow> session_settings \<Rightarrow> auth_db \<Rightarrow> datetime \<Rightarrow> string \<Rightarrow> user \<Rightarrow> http_request \<Rightarrow>
     string \<Rightarrow> auth_db \<times> session_data" where
  "create_session hash_token settings db now token u req method =
     (let key = session_key hash_token settings token;
          s = \<lparr> sd_user_id = user_id u, active_realm_id = initial_realm_id db u,
                auth_method = method, sd_created_at = now, last_activity = now,
                sd_user_agent = request_user_agent req, sd_ip_address = req_client req,
                redis_key = key, user_session_version = session_version u \<rparr>
      in (redis_set db key s (now + seconds (session_ttl_seconds settings)), s))"

text \<open>
  The database is returned on the error path as well: a session of a user who is gone, disabled
  or has another session version is deleted.
\<close>

definition get_session_user ::
  "(string \<Rightarrow> string) \<Rightarrow> session_settings \<Rightarrow> auth_db \<Rightarrow> datetime \<Rightarrow> http_request \<Rightarrow>
     auth_db \<times> (http_error + user \<times> session_data)" where
  "get_session_user hash_token settings db now req =
     (case req_cookie req of
        None \<Rightarrow> (db, Inl (HTTPException 401 ''Not authenticated''))
      | Some token \<Rightarrow>
         if token = '''' then (db, Inl (HTTPException 401 ''Not authenticated'')) else
         let key = session_key hash_token settings token in
         (case redis_get db now key of
            None \<Rightarrow> (db, Inl (HTTPException 401 ''Session expired''))
          | Some stored \<Rightarrow>
             let s = stored\<lparr> redis_key := key \<rparr> in
             (case find (\<lambda>u. user_id u = sd_user_id s \<and> user_is_active u) (users db) of
                None \<Rightarrow> (redis_delete db key, Inl (HTTPException 401 ''Session expired''))
              | Some u \<Rightarrow>
                 if user_session_version s \<noteq> session_version u
                 then (redis_delete db key, Inl (HTTPException 401 ''Session expired''))
                 else
                   let s' = s\<lparr> active_realm_id := (case active_realm_id s of
                                 None \<Rightarrow> initial_realm_id db u | Some r \<Rightarrow> Some r),
                              last_activity := now \<rparr>
                   in (redis_set db key s' (now + seconds (session_ttl_seconds settings)), Inr (u, s')))))"

definition set_active_realm ::
  "session_settings \<Rightarrow> auth_db \<Rightarrow> datetime \<Rightarrow> session_data \<Rightarrow> uuid \<Rightarrow> auth_db \<times> session_data" where
  "set_active_realm settings db now s r =
     (let s' = s\<lparr> active_realm_id := Some r, last_activity := now \<rparr>
      in (redis_set db (redis_key s) s' (now + seconds (session_ttl_seconds settings)), s'))"

definition delete_session ::
  "(string \<Rightarrow> string) \<Rightarrow> session_settings \<Rightarrow> auth_db \<Rightarrow> http_request \<Rightarrow> auth_db" where
  "delete_session hash_token settings db req = (case req_cookie req of
      None \<Rightarrow> db
    | Some token \<Rightarrow> if token = '''' then db else redis_delete db (session_key hash_token settings token))"

section \<open>Roles and permissions\<close>

datatype realm_role = OWNER | ADMIN | MEMBER | VIEWER

datatype realm_permission =
    REALM_READ | REALM_MANAGE | REALM_DELETE | MEMBERS_READ | MEMBERS_MANAGE
  | MONITORING_READ | MONITORING_MANAGE | AGENT_CREDENTIALS_MANAGE | ALERTS_ACKNOWLEDGE

fun role_permissions :: "realm_role \<Rightarrow> realm_permission list" where
  "role_permissions OWNER = [REALM_READ, REALM_MANAGE, REALM_DELETE, MEMBERS_READ, MEMBERS_MANAGE,
     MONITORING_READ, MONITORING_MANAGE, AGENT_CREDENTIALS_MANAGE, ALERTS_ACKNOWLEDGE]"
| "role_permissions ADMIN = [REALM_READ, MEMBERS_READ, MEMBERS_MANAGE, MONITORING_READ,
     MONITORING_MANAGE, AGENT_CREDENTIALS_MANAGE, ALERTS_ACKNOWLEDGE]"
| "role_permissions MEMBER = [REALM_READ, MONITORING_READ, MONITORING_MANAGE, ALERTS_ACKNOWLEDGE]"
| "role_permissions VIEWER = [REALM_READ, MONITORING_READ]"

definition role_has_permission :: "realm_role \<Rightarrow> realm_permission \<Rightarrow> bool" where
  "role_has_permission role p \<longleftrightarrow> p \<in> set (role_permissions role)"

text \<open>\<^verbatim>\<open>RealmRole(value)\<close>; \<^verbatim>\<open>None\<close> where it raises \<^verbatim>\<open>ValueError\<close>.\<close>

definition parse_role :: "string \<Rightarrow> realm_role option" where
  "parse_role s = (if s = ''owner'' then Some OWNER else if s = ''admin'' then Some ADMIN
     else if s = ''member'' then Some MEMBER else if s = ''viewer'' then Some VIEWER else None)"

record realm_authorization =
  az_user :: user
  az_session :: session_data
  az_realm :: realm
  az_role :: "realm_role option"
  az_membership_id :: "uuid option"
  is_superuser_bypass :: bool

definition require_superuser ::
  "(string \<Rightarrow> string) \<Rightarrow> session_settings \<Rightarrow> auth_db \<Rightarrow> datetime \<Rightarrow> http_request \<Rightarrow>
     auth_db \<times> (http_error + user \<times> session_data)" where
  "require_superuser hash_token settings db now req =
     (case get_session_user hash_token settings db now req of
        (db', Inl e) \<Rightarrow> (db', Inl e)
      | (db', Inr (u, s)) \<Rightarrow>
         if \<not> is_superuser u then (db', Inl (HTTPException 403 ''Installation superuser access required''))
         else (db', Inr (u, s)))"

definition authorize_realm ::
  "auth_db \<Rightarrow> user \<Rightarrow> session_data \<Rightarrow> realm_permission \<Rightarrow> http_error + realm_authorization" where
  "authorize_realm db u s p =
     (case active_realm_id s of
        None \<Rightarrow> Inl (HTTPException 409 ''No active realm selected'')
      | Some rid \<Rightarrow>
         (case find (\<lambda>r. realm_id r = rid \<and> realm_is_active r) (realms db) of
            None \<Rightarrow> Inl (HTTPException 404 ''Realm not found'')
          | Some r \<Rightarrow>
             if is_superuser u then
               Inr \<lparr> az_user = u, az_session = s, az_realm = r, az_role = None,
                     az_membership_id = None, is_superuser_bypass = True \<rparr>
             else (case find (\<lambda>m. membership_user m = user_id u \<and> membership_realm m = realm_id r)
                      (realm_memberships db) of
                None \<Rightarrow> Inl (HTTPException 404 ''Realm not found'')
              | Some m \<Rightarrow>
                 (case parse_role (membership_role m) of
                    None \<Rightarrow> Inl (HTTPException 403 ''Realm permission denied'')
                  | Some role \<Rightarrow>
                     if \<not> role_has_permission role p
                     then Inl (HTTPException 403 ''Realm permission denied'')
                     else Inr \<lparr> az_user = u, az_session = s, az_realm = r, az_role = Some role,
                                az_membership_id = Some (membership_id m), is_superuser_bypass = False \<rparr>))))"

definition require_realm_permission ::
  "(string \<Rightarrow> string) \<Rightarrow> session_settings \<Rightarrow> auth_db \<Rightarrow> datetime \<Rightarrow> http_request \<Rightarrow> realm_permission \<Rightarrow>
     auth_db \<times> (http_error + realm_authorization)" where
  "require_realm_permission hash_token settings db now req p =
     (case get_session_user hash_token settings db now req of
        (db', Inl e) \<Rightarrow> (db', Inl e)
      | (db', Inr (u, s)) \<Rightarrow> (db', authorize_realm db' u s p))"

section \<open>Audit\<close>

definition SENSITIVE_METADATA_PARTS :: "string list" where
  "SENSITIVE_METADATA_PARTS =
     [''authorization'', ''cookie'', ''credential'', ''password'', ''secret'', ''token'']"

definition sensitive_key :: "string \<Rightarrow> bool" where
  "sensitive_key key = (let normalized = replace_char (CHR ''-'') ''_'' (lower key)
     in list_ex (\<lambda>part. contains normalized part) SENSITIVE_METADATA_PARTS)"

text \<open>Whether \<^verbatim>\<open>_validate_metadata\<close> returns: no dictionary at any depth has a sensitive key.\<close>

fun validate_metadata :: "json \<Rightarrow> bool" where
  "validate_metadata (JDict kvs) =
     list_all (\<lambda>(k, v). \<not> sensitive_key k \<and> validate_metadata v) kvs"
| "validate_metadata (JList vs) = list_all validate_metadata vs"
| "validate_metadata v = True"

definition record_audit_event ::
  "auth_db \<Rightarrow> string \<Rightarrow> audit_outcome \<Rightarrow> audit_actor_type \<Rightarrow> http_request option \<Rightarrow> realm option \<Rightarrow>
     user option \<Rightarrow> string option \<Rightarrow> string option \<Rightarrow> bool \<Rightarrow> (string \<times> json) list \<Rightarrow>
     http_error + auth_db" where
  "record_audit_event db action outcome actor req rlm actor_user ttype tid bypass metadata =
     bind_result (raise_if (\<not> validate_metadata (JDict metadata))
       (UnhandledException ''Sensitive audit metadata key rejected'')) (\<lambda>_.
     Inr (db\<lparr> audit_events := audit_events db @ [\<lparr> ae_realm = map_option realm_id rlm,
       ae_actor_user = map_option user_id actor_user, ae_actor_type = actor, ae_action = action,
       ae_outcome = outcome, ae_target_type = ttype, ae_target_id = tid,
       ae_source_ip = (case req of None \<Rightarrow> None | Some r \<Rightarrow> req_client r),
       ae_user_agent = (case req of None \<Rightarrow> '''' | Some r \<Rightarrow> take 512 (request_user_agent r)),
       ae_superuser_bypass = bypass, ae_metadata = metadata \<rparr>] \<rparr>))"

section \<open>Properties\<close>

subsection \<open>Sessions\<close>

lemma redis_get_set [simp]:
  "redis_get (redis_set db k s e) now k' = (if k' = k then (if now < e then Some s else None) else redis_get db now k')"
  by (simp add: redis_get_def redis_set_def)

lemma redis_get_delete [simp]:
  "redis_get (redis_delete db k) now k' = (if k' = k then None else redis_get db now k')"
  by (simp add: redis_get_def redis_delete_def)

lemma redis_tables [simp]:
  "users (redis_set db k s e) = users db" "realms (redis_set db k s e) = realms db"
  "realm_memberships (redis_set db k s e) = realm_memberships db"
  "users (redis_delete db k) = users db" "realms (redis_delete db k) = realms db"
  "realm_memberships (redis_delete db k) = realm_memberships db"
  by (simp_all add: redis_set_def redis_delete_def)

lemma get_session_user_Inr:
  assumes "get_session_user h settings db now req = (db', Inr (u, s))"
  obtains token stored where "req_cookie req = Some token" "token \<noteq> ''''"
    "redis_get db now (session_key h settings token) = Some stored"
    "find (\<lambda>x. user_id x = sd_user_id stored \<and> user_is_active x) (users db) = Some u"
    "user_session_version stored = session_version u" "sd_user_id s = user_id u"
    "users db' = users db" "realms db' = realms db" "realm_memberships db' = realm_memberships db"
    "\<forall>r. active_realm_id stored = Some r \<longrightarrow> active_realm_id s = Some r"
proof -
  obtain token where t: "req_cookie req = Some token" "token \<noteq> ''''"
    using assms by (auto simp: get_session_user_def split: option.splits if_splits)
  let ?key = "session_key h settings token"
  obtain stored where st: "redis_get db now ?key = Some stored"
    using assms t by (auto simp: get_session_user_def Let_def split: option.splits)
  have u: "find (\<lambda>x. user_id x = sd_user_id stored \<and> user_is_active x) (users db) = Some u"
    and v: "user_session_version stored = session_version u"
    and s: "s = stored\<lparr> redis_key := ?key, active_realm_id := (case active_realm_id stored of
        None \<Rightarrow> initial_realm_id db u | Some r \<Rightarrow> Some r), last_activity := now \<rparr>"
    and db': "db' = redis_set db ?key s (now + seconds (session_ttl_seconds settings))"
    using assms t st by (auto simp: get_session_user_def Let_def split: option.splits if_splits)
  have "sd_user_id s = user_id u" using find_Some_iff_in [OF u] by (simp add: s)
  then show thesis
    using t st u v by (intro that [of token stored]) (auto simp: s db')
qed

text \<open>A session just created is accepted until its lifetime ends: a request that carries its
  cookie is answered with the same user, provided that user is still active and keeps the
  session version.\<close>

theorem session_round_trip:
  assumes "create_session hash_token settings db now token u req meth = (db1, s)"
    and "token \<noteq> ''''" and "req_cookie req' = Some token"
    and "later < now + seconds (session_ttl_seconds settings)"
    and "find (\<lambda>x. user_id x = user_id u \<and> user_is_active x) (users db1) = Some u'"
    and "session_version u' = session_version u"
  shows "\<exists>db2 s'. get_session_user hash_token settings db1 later req' = (db2, Inr (u', s')) \<and>
     sd_user_id s' = user_id u \<and> auth_method s' = meth \<and> sd_created_at s' = now"
  using assms
  by (auto simp: create_session_def get_session_user_def Let_def split: option.splits)

definition sample_user :: user where
  "sample_user = \<lparr> user_id = 4, email = ''a@b.c'', user_password_hash = ''h'', first_name = ''A'',
     last_name = ''B'', user_is_active = True, is_superuser = False, email_verified = True,
     session_version = 1 \<rparr>"

definition sample_request :: http_request where
  "sample_request = \<lparr> req_cookie = Some ''tok'', req_user_agent = None, req_client = None \<rparr>"

definition sample_settings :: session_settings where
  "sample_settings = \<lparr> session_key_prefix = ''session:'', session_ttl_seconds = 60 \<rparr>"

theorem session_round_trip_witness:
  "\<exists>db1 s db2 s'. create_session id sample_settings (empty_auth_db\<lparr> users := [sample_user] \<rparr>) 10 ''tok''
      sample_user sample_request ''password'' = (db1, s) \<and>
    get_session_user id sample_settings db1 11 sample_request = (db2, Inr (sample_user, s')) \<and>
    auth_method s' = ''password''"
proof -
  obtain db1 s where c: "create_session id sample_settings (empty_auth_db\<lparr> users := [sample_user] \<rparr>) 10 ''tok''
      sample_user sample_request ''password'' = (db1, s)" by (metis surj_pair)
  then have "users db1 = [sample_user]" by (auto simp: create_session_def Let_def)
  then have "find (\<lambda>x. user_id x = user_id sample_user \<and> user_is_active x) (users db1) = Some sample_user"
    by (simp add: sample_user_def)
  from session_round_trip [OF c _ _ _ this refl, of sample_request 11] c show ?thesis
    by (auto simp: sample_request_def sample_settings_def)
qed

subsection \<open>Authorisation\<close>

lemma authorize_realm_Inr:
  assumes "authorize_realm db u s p = Inr az"
  shows "az_user az = u \<and> az_realm az \<in> set (realms db) \<and> realm_is_active (az_realm az) \<and>
    active_realm_id s = Some (realm_id (az_realm az)) \<and>
    (if is_superuser_bypass az then is_superuser u
     else \<exists>m \<in> set (realm_memberships db). \<exists>role. membership_user m = user_id u \<and>
       membership_realm m = realm_id (az_realm az) \<and> az_membership_id az = Some (membership_id m) \<and>
       parse_role (membership_role m) = Some role \<and> role_has_permission role p)"
  using assms
  by (auto simp: authorize_realm_def split: option.splits if_splits dest!: find_Some_iff_in)


definition sample_session :: session_data where
  "sample_session = \<lparr> sd_user_id = 4, active_realm_id = Some 1, auth_method = ''password'',
     sd_created_at = 0, last_activity = 0, sd_user_agent = '''', sd_ip_address = None,
     redis_key = ''session:tok'', user_session_version = 1 \<rparr>"

definition sample_auth_db :: "string \<Rightarrow> auth_db" where
  "sample_auth_db role = empty_auth_db\<lparr> users := [sample_user],
     realms := [\<lparr> realm_id = 1, realm_name = ''r'', realm_slug = ''r'', realm_is_active = True,
       realm_created_at = 0 \<rparr>],
     realm_memberships := [\<lparr> membership_id = 9, membership_user = 4, membership_realm = 1,
       membership_role = role \<rparr>],
     redis := [''session:tok'' \<mapsto> (sample_session, 100)] \<rparr>"


text \<open>The roles form a chain: each role may do everything the next one may; only owners
  manage or delete the realm, and viewers only read.\<close>

theorem role_permission_chain:
  "set (role_permissions VIEWER) \<subset> set (role_permissions MEMBER) \<and>
   set (role_permissions MEMBER) \<subset> set (role_permissions ADMIN) \<and>
   set (role_permissions ADMIN) \<subset> set (role_permissions OWNER) \<and>
   (\<forall>p. role_has_permission OWNER p) \<and>
   (\<forall>r. (role_has_permission r REALM_MANAGE \<or> role_has_permission r REALM_DELETE) = (r = OWNER)) \<and>
   (\<forall>r. role_has_permission r AGENT_CREDENTIALS_MANAGE = (r = OWNER \<or> r = ADMIN)) \<and>
   (\<forall>r. role_has_permission r MONITORING_MANAGE = (r \<noteq> VIEWER))"
proof -
  have "role_has_permission OWNER p" for p
    by (cases p) (simp_all add: role_has_permission_def)
  moreover have "(role_has_permission r REALM_MANAGE \<or> role_has_permission r REALM_DELETE) = (r = OWNER) \<and>
      role_has_permission r AGENT_CREDENTIALS_MANAGE = (r = OWNER \<or> r = ADMIN) \<and>
      role_has_permission r MONITORING_MANAGE = (r \<noteq> VIEWER)" for r
    by (cases r) (simp_all add: role_has_permission_def)
  ultimately show ?thesis by auto
qed

subsection \<open>Audit metadata\<close>

text \<open>Every key at every depth.\<close>

fun json_keys :: "json \<Rightarrow> string list" where
  "json_keys (JDict kvs) = concat (map (\<lambda>(k, v). k # json_keys v) kvs)"
| "json_keys (JList vs) = concat (map json_keys vs)"
| "json_keys v = []"

lemma validate_metadata_iff: "validate_metadata v \<longleftrightarrow> (\<forall>k \<in> set (json_keys v). \<not> sensitive_key k)"
  by (induction v rule: validate_metadata.induct) (fastforce simp: list_all_iff)+



end
