(* ===== verification/Api_Monitoring.thy ===== *)
theory Api_Monitoring
  imports Agent_Configuration Auth_Security
begin

text \<open>
  The monitoring endpoints: \<^verbatim>\<open>api/monitoring.py\<close>, \<^verbatim>\<open>api/monitor_management.py\<close>,
  \<^verbatim>\<open>api/monitoring_relationships.py\<close> and the request bodies of \<^verbatim>\<open>schemas/monitoring_api.py\<close> and
  \<^verbatim>\<open>schemas/monitor_management.py\<close>. One definition per endpoint takes the outcome of its
  authorisation; \<open>handle\<close> dispatches a request: it authorises it with the permission its
  endpoint asks for, runs the endpoint and appends the audit event the endpoint records.
  A row stands for its own response.
\<close>

section \<open>Requests\<close>

record agent_create =
  ac_name :: string
  ac_description :: "string option"
  ac_enabled :: bool

record target_create =
  tc_name :: string
  tc_description :: "string option"
  tc_address :: string
  tc_enabled :: bool

text \<open>\<^verbatim>\<open>MonitorCreate\<close> and \<^verbatim>\<open>MonitorUpdate\<close> have the same fields.\<close>

record monitor_payload =
  mp_target_id :: uuid
  mp_name :: string
  mp_description :: "string option"
  mp_probe_type :: probe_type
  mp_interval_seconds :: int
  mp_timeout_seconds :: int
  mp_configuration :: typed_probe_configuration

record agent_group_create =
  gc_name :: string
  gc_description :: "string option"
  gc_parent_id :: "uuid option"
  gc_enabled :: bool

record group_create =
  tg_name :: string
  tg_description :: "string option"
  tg_parent_id :: "uuid option"

definition agent_create_valid :: "agent_create \<Rightarrow> bool" where
  "agent_create_valid p \<longleftrightarrow> length_between 1 200 (ac_name p)"

definition target_create_valid :: "target_create \<Rightarrow> bool" where
  "target_create_valid p \<longleftrightarrow> length_between 1 200 (tc_name p) \<and> length_between 1 253 (tc_address p)"

definition monitor_payload_valid :: "monitor_payload \<Rightarrow> bool" where
  "monitor_payload_valid p \<longleftrightarrow> length_between 1 200 (mp_name p) \<and> mp_interval_seconds p \<ge> 1 \<and>
     mp_timeout_seconds p \<ge> 1"

definition agent_group_create_valid :: "agent_group_create \<Rightarrow> bool" where
  "agent_group_create_valid p \<longleftrightarrow> length_between 1 200 (gc_name p)"

definition group_create_valid :: "group_create \<Rightarrow> bool" where
  "group_create_valid p \<longleftrightarrow> length_between 1 200 (tg_name p)"

datatype monitoring_request =
    ListAgents
  | CreateAgent agent_create uuid
  | CreateEnrolmentToken uuid uuid string
  | DeleteEnrolmentToken uuid uuid
  | ListCredentials uuid
  | GetAgentStatus uuid
  | DeleteCredential uuid uuid
  | ListTargets
  | CreateTarget target_create uuid
  | DeleteTarget uuid
  | ListMonitors
  | GetMonitor uuid
  | CreateMonitor monitor_payload uuid
  | UpdateMonitor uuid monitor_payload
  | ListAgentGroups
  | CreateAgentGroup agent_group_create uuid
  | ListTargetGroups
  | CreateTargetGroup group_create uuid
  | PutGroupAgent uuid uuid
  | DeleteGroupAgent uuid uuid
  | PutGroupTarget uuid uuid
  | DeleteGroupTarget uuid uuid
  | PutMonitorAgent uuid uuid
  | DeleteMonitorAgent uuid uuid
  | PutMonitorGroup uuid uuid
  | DeleteMonitorGroup uuid uuid
  | ListGroupAgents
  | ListGroupTargets
  | ListMonitorAgents
  | ListMonitorGroups

record agent_status =
  as_agent_id :: uuid
  as_online :: bool
  as_state :: "agent_operational_state option"

datatype monitoring_response =
    Agents "agent list" | Targets "target list" | Monitors "monitor list"
  | AgentGroups "agent_group list" | TargetGroups "target_group list"
  | Credentials "agent_credential list" | Status agent_status
  | EnrolmentToken uuid uuid string datetime
  | AgentMemberships "agent_group_membership list" | TargetMemberships "target_group_membership list"
  | AgentAssignments "monitor_agent_assignment list"
  | GroupAssignments "monitor_agent_group_assignment list"
  | NoContent

text \<open>What \<^verbatim>\<open>record_audit_event\<close> is told: action, target type and target identifier.\<close>

type_synonym audit_note = "string \<times> string \<times> string"

type_synonym endpoint_result = "http_error + (monitoring_db \<times> audit_note option \<times> monitoring_response)"

section \<open>Errors\<close>

definition not_found :: "string \<Rightarrow> http_error" where
  "not_found what = HTTPException 404 (what @ '' not found'')"

definition conflict :: "string \<Rightarrow> http_error" where
  "conflict detail = HTTPException 409 detail"

fun error_text :: "domain_error \<Rightarrow> string" where
  "error_text (MonitoringDomainError s) = s"
| "error_text (RealmBoundaryError s) = s"
| "error_text (HierarchyError s) = s"
| "error_text (ResourceStateError s) = s"
| "error_text IntegrityError = ''integrity''"
| "error_text (ConfigurationRejected (ValidationError s)) = s"
| "error_text (ConfigurationRejected (ValueError s)) = s"

text \<open>
  The handlers of \<^verbatim>\<open>create_monitor_endpoint\<close> and \<^verbatim>\<open>update_monitor\<close>: integrity errors are 409, domain
  and schema errors 422. A plain \<^verbatim>\<open>ValueError\<close> is caught by neither clause.
\<close>

fun monitor_error :: "domain_error \<Rightarrow> http_error" where
  "monitor_error IntegrityError = conflict ''A monitor with that name already exists''"
| "monitor_error (ConfigurationRejected (ValueError s)) = UnhandledException s"
| "monitor_error e = HTTPException 422 (error_text e)"

text \<open>The handlers that catch \<^verbatim>\<open>MonitoringDomainError\<close> only.\<close>

fun relation_error :: "domain_error \<Rightarrow> http_error" where
  "relation_error IntegrityError = UnhandledException ''IntegrityError''"
| "relation_error (ConfigurationRejected e) = UnhandledException (error_text (ConfigurationRejected e))"
| "relation_error e = HTTPException 422 (error_text e)"

section \<open>Agents\<close>

definition list_agents :: "monitoring_db \<Rightarrow> realm \<Rightarrow> agent list" where
  "list_agents db rlm = sort_key agent_name
     (filter (\<lambda>a. agent_realm a = realm_id rlm \<and> agent_archived_at a = None) (agents db))"

definition create_agent :: "monitoring_db \<Rightarrow> realm \<Rightarrow> agent_create \<Rightarrow> uuid \<Rightarrow> http_error + (monitoring_db \<times> agent)" where
  "create_agent db rlm p new_id =
     (let a = \<lparr> agent_id = new_id, agent_realm = realm_id rlm, agent_name = strip (ac_name p),
                agent_description = ac_description p, agent_enabled = ac_enabled p,
                agent_archived_at = None \<rparr>
      in bind_result (raise_if (agent_name_taken db (realm_id rlm) (agent_name a) \<or>
             exists_row (\<lambda>x. agent_id x = new_id) (agents db))
           (conflict ''An agent with that name already exists'')) (\<lambda>_.
         Inr (db\<lparr> agents := agents db @ [a] \<rparr>, a)))"

definition create_agent_enrolment_token ::
  "(string \<Rightarrow> string) \<Rightarrow> int \<Rightarrow> monitoring_db \<Rightarrow> datetime \<Rightarrow> realm \<Rightarrow> uuid \<Rightarrow> uuid \<Rightarrow> string \<Rightarrow> endpoint_result" where
  "create_agent_enrolment_token h ttl db now rlm aid new_id raw =
     (case find (\<lambda>a. agent_id a = aid \<and> agent_realm a = realm_id rlm \<and> agent_enabled a \<and>
             agent_archived_at a = None) (agents db) of
        None \<Rightarrow> Inl (not_found ''Agent'')
      | Some a \<Rightarrow>
         (case issue_enrolment_token h ttl db now new_id raw rlm a None of
            Inl e \<Rightarrow> Inl (UnhandledException ''enrolment token'')
          | Inr (db', tok, raw_token) \<Rightarrow>
              Inr (db', Some (''agent.enrolment.create'', ''agent_enrolment_token'', uuid_str (token_id tok)),
                   EnrolmentToken (token_id tok) (agent_id a) raw_token (token_expires_at tok))))"

definition delete_agent_enrolment_token ::
  "monitoring_db \<Rightarrow> datetime \<Rightarrow> realm \<Rightarrow> uuid \<Rightarrow> uuid \<Rightarrow> endpoint_result" where
  "delete_agent_enrolment_token db now rlm aid tid =
     (case find (\<lambda>a. agent_id a = aid \<and> agent_realm a = realm_id rlm) (agents db) of
        None \<Rightarrow> Inl (not_found ''Enrolment token'')
      | Some a \<Rightarrow> (case revoke_enrolment_token db now rlm a tid of
          (db', False) \<Rightarrow> Inl (not_found ''Enrolment token'')
        | (db', True) \<Rightarrow> Inr (db', Some (''agent.enrolment.revoke'', ''agent_enrolment_token'', uuid_str tid), NoContent)))"

definition list_agent_credentials ::
  "monitoring_db \<Rightarrow> realm \<Rightarrow> uuid \<Rightarrow> http_error + agent_credential list" where
  "list_agent_credentials db rlm aid =
     bind_result (raise_if (\<not> exists_row (\<lambda>a. agent_id a = aid \<and> agent_realm a = realm_id rlm) (agents db))
       (not_found ''Agent'')) (\<lambda>_.
     Inr (sort_key credential_created_at (filter (\<lambda>c. credential_agent c = aid \<and>
       credential_realm c = realm_id rlm) (agent_credentials db))))"

definition get_agent_status ::
  "int \<Rightarrow> monitoring_db \<Rightarrow> datetime \<Rightarrow> realm \<Rightarrow> uuid \<Rightarrow> http_error + agent_status" where
  "get_agent_status offline_after_seconds db now rlm aid =
     (case find (\<lambda>a. agent_id a = aid \<and> agent_realm a = realm_id rlm) (agents db) of
        None \<Rightarrow> Inl (not_found ''Agent'')
      | Some a \<Rightarrow>
         let st = Option.bind (agent_operational_states db aid)
                    (\<lambda>s. if op_realm s = realm_id rlm then Some s else None);
             online_cutoff = now - seconds offline_after_seconds
         in Inr \<lparr> as_agent_id = aid,
                  as_online = (case st of None \<Rightarrow> False
                    | Some s \<Rightarrow> agent_enabled a \<and> agent_archived_at a = None \<and> last_heartbeat_at s \<ge> online_cutoff),
                  as_state = st \<rparr>)"

definition delete_agent_credential ::
  "monitoring_db \<Rightarrow> datetime \<Rightarrow> realm \<Rightarrow> uuid \<Rightarrow> uuid \<Rightarrow> endpoint_result" where
  "delete_agent_credential db now rlm aid cid =
     (case find (\<lambda>c. credential_id c = cid \<and> credential_agent c = aid \<and> credential_realm c = realm_id rlm)
             (agent_credentials db) of
        None \<Rightarrow> Inl (not_found ''Agent credential'')
      | Some c \<Rightarrow> (case revoke_credential db now rlm (credential_id c) of
          (db', False) \<Rightarrow> Inl (not_found ''Agent credential'')
        | (db', True) \<Rightarrow> Inr (db', Some (''agent.credential.revoke'', ''agent_credential'', uuid_str cid), NoContent)))"

section \<open>Targets and monitors\<close>

definition list_targets :: "monitoring_db \<Rightarrow> realm \<Rightarrow> target list" where
  "list_targets db rlm = sort_key target_name
     (filter (\<lambda>t. target_realm t = realm_id rlm \<and> target_archived_at t = None) (targets db))"

definition create_target :: "monitoring_db \<Rightarrow> realm \<Rightarrow> target_create \<Rightarrow> uuid \<Rightarrow> http_error + (monitoring_db \<times> target)" where
  "create_target db rlm p new_id =
     (let t = \<lparr> target_id = new_id, target_realm = realm_id rlm, target_name = strip (tc_name p),
                target_description = tc_description p, target_address = strip (tc_address p),
                target_enabled = tc_enabled p, target_archived_at = None \<rparr>
      in bind_result (raise_if (target_name_taken db (realm_id rlm) (target_name t) \<or>
             exists_row (\<lambda>x. target_id x = new_id) (targets db))
           (conflict ''A target with that name already exists'')) (\<lambda>_.
         Inr (db\<lparr> targets := targets db @ [t] \<rparr>, t)))"

definition delete_target :: "monitoring_db \<Rightarrow> datetime \<Rightarrow> realm \<Rightarrow> uuid \<Rightarrow> http_error + monitoring_db" where
  "delete_target db now rlm tid =
     (case find (\<lambda>t. target_id t = tid \<and> target_realm t = realm_id rlm) (targets db) of
        None \<Rightarrow> Inl (not_found ''Target'')
      | Some t \<Rightarrow> map_error relation_error (archive_target db now rlm t))"

definition list_monitors :: "monitoring_db \<Rightarrow> realm \<Rightarrow> monitor list" where
  "list_monitors db rlm = sort_key monitor_name
     (filter (\<lambda>m. monitor_realm m = realm_id rlm \<and> monitor_archived_at m = None) (monitors db))"

definition get_monitor :: "monitoring_db \<Rightarrow> realm \<Rightarrow> uuid \<Rightarrow> http_error + monitor" where
  "get_monitor db rlm mid =
     (case find (\<lambda>m. monitor_id m = mid \<and> monitor_realm m = realm_id rlm \<and> monitor_archived_at m = None)
             (monitors db) of
        None \<Rightarrow> Inl (not_found ''Monitor'') | Some m \<Rightarrow> Inr m)"

definition create_monitor_endpoint ::
  "monitoring_db \<Rightarrow> realm \<Rightarrow> monitor_payload \<Rightarrow> uuid \<Rightarrow> http_error + (monitoring_db \<times> monitor)" where
  "create_monitor_endpoint db rlm p new_id =
     (case find (\<lambda>t. target_id t = mp_target_id p \<and> target_realm t = realm_id rlm) (targets db) of
        None \<Rightarrow> Inl (not_found ''Target'')
      | Some t \<Rightarrow> map_error monitor_error (create_monitor db new_id rlm t (strip (mp_name p)) (mp_probe_type p)
          (mp_interval_seconds p) (mp_timeout_seconds p) (mp_configuration p) (mp_description p)))"

text \<open>\<^verbatim>\<open>payload.description.strip() if payload.description else None\<close>.\<close>

definition stripped_description :: "string option \<Rightarrow> string option" where
  "stripped_description d = (case d of None \<Rightarrow> None | Some s \<Rightarrow> if s = '''' then None else Some (strip s))"

definition rename_monitor :: "monitoring_db \<Rightarrow> realm \<Rightarrow> monitor \<Rightarrow> string \<Rightarrow> string option \<Rightarrow> monitoring_db \<times> monitor" where
  "rename_monitor db rlm m name description =
     (if monitor_name m \<noteq> name \<or> monitor_description m \<noteq> description
      then (db\<lparr> monitors := update_rows (\<lambda>x. monitor_id x = monitor_id m \<and> monitor_realm x = realm_id rlm)
                (\<lambda>x. x\<lparr> monitor_name := name, monitor_description := description \<rparr>) (monitors db) \<rparr>,
            m\<lparr> monitor_name := name, monitor_description := description \<rparr>)
      else (db, m))"

definition update_monitor ::
  "monitoring_db \<Rightarrow> realm \<Rightarrow> uuid \<Rightarrow> monitor_payload \<Rightarrow> http_error + (monitoring_db \<times> monitor)" where
  "update_monitor db rlm mid p =
     (case find (\<lambda>m. monitor_id m = mid \<and> monitor_realm m = realm_id rlm \<and> monitor_archived_at m = None)
             (monitors db) of
        None \<Rightarrow> Inl (not_found ''Monitor'')
      | Some m \<Rightarrow>
         (case find (\<lambda>t. target_id t = mp_target_id p \<and> target_realm t = realm_id rlm \<and>
                 target_archived_at t = None) (targets db) of
            None \<Rightarrow> Inl (not_found ''Target'')
          | Some t \<Rightarrow>
             let name = strip (mp_name p); description = stripped_description (mp_description p) in
             bind_result (raise_if (exists_row (\<lambda>x. monitor_realm x = realm_id rlm \<and> monitor_name x = name \<and>
                 monitor_id x \<noteq> monitor_id m) (monitors db))
               (conflict ''A monitor with that name already exists'')) (\<lambda>_.
             bind_result (map_error monitor_error (update_monitor_behavior db m rlm t (mp_probe_type p)
               (mp_interval_seconds p) (mp_timeout_seconds p) (mp_configuration p))) (\<lambda>(db', m').
             Inr (rename_monitor db' rlm m' name description)))))"

section \<open>Groups\<close>

definition list_agent_groups :: "monitoring_db \<Rightarrow> realm \<Rightarrow> agent_group list" where
  "list_agent_groups db rlm = sort_key agent_group_name
     (filter (\<lambda>g. agent_group_realm g = realm_id rlm \<and> agent_group_archived_at g = None) (agent_groups db))"

definition create_agent_group ::
  "monitoring_db \<Rightarrow> realm \<Rightarrow> agent_group_create \<Rightarrow> uuid \<Rightarrow> http_error + (monitoring_db \<times> agent_group)" where
  "create_agent_group db rlm p new_id =
     bind_result (raise_if (case gc_parent_id p of None \<Rightarrow> False
       | Some i \<Rightarrow> \<not> exists_row (\<lambda>g. agent_group_id g = i \<and> agent_group_realm g = realm_id rlm \<and>
           agent_group_archived_at g = None) (agent_groups db)) (not_found ''Parent'')) (\<lambda>_.
     let g = \<lparr> agent_group_id = new_id, agent_group_realm = realm_id rlm, agent_group_parent = gc_parent_id p,
               agent_group_name = strip (gc_name p), agent_group_description = gc_description p,
               agent_group_enabled = gc_enabled p, agent_group_archived_at = None \<rparr>
     in bind_result (raise_if (agent_group_name_taken db (realm_id rlm) (gc_parent_id p) (agent_group_name g) \<or>
            exists_row (\<lambda>x. agent_group_id x = new_id) (agent_groups db))
          (conflict ''An agent group with that sibling name already exists'')) (\<lambda>_.
        Inr (db\<lparr> agent_groups := agent_groups db @ [g] \<rparr>, g)))"

definition list_target_groups :: "monitoring_db \<Rightarrow> realm \<Rightarrow> target_group list" where
  "list_target_groups db rlm = sort_key target_group_name
     (filter (\<lambda>g. target_group_realm g = realm_id rlm \<and> target_group_archived_at g = None) (target_groups db))"

definition create_target_group ::
  "monitoring_db \<Rightarrow> realm \<Rightarrow> group_create \<Rightarrow> uuid \<Rightarrow> http_error + (monitoring_db \<times> target_group)" where
  "create_target_group db rlm p new_id =
     bind_result (raise_if (case tg_parent_id p of None \<Rightarrow> False
       | Some i \<Rightarrow> \<not> exists_row (\<lambda>g. target_group_id g = i \<and> target_group_realm g = realm_id rlm \<and>
           target_group_archived_at g = None) (target_groups db)) (not_found ''Parent'')) (\<lambda>_.
     let g = \<lparr> target_group_id = new_id, target_group_realm = realm_id rlm, target_group_parent = tg_parent_id p,
               target_group_name = strip (tg_name p), target_group_description = tg_description p,
               target_group_archived_at = None \<rparr>
     in bind_result (raise_if (target_group_name_taken db (realm_id rlm) (tg_parent_id p) (target_group_name g) \<or>
            exists_row (\<lambda>x. target_group_id x = new_id) (target_groups db))
          (conflict ''A target group with that sibling name already exists'')) (\<lambda>_.
        Inr (db\<lparr> target_groups := target_groups db @ [g] \<rparr>, g)))"

section \<open>Relationships\<close>

definition find_group_in :: "monitoring_db \<Rightarrow> realm \<Rightarrow> uuid \<Rightarrow> agent_group option" where
  "find_group_in db rlm i = find (\<lambda>g. agent_group_id g = i \<and> agent_group_realm g = realm_id rlm) (agent_groups db)"

definition find_agent_in :: "monitoring_db \<Rightarrow> realm \<Rightarrow> uuid \<Rightarrow> agent option" where
  "find_agent_in db rlm i = find (\<lambda>a. agent_id a = i \<and> agent_realm a = realm_id rlm) (agents db)"

definition find_monitor_in :: "monitoring_db \<Rightarrow> realm \<Rightarrow> uuid \<Rightarrow> monitor option" where
  "find_monitor_in db rlm i = find (\<lambda>m. monitor_id m = i \<and> monitor_realm m = realm_id rlm) (monitors db)"

text \<open>Both resources loaded, or 404.\<close>

definition both :: "'a option \<Rightarrow> 'b option \<Rightarrow> ('a \<Rightarrow> 'b \<Rightarrow> http_error + 'c) \<Rightarrow> http_error + 'c" where
  "both x y f = (case (x, y) of (Some a, Some b) \<Rightarrow> f a b | _ \<Rightarrow> Inl (not_found ''Resource''))"

definition deleted_or_404 :: "string \<Rightarrow> domain_error + (monitoring_db \<times> bool) \<Rightarrow> http_error + monitoring_db" where
  "deleted_or_404 what r = bind_result (map_error relation_error r) (\<lambda>(db', deleted).
     if deleted then Inr db' else Inl (not_found what))"

definition create_agent_group_membership ::
  "monitoring_db \<Rightarrow> realm \<Rightarrow> uuid \<Rightarrow> uuid \<Rightarrow> http_error + (monitoring_db \<times> agent_group_membership)" where
  "create_agent_group_membership db rlm gid aid =
     both (find_group_in db rlm gid) (find_agent_in db rlm aid) (\<lambda>g a.
       map_error relation_error (add_agent_to_group db rlm g a))"

definition delete_agent_group_membership ::
  "monitoring_db \<Rightarrow> realm \<Rightarrow> uuid \<Rightarrow> uuid \<Rightarrow> http_error + monitoring_db" where
  "delete_agent_group_membership db rlm gid aid =
     both (find_group_in db rlm gid) (find_agent_in db rlm aid) (\<lambda>g a.
       deleted_or_404 ''Membership'' (remove_agent_from_group db rlm g a))"

definition create_target_group_membership ::
  "monitoring_db \<Rightarrow> realm \<Rightarrow> uuid \<Rightarrow> uuid \<Rightarrow> http_error + (monitoring_db \<times> target_group_membership)" where
  "create_target_group_membership db rlm gid tid =
     both (find (\<lambda>g. target_group_id g = gid \<and> target_group_realm g = realm_id rlm) (target_groups db))
          (find (\<lambda>t. target_id t = tid \<and> target_realm t = realm_id rlm) (targets db)) (\<lambda>g t.
       map_error relation_error (add_target_to_group db rlm g t))"

definition delete_target_group_membership ::
  "monitoring_db \<Rightarrow> realm \<Rightarrow> uuid \<Rightarrow> uuid \<Rightarrow> http_error + monitoring_db" where
  "delete_target_group_membership db rlm gid tid =
     (let hit = (\<lambda>m. tgm_realm m = realm_id rlm \<and> tgm_group m = gid \<and> tgm_target m = tid) in
      bind_result (raise_if (\<not> exists_row hit (target_group_memberships db)) (not_found ''Membership'')) (\<lambda>_.
      Inr (db\<lparr> target_group_memberships := delete_rows hit (target_group_memberships db) \<rparr>)))"

definition create_monitor_agent_assignment ::
  "monitoring_db \<Rightarrow> realm \<Rightarrow> uuid \<Rightarrow> uuid \<Rightarrow> http_error + (monitoring_db \<times> monitor_agent_assignment)" where
  "create_monitor_agent_assignment db rlm mid aid =
     both (find_monitor_in db rlm mid) (find_agent_in db rlm aid) (\<lambda>m a.
       map_error relation_error (assign_monitor_to_agent db rlm m a))"

definition delete_monitor_agent_assignment ::
  "monitoring_db \<Rightarrow> realm \<Rightarrow> uuid \<Rightarrow> uuid \<Rightarrow> http_error + monitoring_db" where
  "delete_monitor_agent_assignment db rlm mid aid =
     both (find_monitor_in db rlm mid) (find_agent_in db rlm aid) (\<lambda>m a.
       deleted_or_404 ''Assignment'' (unassign_monitor_from_agent db rlm m a))"

definition create_monitor_agent_group_assignment ::
  "monitoring_db \<Rightarrow> realm \<Rightarrow> uuid \<Rightarrow> uuid \<Rightarrow> http_error + (monitoring_db \<times> monitor_agent_group_assignment)" where
  "create_monitor_agent_group_assignment db rlm mid gid =
     both (find_monitor_in db rlm mid) (find_group_in db rlm gid) (\<lambda>m g.
       map_error relation_error (assign_monitor_to_agent_group db rlm m g))"

definition delete_monitor_agent_group_assignment ::
  "monitoring_db \<Rightarrow> realm \<Rightarrow> uuid \<Rightarrow> uuid \<Rightarrow> http_error + monitoring_db" where
  "delete_monitor_agent_group_assignment db rlm mid gid =
     both (find_monitor_in db rlm mid) (find_group_in db rlm gid) (\<lambda>m g.
       deleted_or_404 ''Assignment'' (unassign_monitor_from_agent_group db rlm m g))"

text \<open>The listings of \<^verbatim>\<open>api/monitoring_relationships.py\<close>, ordered by both identifiers.\<close>

definition list_agent_group_memberships :: "monitoring_db \<Rightarrow> realm \<Rightarrow> agent_group_membership list" where
  "list_agent_group_memberships db rlm = sort_key agm_group (sort_key agm_agent
     (filter (\<lambda>m. agm_realm m = realm_id rlm) (agent_group_memberships db)))"

definition list_target_group_memberships :: "monitoring_db \<Rightarrow> realm \<Rightarrow> target_group_membership list" where
  "list_target_group_memberships db rlm = sort_key tgm_group (sort_key tgm_target
     (filter (\<lambda>m. tgm_realm m = realm_id rlm) (target_group_memberships db)))"

definition list_monitor_agent_assignments :: "monitoring_db \<Rightarrow> realm \<Rightarrow> monitor_agent_assignment list" where
  "list_monitor_agent_assignments db rlm = sort_key maa_monitor (sort_key maa_agent
     (filter (\<lambda>x. maa_realm x = realm_id rlm) (monitor_agent_assignments db)))"

definition list_monitor_agent_group_assignments :: "monitoring_db \<Rightarrow> realm \<Rightarrow> monitor_agent_group_assignment list" where
  "list_monitor_agent_group_assignments db rlm = sort_key mga_monitor (sort_key mga_group
     (filter (\<lambda>x. mga_realm x = realm_id rlm) (monitor_agent_group_assignments db)))"

section \<open>Dispatch\<close>

text \<open>The permission each endpoint passes to \<^verbatim>\<open>require_realm_permission\<close>.\<close>

fun required_permission :: "monitoring_request \<Rightarrow> realm_permission" where
  "required_permission ListAgents = MONITORING_READ"
| "required_permission (ListCredentials _) = MONITORING_READ"
| "required_permission (GetAgentStatus _) = MONITORING_READ"
| "required_permission ListTargets = MONITORING_READ"
| "required_permission ListMonitors = MONITORING_READ"
| "required_permission (GetMonitor _) = MONITORING_READ"
| "required_permission ListAgentGroups = MONITORING_READ"
| "required_permission ListTargetGroups = MONITORING_READ"
| "required_permission ListGroupAgents = MONITORING_READ"
| "required_permission ListGroupTargets = MONITORING_READ"
| "required_permission ListMonitorAgents = MONITORING_READ"
| "required_permission ListMonitorGroups = MONITORING_READ"
| "required_permission _ = MONITORING_MANAGE"

text \<open>FastAPI validates the request body before the endpoint runs.\<close>

fun request_valid :: "monitoring_request \<Rightarrow> bool" where
  "request_valid (CreateAgent p _) = agent_create_valid p"
| "request_valid (CreateTarget p _) = target_create_valid p"
| "request_valid (CreateMonitor p _) = monitor_payload_valid p"
| "request_valid (UpdateMonitor _ p) = monitor_payload_valid p"
| "request_valid (CreateAgentGroup p _) = agent_group_create_valid p"
| "request_valid (CreateTargetGroup p _) = group_create_valid p"
| "request_valid _ = True"

definition reading :: "monitoring_db \<Rightarrow> monitoring_response \<Rightarrow> endpoint_result" where
  "reading db r = Inr (db, None, r)"

definition answering :: "('a \<Rightarrow> monitoring_response) \<Rightarrow> http_error + (monitoring_db \<times> 'a) \<Rightarrow> endpoint_result" where
  "answering f r = bind_result r (\<lambda>(db', x). Inr (db', None, f x))"

definition answering_nothing :: "http_error + monitoring_db \<Rightarrow> endpoint_result" where
  "answering_nothing r = bind_result r (\<lambda>db'. Inr (db', None, NoContent))"

record environment =
  env_hash_token :: "string \<Rightarrow> string"
  env_session :: session_settings
  agent_enrolment_ttl_minutes :: int
  agent_offline_after_seconds :: int

fun run_endpoint ::
  "environment \<Rightarrow> monitoring_db \<Rightarrow> datetime \<Rightarrow> realm \<Rightarrow> monitoring_request \<Rightarrow> endpoint_result" where
  "run_endpoint env db now rlm ListAgents = reading db (Agents (list_agents db rlm))"
| "run_endpoint env db now rlm (CreateAgent p i) = answering (\<lambda>a. Agents [a]) (create_agent db rlm p i)"
| "run_endpoint env db now rlm (CreateEnrolmentToken aid i raw) =
     create_agent_enrolment_token (env_hash_token env) (agent_enrolment_ttl_minutes env) db now rlm aid i raw"
| "run_endpoint env db now rlm (DeleteEnrolmentToken aid tid) = delete_agent_enrolment_token db now rlm aid tid"
| "run_endpoint env db now rlm (ListCredentials aid) =
     bind_result (list_agent_credentials db rlm aid) (\<lambda>cs. reading db (Credentials cs))"
| "run_endpoint env db now rlm (GetAgentStatus aid) =
     bind_result (get_agent_status (agent_offline_after_seconds env) db now rlm aid) (\<lambda>s. reading db (Status s))"
| "run_endpoint env db now rlm (DeleteCredential aid cid) = delete_agent_credential db now rlm aid cid"
| "run_endpoint env db now rlm ListTargets = reading db (Targets (list_targets db rlm))"
| "run_endpoint env db now rlm (CreateTarget p i) = answering (\<lambda>t. Targets [t]) (create_target db rlm p i)"
| "run_endpoint env db now rlm (DeleteTarget tid) = answering_nothing (delete_target db now rlm tid)"
| "run_endpoint env db now rlm ListMonitors = reading db (Monitors (list_monitors db rlm))"
| "run_endpoint env db now rlm (GetMonitor mid) = bind_result (get_monitor db rlm mid) (\<lambda>m. reading db (Monitors [m]))"
| "run_endpoint env db now rlm (CreateMonitor p i) = answering (\<lambda>m. Monitors [m]) (create_monitor_endpoint db rlm p i)"
| "run_endpoint env db now rlm (UpdateMonitor mid p) = answering (\<lambda>m. Monitors [m]) (update_monitor db rlm mid p)"
| "run_endpoint env db now rlm ListAgentGroups = reading db (AgentGroups (list_agent_groups db rlm))"
| "run_endpoint env db now rlm (CreateAgentGroup p i) = answering (\<lambda>g. AgentGroups [g]) (create_agent_group db rlm p i)"
| "run_endpoint env db now rlm ListTargetGroups = reading db (TargetGroups (list_target_groups db rlm))"
| "run_endpoint env db now rlm (CreateTargetGroup p i) = answering (\<lambda>g. TargetGroups [g]) (create_target_group db rlm p i)"
| "run_endpoint env db now rlm (PutGroupAgent gid aid) =
     answering (\<lambda>m. AgentMemberships [m]) (create_agent_group_membership db rlm gid aid)"
| "run_endpoint env db now rlm (DeleteGroupAgent gid aid) = answering_nothing (delete_agent_group_membership db rlm gid aid)"
| "run_endpoint env db now rlm (PutGroupTarget gid tid) =
     answering (\<lambda>m. TargetMemberships [m]) (create_target_group_membership db rlm gid tid)"
| "run_endpoint env db now rlm (DeleteGroupTarget gid tid) = answering_nothing (delete_target_group_membership db rlm gid tid)"
| "run_endpoint env db now rlm (PutMonitorAgent mid aid) =
     answering (\<lambda>x. AgentAssignments [x]) (create_monitor_agent_assignment db rlm mid aid)"
| "run_endpoint env db now rlm (DeleteMonitorAgent mid aid) = answering_nothing (delete_monitor_agent_assignment db rlm mid aid)"
| "run_endpoint env db now rlm (PutMonitorGroup mid gid) =
     answering (\<lambda>x. GroupAssignments [x]) (create_monitor_agent_group_assignment db rlm mid gid)"
| "run_endpoint env db now rlm (DeleteMonitorGroup mid gid) = answering_nothing (delete_monitor_agent_group_assignment db rlm mid gid)"
| "run_endpoint env db now rlm ListGroupAgents = reading db (AgentMemberships (list_agent_group_memberships db rlm))"
| "run_endpoint env db now rlm ListGroupTargets = reading db (TargetMemberships (list_target_group_memberships db rlm))"
| "run_endpoint env db now rlm ListMonitorAgents = reading db (AgentAssignments (list_monitor_agent_assignments db rlm))"
| "run_endpoint env db now rlm ListMonitorGroups = reading db (GroupAssignments (list_monitor_agent_group_assignments db rlm))"

record server =
  auth_state :: auth_db
  monitoring :: monitoring_db

definition audit_note_event ::
  "auth_db \<Rightarrow> http_request \<Rightarrow> realm_authorization \<Rightarrow> audit_note \<Rightarrow> http_error + auth_db" where
  "audit_note_event adb req az note = (case note of (action, ttype, tid) \<Rightarrow>
     record_audit_event adb action OutcomeSuccess ActorUser (Some req) (Some (az_realm az)) (Some (az_user az))
       (Some ttype) (Some tid) (is_superuser_bypass az) [])"

definition handle ::
  "environment \<Rightarrow> server \<Rightarrow> datetime \<Rightarrow> http_request \<Rightarrow> monitoring_request \<Rightarrow>
     server \<times> (http_error + monitoring_response)" where
  "handle env s now req r =
     (if \<not> request_valid r then (s, Inl (HTTPException 422 ''request body''))
      else (case require_realm_permission (env_hash_token env) (env_session env) (auth_state s) now req
                   (required_permission r) of
        (adb, Inl e) \<Rightarrow> (s\<lparr> auth_state := adb \<rparr>, Inl e)
      | (adb, Inr az) \<Rightarrow>
         (case run_endpoint env (monitoring s) now (az_realm az) r of
            Inl e \<Rightarrow> (s\<lparr> auth_state := adb \<rparr>, Inl e)
          | Inr (db', note, resp) \<Rightarrow>
             (case note of
                None \<Rightarrow> (s\<lparr> auth_state := adb, monitoring := db' \<rparr>, Inr resp)
              | Some n \<Rightarrow> (case audit_note_event adb req az n of
                  Inl e \<Rightarrow> (s\<lparr> auth_state := adb, monitoring := db' \<rparr>, Inl e)
                | Inr adb' \<Rightarrow> (s\<lparr> auth_state := adb', monitoring := db' \<rparr>, Inr resp))))))"

end
