(* ===== verification/Api_Agent.thy ===== *)
theory Api_Agent
  imports Observations Api_Monitoring
begin

text \<open>
  The agent endpoints of \<^verbatim>\<open>api/agent_protocol.py\<close>: enrolment, heartbeat, configuration,
  acknowledgement and observation upload, each with its authentication dependency, the checks of its
  request schema and the protocol version. A request that raises after a statement was committed
  keeps the committed state, as the code does.
\<close>

section \<open>Requests\<close>

record agent_enrolment_request =
  er_protocol_version :: int
  er_enrolment_token :: string
  er_agent_version :: string
  er_platform :: string
  er_architecture :: string
  er_hostname :: string
  er_capabilities :: agent_capabilities

record agent_acknowledgement =
  ack_protocol_version :: int
  ack_revision :: int
  ack_content_hash :: string
  ack_activated_at :: datetime

definition probe_capability_valid :: "probe_capability \<Rightarrow> bool" where
  "probe_capability_valid p \<longleftrightarrow> length (schema_versions p) \<le> 20"

definition capabilities_valid :: "agent_capabilities \<Rightarrow> bool" where
  "capabilities_valid c \<longleftrightarrow> length (probes c) \<le> 50 \<and> length (runtime c) \<le> 50 \<and> length (external_tools c) \<le> 50 \<and>
     list_all (\<lambda>(_, p). probe_capability_valid p) (probes c)"

definition enrolment_request_valid :: "agent_enrolment_request \<Rightarrow> bool" where
  "enrolment_request_valid r \<longleftrightarrow> 1 \<le> er_protocol_version r \<and> 32 \<le> length (er_enrolment_token r) \<and>
     sized 1 120 (er_agent_version r) \<and> sized 1 120 (er_platform r) \<and> sized 1 120 (er_architecture r) \<and>
     sized 1 253 (er_hostname r) \<and> capabilities_valid (er_capabilities r)"

definition heartbeat_request_valid :: "agent_heartbeat_request \<Rightarrow> bool" where
  "heartbeat_request_valid r \<longleftrightarrow> 1 \<le> hb_protocol_version r \<and> sized 1 120 (hb_agent_version r) \<and>
     sized 1 120 (hb_platform r) \<and> sized 1 120 (hb_architecture r) \<and> sized 1 253 (hb_hostname r) \<and>
     capabilities_valid (hb_capabilities r) \<and> 0 \<le> hb_active_configuration_revision r \<and>
     0 \<le> hb_known_desired_configuration_revision r \<and> 0 \<le> hb_queue_depth r \<and> 0 \<le> hb_queue_bytes r \<and>
     length (hb_warnings r) \<le> 20 \<and> list_all (\<lambda>w. length w \<le> 500) (hb_warnings r)"

definition acknowledgement_valid :: "agent_acknowledgement \<Rightarrow> bool" where
  "acknowledgement_valid a \<longleftrightarrow> 1 \<le> ack_protocol_version a \<and> 1 \<le> ack_revision a \<and>
     startswith (ack_content_hash a) ''sha256:'' \<and> sha256_hex (removeprefix (ack_content_hash a) ''sha256:'')"

datatype agent_operation =
    Heartbeat agent_heartbeat_request
  | GetConfiguration int "int option" "string option"
  | Acknowledge agent_acknowledgement
  | UploadObservations agent_observation_upload

datatype agent_request = Enrol agent_enrolment_request uuid string | Operation agent_operation

record agent_http_request =
  authorization_header :: "string option"
  content_length_header :: "string option"
  agent_client :: http_request

datatype agent_response =
    EnrolmentResponse uuid uuid uuid string datetime int int
  | HeartbeatResponse datetime int int int string bool
  | ConfigurationResponse uuid uuid int string datetime "monitor_entry list"
  | NotModified
  | AcknowledgementResponse int string
  | UploadResponse uuid "agent_observation_result list"

datatype agent_failure = AgentFailure agent_protocol_error | RequestInvalid | ServerFailure

section \<open>The server and its parameters\<close>

record agent_environment =
  ag_hash_token :: "string \<Rightarrow> string"
  ag_digest :: "configuration_content \<Rightarrow> string"
  ag_canonical_hash :: "agent_observation \<Rightarrow> string"
  ag_inet :: "string \<Rightarrow> bool"
  agent_heartbeat_interval_seconds :: int
  agent_configuration_poll_interval_seconds :: int

record backend =
  be_auth :: auth_db
  be_monitoring :: monitoring_db
  be_observations :: observation_store

definition MAXIMUM_OBSERVATION_UPLOAD_BYTES :: int where
  "MAXIMUM_OBSERVATION_UPLOAD_BYTES = push_bit 20 1"

text \<open>\<^verbatim>\<open>int(text)\<close>: white space around, a sign, decimal digits with single underscores between them.\<close>

fun digit_groups :: "bool \<Rightarrow> int \<Rightarrow> string \<Rightarrow> int option" where
  "digit_groups after_digit acc [] = (if after_digit then Some acc else None)"
| "digit_groups after_digit acc (c # cs) =
     (if is_digit_ascii c then digit_groups True (10 * acc + int (ord c - 48)) cs
      else if c = CHR ''_'' \<and> after_digit then digit_groups False acc cs else None)"

definition py_int :: "string \<Rightarrow> int option" where
  "py_int text = (case strip text of
      [] \<Rightarrow> None
    | c # cs \<Rightarrow> if c = CHR ''-'' then map_option uminus (digit_groups False 0 cs)
                else if c = CHR ''+'' then digit_groups False 0 cs
                else digit_groups False 0 (c # cs))"

definition exceeds_limit :: "string option \<Rightarrow> bool" where
  "exceeds_limit content_length = (case content_length of
      None \<Rightarrow> False
    | Some t \<Rightarrow> (case py_int t of None \<Rightarrow> True | Some n \<Rightarrow> n > MAXIMUM_OBSERVATION_UPLOAD_BYTES))"

definition observation_batch_too_large :: agent_protocol_error where
  "observation_batch_too_large = AgentProtocolError 413 ''observation_batch_too_large''
     ''The serialized observation batch exceeds 1 MiB.'' True []"

definition unsupported_result_schema :: agent_protocol_error where
  "unsupported_result_schema = AgentProtocolError 400 ''unsupported_result_schema''
     ''The observation result schema version is unsupported.'' False []"

fun failure_of :: "configuration_failure \<Rightarrow> agent_failure" where
  "failure_of (ProtocolFailure e) = AgentFailure e"
| "failure_of _ = ServerFailure"

type_synonym agent_answer = "backend \<times> (agent_failure + agent_response)"

section \<open>Endpoints\<close>

text \<open>Enrolment: the exchange is committed before the two audit events are written.\<close>

definition enrol_agent ::
  "agent_environment \<Rightarrow> backend \<Rightarrow> datetime \<Rightarrow> http_request \<Rightarrow> agent_enrolment_request \<Rightarrow> uuid \<Rightarrow> string \<Rightarrow> agent_answer" where
  "enrol_agent env b now req p new_id secret =
     (case require_supported_protocol (er_protocol_version p) of
        Inl e \<Rightarrow> (b, Inl (AgentFailure e))
      | Inr _ \<Rightarrow>
         (case exchange_enrolment_token (ag_hash_token env) (be_monitoring b) (now, new_id, secret) (er_enrolment_token p) of
            Inl (EnrolmentError m) \<Rightarrow>
              (b, Inl (AgentFailure (AgentProtocolError 401 ''invalid_enrolment_token'' m False [])))
          | Inl _ \<Rightarrow> (b, Inl ServerFailure)
          | Inr (db', agt, credential, raw_credential) \<Rightarrow>
             let b1 = b\<lparr> be_monitoring := db' \<rparr>;
                 rlm = find (\<lambda>r. realm_id r = agent_realm agt) (realms (be_auth b)) in
             (case record_audit_event (be_auth b1) ''agent.enrolment.consume'' OutcomeSuccess ActorAnonymous (Some req) rlm
                     None (Some ''agent'') (Some (uuid_str (agent_id agt))) False
                     [(''protocol_version'', JNum (er_protocol_version p))] of
                Inl _ \<Rightarrow> (b1, Inl ServerFailure)
              | Inr adb1 \<Rightarrow>
                 (case record_audit_event adb1 ''agent.credential.create'' OutcomeSuccess ActorAnonymous (Some req) rlm
                         None (Some ''agent_credential'') (Some (uuid_str (credential_id credential))) False
                         [(''agent_id'', JStr (uuid_str (agent_id agt)))] of
                    Inl _ \<Rightarrow> (b1\<lparr> be_auth := adb1 \<rparr>, Inl ServerFailure)
                  | Inr adb2 \<Rightarrow>
                     (b1\<lparr> be_auth := adb2 \<rparr>,
                      Inr (EnrolmentResponse (agent_realm agt) (agent_id agt) (credential_id credential) raw_credential
                        now (agent_heartbeat_interval_seconds env) (agent_configuration_poll_interval_seconds env)))))))"

definition sha256_text :: "string \<Rightarrow> string" where
  "sha256_text h = ''sha256:'' @ h"

definition heartbeat :: "agent_environment \<Rightarrow> backend \<Rightarrow> datetime \<Rightarrow> agent_authentication \<Rightarrow> agent_heartbeat_request \<Rightarrow> agent_answer" where
  "heartbeat env b now az p =
     (case require_supported_protocol (hb_protocol_version p) of
        Inl e \<Rightarrow> (b, Inl (AgentFailure e))
      | Inr _ \<Rightarrow>
         (case record_heartbeat (be_monitoring b) now (auth_realm az) (auth_agent az) p of
            Inl f \<Rightarrow> (b, Inl (failure_of f))
          | Inr (db', _, configuration) \<Rightarrow>
             (b\<lparr> be_monitoring := db' \<rparr>,
              Inr (HeartbeatResponse now (agent_heartbeat_interval_seconds env)
                (agent_configuration_poll_interval_seconds env) (desired_revision configuration)
                (if desired_content_hash configuration \<noteq> '''' then sha256_text (desired_content_hash configuration) else '''')
                (desired_revision configuration \<noteq> hb_active_configuration_revision p)))))"

definition get_configuration ::
  "agent_environment \<Rightarrow> backend \<Rightarrow> datetime \<Rightarrow> agent_authentication \<Rightarrow> int \<Rightarrow> int option \<Rightarrow> string option \<Rightarrow> agent_answer" where
  "get_configuration env b now az protocol_version active_revision content_hash =
     (case require_supported_protocol protocol_version of
        Inl e \<Rightarrow> (b, Inl (AgentFailure e))
      | Inr _ \<Rightarrow>
         (case get_or_create_configuration (ag_digest env) (be_monitoring b) now (auth_realm az) (auth_agent az) of
            Inl f \<Rightarrow> (b, Inl (failure_of f))
          | Inr (db', result) \<Rightarrow>
             let response_hash = sha256_text (snapshot_content_hash (result_snapshot result));
                 b' = b\<lparr> be_monitoring := db' \<rparr>
             in if active_revision = Some (snapshot_revision (result_snapshot result)) \<and> content_hash = Some response_hash
                then (b', Inr NotModified)
                else (b', Inr (ConfigurationResponse (agent_id (auth_agent az)) (realm_id (auth_realm az))
                  (snapshot_revision (result_snapshot result)) response_hash
                  (snapshot_created_at (result_snapshot result)) (content_monitors (result_content result))))))"

definition acknowledge_agent_configuration :: "backend \<Rightarrow> agent_authentication \<Rightarrow> agent_acknowledgement \<Rightarrow> agent_answer" where
  "acknowledge_agent_configuration b az p =
     (case require_supported_protocol (ack_protocol_version p) of
        Inl e \<Rightarrow> (b, Inl (AgentFailure e))
      | Inr _ \<Rightarrow>
         (case acknowledge_configuration (be_monitoring b) (auth_realm az) (auth_agent az) (ack_revision p)
                 (ack_content_hash p) (ack_activated_at p) of
            Inl f \<Rightarrow> (b, Inl (failure_of f))
          | Inr (db', st) \<Rightarrow> (b\<lparr> be_monitoring := db' \<rparr>,
              Inr (AcknowledgementResponse (acknowledged_revision st) (sha256_text (acknowledged_content_hash st))))))"

definition upload_observations ::
  "agent_environment \<Rightarrow> backend \<Rightarrow> datetime \<Rightarrow> agent_authentication \<Rightarrow> string option \<Rightarrow> agent_observation_upload \<Rightarrow> agent_answer" where
  "upload_observations env b now az content_length p =
     (if exceeds_limit content_length then (b, Inl (AgentFailure observation_batch_too_large))
      else (case require_supported_protocol (up_protocol_version p) of
        Inl e \<Rightarrow> (b, Inl (AgentFailure e))
      | Inr _ \<Rightarrow>
         if up_result_schema_version p \<noteq> 1 then (b, Inl (AgentFailure unsupported_result_schema))
         else (case ingest_observations (ag_canonical_hash env) (ag_inet env) (be_monitoring b) (be_observations b) now az p of
            Inl _ \<Rightarrow> (b, Inl ServerFailure)
          | Inr (s', results) \<Rightarrow> (b\<lparr> be_observations := s' \<rparr>, Inr (UploadResponse (up_batch_id p) results)))))"

section \<open>Dispatch\<close>

fun operation_valid :: "agent_operation \<Rightarrow> bool" where
  "operation_valid (Heartbeat p) = heartbeat_request_valid p"
| "operation_valid (GetConfiguration v active _) = (1 \<le> v \<and> opt_all (\<lambda>n. 0 \<le> n) active)"
| "operation_valid (Acknowledge p) = acknowledgement_valid p"
| "operation_valid (UploadObservations p) = upload_valid p"

text \<open>The endpoint bodies behind \<^verbatim>\<open>Depends(authenticate_agent)\<close>.\<close>

fun authenticated_endpoint ::
  "agent_environment \<Rightarrow> backend \<Rightarrow> datetime \<Rightarrow> agent_http_request \<Rightarrow> agent_authentication \<Rightarrow> agent_operation \<Rightarrow> agent_answer" where
  "authenticated_endpoint env b now req az (Heartbeat p) = heartbeat env b now az p"
| "authenticated_endpoint env b now req az (GetConfiguration v active h) = get_configuration env b now az v active h"
| "authenticated_endpoint env b now req az (Acknowledge p) = acknowledge_agent_configuration b az p"
| "authenticated_endpoint env b now req az (UploadObservations p) =
     upload_observations env b now az (content_length_header req) p"

fun agent_handle ::
  "agent_environment \<Rightarrow> backend \<Rightarrow> datetime \<Rightarrow> agent_http_request \<Rightarrow> agent_request \<Rightarrow> agent_answer" where
  "agent_handle env b now req (Enrol p i secret) =
     (if enrolment_request_valid p then enrol_agent env b now (agent_client req) p i secret else (b, Inl RequestInvalid))"
| "agent_handle env b now req (Operation r) =
     (case authenticate_agent (ag_hash_token env) (realms (be_auth b)) (be_monitoring b) now (authorization_header req) of
        Inl e \<Rightarrow> (b, Inl (AgentFailure e))
      | Inr (db', az) \<Rightarrow>
         if operation_valid r then authenticated_endpoint env (b\<lparr> be_monitoring := db' \<rparr>) now req az r
         else (b\<lparr> be_monitoring := db' \<rparr>, Inl RequestInvalid))"

end
