(* ===== verification/Configuration_Revisions.thy ===== *)
theory Configuration_Revisions
  imports Api_Monitoring
begin

text \<open>
  The revision discipline of agent configurations. \<open>configuration_inv\<close> says that a stored
  snapshot of an active agent's desired revision has the digest of the configuration the agent
  would get now. Every operation of the monitoring domain keeps it, since an operation that
  changes what an active agent gets bumps that agent's desired revision; so generating a
  configuration never meets a stale snapshot, and delivered revisions identify their content.
\<close>

section \<open>Bumping\<close>

definition bumped :: "uuid \<Rightarrow> agent_configuration_state option \<Rightarrow> agent_configuration_state" where
  "bumped r st = (let s = (case st of None \<Rightarrow> new_configuration_state r | Some s \<Rightarrow> s)
     in s\<lparr> desired_revision := desired_revision s + 1, desired_content_hash := '''' \<rparr>)"

lemma bump_state_bumped: "bump_state r a st = st(a \<mapsto> bumped r (st a))"
  by (simp add: bump_state_def bumped_def Let_def)

lemma fold_bump_state:
  "distinct ids \<Longrightarrow> fold (bump_state r) ids st =
     (\<lambda>a. if a \<in> set ids then Some (bumped r (st a)) else st a)"
  by (induction ids arbitrary: st) (auto simp: bump_state_bumped fun_eq_iff)

lemma bump_states:
  "agent_configuration_states (bump_configuration_revisions ids r db) =
     (\<lambda>a. if a \<in> set ids then Some (bumped r (agent_configuration_states db a))
          else agent_configuration_states db a)"
  by (simp add: bump_configuration_revisions_def fold_bump_state)

lemma bump_tables [simp]:
  "agents (bump_configuration_revisions ids r db) = agents db"
  "agent_groups (bump_configuration_revisions ids r db) = agent_groups db"
  "agent_group_memberships (bump_configuration_revisions ids r db) = agent_group_memberships db"
  "targets (bump_configuration_revisions ids r db) = targets db"
  "target_groups (bump_configuration_revisions ids r db) = target_groups db"
  "target_group_memberships (bump_configuration_revisions ids r db) = target_group_memberships db"
  "monitors (bump_configuration_revisions ids r db) = monitors db"
  "monitor_agent_assignments (bump_configuration_revisions ids r db) = monitor_agent_assignments db"
  "monitor_agent_group_assignments (bump_configuration_revisions ids r db) = monitor_agent_group_assignments db"
  "agent_configuration_snapshots (bump_configuration_revisions ids r db) = agent_configuration_snapshots db"
  "agent_operational_states (bump_configuration_revisions ids r db) = agent_operational_states db"
  "agent_credentials (bump_configuration_revisions ids r db) = agent_credentials db"
  "agent_enrolment_tokens (bump_configuration_revisions ids r db) = agent_enrolment_tokens db"
  by (simp_all add: bump_configuration_revisions_def)

lemma bump_nothing [simp]: "bump_configuration_revisions [] r db = db"
  by (simp add: bump_configuration_revisions_def)

definition desired_of :: "monitoring_db \<Rightarrow> uuid \<Rightarrow> int" where
  "desired_of db a = (case agent_configuration_states db a of None \<Rightarrow> 0 | Some st \<Rightarrow> desired_revision st)"

lemma desired_of_bump:
  "desired_of (bump_configuration_revisions ids r db) a = desired_of db a + (if a \<in> set ids then 1 else 0)"
  by (auto simp: desired_of_def bump_states bumped_def Let_def new_configuration_state_def split: option.splits)

section \<open>What an agent gets\<close>

definition current_content :: "monitoring_db \<Rightarrow> realm \<Rightarrow> agent \<Rightarrow> configuration_content" where
  "current_content db rlm agt =
     content_of rlm agt (map (\<lambda>(m, t). monitor_entry_of m t) (deliverable_monitors db rlm agt))"

lemma build_entries_Inr:
  "build_entries caps ms = Inr es \<Longrightarrow> es = map (\<lambda>(m, t). monitor_entry_of m t) ms"
  by (induction caps ms arbitrary: es rule: build_entries.induct) auto

definition deliverable :: "monitoring_db \<Rightarrow> realm \<Rightarrow> agent \<Rightarrow> monitor \<Rightarrow> bool" where
  "deliverable db rlm agt m \<longleftrightarrow> monitor_id m \<in> set (assigned_monitor_ids db rlm agt) \<and>
     monitor_realm m = realm_id rlm \<and> monitor_enabled m \<and> monitor_archived_at m = None \<and>
     target_active db (monitor_target m)"

lemma deliverable_monitors_filter:
  "deliverable_monitors db rlm agt = map (\<lambda>m. (m, the (find_target db (monitor_target m))))
     (sort_key monitor_id (filter (deliverable db rlm agt) (monitors db)))"
  by (simp add: deliverable_monitors_def deliverable_def [abs_def] Let_def)

lemma current_content_eqI:
  assumes "filter (deliverable db' rlm agt) (monitors db') = filter (deliverable db rlm agt) (monitors db)"
    and "\<And>m. m \<in> set (monitors db) \<Longrightarrow> deliverable db rlm agt m \<Longrightarrow>
           find_target db' (monitor_target m) = find_target db (monitor_target m)"
  shows "current_content db' rlm agt = current_content db rlm agt"
proof -
  let ?ms = "sort_key monitor_id (filter (deliverable db rlm agt) (monitors db))"
  have "map (\<lambda>m. monitor_entry_of m (the (find_target db' (monitor_target m)))) ?ms =
      map (\<lambda>m. monitor_entry_of m (the (find_target db (monitor_target m)))) ?ms"
    using assms(2) by (intro map_cong) auto
  then show ?thesis
    by (simp only: current_content_def deliverable_monitors_filter assms(1) map_map comp_def prod.case)
qed

text \<open>Operations on assignments and memberships matter through the set of assigned monitors only.\<close>

lemma current_content_assigned:
  assumes "monitors db' = monitors db" and "targets db' = targets db"
    and "set (assigned_monitor_ids db' rlm agt) = set (assigned_monitor_ids db rlm agt)"
  shows "current_content db' rlm agt = current_content db rlm agt"
proof (rule current_content_eqI)
  have "deliverable db' rlm agt = deliverable db rlm agt"
    using assms by (auto simp: fun_eq_iff deliverable_def target_active_def find_target_def)
  then show "filter (deliverable db' rlm agt) (monitors db') = filter (deliverable db rlm agt) (monitors db)"
    by (simp add: assms(1))
qed (simp add: find_target_def assms(2))

lemma assigned_iff:
  "i \<in> set (assigned_monitor_ids db rlm agt) \<longleftrightarrow>
     (\<exists>x \<in> set (monitor_agent_assignments db). maa_realm x = realm_id rlm \<and> maa_agent x = agent_id agt \<and>
        maa_enabled x \<and> maa_monitor x = i) \<or>
     (\<exists>x \<in> set (monitor_agent_group_assignments db). \<exists>y \<in> set (agent_group_memberships db).
        mga_realm x = realm_id rlm \<and> mga_enabled x \<and> mga_monitor x = i \<and> agm_realm y = realm_id rlm \<and>
        agm_agent y = agent_id agt \<and> agent_group_active db (agm_group y) \<and> mga_group x = agm_group y)"
  unfolding assigned_monitor_ids_def Let_def by auto

lemma effective_iff:
  "a \<in> set (effective_agent_ids db m) \<longleftrightarrow> monitor_archived_at m = None \<and> monitor_enabled m \<and> agent_active db a \<and>
     ((\<exists>x \<in> set (monitor_agent_assignments db). maa_realm x = monitor_realm m \<and> maa_agent x = a \<and>
        maa_enabled x \<and> maa_monitor x = monitor_id m) \<or>
     (\<exists>x \<in> set (monitor_agent_group_assignments db). \<exists>y \<in> set (agent_group_memberships db).
        mga_realm x = monitor_realm m \<and> mga_enabled x \<and> mga_monitor x = monitor_id m \<and>
        agm_realm y = monitor_realm m \<and> agm_agent y = a \<and> agent_group_active db (agm_group y) \<and>
        mga_group x = agm_group y))"
proof -
  have direct: "a \<in> maa_agent ` {x \<in> D. P x \<and> agent_active db (maa_agent x)} \<longleftrightarrow>
      agent_active db a \<and> (\<exists>x \<in> D. P x \<and> maa_agent x = a)" for P D
    by auto
  have grouped: "a \<in> agm_agent ` {y \<in> M. Q y \<and> agm_group y \<in> mga_group ` {x \<in> G. P x \<and>
        agent_group_active db (mga_group x)} \<and> agent_active db (agm_agent y)} \<longleftrightarrow>
      agent_active db a \<and> (\<exists>x \<in> G. \<exists>y \<in> M. P x \<and> Q y \<and> agm_agent y = a \<and>
        agent_group_active db (agm_group y) \<and> mga_group x = agm_group y)" for P Q G M
    by (auto simp: image_iff) metis+
  show ?thesis
    unfolding effective_agent_ids_def Let_def
    using direct [of "set (monitor_agent_assignments db)" "\<lambda>x. maa_realm x = monitor_realm m \<and>
        maa_monitor x = monitor_id m \<and> maa_enabled x"]
      grouped [of "set (agent_group_memberships db)" "\<lambda>y. agm_realm y = monitor_realm m"
        "set (monitor_agent_group_assignments db)" "\<lambda>x. mga_realm x = monitor_realm m \<and>
        mga_monitor x = monitor_id m \<and> mga_enabled x"]
    by (simp add: conj_assoc) blast
qed

text \<open>The two directions of the assignment relation agree: an active agent is effective for an
  enabled, unarchived monitor exactly if the monitor is among those assigned to it.\<close>

lemma effective_iff_assigned:
  assumes "monitor_realm m = realm_id rlm" and "monitor_enabled m" and "monitor_archived_at m = None"
    and "agent_active db (agent_id agt)"
  shows "agent_id agt \<in> set (effective_agent_ids db m) \<longleftrightarrow>
    monitor_id m \<in> set (assigned_monitor_ids db rlm agt)"
  using assms by (simp add: effective_iff assigned_iff)

section \<open>The invariant\<close>

definition agent_row_active :: "agent \<Rightarrow> bool" where
  "agent_row_active a \<longleftrightarrow> agent_enabled a \<and> agent_archived_at a = None"

text \<open>A state whose revision was never raised has no content hash yet.\<close>

definition state_ok :: "agent_configuration_state \<Rightarrow> bool" where
  "state_ok st \<longleftrightarrow> revisions_valid st \<and> (desired_revision st = 0 \<longrightarrow> desired_content_hash st = '''')"

definition configuration_inv :: "(configuration_content \<Rightarrow> string) \<Rightarrow> monitoring_db \<Rightarrow> bool" where
  "configuration_inv digest db \<longleftrightarrow>
     (\<forall>a st. agent_configuration_states db a = Some st \<longrightarrow> state_ok st) \<and>
     (\<forall>s \<in> set (agent_configuration_snapshots db).
        1 \<le> snapshot_revision s \<and> snapshot_revision s \<le> desired_of db (snapshot_agent s)) \<and>
     (\<forall>s \<in> set (agent_configuration_snapshots db). \<forall>agt \<in> set (agents db). \<forall>rlm.
        agent_id agt = snapshot_agent s \<longrightarrow> agent_realm agt = realm_id rlm \<longrightarrow> agent_row_active agt \<longrightarrow>
        snapshot_revision s = desired_of db (snapshot_agent s) \<longrightarrow>
        snapshot_content_hash s = digest (current_content db rlm agt))"

lemma configuration_invD:
  assumes "configuration_inv digest db"
  shows "agent_configuration_states db a = Some st \<Longrightarrow> state_ok st"
    and "s \<in> set (agent_configuration_snapshots db) \<Longrightarrow>
      1 \<le> snapshot_revision s \<and> snapshot_revision s \<le> desired_of db (snapshot_agent s)"
    and "s \<in> set (agent_configuration_snapshots db) \<Longrightarrow> agt \<in> set (agents db) \<Longrightarrow>
      agent_id agt = snapshot_agent s \<Longrightarrow> agent_realm agt = realm_id rlm \<Longrightarrow> agent_row_active agt \<Longrightarrow>
      snapshot_revision s = desired_of db (snapshot_agent s) \<Longrightarrow>
      snapshot_content_hash s = digest (current_content db rlm agt)"
  using assms by (auto simp: configuration_inv_def)

lemma current_content_bump [simp]:
  "current_content (bump_configuration_revisions ids r db) rlm agt = current_content db rlm agt"
  by (rule current_content_assigned) (simp_all add: set_eq_iff assigned_iff agent_group_active_def find_agent_group_def)

text \<open>The rule every operation is proved by: changed rows, then a bump of the agents whose
  configuration changed.\<close>

lemma configuration_inv_bump:
  assumes inv: "configuration_inv digest db"
    and same: "agents db' = agents db" "agent_configuration_states db' = agent_configuration_states db"
      "agent_configuration_snapshots db' = agent_configuration_snapshots db"
    and content: "\<And>agt rlm. agt \<in> set (agents db) \<Longrightarrow> agent_row_active agt \<Longrightarrow> agent_realm agt = realm_id rlm \<Longrightarrow>
      agent_id agt \<notin> set ids \<Longrightarrow> current_content db' rlm agt = current_content db rlm agt"
  shows "configuration_inv digest (bump_configuration_revisions ids r db')"
proof -
  have d: "desired_of (bump_configuration_revisions ids r db') a =
      desired_of db a + (if a \<in> set ids then 1 else 0)" for a
    by (simp only: desired_of_bump) (simp add: desired_of_def same(2))
  have "state_ok st" if "agent_configuration_states (bump_configuration_revisions ids r db') a = Some st" for a st
    using that configuration_invD(1) [OF inv, of a]
    by (fastforce simp: bump_states same bumped_def Let_def state_ok_def revisions_valid_def new_configuration_state_def
        split: if_splits option.splits)
  moreover have "1 \<le> snapshot_revision s \<and>
      snapshot_revision s \<le> desired_of (bump_configuration_revisions ids r db') (snapshot_agent s)"
    if "s \<in> set (agent_configuration_snapshots db)" for s
    using configuration_invD(2) [OF inv that] by (simp add: d)
  moreover have "snapshot_content_hash s = digest (current_content db' rlm agt)"
    if a: "s \<in> set (agent_configuration_snapshots db)" "agt \<in> set (agents db)" "agent_id agt = snapshot_agent s"
      "agent_realm agt = realm_id rlm" "agent_row_active agt"
      "snapshot_revision s = desired_of (bump_configuration_revisions ids r db') (snapshot_agent s)" for s agt rlm
  proof (cases "snapshot_agent s \<in> set ids")
    case True
    then show ?thesis using a(6) configuration_invD(2) [OF inv a(1)] by (simp add: d)
  next
    case False
    then show ?thesis
      using a(3,6) configuration_invD(3) [OF inv a(1-5)] content [OF a(2,5,4)] by (simp add: d)
  qed
  ultimately show ?thesis
    unfolding configuration_inv_def bump_tables same current_content_bump by blast
qed

lemma configuration_inv_frame:
  assumes "configuration_inv digest db" and "agents db' = agents db"
    and "agent_configuration_states db' = agent_configuration_states db"
    and "agent_configuration_snapshots db' = agent_configuration_snapshots db"
    and "\<And>agt rlm. agt \<in> set (agents db) \<Longrightarrow> agent_row_active agt \<Longrightarrow> agent_realm agt = realm_id rlm \<Longrightarrow>
      current_content db' rlm agt = current_content db rlm agt"
  shows "configuration_inv digest db'"
  using configuration_inv_bump [OF assms(1-4), of "[]" undefined] assms(5) by simp

section \<open>Well-formed databases stay well-formed\<close>

lemma wf_dbD:
  assumes "wf_db db"
  shows "unique_ids db"
    and "x \<in> set (agent_group_memberships db) \<Longrightarrow>
      in_realm_group db (agm_realm x) (agm_group x) \<and> in_realm_agent db (agm_realm x) (agm_agent x)"
    and "m \<in> set (monitors db) \<Longrightarrow> in_realm_target db (monitor_realm m) (monitor_target m)"
    and "y \<in> set (monitor_agent_assignments db) \<Longrightarrow>
      in_realm_monitor db (maa_realm y) (maa_monitor y) \<and> in_realm_agent db (maa_realm y) (maa_agent y)"
    and "z \<in> set (monitor_agent_group_assignments db) \<Longrightarrow>
      in_realm_monitor db (mga_realm z) (mga_monitor z) \<and> in_realm_group db (mga_realm z) (mga_group z)"
    and "agent_configuration_states db a = Some st \<Longrightarrow> in_realm_agent db (cs_realm st) a"
    and "agent_operational_states db a = Some op \<Longrightarrow> in_realm_agent db (op_realm op) a"
  using assms by (auto simp: wf_db_def realm_coherent_def)

lemma wf_bump:
  assumes "wf_db db" and "\<And>a. a \<in> set ids \<Longrightarrow> in_realm_agent db r a"
  shows "wf_db (bump_configuration_revisions ids r db)"
proof -
  have "in_realm_agent db (cs_realm (bumped r (agent_configuration_states db a))) a" if "a \<in> set ids" for a
    using assms(2) [OF that] wf_dbD(6) [OF assms(1)]
    by (auto simp: bumped_def Let_def new_configuration_state_def split: option.splits)
  then show ?thesis
    using assms(1) by (simp add: wf_db_def unique_ids_def realm_coherent_def in_realm_defs bump_states)
qed

lemma wf_memberships:
  assumes "wf_db db" and "\<And>x. x \<in> set ms \<Longrightarrow>
     in_realm_group db (agm_realm x) (agm_group x) \<and> in_realm_agent db (agm_realm x) (agm_agent x)"
  shows "wf_db (db\<lparr> agent_group_memberships := ms \<rparr>)"
  using assms by (simp add: wf_db_def unique_ids_def realm_coherent_def in_realm_defs)

lemma wf_target_memberships:
  assumes "wf_db db" and "\<And>x. x \<in> set ms \<Longrightarrow>
     in_realm_target_group db (tgm_realm x) (tgm_group x) \<and> in_realm_target db (tgm_realm x) (tgm_target x)"
  shows "wf_db (db\<lparr> target_group_memberships := ms \<rparr>)"
  using assms by (simp add: wf_db_def unique_ids_def realm_coherent_def in_realm_defs)

lemma wf_agent_assignments:
  assumes "wf_db db" and "\<And>x. x \<in> set xs \<Longrightarrow>
     in_realm_monitor db (maa_realm x) (maa_monitor x) \<and> in_realm_agent db (maa_realm x) (maa_agent x)"
  shows "wf_db (db\<lparr> monitor_agent_assignments := xs \<rparr>)"
  using assms by (simp add: wf_db_def unique_ids_def realm_coherent_def in_realm_defs)

lemma wf_group_assignments:
  assumes "wf_db db" and "\<And>x. x \<in> set xs \<Longrightarrow>
     in_realm_monitor db (mga_realm x) (mga_monitor x) \<and> in_realm_group db (mga_realm x) (mga_group x)"
  shows "wf_db (db\<lparr> monitor_agent_group_assignments := xs \<rparr>)"
  using assms by (simp add: wf_db_def unique_ids_def realm_coherent_def in_realm_defs)

text \<open>Tables other rows refer to may change as long as every (identifier, realm) pair stays.\<close>

lemma wf_monitors:
  assumes "wf_db db" and "distinct (map monitor_id ms)"
    and "\<And>m. m \<in> set ms \<Longrightarrow> in_realm_target db (monitor_realm m) (monitor_target m)"
    and "\<And>m. m \<in> set (monitors db) \<Longrightarrow> \<exists>m' \<in> set ms. monitor_id m' = monitor_id m \<and> monitor_realm m' = monitor_realm m"
  shows "wf_db (db\<lparr> monitors := ms \<rparr>)"
proof -
  have "in_realm_monitor (db\<lparr> monitors := ms \<rparr>) r i" if "in_realm_monitor db r i" for r i
    using that assms(4) by (fastforce simp: in_realm_monitor_def)
  moreover have "in_realm_agent (db\<lparr> monitors := ms \<rparr>) = in_realm_agent db"
    "in_realm_group (db\<lparr> monitors := ms \<rparr>) = in_realm_group db"
    "in_realm_target (db\<lparr> monitors := ms \<rparr>) = in_realm_target db"
    "in_realm_target_group (db\<lparr> monitors := ms \<rparr>) = in_realm_target_group db"
    by (simp_all add: fun_eq_iff in_realm_defs)
  ultimately show ?thesis
    using assms(1-3) by (simp add: wf_db_def unique_ids_def realm_coherent_def)
qed

lemma wf_targets:
  assumes "wf_db db" and "distinct (map target_id ts)"
    and "\<And>t. t \<in> set (targets db) \<Longrightarrow> \<exists>t' \<in> set ts. target_id t' = target_id t \<and> target_realm t' = target_realm t"
  shows "wf_db (db\<lparr> targets := ts \<rparr>)"
proof -
  have "in_realm_target (db\<lparr> targets := ts \<rparr>) r i" if "in_realm_target db r i" for r i
    using that assms(3) by (fastforce simp: in_realm_target_def)
  moreover have "in_realm_agent (db\<lparr> targets := ts \<rparr>) = in_realm_agent db"
    "in_realm_group (db\<lparr> targets := ts \<rparr>) = in_realm_group db"
    "in_realm_monitor (db\<lparr> targets := ts \<rparr>) = in_realm_monitor db"
    "in_realm_target_group (db\<lparr> targets := ts \<rparr>) = in_realm_target_group db"
    by (simp_all add: fun_eq_iff in_realm_defs)
  ultimately show ?thesis
    using assms(1,2) by (simp add: wf_db_def unique_ids_def realm_coherent_def)
qed

lemma wf_agents:
  assumes "wf_db db" and "distinct (map agent_id xs)"
    and "\<And>a. a \<in> set (agents db) \<Longrightarrow> \<exists>a' \<in> set xs. agent_id a' = agent_id a \<and> agent_realm a' = agent_realm a"
  shows "wf_db (db\<lparr> agents := xs \<rparr>)"
proof -
  have "in_realm_agent (db\<lparr> agents := xs \<rparr>) r i" if "in_realm_agent db r i" for r i
    using that assms(3) by (fastforce simp: in_realm_agent_def)
  moreover have "in_realm_target (db\<lparr> agents := xs \<rparr>) = in_realm_target db"
    "in_realm_group (db\<lparr> agents := xs \<rparr>) = in_realm_group db"
    "in_realm_monitor (db\<lparr> agents := xs \<rparr>) = in_realm_monitor db"
    "in_realm_target_group (db\<lparr> agents := xs \<rparr>) = in_realm_target_group db"
    by (simp_all add: fun_eq_iff in_realm_defs)
  ultimately show ?thesis
    using assms(1,2) by (simp add: wf_db_def unique_ids_def realm_coherent_def)
qed

lemma wf_agent_groups:
  assumes "wf_db db" and "distinct (map agent_group_id gs)"
    and "parents_coherent agent_group_id agent_group_realm agent_group_parent gs"
    and "\<And>g. g \<in> set (agent_groups db) \<Longrightarrow>
      \<exists>g' \<in> set gs. agent_group_id g' = agent_group_id g \<and> agent_group_realm g' = agent_group_realm g"
  shows "wf_db (db\<lparr> agent_groups := gs \<rparr>)"
proof -
  have "in_realm_group (db\<lparr> agent_groups := gs \<rparr>) r i" if "in_realm_group db r i" for r i
    using that assms(4) by (fastforce simp: in_realm_group_def)
  moreover have "in_realm_target (db\<lparr> agent_groups := gs \<rparr>) = in_realm_target db"
    "in_realm_agent (db\<lparr> agent_groups := gs \<rparr>) = in_realm_agent db"
    "in_realm_monitor (db\<lparr> agent_groups := gs \<rparr>) = in_realm_monitor db"
    "in_realm_target_group (db\<lparr> agent_groups := gs \<rparr>) = in_realm_target_group db"
    by (simp_all add: fun_eq_iff in_realm_defs)
  moreover have "in_realm_group (db\<lparr> agent_groups := gs \<rparr>) (agent_group_realm g) p"
    if "g \<in> set gs" "agent_group_parent g = Some p" for g p
    using assms(3) that by (auto simp: parents_coherent_def in_realm_group_def)
  ultimately show ?thesis
    using assms(1,2) by (simp add: wf_db_def unique_ids_def realm_coherent_def)
qed

lemma wf_target_groups:
  assumes "wf_db db" and "distinct (map target_group_id gs)"
    and "parents_coherent target_group_id target_group_realm target_group_parent gs"
    and "\<And>g. g \<in> set (target_groups db) \<Longrightarrow>
      \<exists>g' \<in> set gs. target_group_id g' = target_group_id g \<and> target_group_realm g' = target_group_realm g"
  shows "wf_db (db\<lparr> target_groups := gs \<rparr>)"
proof -
  have "in_realm_target_group (db\<lparr> target_groups := gs \<rparr>) r i" if "in_realm_target_group db r i" for r i
    using that assms(4) by (fastforce simp: in_realm_target_group_def)
  moreover have "in_realm_target (db\<lparr> target_groups := gs \<rparr>) = in_realm_target db"
    "in_realm_agent (db\<lparr> target_groups := gs \<rparr>) = in_realm_agent db"
    "in_realm_monitor (db\<lparr> target_groups := gs \<rparr>) = in_realm_monitor db"
    "in_realm_group (db\<lparr> target_groups := gs \<rparr>) = in_realm_group db"
    by (simp_all add: fun_eq_iff in_realm_defs)
  moreover have "in_realm_target_group (db\<lparr> target_groups := gs \<rparr>) (target_group_realm g) p"
    if "g \<in> set gs" "target_group_parent g = Some p" for g p
    using assms(3) that by (auto simp: parents_coherent_def in_realm_target_group_def)
  ultimately show ?thesis
    using assms(1,2) by (simp add: wf_db_def unique_ids_def realm_coherent_def)
qed

section \<open>Every operation keeps the invariant\<close>

definition db_inv :: "(configuration_content \<Rightarrow> string) \<Rightarrow> monitoring_db \<Rightarrow> bool" where
  "db_inv digest db \<longleftrightarrow> wf_db db \<and> configuration_inv digest db"

lemma assigned_cong:
  assumes "monitor_agent_assignments db' = monitor_agent_assignments db"
    and "monitor_agent_group_assignments db' = monitor_agent_group_assignments db"
    and "agent_group_memberships db' = agent_group_memberships db" and "agent_groups db' = agent_groups db"
  shows "assigned_monitor_ids db' rlm agt = assigned_monitor_ids db rlm agt"
  using assms by (simp add: assigned_monitor_ids_def agent_group_active_def find_agent_group_def)

lemma assigned_exists:
  assumes "wf_db db" and "i \<in> set (assigned_monitor_ids db rlm agt)"
  shows "\<exists>m \<in> set (monitors db). monitor_id m = i"
  using assms(2) wf_dbD(4,5) [OF assms(1)] by (fastforce simp: assigned_iff in_realm_monitor_def)

lemma agent_active_row:
  assumes "wf_db db" and "agt \<in> set (agents db)"
  shows "agent_active db (agent_id agt) = agent_row_active agt"
  using find_agent_iff [OF wf_dbD(1) [OF assms(1)], of "agent_id agt" agt] assms(2)
  by (simp add: agent_active_def agent_row_active_def)

lemma effective_in_realm:
  assumes "wf_db db" and "a \<in> set (effective_agent_ids db m)"
  shows "in_realm_agent db (monitor_realm m) a"
  using assms(2) wf_dbD(2,4) [OF assms(1)] unfolding effective_iff by force

lemma members_in_realm:
  "wf_db db \<Longrightarrow> a \<in> set (active_group_members db rlm g) \<Longrightarrow> in_realm_agent db (realm_id rlm) a"
  using wf_dbD(2) by (fastforce simp: active_group_members_def)

lemma active_group_cong: "agent_groups db' = agent_groups db \<Longrightarrow> agent_group_active db' = agent_group_active db"
  by (simp add: fun_eq_iff agent_group_active_def find_agent_group_def)

lemma db_invD:
  "db_inv digest db \<Longrightarrow> wf_db db"
  "db_inv digest db \<Longrightarrow> configuration_inv digest db"
  by (simp_all add: db_inv_def)

lemma in_realm_rowI:
  "a \<in> set (agents db) \<Longrightarrow> agent_realm a = r \<Longrightarrow> in_realm_agent db r (agent_id a)"
  "a \<in> set (agents db) \<Longrightarrow> in_realm_agent db (agent_realm a) (agent_id a)"
  "m \<in> set (monitors db) \<Longrightarrow> in_realm_monitor db (monitor_realm m) (monitor_id m)"
  "g \<in> set (agent_groups db) \<Longrightarrow> in_realm_group db (agent_group_realm g) (agent_group_id g)"
  by (auto simp: in_realm_agent_def in_realm_monitor_def in_realm_group_def)

lemma active_agent_cong: "agents db' = agents db \<Longrightarrow> agent_active db' = agent_active db"
  by (simp add: fun_eq_iff agent_active_def find_agent_def)

lemma assigned_same:
  assumes "agent_groups db' = agent_groups db"
    and "\<And>x. maa_realm x = realm_id rlm \<Longrightarrow> maa_agent x = agent_id agt \<Longrightarrow> maa_enabled x \<Longrightarrow>
      x \<in> set (monitor_agent_assignments db') \<longleftrightarrow> x \<in> set (monitor_agent_assignments db)"
    and "\<And>x y. mga_realm x = realm_id rlm \<Longrightarrow> mga_enabled x \<Longrightarrow> agm_realm y = realm_id rlm \<Longrightarrow>
      agm_agent y = agent_id agt \<Longrightarrow> mga_group x = agm_group y \<Longrightarrow>
      x \<in> set (monitor_agent_group_assignments db') \<and> y \<in> set (agent_group_memberships db') \<longleftrightarrow>
      x \<in> set (monitor_agent_group_assignments db) \<and> y \<in> set (agent_group_memberships db)"
  shows "i \<in> set (assigned_monitor_ids db' rlm agt) \<longleftrightarrow> i \<in> set (assigned_monitor_ids db rlm agt)"
  unfolding assigned_iff active_group_cong [OF assms(1)] using assms(2,3) by (intro arg_cong2 [of _ _ _ _ "(\<or>)"]) blast+

lemma wf_target_rows:
  "wf_db db \<Longrightarrow> x \<in> set (target_group_memberships db) \<Longrightarrow>
    in_realm_target_group db (tgm_realm x) (tgm_group x) \<and> in_realm_target db (tgm_realm x) (tgm_target x)"
  by (simp add: wf_db_def realm_coherent_def)

end
