(* ===== verification/Configuration_Operations.thy ===== *)
theory Configuration_Operations
  imports Configuration_Revisions
begin

text \<open>
  Every operation that changes the monitoring tables keeps the invariant of
  \<open>Configuration_Revisions\<close>: the references between the tables stay inside one realm, and a
  stored snapshot of an agent's current revision hashes the content the tables give it now.
\<close>

lemma create_monitor_Inr:
  assumes "create_monitor db i rlm t n pt iv to c d = Inr (db', m)"
  shows "db' = db\<lparr> monitors := monitors db @ [m] \<rparr>" and "monitor_id m = i"
    and "monitor_realm m = realm_id rlm" and "monitor_target m = target_id t" and "target_realm t = realm_id rlm"
    and "\<not> exists_row (\<lambda>x. monitor_id x = i) (monitors db)" and "monitor_row_valid m"
    and "\<not> monitor_name_taken db (realm_id rlm) n" and "monitor_name m = n"
    and "serialize_probe_configuration pt c (Some to) = Inr (monitor_configuration m)"
    and "monitor_probe_type m = pt" and "target_enabled t" and "target_archived_at t = None"
  using assms by (auto simp: create_monitor_def Let_def monitor_row_valid_def)

lemma create_monitor_inv:
  assumes "create_monitor db i rlm t n pt iv to c d = Inr (db', m)" and "t \<in> set (targets db)" and "db_inv digest db"
  shows "db_inv digest db'"
proof -
  note cm = create_monitor_Inr [OF assms(1)]
  have wf: "wf_db db" and inv: "configuration_inv digest db" using assms(3) by (auto simp: db_inv_def)
  have fresh: "monitor_id x \<noteq> monitor_id m" if "x \<in> set (monitors db)" for x
    using cm(2,6) that by (auto simp: exists_row_iff)
  have "wf_db db'"
    unfolding cm(1)
  proof (rule wf_monitors [OF wf])
    show "distinct (map monitor_id (monitors db @ [m]))"
      using wf_dbD(1) [OF wf] fresh by (intro distinct_map_snoc) (simp_all add: unique_ids_def)
  qed (use wf_dbD(3) [OF wf] cm(3-5) assms(2) in \<open>auto simp: in_realm_target_def\<close>)
  moreover have "current_content db' rlm' agt = current_content db rlm' agt" for rlm' agt
  proof (rule current_content_eqI)
    have a: "assigned_monitor_ids db' rlm' agt = assigned_monitor_ids db rlm' agt"
      by (rule assigned_cong) (simp_all add: cm(1))
    then have "monitor_id m \<notin> set (assigned_monitor_ids db' rlm' agt)"
      using assigned_exists [OF wf] fresh by fastforce
    then have "\<not> deliverable db' rlm' agt m" by (simp add: deliverable_def)
    moreover have "deliverable db' rlm' agt = deliverable db rlm' agt"
      using a by (simp add: fun_eq_iff deliverable_def target_active_def find_target_def cm(1))
    ultimately show "filter (deliverable db' rlm' agt) (monitors db') = filter (deliverable db rlm' agt) (monitors db)"
      by (simp add: cm(1))
  qed (simp add: cm(1) find_target_def)
  then have "configuration_inv digest db'"
    by (intro configuration_inv_frame [OF inv]) (simp_all add: cm(1))
  ultimately show ?thesis by (simp add: db_inv_def)
qed

text \<open>The row an update writes: the object's new values, field by field.\<close>

definition behavior_row :: "monitor \<Rightarrow> monitor \<Rightarrow> monitor" where
  "behavior_row m' x = x\<lparr> monitor_target := monitor_target m', monitor_probe_type := monitor_probe_type m',
     interval_seconds := interval_seconds m', timeout_seconds := timeout_seconds m',
     monitor_configuration := monitor_configuration m', monitor_revision := monitor_revision m' \<rparr>"

lemma behavior_row_keeps [simp]:
  "monitor_id (behavior_row m' x) = monitor_id x" "monitor_realm (behavior_row m' x) = monitor_realm x"
  "monitor_enabled (behavior_row m' x) = monitor_enabled x"
  "monitor_archived_at (behavior_row m' x) = monitor_archived_at x"
  "monitor_name (behavior_row m' x) = monitor_name x"
  "monitor_target (behavior_row m' x) = monitor_target m'"
  by (simp_all add: behavior_row_def)

lemma update_monitor_behavior_cases:
  assumes "update_monitor_behavior db m rlm t pt iv to c = Inr (db', m')"
  obtains (unchanged) "db' = db" "m' = m"
  | (changed) db1 where "db1 = db\<lparr> monitors := update_rows (\<lambda>x. monitor_id x = monitor_id m) (behavior_row m') (monitors db) \<rparr>"
      "db' = bump_configuration_revisions (effective_agent_ids db1 m') (realm_id rlm) db1"
      "monitor_id m' = monitor_id m" "monitor_realm m' = monitor_realm m" "monitor_enabled m' = monitor_enabled m"
      "monitor_archived_at m' = None" "monitor_realm m = realm_id rlm" "target_realm t = realm_id rlm"
      "monitor_target m' = target_id t" "monitor_archived_at m = None" "monitor_revision m' = monitor_revision m + 1"
      "1 \<le> interval_seconds m'" "1 \<le> timeout_seconds m'" "timeout_seconds m' < interval_seconds m'"
proof -
  from assms obtain n where n: "serialize_probe_configuration pt c (Some to) = Inr n"
    and g: "monitor_realm m = realm_id rlm" "target_realm t = realm_id rlm" "monitor_archived_at m = None"
      "1 \<le> iv" "1 \<le> to" "to < iv"
    and r: "(if \<not> monitor_changed m t pt iv to n then Inr (db, m) else
      let m' = m\<lparr> monitor_target := target_id t, monitor_probe_type := pt, interval_seconds := iv,
                 timeout_seconds := to, monitor_configuration := n, monitor_revision := monitor_revision m + 1 \<rparr>;
          db' = db\<lparr> monitors := update_rows (\<lambda>x. monitor_id x = monitor_id m) (behavior_row m') (monitors db) \<rparr>
      in Inr (bump_configuration_revisions (effective_agent_ids db' m') (realm_id rlm) db', m')) =
      (Inr (db', m') :: domain_error + monitoring_db \<times> monitor)"
    unfolding update_monitor_behavior_def behavior_row_def [abs_def] by auto
  show thesis
  proof (cases "monitor_changed m t pt iv to n")
    case False
    then show thesis using r by (intro unchanged) auto
  next
    case True
    then show thesis using r g by (intro changed) (auto simp: Let_def)
  qed
qed

lemma update_monitor_behavior_inv:
  assumes "update_monitor_behavior db m rlm t pt iv to c = Inr (db', m')"
    and m: "m \<in> set (monitors db)" and t: "t \<in> set (targets db)" and db: "db_inv digest db"
  shows "db_inv digest db'"
  using assms(1)
proof (cases rule: update_monitor_behavior_cases)
  case unchanged
  then show ?thesis using db by simp
next
  case (changed db1)
  have wf: "wf_db db" and inv: "configuration_inv digest db" using db by (auto simp: db_inv_def)
  have one: "x = m" if "x \<in> set (monitors db)" "monitor_id x = monitor_id m" for x
    using distinct_key_inj [of monitor_id "monitors db"] wf_dbD(1) [OF wf] that m by (auto simp: unique_ids_def)
  have tabs: "monitor_agent_assignments db1 = monitor_agent_assignments db" "targets db1 = targets db"
    "monitor_agent_group_assignments db1 = monitor_agent_group_assignments db" "agents db1 = agents db"
    "agent_group_memberships db1 = agent_group_memberships db" "agent_groups db1 = agent_groups db"
    "monitors db1 = update_rows (\<lambda>x. monitor_id x = monitor_id m) (behavior_row m') (monitors db)"
    by (simp_all add: changed(1))
  have wf1: "wf_db db1"
    unfolding changed(1)
  proof (rule wf_monitors [OF wf])
    show "distinct (map monitor_id (update_rows (\<lambda>x. monitor_id x = monitor_id m) (behavior_row m') (monitors db)))"
      using wf_dbD(1) [OF wf] by (simp add: map_update_rows unique_ids_def)
    show "in_realm_target db (monitor_realm x) (monitor_target x)"
      if "x \<in> set (update_rows (\<lambda>x. monitor_id x = monitor_id m) (behavior_row m') (monitors db))" for x
    proof -
      have "in_realm_target db (realm_id rlm) (monitor_target m')"
        using t changed by (auto simp: in_realm_target_def)
      then show ?thesis
        using that wf_dbD(3) [OF wf] one changed(7) by (fastforce simp: set_update_rows)
    qed
    show "\<exists>x' \<in> set (update_rows (\<lambda>x. monitor_id x = monitor_id m) (behavior_row m') (monitors db)).
        monitor_id x' = monitor_id x \<and> monitor_realm x' = monitor_realm x" if "x \<in> set (monitors db)" for x
      using update_rows_keeps [of "\<lambda>x. (monitor_id x, monitor_realm x)" "behavior_row m'" x "monitors db"] that by simp
  qed
  have "wf_db db'"
    unfolding changed(2) using effective_in_realm [OF wf1, of _ m'] changed by (intro wf_bump [OF wf1]) simp
  moreover have "current_content db1 rlm' agt = current_content db rlm' agt"
    if a: "agt \<in> set (agents db)" "agent_row_active agt" "agent_id agt \<notin> set (effective_agent_ids db1 m')" for agt rlm'
  proof (rule current_content_eqI)
    have asg: "assigned_monitor_ids db1 rlm' agt = assigned_monitor_ids db rlm' agt"
      by (rule assigned_cong) (simp_all add: tabs)
    have dl: "deliverable db1 rlm' agt = deliverable db rlm' agt"
      by (simp add: fun_eq_iff deliverable_def asg target_active_def find_target_def tabs)
    have act: "agent_active db1 (agent_id agt)" using agent_active_row [OF wf1] a(1,2) by (simp add: tabs)
    have "\<not> deliverable db rlm' agt x \<and> \<not> deliverable db rlm' agt (behavior_row m' x)"
      if "x \<in> set (monitors db)" "monitor_id x = monitor_id m" for x
      using one [OF that] effective_iff_assigned [of m' rlm' db1 agt] act a(3) asg changed(3-6)
      by (auto simp: deliverable_def)
    then show "filter (deliverable db1 rlm' agt) (monitors db1) = filter (deliverable db rlm' agt) (monitors db)"
      unfolding dl tabs(7) by (intro filter_update_rows_other) blast
  qed (simp add: find_target_def tabs)
  then have "configuration_inv digest db'"
    unfolding changed(2) by (intro configuration_inv_bump [OF inv]) (simp_all add: changed(1))
  ultimately show ?thesis by (simp add: db_inv_def)
qed

text \<open>Operations on the relationship tables: rows of those tables change, then agents are bumped.
  They need only show that an agent they do not bump keeps its set of assigned monitors.\<close>

lemma relationship_inv:
  assumes db: "db_inv digest db" and wf: "wf_db db1"
    and same: "agents db1 = agents db" "monitors db1 = monitors db" "targets db1 = targets db"
      "agent_configuration_states db1 = agent_configuration_states db"
      "agent_configuration_snapshots db1 = agent_configuration_snapshots db"
    and realm: "\<And>a. a \<in> set ids \<Longrightarrow> in_realm_agent db r a"
    and keep: "\<And>agt rlm i. agt \<in> set (agents db) \<Longrightarrow> agent_row_active agt \<Longrightarrow> agent_realm agt = realm_id rlm \<Longrightarrow>
      agent_id agt \<notin> set ids \<Longrightarrow>
      i \<in> set (assigned_monitor_ids db1 rlm agt) \<longleftrightarrow> i \<in> set (assigned_monitor_ids db rlm agt)"
  shows "db_inv digest (bump_configuration_revisions ids r db1)"
proof -
  have "wf_db (bump_configuration_revisions ids r db1)"
    using realm by (intro wf_bump [OF wf]) (simp add: in_realm_agent_def same)
  moreover have "configuration_inv digest (bump_configuration_revisions ids r db1)"
    using db keep
    by (intro configuration_inv_bump [of digest db])
      (auto simp: db_inv_def same intro!: current_content_assigned)
  ultimately show ?thesis by (simp add: db_inv_def)
qed

lemma add_agent_to_group_inv:
  assumes x: "add_agent_to_group db rlm g a = Inr (db', y)" and "g \<in> set (agent_groups db)" "a \<in> set (agents db)"
    and db: "db_inv digest db"
  shows "db_inv digest db'"
proof (cases "db' = db")
  case False
  let ?row = "\<lparr> agm_realm = realm_id rlm, agm_group = agent_group_id g, agm_agent = agent_id a \<rparr>"
  let ?db1 = "db\<lparr> agent_group_memberships := agent_group_memberships db @ [?row] \<rparr>"
  let ?hit = "\<lambda>x. mga_realm x = realm_id rlm \<and> mga_group x = agent_group_id g \<and> mga_enabled x"
  define ids where "ids = (if exists_row ?hit (monitor_agent_group_assignments db) then [agent_id a] else [])"
  have r: "agent_group_realm g = realm_id rlm" "agent_realm a = realm_id rlm"
    and db': "db' = bump_configuration_revisions ids (realm_id rlm) ?db1"
    using x False by (auto simp: add_agent_to_group_def Let_def ids_def exists_row_iff filter_empty_conv
        split: option.splits if_splits)
  have wf: "wf_db ?db1"
    using db wf_dbD(2) [of db] r assms(2,3)
    by (intro wf_memberships) (auto simp: db_inv_def in_realm_group_def in_realm_agent_def)
  show ?thesis
    unfolding db'
  proof (rule relationship_inv [OF db wf])
    show "in_realm_agent db (realm_id rlm) i" if "i \<in> set ids" for i
      using that assms(3) r by (auto simp: ids_def in_realm_agent_def split: if_splits)
    show "i \<in> set (assigned_monitor_ids ?db1 rlm' agt) \<longleftrightarrow> i \<in> set (assigned_monitor_ids db rlm' agt)"
      if "agent_id agt \<notin> set ids" for agt rlm' i
      using that by (intro assigned_same) (auto simp: ids_def exists_row_iff split: if_splits)
  qed simp_all
qed (simp add: db)

lemma remove_agent_from_group_inv:
  assumes x: "remove_agent_from_group db rlm g a = Inr (db', y)" and "a \<in> set (agents db)" and db: "db_inv digest db"
  shows "db_inv digest db'"
proof -
  let ?hit = "\<lambda>x. agm_realm x = realm_id rlm \<and> agm_group x = agent_group_id g \<and> agm_agent x = agent_id a"
  let ?asg = "\<lambda>x. mga_realm x = realm_id rlm \<and> mga_group x = agent_group_id g \<and> mga_enabled x"
  let ?db1 = "db\<lparr> agent_group_memberships := delete_rows ?hit (agent_group_memberships db) \<rparr>"
  define ids where "ids = (if exists_row ?hit (agent_group_memberships db) \<and>
      exists_row ?asg (monitor_agent_group_assignments db) then [agent_id a] else [])"
  have r: "agent_realm a = realm_id rlm" and db': "db' = bump_configuration_revisions ids (realm_id rlm) ?db1"
    using x by (auto simp: remove_agent_from_group_def Let_def ids_def)
  have wf: "wf_db ?db1"
    using db wf_dbD(2) [of db] by (intro wf_memberships) (auto simp: db_inv_def set_delete_rows)
  show ?thesis
    unfolding db'
  proof (rule relationship_inv [OF db wf])
    show "in_realm_agent db (realm_id rlm) i" if "i \<in> set ids" for i
      using that assms(2) r by (auto simp: ids_def in_realm_agent_def split: if_splits)
    show "i \<in> set (assigned_monitor_ids ?db1 rlm' agt) \<longleftrightarrow> i \<in> set (assigned_monitor_ids db rlm' agt)"
      if "agent_id agt \<notin> set ids" for agt rlm' i
      using that by (intro assigned_same) (auto simp: ids_def exists_row_iff set_delete_rows split: if_splits)
  qed simp_all
qed

lemma assign_monitor_to_agent_inv:
  assumes x: "assign_monitor_to_agent db rlm m a = Inr (db', y)" and "m \<in> set (monitors db)" "a \<in> set (agents db)"
    and db: "db_inv digest db"
  shows "db_inv digest db'"
proof (cases "db' = db")
  case False
  let ?hit = "\<lambda>x. maa_realm x = realm_id rlm \<and> maa_monitor x = monitor_id m \<and> maa_agent x = agent_id a"
  let ?row = "\<lparr> maa_realm = realm_id rlm, maa_monitor = monitor_id m, maa_agent = agent_id a, maa_enabled = True \<rparr>"
  define rows where "rows = (if find ?hit (monitor_agent_assignments db) = None
    then monitor_agent_assignments db @ [?row]
    else update_rows ?hit (\<lambda>x. x\<lparr> maa_enabled := True \<rparr>) (monitor_agent_assignments db))"
  have db': "db' = bump_configuration_revisions [agent_id a] (realm_id rlm) (db\<lparr> monitor_agent_assignments := rows \<rparr>)"
    and r: "monitor_realm m = realm_id rlm" "agent_realm a = realm_id rlm"
    using x False by (simp_all add: assign_monitor_to_agent_def Let_def rows_def split: option.splits if_splits)
      (elim conjE, simp)
  let ?db1 = "db\<lparr> monitor_agent_assignments := rows \<rparr>"
  have wf: "wf_db ?db1"
  proof (rule wf_agent_assignments)
    show "in_realm_monitor db (maa_realm x) (maa_monitor x) \<and> in_realm_agent db (maa_realm x) (maa_agent x)"
      if "x \<in> set rows" for x
      using that wf_dbD(4) [OF db_invD(1) [OF db]] in_realm_rowI(2) [OF assms(3)] in_realm_rowI(3) [OF assms(2)] r
      by (auto simp: rows_def set_update_rows split: if_splits)
  qed (rule db_invD(1) [OF db])
  have other: "(x \<in> set rows \<and> maa_agent x \<noteq> agent_id a) = (x \<in> set (monitor_agent_assignments db) \<and> maa_agent x \<noteq> agent_id a)" for x
    by (auto simp: rows_def set_update_rows)
  show ?thesis
    unfolding db'
  proof (rule relationship_inv [OF db wf])
    show "in_realm_agent db (realm_id rlm) i" if "i \<in> set [agent_id a]" for i
      using that assms(3) r by (auto simp: in_realm_agent_def)
    show "i \<in> set (assigned_monitor_ids ?db1 rlm' agt) \<longleftrightarrow> i \<in> set (assigned_monitor_ids db rlm' agt)"
      if "agent_id agt \<notin> set [agent_id a]" for agt rlm' i
    proof (rule assigned_same)
      show "x \<in> set (monitor_agent_assignments ?db1) \<longleftrightarrow> x \<in> set (monitor_agent_assignments db)"
        if "maa_agent x = agent_id agt" for x
        using other [of x] that \<open>agent_id agt \<notin> set [agent_id a]\<close> by simp
    qed simp_all
  qed simp_all
qed (simp add: db)


lemma unassign_monitor_from_agent_inv:
  assumes x: "unassign_monitor_from_agent db rlm m a = Inr (db', y)" and "a \<in> set (agents db)" and db: "db_inv digest db"
  shows "db_inv digest db'"
proof -
  let ?hit = "\<lambda>x. maa_realm x = realm_id rlm \<and> maa_monitor x = monitor_id m \<and> maa_agent x = agent_id a"
  let ?db1 = "db\<lparr> monitor_agent_assignments := delete_rows ?hit (monitor_agent_assignments db) \<rparr>"
  define ids where "ids = (if exists_row ?hit (monitor_agent_assignments db) then [agent_id a] else [])"
  have r: "agent_realm a = realm_id rlm" and db': "db' = bump_configuration_revisions ids (realm_id rlm) ?db1"
    using x by (auto simp: unassign_monitor_from_agent_def Let_def ids_def)
  have wf: "wf_db ?db1"
    using db wf_dbD(4) [of db] by (intro wf_agent_assignments) (auto simp: db_inv_def set_delete_rows)
  show ?thesis
    unfolding db'
  proof (rule relationship_inv [OF db wf])
    show "in_realm_agent db (realm_id rlm) i" if "i \<in> set ids" for i
      using that assms(2) r by (auto simp: ids_def in_realm_agent_def split: if_splits)
    show "i \<in> set (assigned_monitor_ids ?db1 rlm' agt) \<longleftrightarrow> i \<in> set (assigned_monitor_ids db rlm' agt)"
      if "agent_id agt \<notin> set ids" for agt rlm' i
      using that by (intro assigned_same) (auto simp: ids_def exists_row_iff set_delete_rows split: if_splits)
  qed simp_all
qed

text \<open>Group assignments: an active agent outside the bumped members has no membership in the group.\<close>

lemma group_assignment_inv:
  assumes db: "db_inv digest db"
    and rows: "\<And>x. x \<in> set rows \<Longrightarrow> in_realm_monitor db (mga_realm x) (mga_monitor x) \<and> in_realm_group db (mga_realm x) (mga_group x)"
    and other: "\<And>x. \<not> (mga_realm x = realm_id rlm \<and> mga_group x = agent_group_id g) \<Longrightarrow>
      x \<in> set rows \<longleftrightarrow> x \<in> set (monitor_agent_group_assignments db)"
  shows "db_inv digest (bump_configuration_revisions (active_group_members db rlm g) (realm_id rlm)
    (db\<lparr> monitor_agent_group_assignments := rows \<rparr>))" (is "db_inv digest (bump_configuration_revisions ?ids _ ?db1)")
proof (rule relationship_inv [OF db])
  show "wf_db ?db1" using db_invD(1) [OF db] rows by (rule wf_group_assignments)
  show "in_realm_agent db (realm_id rlm) i" if "i \<in> set ?ids" for i
    using that members_in_realm [OF db_invD(1) [OF db]] by simp
  show "i \<in> set (assigned_monitor_ids ?db1 rlm' agt) \<longleftrightarrow> i \<in> set (assigned_monitor_ids db rlm' agt)"
    if "agt \<in> set (agents db)" "agent_row_active agt" "agent_id agt \<notin> set ?ids" for agt rlm' i
  proof -
    have "agent_active db (agent_id agt)"
      using agent_active_row [OF db_invD(1) [OF db]] that(1,2) by simp
    then have none: "\<not> (agm_realm y = realm_id rlm \<and> agm_group y = agent_group_id g)"
      if "y \<in> set (agent_group_memberships db)" "agm_agent y = agent_id agt" for y
      using \<open>agent_id agt \<notin> set ?ids\<close> that by (force simp: active_group_members_def)
    show ?thesis
    proof (rule assigned_same)
      show "x \<in> set (monitor_agent_group_assignments ?db1) \<and> y \<in> set (agent_group_memberships ?db1) \<longleftrightarrow>
          x \<in> set (monitor_agent_group_assignments db) \<and> y \<in> set (agent_group_memberships db)"
        if "mga_realm x = realm_id rlm'" "agm_realm y = realm_id rlm'" "agm_agent y = agent_id agt" "mga_group x = agm_group y" for x y
        using none [of y] other [of x] that by auto
    qed simp_all
  qed
qed simp_all


lemma active_group_members_assignments [simp]:
  "active_group_members (db\<lparr> monitor_agent_group_assignments := rows \<rparr>) rlm g = active_group_members db rlm g"
  by (simp add: active_group_members_def active_agent_cong [of "db\<lparr> monitor_agent_group_assignments := rows \<rparr>" db])

lemma assign_monitor_to_agent_group_inv:
  assumes x: "assign_monitor_to_agent_group db rlm m g = Inr (db', y)" and "m \<in> set (monitors db)"
    "g \<in> set (agent_groups db)" and db: "db_inv digest db"
  shows "db_inv digest db'"
proof (cases "db' = db")
  case False
  let ?hit = "\<lambda>x. mga_realm x = realm_id rlm \<and> mga_monitor x = monitor_id m \<and> mga_group x = agent_group_id g"
  let ?row = "\<lparr> mga_realm = realm_id rlm, mga_monitor = monitor_id m, mga_group = agent_group_id g, mga_enabled = True \<rparr>"
  define rows where "rows = (if find ?hit (monitor_agent_group_assignments db) = None
    then monitor_agent_group_assignments db @ [?row]
    else update_rows ?hit (\<lambda>x. x\<lparr> mga_enabled := True \<rparr>) (monitor_agent_group_assignments db))"
  have db': "db' = bump_configuration_revisions (active_group_members db rlm g) (realm_id rlm)
      (db\<lparr> monitor_agent_group_assignments := rows \<rparr>)"
    and r: "monitor_realm m = realm_id rlm" "agent_group_realm g = realm_id rlm"
    using x False by (simp_all add: assign_monitor_to_agent_group_def Let_def rows_def split: option.splits if_splits)
      (elim conjE, simp)
  show ?thesis
    unfolding db'
  proof (rule group_assignment_inv [OF db])
    show "in_realm_monitor db (mga_realm x) (mga_monitor x) \<and> in_realm_group db (mga_realm x) (mga_group x)"
      if "x \<in> set rows" for x
      using that wf_dbD(5) [OF db_invD(1) [OF db]] in_realm_rowI(3) [OF assms(2)] in_realm_rowI(4) [OF assms(3)] r
      by (auto simp: rows_def set_update_rows split: if_splits)
  qed (auto simp: rows_def set_update_rows)
qed (simp add: db)

lemma unassign_monitor_from_agent_group_inv:
  assumes x: "unassign_monitor_from_agent_group db rlm m g = Inr (db', y)" and db: "db_inv digest db"
  shows "db_inv digest db'"
proof (cases "db' = db")
  case False
  let ?hit = "\<lambda>x. mga_realm x = realm_id rlm \<and> mga_monitor x = monitor_id m \<and> mga_group x = agent_group_id g"
  have db': "db' = bump_configuration_revisions (active_group_members db rlm g) (realm_id rlm)
      (db\<lparr> monitor_agent_group_assignments := delete_rows ?hit (monitor_agent_group_assignments db) \<rparr>)"
    using x False by (auto simp: unassign_monitor_from_agent_group_def Let_def exists_row_iff delete_rows_None split: if_splits)
  show ?thesis
    unfolding db' using wf_dbD(5) [OF db_invD(1) [OF db]]
    by (intro group_assignment_inv [OF db]) (auto simp: set_delete_rows)
qed (simp add: db)

lemma add_target_to_group_inv:
  assumes x: "add_target_to_group db rlm g t = Inr (db', y)" and "g \<in> set (target_groups db)" "t \<in> set (targets db)"
    and db: "db_inv digest db"
  shows "db_inv digest db'"
proof (cases "db' = db")
  case False
  let ?row = "\<lparr> tgm_realm = realm_id rlm, tgm_group = target_group_id g, tgm_target = target_id t \<rparr>"
  let ?db1 = "db\<lparr> target_group_memberships := target_group_memberships db @ [?row] \<rparr>"
  have r: "target_group_realm g = realm_id rlm" "target_realm t = realm_id rlm" and db': "db' = ?db1"
    using x False by (auto simp: add_target_to_group_def Let_def split: option.splits if_splits)
  have "in_realm_target_group db (realm_id rlm) (target_group_id g) \<and> in_realm_target db (realm_id rlm) (target_id t)"
    using assms(2,3) r by (auto simp: in_realm_target_group_def in_realm_target_def)
  then have wf: "wf_db ?db1"
    using wf_target_rows [OF db_invD(1) [OF db]] by (intro wf_target_memberships [OF db_invD(1) [OF db]]) auto
  have "db_inv digest (bump_configuration_revisions [] (realm_id rlm) ?db1)"
  proof (rule relationship_inv [OF db wf])
    show "i \<in> set (assigned_monitor_ids ?db1 rlm' agt) \<longleftrightarrow> i \<in> set (assigned_monitor_ids db rlm' agt)" for i rlm' agt
      by (rule assigned_same) simp_all
  qed simp_all
  then show ?thesis by (simp add: db')
qed (simp add: db)


text \<open>Archiving a target archives its monitors; every agent one of them ran on is bumped.\<close>

definition archived_target :: "datetime \<Rightarrow> target \<Rightarrow> target" where
  "archived_target now t = t\<lparr> target_enabled := False, target_archived_at := Some now \<rparr>"

definition archived_monitor :: "datetime \<Rightarrow> monitor \<Rightarrow> monitor" where
  "archived_monitor now m = m\<lparr> monitor_enabled := False, monitor_archived_at := Some now \<rparr>"

lemma archived_keeps [simp]:
  "target_id (archived_target now t) = target_id t" "target_realm (archived_target now t) = target_realm t"
  "monitor_id (archived_monitor now m) = monitor_id m" "monitor_realm (archived_monitor now m) = monitor_realm m"
  "monitor_target (archived_monitor now m) = monitor_target m" "\<not> monitor_enabled (archived_monitor now m)"
  by (simp_all add: archived_target_def archived_monitor_def)

lemma find_update_rows_other:
  "(\<And>r. Q r \<Longrightarrow> \<not> P r \<and> \<not> P (f r)) \<Longrightarrow> find P (update_rows Q f t) = find P t"
  by (induction t) (auto simp: update_rows_def)

lemma find_target_other:
  assumes "i \<noteq> target_id t" and "\<And>x. target_id (f x) = target_id x"
    and "targets db' = update_rows (\<lambda>x. target_id x = target_id t) f (targets db)"
  shows "find_target db' i = find_target db i"
  unfolding find_target_def assms(3) using assms(1,2) by (intro find_update_rows_other) simp

lemma archive_target_Inr:
  assumes "archive_target db now rlm t = Inr db'" and "db' \<noteq> db"
  shows "target_realm t = realm_id rlm"
    and "db' = (let db1 = db\<lparr> targets := update_rows (\<lambda>x. target_id x = target_id t) (archived_target now) (targets db) \<rparr>;
         hit = (\<lambda>m. monitor_realm m = realm_id rlm \<and> monitor_target m = target_id t \<and> monitor_archived_at m = None)
       in bump_configuration_revisions (concat (map (effective_agent_ids db1) (filter hit (monitors db)))) (realm_id rlm)
            (db1\<lparr> monitors := update_rows hit (archived_monitor now) (monitors db) \<rparr>))"
  using assms by (simp_all add: archive_target_def archived_target_def [abs_def] archived_monitor_def [abs_def] Let_def
      split: if_splits)

lemma kept_rows:
  assumes "\<And>x. k (f x) = k x" and "\<And>x. l (f x) = l x" and "x \<in> set t"
  shows "\<exists>x' \<in> set (update_rows Q f t). k x' = k x \<and> l x' = l x"
  using update_rows_keeps [of "\<lambda>x. (k x, l x)" f x t Q] assms by simp

lemma filter_update_rows_gone:
  "(\<And>x. x \<in> set t \<Longrightarrow> Q x \<Longrightarrow> \<not> P x \<and> \<not> P' (f x)) \<Longrightarrow> (\<And>x. x \<in> set t \<Longrightarrow> \<not> Q x \<Longrightarrow> P' x = P x) \<Longrightarrow>
    filter P' (update_rows Q f t) = filter P t"
  by (induction t) (auto simp: update_rows_def)

lemma archive_target_inv:
  assumes x: "archive_target db now rlm t = Inr db'" and t: "t \<in> set (targets db)" and db: "db_inv digest db"
  shows "db_inv digest db'"
proof (cases "db' = db")
  case False
  define db1 where "db1 = db\<lparr> targets := update_rows (\<lambda>x. target_id x = target_id t) (archived_target now) (targets db) \<rparr>"
  define hit where "hit = (\<lambda>m::monitor. monitor_realm m = realm_id rlm \<and> monitor_target m = target_id t \<and> monitor_archived_at m = None)"
  define db2 where "db2 = db1\<lparr> monitors := update_rows hit (archived_monitor now) (monitors db) \<rparr>"
  define ids where "ids = concat (map (effective_agent_ids db1) (filter hit (monitors db)))"
  have db': "db' = bump_configuration_revisions ids (realm_id rlm) db2" and r: "target_realm t = realm_id rlm"
    using archive_target_Inr [OF x False] by (simp_all add: Let_def db1_def hit_def db2_def ids_def)
  have wf: "wf_db db" and u: "unique_ids db" using db_invD(1) [OF db] wf_dbD(1) by auto
  have wf1: "wf_db db1"
    unfolding db1_def
  proof (rule wf_targets [OF wf])
    show "distinct (map target_id (update_rows (\<lambda>x. target_id x = target_id t) (archived_target now) (targets db)))"
      using u by (simp add: map_update_rows unique_ids_def)
  qed (rule kept_rows, simp_all)
  have in1: "in_realm_target db1 q i" if "in_realm_target db q i" for q i
    using that kept_rows [of target_id "archived_target now" target_realm _ "targets db"]
    by (fastforce simp: in_realm_target_def db1_def)
  have m1: "monitors db1 = monitors db" and a1: "agents db1 = agents db" by (simp_all add: db1_def)
  have wf2: "wf_db db2"
    unfolding db2_def
  proof (rule wf_monitors [OF wf1])
    show "distinct (map monitor_id (update_rows hit (archived_monitor now) (monitors db)))"
      using u by (simp add: map_update_rows unique_ids_def)
    show "in_realm_target db1 (monitor_realm m) (monitor_target m)"
      if "m \<in> set (update_rows hit (archived_monitor now) (monitors db))" for m
      using that wf_dbD(3) [OF wf] by (auto simp: set_update_rows in1)
  qed (rule kept_rows, simp_all add: m1)
  have "in_realm_agent db2 (realm_id rlm) i" if "i \<in> set ids" for i
    using that effective_in_realm [OF wf1, of i] by (fastforce simp: ids_def hit_def db2_def in_realm_agent_def)
  then have "wf_db db'" unfolding db' by (rule wf_bump [OF wf2])
  moreover have "current_content db2 rlm' agt = current_content db rlm' agt"
    if a: "agt \<in> set (agents db)" "agent_row_active agt" "agent_id agt \<notin> set ids" for agt rlm'
  proof (rule current_content_eqI)
    have tabs: "monitor_agent_assignments db2 = monitor_agent_assignments db" "agents db2 = agents db"
      "monitor_agent_group_assignments db2 = monitor_agent_group_assignments db"
      "agent_group_memberships db2 = agent_group_memberships db" "agent_groups db2 = agent_groups db"
      "targets db2 = update_rows (\<lambda>x. target_id x = target_id t) (archived_target now) (targets db)"
      by (simp_all add: db1_def db2_def)
    have asg: "assigned_monitor_ids db2 rlm' agt = assigned_monitor_ids db rlm' agt"
      "assigned_monitor_ids db1 rlm' agt = assigned_monitor_ids db rlm' agt"
      by (rule assigned_cong, simp_all add: tabs db1_def)+
    have act: "agent_active db1 (agent_id agt)" using agent_active_row [OF wf1] a(1,2) by (simp add: a1)
    have on_target: "hit m" if "m \<in> set (monitors db)" "monitor_target m = target_id t" "monitor_archived_at m = None" for m
      using that target_realm_unique [OF u wf_dbD(3) [OF wf that(1)], of "realm_id rlm"] t r
      by (auto simp: hit_def in_realm_target_def)
    have hits: "\<not> deliverable db rlm' agt m" if "m \<in> set (monitors db)" "hit m" for m
      using effective_iff_assigned [of m rlm' db1 agt] that act a(3) by (auto simp: ids_def deliverable_def asg)
    have "monitor_target m \<noteq> target_id t" if "m \<in> set (monitors db)" "deliverable db rlm' agt m" for m
      using that(2) hits [OF that(1)] on_target [OF that(1)] by (metis deliverable_def)
    then show "find_target db2 (monitor_target m) = find_target db (monitor_target m)"
      if "m \<in> set (monitors db)" "deliverable db rlm' agt m" for m
      using that by (intro find_target_other [OF _ _ tabs(6)]) simp_all
    have "deliverable db2 rlm' agt m = deliverable db rlm' agt m" if "m \<in> set (monitors db)" "\<not> hit m" for m
    proof (cases "monitor_target m = target_id t")
      case True
      then show ?thesis using on_target [OF that(1)] that(2) by (auto simp: deliverable_def)
    next
      case False
      then show ?thesis
        using find_target_other [OF False _ tabs(6)] by (simp add: deliverable_def asg target_active_def)
    qed
    then show "filter (deliverable db2 rlm' agt) (monitors db2) = filter (deliverable db rlm' agt) (monitors db)"
      using hits by (simp add: db2_def filter_update_rows_gone deliverable_def)
  qed
  then have "configuration_inv digest db'"
    unfolding db' by (intro configuration_inv_bump [OF db_invD(2) [OF db]]) (simp_all add: db1_def db2_def)
  ultimately show ?thesis by (simp add: db_inv_def)
qed (simp add: db)


section \<open>Creating rows\<close>

lemma desired_positive_state:
  "1 \<le> desired_of db a \<Longrightarrow> \<exists>st. agent_configuration_states db a = Some st"
  by (simp add: desired_of_def split: option.splits)

lemma create_agent_inv:
  assumes x: "create_agent db rlm p i = Inr (db', a)" and db: "db_inv digest db"
  shows "db_inv digest db'"
proof -
  have db': "db' = db\<lparr> agents := agents db @ [a] \<rparr>" and i: "agent_id a = i"
    and new: "\<And>x. x \<in> set (agents db) \<Longrightarrow> agent_id x \<noteq> i"
    using x by (auto simp: create_agent_def Let_def exists_row_iff)
  have "wf_db db'"
    unfolding db' using wf_dbD(1) [OF db_invD(1) [OF db]] new i
    by (intro wf_agents [OF db_invD(1) [OF db]] distinct_map_snoc) (auto simp: unique_ids_def)
  moreover have "agent_id a \<noteq> snapshot_agent s" if m: "s \<in> set (agent_configuration_snapshots db)" for s
  proof
    assume "agent_id a = snapshot_agent s"
    then have s: "snapshot_agent s = i" by (simp add: i)
    then obtain st where "agent_configuration_states db i = Some st"
      using configuration_invD(2) [OF db_invD(2) [OF db] m] desired_positive_state [of db i] by auto
    then show False
      using wf_dbD(6) [OF db_invD(1) [OF db], of i st] new by (auto simp: in_realm_agent_def)
  qed
  moreover have "current_content db' r agt = current_content db r agt" for r agt
    unfolding db' by (rule current_content_assigned) (simp_all add: set_eq_iff assigned_iff agent_group_active_def find_agent_group_def)
  moreover have "desired_of db' = desired_of db" by (simp add: db' desired_of_def fun_eq_iff)
  ultimately show ?thesis
    using db_invD(2) [OF db] unfolding db_inv_def configuration_inv_def by (simp add: db')
qed

text \<open>Tables the configuration does not depend on.\<close>

lemma other_tables_inv:
  assumes db: "db_inv digest db" and wf: "wf_db db'"
    and same: "agents db' = agents db" "monitors db' = monitors db" "targets db' = targets db"
      "agent_configuration_states db' = agent_configuration_states db"
      "agent_configuration_snapshots db' = agent_configuration_snapshots db"
      "monitor_agent_assignments db' = monitor_agent_assignments db"
      "monitor_agent_group_assignments db' = monitor_agent_group_assignments db"
      "agent_group_memberships db' = agent_group_memberships db"
    and groups: "\<And>y. y \<in> set (agent_group_memberships db) \<Longrightarrow>
      agent_group_active db' (agm_group y) = agent_group_active db (agm_group y)"
  shows "db_inv digest db'"
proof -
  have "set (assigned_monitor_ids db' rlm agt) = set (assigned_monitor_ids db rlm agt)" for rlm agt
    unfolding set_eq_iff assigned_iff same using groups by blast
  then have "configuration_inv digest db'"
    by (intro configuration_inv_frame [OF db_invD(2) [OF db]] current_content_assigned) (simp_all add: same)
  then show ?thesis using wf by (simp add: db_inv_def)
qed

lemma create_agent_group_inv:
  assumes x: "create_agent_group db rlm p i = Inr (db', g)" and db: "db_inv digest db"
  shows "db_inv digest db'"
proof -
  have db': "db' = db\<lparr> agent_groups := agent_groups db @ [g] \<rparr>" and i: "agent_group_id g = i"
    and new: "\<And>x. x \<in> set (agent_groups db) \<Longrightarrow> agent_group_id x \<noteq> i"
    and parent: "\<And>q. agent_group_parent g = Some q \<Longrightarrow>
      \<exists>h \<in> set (agent_groups db). agent_group_id h = q \<and> agent_group_realm h = agent_group_realm g"
    using x by (auto simp: create_agent_group_def Let_def exists_row_iff split: option.splits)
  have "parents_coherent agent_group_id agent_group_realm agent_group_parent (agent_groups db @ [g])"
    using parent wf_agent_parents [OF db_invD(1) [OF db]] by (auto simp: parents_coherent_def)
  then have wf: "wf_db db'"
    unfolding db' using wf_dbD(1) [OF db_invD(1) [OF db]] new i
    by (intro wf_agent_groups [OF db_invD(1) [OF db]] distinct_map_snoc) (auto simp: unique_ids_def)
  show ?thesis
  proof (rule other_tables_inv [OF db wf])
    show "agent_group_active db' (agm_group y) = agent_group_active db (agm_group y)"
      if "y \<in> set (agent_group_memberships db)" for y
    proof -
      have "i \<noteq> agm_group y" using wf_dbD(2) [OF db_invD(1) [OF db] that] new by (auto simp: in_realm_group_def)
      then show ?thesis by (simp add: db' agent_group_active_def find_agent_group_def find_append i split: option.splits)
    qed
  qed (simp_all add: db')
qed

lemma create_target_group_inv:
  assumes x: "create_target_group db rlm p i = Inr (db', g)" and db: "db_inv digest db"
  shows "db_inv digest db'"
proof -
  have db': "db' = db\<lparr> target_groups := target_groups db @ [g] \<rparr>" and i: "target_group_id g = i"
    and new: "\<And>x. x \<in> set (target_groups db) \<Longrightarrow> target_group_id x \<noteq> i"
    and parent: "\<And>q. target_group_parent g = Some q \<Longrightarrow>
      \<exists>h \<in> set (target_groups db). target_group_id h = q \<and> target_group_realm h = target_group_realm g"
    using x by (auto simp: create_target_group_def Let_def exists_row_iff split: option.splits)
  have "parents_coherent target_group_id target_group_realm target_group_parent (target_groups db @ [g])"
    using parent wf_target_parents [OF db_invD(1) [OF db]] by (auto simp: parents_coherent_def)
  then have wf: "wf_db db'"
    unfolding db' using wf_dbD(1) [OF db_invD(1) [OF db]] new i
    by (intro wf_target_groups [OF db_invD(1) [OF db]] distinct_map_snoc) (auto simp: unique_ids_def)
  show ?thesis
    by (rule other_tables_inv [OF db wf]) (simp_all add: db' agent_group_active_def find_agent_group_def)
qed

lemma create_target_inv:
  assumes x: "create_target db rlm p i = Inr (db', t)" and db: "db_inv digest db"
  shows "db_inv digest db'"
proof -
  have db': "db' = db\<lparr> targets := targets db @ [t] \<rparr>" and i: "target_id t = i"
    and new: "\<And>x. x \<in> set (targets db) \<Longrightarrow> target_id x \<noteq> i"
    using x by (auto simp: create_target_def Let_def exists_row_iff)
  have "wf_db db'"
    unfolding db' using wf_dbD(1) [OF db_invD(1) [OF db]] new i
    by (intro wf_targets [OF db_invD(1) [OF db]] distinct_map_snoc) (auto simp: unique_ids_def)
  moreover have found: "find_target db' (monitor_target m) = find_target db (monitor_target m)"
    if "m \<in> set (monitors db)" for m
  proof -
    have "i \<noteq> monitor_target m" using wf_dbD(3) [OF db_invD(1) [OF db] that] new by (auto simp: in_realm_target_def)
    then show ?thesis by (simp add: db' find_target_def find_append i split: option.splits)
  qed
  have "current_content db' rlm' agt = current_content db rlm' agt" for rlm' agt
  proof (rule current_content_eqI)
    have a: "assigned_monitor_ids db' rlm' agt = assigned_monitor_ids db rlm' agt"
      by (rule assigned_cong) (simp_all add: db')
    show "filter (deliverable db' rlm' agt) (monitors db') = filter (deliverable db rlm' agt) (monitors db)"
      using found by (simp add: db' cong: filter_cong) (simp add: deliverable_def a [unfolded db'] target_active_def cong: filter_cong)
  qed (rule found)
  then have "configuration_inv digest db'"
    by (intro configuration_inv_frame [OF db_invD(2) [OF db]]) (simp_all add: db')
  ultimately show ?thesis by (simp add: db_inv_def)
qed

lemma delete_target_group_membership_inv:
  assumes "delete_target_group_membership db rlm g t = Inr db'" and db: "db_inv digest db"
  shows "db_inv digest db'"
proof -
  have db': "db' = db\<lparr> target_group_memberships := delete_rows (\<lambda>m. tgm_realm m = realm_id rlm \<and>
      tgm_group m = g \<and> tgm_target m = t) (target_group_memberships db) \<rparr>"
    using assms(1) by (simp add: delete_target_group_membership_def Let_def)
  have wf: "wf_db db'"
    unfolding db' using wf_target_rows [OF db_invD(1) [OF db]]
    by (intro wf_target_memberships [OF db_invD(1) [OF db]]) (auto simp: set_delete_rows)
  show ?thesis
    by (rule other_tables_inv [OF db wf]) (simp_all add: db' agent_group_active_def find_agent_group_def)
qed

lemma insort_key_map_key: "insort_key k (g x) (map g xs) = map g (insort_key (\<lambda>y. k (g y)) x xs)"
  by (induction xs) auto

lemma sort_key_map_key: "sort_key k (map g xs) = map g (sort_key (\<lambda>y. k (g y)) xs)"
  by (induction xs) (simp_all add: insort_key_map_key)

text \<open>A rename changes nothing an agent is told.\<close>

lemma rename_monitor_inv:
  assumes "rename_monitor db rlm m n d = (db', m')" and db: "db_inv digest db"
  shows "db_inv digest db'"
proof (cases "db' = db")
  case False
  let ?hit = "\<lambda>x. monitor_id x = monitor_id m \<and> monitor_realm x = realm_id rlm"
  let ?f = "\<lambda>x. x\<lparr> monitor_name := n, monitor_description := d \<rparr>"
  have db': "db' = db\<lparr> monitors := update_rows ?hit ?f (monitors db) \<rparr>"
    using assms(1) False by (auto simp: rename_monitor_def split: if_splits)
  have "wf_db db'"
    unfolding db'
  proof (rule wf_monitors [OF db_invD(1) [OF db]])
    show "distinct (map monitor_id (update_rows ?hit ?f (monitors db)))"
      using wf_dbD(1) [OF db_invD(1) [OF db]] by (simp add: map_update_rows unique_ids_def)
    show "in_realm_target db (monitor_realm x) (monitor_target x)" if "x \<in> set (update_rows ?hit ?f (monitors db))" for x
      using that wf_dbD(3) [OF db_invD(1) [OF db]] by (fastforce simp: set_update_rows)
  qed (rule kept_rows, simp_all)
  moreover have "current_content db' rlm' agt = current_content db rlm' agt" for rlm' agt
  proof -
    have a: "assigned_monitor_ids db' rlm' agt = assigned_monitor_ids db rlm' agt"
      by (rule assigned_cong) (simp_all add: db')
    have d: "deliverable db' rlm' agt x = deliverable db rlm' agt x" "deliverable db rlm' agt (?f x) = deliverable db rlm' agt x" for x
      by (simp_all add: deliverable_def a target_active_def find_target_def) (simp_all add: db')
    let ?g = "\<lambda>x. if ?hit x then ?f x else x"
    have ms: "monitors db' = map ?g (monitors db)" by (simp add: db' update_rows_def)
    have id: "(\<lambda>y. monitor_id (?g y)) = monitor_id" by (simp add: fun_eq_iff)
    have fl: "filter (deliverable db' rlm' agt) (map ?g xs) = map ?g (filter (deliverable db rlm' agt) xs)" for xs
      by (induction xs) (simp_all add: d)
    show ?thesis
      unfolding current_content_def deliverable_monitors_filter ms fl
      by (simp add: sort_key_map_key comp_def id db' find_target_def monitor_entry_of_def if_distrib [of monitor_target] cong: if_cong)
        (intro arg_cong [of _ _ "content_of rlm' agt"] map_cong, simp_all)
  qed
  then have "configuration_inv digest db'"
    by (intro configuration_inv_frame [OF db_invD(2) [OF db]]) (simp_all add: db')
  ultimately show ?thesis by (simp add: db_inv_def)
qed (simp add: db)

end
