(* ===== verification/Configuration_Delivery.thy ===== *)
theory Configuration_Delivery
  imports Configuration_Operations
begin

text \<open>
  The agent side of the revision discipline: generating, acknowledging and heartbeats keep the
  invariant, and under it a generated configuration is the one the tables give the agent now.
\<close>

section \<open>Hierarchy moves and credentials\<close>

lemma move_agent_group_inv:
  assumes x: "move_agent_group db g pr = Inr db'" and g: "g \<in> set (agent_groups db)"
    and p: "\<forall>p. pr = Some p \<longrightarrow> p \<in> set (agent_groups db)" and db: "db_inv digest db"
  shows "db_inv digest db'"
proof -
  let ?f = "\<lambda>x. x\<lparr> agent_group_parent := map_option agent_group_id pr \<rparr>"
  let ?rows = "update_rows (\<lambda>x. agent_group_id x = agent_group_id g) ?f (agent_groups db)"
  note m = move_agent_group_Inr [OF x]
  have db': "db' = db\<lparr> agent_groups := ?rows \<rparr>" using m by simp
  have "parents_coherent agent_group_id agent_group_realm agent_group_parent ?rows"
    using agent_hierarchy.reparent_coherent [of "agent_groups db" g pr] m p g wf_agent_parents [OF db_invD(1) [OF db]] by simp
  moreover have "distinct (map agent_group_id ?rows)"
    using wf_dbD(1) [OF db_invD(1) [OF db]] by (simp add: map_update_rows unique_ids_def)
  ultimately have wf: "wf_db db'"
    unfolding db' by (intro wf_agent_groups [OF db_invD(1) [OF db]] kept_rows) simp_all
  show ?thesis
  proof (rule other_tables_inv [OF db wf])
    show "agent_group_active db' (agm_group y) = agent_group_active db (agm_group y)" for y
      by (simp add: agent_group_active_def find_agent_group_def db' find_update_rows split: option.splits)
  qed (simp_all add: db')
qed

lemma move_target_group_inv:
  assumes x: "move_target_group db g pr = Inr db'" and g: "g \<in> set (target_groups db)"
    and p: "\<forall>p. pr = Some p \<longrightarrow> p \<in> set (target_groups db)" and db: "db_inv digest db"
  shows "db_inv digest db'"
proof -
  let ?f = "\<lambda>x. x\<lparr> target_group_parent := map_option target_group_id pr \<rparr>"
  let ?rows = "update_rows (\<lambda>x. target_group_id x = target_group_id g) ?f (target_groups db)"
  note m = move_target_group_Inr [OF x]
  have db': "db' = db\<lparr> target_groups := ?rows \<rparr>" using m by simp
  have "parents_coherent target_group_id target_group_realm target_group_parent ?rows"
    using target_hierarchy.reparent_coherent [of "target_groups db" g pr] m p g wf_target_parents [OF db_invD(1) [OF db]] by simp
  moreover have "distinct (map target_group_id ?rows)"
    using wf_dbD(1) [OF db_invD(1) [OF db]] by (simp add: map_update_rows unique_ids_def)
  ultimately have wf: "wf_db db'"
    unfolding db' by (intro wf_target_groups [OF db_invD(1) [OF db]] kept_rows) simp_all
  show ?thesis
    by (rule other_tables_inv [OF db wf]) (simp_all add: db' agent_group_active_def find_agent_group_def)
qed

text \<open>Credentials and enrolment tokens are not part of what the invariant speaks of.\<close>

lemma secrets_inv [simp]:
  "db_inv digest (db\<lparr> agent_credentials := cs \<rparr>) = db_inv digest db"
  "db_inv digest (db\<lparr> agent_enrolment_tokens := ts \<rparr>) = db_inv digest db"
proof -
  have "current_content (db\<lparr> agent_credentials := cs \<rparr>) r a = current_content db r a"
    "current_content (db\<lparr> agent_enrolment_tokens := ts \<rparr>) r a = current_content db r a" for r a
    by (rule current_content_assigned; simp add: set_eq_iff assigned_iff agent_group_active_def find_agent_group_def)+
  then show "db_inv digest (db\<lparr> agent_credentials := cs \<rparr>) = db_inv digest db"
    "db_inv digest (db\<lparr> agent_enrolment_tokens := ts \<rparr>) = db_inv digest db"
    by (simp_all add: db_inv_def configuration_inv_def desired_of_def wf_db_def unique_ids_def
        realm_coherent_def in_realm_defs)
qed

section \<open>Heartbeats and acknowledgements\<close>

text \<open>Writing an agent's state without changing its desired revision.\<close>

lemma state_write_inv:
  assumes db: "db_inv digest db" and ok: "state_ok st" and d: "desired_revision st = desired_of db a"
    and realm: "in_realm_agent db (cs_realm st) a"
  shows "db_inv digest (db\<lparr> agent_configuration_states := (agent_configuration_states db)(a \<mapsto> st) \<rparr>)" (is "db_inv _ ?db'")
proof -
  have des: "desired_of ?db' = desired_of db" using d by (auto simp: fun_eq_iff desired_of_def)
  have cc: "current_content ?db' r x = current_content db r x" for r x
    by (rule current_content_assigned) (simp_all add: set_eq_iff assigned_iff agent_group_active_def find_agent_group_def)
  have "configuration_inv digest ?db'"
    using db_invD(2) [OF db] ok unfolding configuration_inv_def des cc by simp
  moreover have "wf_db ?db'"
    using db_invD(1) [OF db] realm by (simp add: wf_db_def unique_ids_def realm_coherent_def in_realm_defs)
  ultimately show ?thesis by (simp add: db_inv_def)
qed

lemma operational_write_inv:
  assumes db: "db_inv digest db" and realm: "in_realm_agent db (op_realm op) a"
  shows "db_inv digest (db\<lparr> agent_operational_states := (agent_operational_states db)(a \<mapsto> op) \<rparr>)" (is "db_inv _ ?db'")
proof -
  have cc: "current_content ?db' r x = current_content db r x" for r x
    by (rule current_content_assigned) (simp_all add: set_eq_iff assigned_iff agent_group_active_def find_agent_group_def)
  show ?thesis
    using db realm unfolding db_inv_def configuration_inv_def cc
    by (simp add: desired_of_def wf_db_def unique_ids_def realm_coherent_def in_realm_defs)
qed

lemma get_or_create_state_Inr:
  assumes "get_or_create_state db rlm agt = Inr st" and db: "db_inv digest db"
  shows "cs_realm st = realm_id rlm \<and> state_ok st \<and> desired_revision st = desired_of db (agent_id agt)"
  using assms(1) configuration_invD(1) [OF db_invD(2) [OF db]]
  by (auto simp: get_or_create_state_def desired_of_def new_configuration_state_def state_ok_def revisions_valid_def
      split: option.splits if_splits)

lemma record_heartbeat_inv:
  assumes x: "record_heartbeat db now rlm agt p = Inr (db', op, st)" and db: "db_inv digest db"
    and a: "in_realm_agent db (realm_id rlm) (agent_id agt)"
  shows "db_inv digest db'"
proof -
  let ?db1 = "db\<lparr> agent_operational_states := (agent_operational_states db)(agent_id agt \<mapsto> op) \<rparr>"
  have st: "get_or_create_state db rlm agt = Inr st" and r: "op_realm op = realm_id rlm"
    and db': "db' = ?db1\<lparr> agent_configuration_states := (agent_configuration_states ?db1)(agent_id agt \<mapsto> st) \<rparr>"
    using x by (auto simp: record_heartbeat_def Let_def)
  have db1: "db_inv digest ?db1" using a r by (intro operational_write_inv [OF db]) simp
  have "in_realm_agent ?db1 (cs_realm st) (agent_id agt)"
    using a get_or_create_state_Inr [OF st db] by (simp add: in_realm_agent_def)
  then show ?thesis
    unfolding db' using get_or_create_state_Inr [OF st db] by (intro state_write_inv [OF db1]) (simp_all add: desired_of_def)
qed

text \<open>A snapshot exists for every revision that can be acknowledged, so the check constraint on
  the two revisions of a state never fires.\<close>

lemma acknowledged_revision_bounded:
  assumes s: "s \<in> set (agent_configuration_snapshots db)" "snapshot_agent s = a" and db: "db_inv digest db"
    and st: "agent_configuration_states db a = Some st"
  shows "state_ok (st\<lparr> acknowledged_revision := snapshot_revision s, acknowledged_content_hash := h, acknowledged_at := t \<rparr>)"
  using configuration_invD(1) [OF db_invD(2) [OF db] st] configuration_invD(2) [OF db_invD(2) [OF db] s(1)] s(2) st
  by (auto simp: state_ok_def revisions_valid_def desired_of_def)

lemma acknowledge_configuration_inv:
  assumes x: "acknowledge_configuration db rlm agt rn h t = Inr (db', st)" and db: "db_inv digest db"
  shows "db_inv digest db'"
proof (cases "db' = db")
  case False
  obtain s old where s: "s \<in> set (agent_configuration_snapshots db)" "snapshot_agent s = agent_id agt"
      "snapshot_revision s = rn"
    and old: "agent_configuration_states db (agent_id agt) = Some old"
    and st: "st = old\<lparr> acknowledged_revision := rn, acknowledged_content_hash := removeprefix h ''sha256:'', acknowledged_at := Some t \<rparr>"
    and db': "db' = db\<lparr> agent_configuration_states := (agent_configuration_states db)(agent_id agt \<mapsto> st) \<rparr>"
    using x False by (auto simp: acknowledge_configuration_def Let_def exists_row_iff split: option.splits if_splits)
  have ok: "state_ok st" unfolding st using acknowledged_revision_bounded [OF s(1,2) db old] s(3) by simp
  have r: "in_realm_agent db (cs_realm st) (agent_id agt)"
    using wf_dbD(6) [OF db_invD(1) [OF db] old] by (simp add: st)
  show ?thesis
    unfolding db' by (rule state_write_inv [OF db ok _ r]) (simp add: st old desired_of_def)
qed (simp add: db)

lemma acknowledge_never_rejected_by_database:
  assumes db: "db_inv digest db"
  shows "acknowledge_configuration db rlm agt rn h t \<noteq> Inl StateIntegrityError"
proof
  assume x: "acknowledge_configuration db rlm agt rn h t = Inl StateIntegrityError"
  then obtain s old where s: "s \<in> set (agent_configuration_snapshots db)" "snapshot_agent s = agent_id agt"
      "snapshot_revision s = rn"
    and old: "agent_configuration_states db (agent_id agt) = Some old"
    and bad: "\<not> revisions_valid (old\<lparr> acknowledged_revision := rn, acknowledged_content_hash := removeprefix h ''sha256:'', acknowledged_at := Some t \<rparr>)"
    by (auto simp: acknowledge_configuration_def Let_def exists_row_iff raise_if_def split: option.splits if_splits)
  show False using acknowledged_revision_bounded [OF s(1,2) db old] bad s(3) by (simp add: state_ok_def)
qed

section \<open>Generating a configuration\<close>

lemma current_content_realm: "realm_id r = realm_id r' \<Longrightarrow> current_content db r agt = current_content db r' agt"
  by (simp add: current_content_def content_of_def deliverable_monitors_def assigned_monitor_ids_def)

text \<open>The state the revision is read from, and the entries, before the snapshot is looked up.\<close>

definition raised :: "agent_configuration_state \<Rightarrow> agent_configuration_state" where
  "raised st = (if desired_revision st = 0 then st\<lparr> desired_revision := 1 \<rparr> else st)"

definition issued :: "monitoring_db \<Rightarrow> realm \<Rightarrow> agent \<Rightarrow> int \<Rightarrow> agent_configuration_snapshot option" where
  "issued db rlm agt n = find (\<lambda>s. snapshot_realm s = realm_id rlm \<and> snapshot_agent s = agent_id agt \<and>
     snapshot_revision s = n) (agent_configuration_snapshots db)"

lemma issuedD:
  assumes "issued db rlm agt n = Some s"
  shows "s \<in> set (agent_configuration_snapshots db)" "snapshot_realm s = realm_id rlm" "snapshot_agent s = agent_id agt"
    "snapshot_revision s = n"
  using find_Some_iff_in [OF assms [unfolded issued_def]] by simp_all

definition snapshot_for ::
  "(configuration_content \<Rightarrow> string) \<Rightarrow> monitoring_db \<Rightarrow> datetime \<Rightarrow> realm \<Rightarrow> agent \<Rightarrow> int \<Rightarrow> agent_configuration_snapshot" where
  "snapshot_for digest db now rlm agt n = (case issued db rlm agt n of Some s \<Rightarrow> s
    | None \<Rightarrow> \<lparr> snapshot_realm = realm_id rlm, snapshot_agent = agent_id agt, snapshot_revision = n,
        snapshot_content_hash = digest (current_content db rlm agt), snapshot_configuration = current_content db rlm agt,
        snapshot_created_at = now \<rparr>)"

text \<open>What \<open>get_or_create_configuration\<close> comes to, when digests are never empty.\<close>

lemma get_or_create_configuration_eq:
  assumes st: "get_or_create_state db rlm agt = Inr st" and op: "agent_operational_states db (agent_id agt) = Some op"
    and op_realm: "op_realm op = realm_id rlm"
    and es: "build_entries (op_capabilities op) (deliverable_monitors db rlm agt) = Inr es"
    and ne: "\<And>c. digest c \<noteq> []" and ok: "state_ok st"
  shows "get_or_create_configuration digest db now rlm agt =
    (let d = desired_revision (raised st); snap = snapshot_for digest db now rlm agt d; h = digest (current_content db rlm agt)
     in bind_result (raise_if (snapshot_content_hash snap \<noteq> h) (ProtocolFailure configuration_revision_conflict)) (\<lambda>_.
        Inr (db\<lparr> agent_configuration_states := (agent_configuration_states db)(agent_id agt \<mapsto> (raised st)\<lparr> desired_content_hash := h \<rparr>),
          agent_configuration_snapshots := (if issued db rlm agt d = None
            then agent_configuration_snapshots db @ [snap] else agent_configuration_snapshots db) \<rparr>,
          \<lparr> result_snapshot = snap, result_content = current_content db rlm agt \<rparr>)))"
proof -
  have c: "content_of rlm agt es = current_content db rlm agt"
    using build_entries_Inr [OF es] by (simp add: current_content_def)
  let ?h = "digest (current_content db rlm agt)"
  have saved: "(if desired_content_hash (raised st) \<noteq> ?h then (raised st)\<lparr> desired_content_hash := ?h \<rparr> else st) =
      (raised st)\<lparr> desired_content_hash := ?h \<rparr>"
    using ok ne [of "current_content db rlm agt"] by (auto simp: raised_def state_ok_def)
  show ?thesis
    unfolding get_or_create_configuration_def st raised_def [symmetric] bind_result.simps op option.case Let_def es
      map_error.simps c saved issued_def [symmetric] snapshot_for_def [symmetric]
    by (simp add: op_realm)
qed

lemma snapshot_for:
  "snapshot_realm (snapshot_for digest db now rlm agt n) = realm_id rlm \<and>
   snapshot_agent (snapshot_for digest db now rlm agt n) = agent_id agt \<and>
   snapshot_revision (snapshot_for digest db now rlm agt n) = n"
proof (cases "issued db rlm agt n")
  case (Some s)
  then show ?thesis using issuedD [OF Some] by (simp add: snapshot_for_def)
qed (simp add: snapshot_for_def)

lemma get_or_create_configuration_Inr:
  assumes x: "get_or_create_configuration digest db now rlm agt = Inr (db', res)"
    and ne: "\<And>c. digest c \<noteq> []" and db: "db_inv digest db"
  obtains st where "get_or_create_state db rlm agt = Inr st"
    and "result_content res = current_content db rlm agt"
    and "snapshot_content_hash (result_snapshot res) = digest (current_content db rlm agt)"
    and "snapshot_realm (result_snapshot res) = realm_id rlm" "snapshot_agent (result_snapshot res) = agent_id agt"
    and "snapshot_revision (result_snapshot res) = desired_revision (raised st)"
    and "db' = db\<lparr> agent_configuration_states := (agent_configuration_states db)(agent_id agt \<mapsto>
          (raised st)\<lparr> desired_content_hash := digest (current_content db rlm agt) \<rparr>),
        agent_configuration_snapshots := (if issued db rlm agt (desired_revision (raised st)) = None
          then agent_configuration_snapshots db @ [result_snapshot res] else agent_configuration_snapshots db) \<rparr>"
    and "issued db rlm agt (desired_revision (raised st)) = None \<or>
      issued db rlm agt (desired_revision (raised st)) = Some (result_snapshot res)"
proof -
  obtain st where st: "get_or_create_state db rlm agt = Inr st"
    using x by (cases "get_or_create_state db rlm agt") (simp_all add: get_or_create_configuration_def)
  obtain op where op: "agent_operational_states db (agent_id agt) = Some op"
    using x by (cases "agent_operational_states db (agent_id agt)") (simp_all add: get_or_create_configuration_def st Let_def)
  have op_realm: "op_realm op = realm_id rlm"
    using x by (cases "op_realm op = realm_id rlm") (simp_all add: get_or_create_configuration_def st op Let_def)
  obtain es where es: "build_entries (op_capabilities op) (deliverable_monitors db rlm agt) = Inr es"
    using x by (cases "build_entries (op_capabilities op) (deliverable_monitors db rlm agt)")
      (simp_all add: get_or_create_configuration_def st op op_realm Let_def)
  have ok: "state_ok st" using get_or_create_state_Inr [OF st db] by simp
  let ?d = "desired_revision (raised st)"
  have r: "snapshot_content_hash (snapshot_for digest db now rlm agt ?d) = digest (current_content db rlm agt)"
    "res = \<lparr> result_snapshot = snapshot_for digest db now rlm agt ?d, result_content = current_content db rlm agt \<rparr>"
    "db' = db\<lparr> agent_configuration_states := (agent_configuration_states db)(agent_id agt \<mapsto>
          (raised st)\<lparr> desired_content_hash := digest (current_content db rlm agt) \<rparr>),
        agent_configuration_snapshots := (if issued db rlm agt ?d = None
          then agent_configuration_snapshots db @ [snapshot_for digest db now rlm agt ?d] else agent_configuration_snapshots db) \<rparr>"
    using x unfolding get_or_create_configuration_eq [where digest = digest, OF st op op_realm es ne ok] Let_def by simp_all
  show thesis
    by (rule that [OF st]) (use r snapshot_for [of digest db now rlm agt ?d] in
        \<open>simp_all, simp add: snapshot_for_def split: option.splits\<close>)
qed

lemma get_or_create_configuration_inv:
  assumes x: "get_or_create_configuration digest db now rlm agt = Inr (db', res)"
    and ne: "\<And>c. digest c \<noteq> []" and db: "db_inv digest db"
    and a: "agt \<in> set (agents db)" "agent_realm agt = realm_id rlm"
  shows "db_inv digest db'"
proof (rule get_or_create_configuration_Inr [OF x ne db])
  fix st
  let ?s = "result_snapshot res" and ?h = "digest (current_content db rlm agt)"
  assume st: "get_or_create_state db rlm agt = Inr st"
    and h: "snapshot_content_hash ?s = ?h" and k: "snapshot_agent ?s = agent_id agt" "snapshot_revision ?s = desired_revision (raised st)"
    and db': "db' = db\<lparr> agent_configuration_states := (agent_configuration_states db)(agent_id agt \<mapsto> (raised st)\<lparr> desired_content_hash := ?h \<rparr>),
      agent_configuration_snapshots := (if issued db rlm agt (desired_revision (raised st)) = None
          then agent_configuration_snapshots db @ [?s] else agent_configuration_snapshots db) \<rparr>"
  note inv = db_invD(2) [OF db] and s0 = get_or_create_state_Inr [OF st db]
  have des: "desired_of db' b = (if b = agent_id agt then desired_revision (raised st) else desired_of db b)" for b
    by (simp add: db' desired_of_def)
  have up: "desired_of db (agent_id agt) \<le> desired_revision (raised st)" "1 \<le> desired_revision (raised st)"
    "desired_of db (agent_id agt) = 0 \<or> desired_revision (raised st) = desired_of db (agent_id agt)"
    using s0 by (auto simp: raised_def state_ok_def revisions_valid_def)
  have cc: "current_content db' r b = current_content db r b" for r b
    by (rule current_content_assigned) (simp_all add: db' set_eq_iff assigned_iff agent_group_active_def find_agent_group_def)
  have snaps: "s \<in> set (agent_configuration_snapshots db) \<or> s = ?s" if "s \<in> set (agent_configuration_snapshots db')" for s
    using that by (auto simp: db' split: if_splits)
  have "wf_db db'"
    using db_invD(1) [OF db] a s0
    by (auto simp: db' wf_db_def unique_ids_def realm_coherent_def in_realm_defs raised_def)
  moreover have "state_ok z" if "agent_configuration_states db' b = Some z" for b z
    using that configuration_invD(1) [OF inv, of b z] s0
    by (auto simp: db' raised_def state_ok_def revisions_valid_def split: if_splits)
  moreover have "1 \<le> snapshot_revision s \<and> snapshot_revision s \<le> desired_of db' (snapshot_agent s)"
    if "s \<in> set (agent_configuration_snapshots db')" for s
    using snaps [OF that] configuration_invD(2) [OF inv, of s] up k by (auto simp: des)
  moreover have "snapshot_content_hash s = digest (current_content db' r b)"
    if s: "s \<in> set (agent_configuration_snapshots db')" "b \<in> set (agents db')" "agent_id b = snapshot_agent s"
      "agent_realm b = realm_id r" "agent_row_active b" "snapshot_revision s = desired_of db' (snapshot_agent s)" for s b r
    using snaps [OF s(1)]
  proof
    assume old: "s \<in> set (agent_configuration_snapshots db)"
    then have "snapshot_revision s = desired_of db (snapshot_agent s)"
      using s(6) configuration_invD(2) [OF inv old] up by (auto simp: des split: if_splits)
    then show ?thesis
      unfolding cc using configuration_invD(3) [OF inv old _ s(3-5)] s(2) by (simp add: db')
  next
    assume new: "s = ?s"
    have "b = agt"
      using distinct_key_inj [of agent_id "agents db" b agt] wf_dbD(1) [OF db_invD(1) [OF db]] s(2,3) a(1) new k(1)
      by (simp add: db' unique_ids_def)
    then show ?thesis
      unfolding cc using current_content_realm [of r rlm db agt] s(4) a(2) h new by simp
  qed
  ultimately show ?thesis
    unfolding db_inv_def configuration_inv_def by blast
qed

text \<open>Generation cannot meet a stale snapshot: it delivers, or the agent has never sent a heartbeat, or
  one of its monitors needs a capability the agent does not report.\<close>

lemma snapshot_for_current:
  assumes db: "db_inv digest db" and st: "get_or_create_state db rlm agt = Inr st"
    and a: "agt \<in> set (agents db)" "agent_realm agt = realm_id rlm" "agent_row_active agt"
  shows "snapshot_content_hash (snapshot_for digest db now rlm agt (desired_revision (raised st))) = digest (current_content db rlm agt)"
proof (cases "issued db rlm agt (desired_revision (raised st))")
  case (Some s)
  note d = issuedD [OF Some] and inv = db_invD(2) [OF db] and s0 = get_or_create_state_Inr [OF st db]
  have "snapshot_revision s = desired_of db (snapshot_agent s)"
    using configuration_invD(2) [OF inv d(1)] d s0 by (auto simp: raised_def split: if_splits)
  then show ?thesis
    using configuration_invD(3) [OF inv d(1) a(1) _ a(2,3)] d(3) Some by (simp add: snapshot_for_def)
qed (simp add: snapshot_for_def)

lemma own_states:
  assumes db: "db_inv digest db" and a: "agt \<in> set (agents db)" "agent_realm agt = realm_id rlm"
  shows "\<exists>st. get_or_create_state db rlm agt = Inr st"
    and "agent_configuration_states db (agent_id agt) = Some st' \<Longrightarrow> cs_realm st' = realm_id rlm"
    and "agent_operational_states db (agent_id agt) = Some op \<Longrightarrow> op_realm op = realm_id rlm"
proof -
  note wf = db_invD(1) [OF db]
  note uniq = agent_realm_unique [OF wf_dbD(1) [OF wf] _ in_realm_rowI(1) [OF a]]
  have c: "cs_realm st' = realm_id rlm" if "agent_configuration_states db (agent_id agt) = Some st'" for st'
    using uniq wf_dbD(6) [OF wf that] by blast
  then show "\<exists>st. get_or_create_state db rlm agt = Inr st"
    by (auto simp: get_or_create_state_def split: option.splits)
  show "agent_configuration_states db (agent_id agt) = Some st' \<Longrightarrow> cs_realm st' = realm_id rlm" by (rule c)
  show "agent_operational_states db (agent_id agt) = Some op \<Longrightarrow> op_realm op = realm_id rlm"
    using uniq wf_dbD(7) [OF wf] by blast
qed

lemma get_or_create_configuration_total:
  assumes db: "db_inv digest db" and ne: "\<And>c. digest c \<noteq> []"
    and a: "agt \<in> set (agents db)" "agent_realm agt = realm_id rlm" "agent_row_active agt"
  obtains (delivered) db' res where "get_or_create_configuration digest db now rlm agt = Inr (db', res)"
  | (no_heartbeat) "agent_operational_states db (agent_id agt) = None"
      "get_or_create_configuration digest db now rlm agt = Inl (ProtocolFailure capabilities_required)"
  | (incompatible) op e where "agent_operational_states db (agent_id agt) = Some op"
      "build_entries (op_capabilities op) (deliverable_monitors db rlm agt) = Inl e"
      "get_or_create_configuration digest db now rlm agt = Inl (ProtocolFailure e)"
proof -
  obtain st where st: "get_or_create_state db rlm agt = Inr st" using own_states(1) [OF db a(1,2)] by blast
  show thesis
  proof (cases "agent_operational_states db (agent_id agt)")
    case None
    then show thesis by (intro no_heartbeat) (simp_all add: get_or_create_configuration_def st Let_def)
  next
    case (Some op)
    note r = own_states(3) [OF db a(1,2) Some]
    show thesis
    proof (cases "build_entries (op_capabilities op) (deliverable_monitors db rlm agt)")
      case (Inl e)
      then show thesis by (intro incompatible [OF Some Inl]) (simp add: get_or_create_configuration_def st Some r Let_def)
    next
      case (Inr es)
      have "state_ok st" using get_or_create_state_Inr [OF st db] by simp
      then show thesis
        using get_or_create_configuration_eq [where digest = digest, OF st Some r Inr ne] snapshot_for_current [OF db st a]
        by (intro delivered) (simp add: Let_def)
    qed
  qed
qed

end
