(* ===== verification/Monitoring_System.thy ===== *)
theory Monitoring_System
  imports Api_Agent Configuration_Delivery
begin

text \<open>
  The backend as a transition system: user requests, agent requests, hierarchy moves and account
  changes, in any order. The invariants of the components hold in every reachable state, and with
  them the promises that span components.
\<close>

section \<open>User endpoints keep the configuration invariant\<close>

lemma both_Inr [simp]: "both x y f = Inr z \<longleftrightarrow> (\<exists>a b. x = Some a \<and> y = Some b \<and> f a b = Inr z)"
  by (auto simp: both_def split: option.splits)

lemma deleted_or_404_Inr [simp]: "deleted_or_404 w r = Inr db' \<longleftrightarrow> r = Inr (db', True)"
  by (cases r) (auto simp: deleted_or_404_def split: if_splits)

lemma found_row: "find P t = Some r \<Longrightarrow> r \<in> set t"
  using find_Some_iff_in by fastforce

lemma found_in:
  "find_group_in db rlm i = Some g \<Longrightarrow> g \<in> set (agent_groups db)"
  "find_agent_in db rlm i = Some a \<Longrightarrow> a \<in> set (agents db)"
  "find_monitor_in db rlm i = Some m \<Longrightarrow> m \<in> set (monitors db)"
  by (auto simp: find_group_in_def find_agent_in_def find_monitor_in_def dest: found_row)

lemma relationship_endpoints_inv:
  assumes db: "db_inv digest db"
  shows "create_agent_group_membership db rlm gid aid = Inr (db', x1) \<Longrightarrow> db_inv digest db'"
    and "delete_agent_group_membership db rlm gid aid = Inr db' \<Longrightarrow> db_inv digest db'"
    and "create_target_group_membership db rlm gid tid = Inr (db', x2) \<Longrightarrow> db_inv digest db'"
    and "create_monitor_agent_assignment db rlm mid aid = Inr (db', x3) \<Longrightarrow> db_inv digest db'"
    and "delete_monitor_agent_assignment db rlm mid aid = Inr db' \<Longrightarrow> db_inv digest db'"
    and "create_monitor_agent_group_assignment db rlm mid gid = Inr (db', x4) \<Longrightarrow> db_inv digest db'"
    and "delete_monitor_agent_group_assignment db rlm mid gid = Inr db' \<Longrightarrow> db_inv digest db'"
  by (auto simp: create_agent_group_membership_def delete_agent_group_membership_def create_target_group_membership_def
      create_monitor_agent_assignment_def delete_monitor_agent_assignment_def create_monitor_agent_group_assignment_def
      delete_monitor_agent_group_assignment_def
      dest!: found_in found_row
      intro: add_agent_to_group_inv [OF _ _ _ db] remove_agent_from_group_inv [OF _ _ db] add_target_to_group_inv [OF _ _ _ db]
        assign_monitor_to_agent_inv [OF _ _ _ db] unassign_monitor_from_agent_inv [OF _ _ db]
        assign_monitor_to_agent_group_inv [OF _ _ _ db] unassign_monitor_from_agent_group_inv [OF _ db])

lemma delete_target_inv: "delete_target db now rlm i = Inr db' \<Longrightarrow> db_inv digest db \<Longrightarrow> db_inv digest db'"
  by (auto simp: delete_target_def split: option.splits dest!: found_row intro: archive_target_inv)

lemma create_monitor_endpoint_inv:
  "create_monitor_endpoint db rlm p i = Inr (db', m) \<Longrightarrow> db_inv digest db \<Longrightarrow> db_inv digest db'"
  by (auto simp: create_monitor_endpoint_def split: option.splits dest!: found_row intro: create_monitor_inv)

lemma update_monitor_inv:
  assumes "update_monitor db rlm i p = Inr (db', m)" and db: "db_inv digest db"
  shows "db_inv digest db'"
proof -
  obtain m0 t db1 m1 where "m0 \<in> set (monitors db)" "t \<in> set (targets db)"
    "update_monitor_behavior db m0 rlm t (mp_probe_type p) (mp_interval_seconds p) (mp_timeout_seconds p) (mp_configuration p) = Inr (db1, m1)"
    "rename_monitor db1 rlm m1 (strip (mp_name p)) (stripped_description (mp_description p)) = (db', m)"
    using assms(1) by (auto simp: update_monitor_def Let_def split: option.splits dest!: found_row)
  then show ?thesis using update_monitor_behavior_inv rename_monitor_inv db by metis
qed

lemma token_endpoints_inv:
  assumes db: "db_inv digest db"
  shows "create_agent_enrolment_token h ttl db now rlm aid i raw = Inr (db', n, r) \<Longrightarrow> db_inv digest db'"
    and "delete_agent_enrolment_token db now rlm aid tid = Inr (db', n, r) \<Longrightarrow> db_inv digest db'"
    and "delete_agent_credential db now rlm aid cid = Inr (db', n, r) \<Longrightarrow> db_inv digest db'"
  using db by (auto simp: create_agent_enrolment_token_def delete_agent_enrolment_token_def delete_agent_credential_def
      issue_enrolment_token_def revoke_enrolment_token_def revoke_credential_def Let_def
      split: option.splits sum.splits prod.splits if_splits bool.splits)

lemma run_endpoint_inv:
  assumes "run_endpoint env db now rlm r = Inr (db', note, resp)" and "db_inv digest db"
  shows "db_inv digest db'"
  using assms relationship_endpoints_inv [OF assms(2)] token_endpoints_inv [OF assms(2)]
  by (cases r) (auto simp: reading_def answering_def answering_nothing_def
      intro: create_agent_inv create_target_inv delete_target_inv create_monitor_endpoint_inv update_monitor_inv
        create_agent_group_inv create_target_group_inv delete_target_group_membership_inv)


section \<open>Agents stay, credentials belong to their agents\<close>

definition untouched :: "monitoring_db \<Rightarrow> monitoring_db \<Rightarrow> bool" where
  "untouched db db' \<longleftrightarrow> agents db' = agents db \<and> agent_credentials db' = agent_credentials db \<and>
     agent_configuration_snapshots db' = agent_configuration_snapshots db \<and>
     agent_groups db' = agent_groups db \<and> target_groups db' = target_groups db"

lemma untouched_simps [simp]:
  "untouched db db"
  "untouched db (bump_configuration_revisions ids r db') = untouched db db'"
  "untouched db (db'\<lparr> monitors := ms \<rparr>) = untouched db db'"
  "untouched db (db'\<lparr> targets := ts \<rparr>) = untouched db db'"
  "untouched db (db'\<lparr> agent_group_memberships := gs \<rparr>) = untouched db db'"
  "untouched db (db'\<lparr> target_group_memberships := gs' \<rparr>) = untouched db db'"
  "untouched db (db'\<lparr> monitor_agent_assignments := xs \<rparr>) = untouched db db'"
  "untouched db (db'\<lparr> monitor_agent_group_assignments := ys \<rparr>) = untouched db db'"
  "untouched db (db'\<lparr> agent_enrolment_tokens := tks \<rparr>) = untouched db db'"
  by (simp_all add: untouched_def)

lemma untouched_trans: "untouched a b \<Longrightarrow> untouched b c \<Longrightarrow> untouched a c"
  by (simp add: untouched_def)

lemma domain_untouched:
  "add_agent_to_group db rlm g a = Inr (db', x1) \<Longrightarrow> untouched db db'"
  "remove_agent_from_group db rlm g a = Inr (db', d) \<Longrightarrow> untouched db db'"
  "add_target_to_group db rlm tg t = Inr (db', x2) \<Longrightarrow> untouched db db'"
  "assign_monitor_to_agent db rlm m a = Inr (db', x3) \<Longrightarrow> untouched db db'"
  "unassign_monitor_from_agent db rlm m a = Inr (db', d) \<Longrightarrow> untouched db db'"
  "assign_monitor_to_agent_group db rlm m g = Inr (db', x4) \<Longrightarrow> untouched db db'"
  "unassign_monitor_from_agent_group db rlm m g = Inr (db', d) \<Longrightarrow> untouched db db'"
  "archive_target db now rlm t = Inr db' \<Longrightarrow> untouched db db'"
  "create_monitor db i rlm t n pt iv to c ds = Inr (db', m) \<Longrightarrow> untouched db db'"
  "rename_monitor db rlm m n ds = (db', m') \<Longrightarrow> untouched db db'"
  by (auto simp: add_agent_to_group_def remove_agent_from_group_def add_target_to_group_def assign_monitor_to_agent_def
      unassign_monitor_from_agent_def assign_monitor_to_agent_group_def unassign_monitor_from_agent_group_def
      archive_target_def rename_monitor_def Let_def split: option.splits if_splits dest: create_monitor_Inr(1))

lemma update_monitor_behavior_untouched:
  "update_monitor_behavior db m rlm t pt iv to c = Inr (db', m') \<Longrightarrow> untouched db db'"
  by (erule update_monitor_behavior_cases) simp_all


text \<open>Credentials and snapshots name an agent of their own realm; a revision is issued once per agent.\<close>

definition ledger_inv :: "monitoring_db \<Rightarrow> bool" where
  "ledger_inv db \<longleftrightarrow>
     (\<forall>c \<in> set (agent_credentials db). in_realm_agent db (credential_realm c) (credential_agent c)) \<and>
     (\<forall>s \<in> set (agent_configuration_snapshots db). in_realm_agent db (snapshot_realm s) (snapshot_agent s)) \<and>
     distinct (map (\<lambda>s. (snapshot_agent s, snapshot_revision s)) (agent_configuration_snapshots db))"

lemma ledger_untouched: "untouched db db' \<Longrightarrow> ledger_inv db \<Longrightarrow> ledger_inv db'"
  by (simp add: untouched_def ledger_inv_def in_realm_agent_def)

lemma ledger_credentials:
  assumes "ledger_inv db" and "\<And>c. credential_realm (f c) = credential_realm c" "\<And>c. credential_agent (f c) = credential_agent c"
  shows "ledger_inv (db\<lparr> agent_credentials := update_rows P f (agent_credentials db) \<rparr>)"
proof -
  have "in_realm_agent db (credential_realm c) (credential_agent c)"
    if "c \<in> set (update_rows P f (agent_credentials db))" for c
    using that assms unfolding ledger_inv_def by (auto simp: set_update_rows)
  then show ?thesis using assms(1) by (simp add: ledger_inv_def in_realm_agent_def)
qed

lemma create_agent_ledger:
  assumes "create_agent db rlm p i = Inr (db', a)" and "ledger_inv db"
  shows "ledger_inv db'"
proof -
  have "db' = db\<lparr> agents := agents db @ [a] \<rparr>" using assms(1) by (auto simp: create_agent_def Let_def)
  then show ?thesis using assms(2) by (auto simp: ledger_inv_def in_realm_agent_def)
qed

lemma revoke_credential_ledger:
  assumes "revoke_credential db now rlm i = (db', d)" and "ledger_inv db"
  shows "ledger_inv db'"
proof -
  have db': "db' = db\<lparr> agent_credentials := update_rows (\<lambda>c. credential_id c = i \<and> credential_realm c = realm_id rlm \<and>
      credential_revoked_at c = None) (\<lambda>c. c\<lparr> credential_revoked_at := Some now \<rparr>) (agent_credentials db) \<rparr>"
    using assms(1) by (auto simp: revoke_credential_def Let_def)
  show ?thesis unfolding db' by (rule ledger_credentials [OF assms(2)]) simp_all
qed

lemma user_endpoints_untouched:
  "create_agent_group_membership db rlm gid aid = Inr (db', x1) \<Longrightarrow> untouched db db'"
  "delete_agent_group_membership db rlm gid aid = Inr db' \<Longrightarrow> untouched db db'"
  "create_target_group_membership db rlm gid tid = Inr (db', x2) \<Longrightarrow> untouched db db'"
  "delete_target_group_membership db rlm gid tid = Inr db' \<Longrightarrow> untouched db db'"
  "create_monitor_agent_assignment db rlm mid aid = Inr (db', x3) \<Longrightarrow> untouched db db'"
  "delete_monitor_agent_assignment db rlm mid aid = Inr db' \<Longrightarrow> untouched db db'"
  "create_monitor_agent_group_assignment db rlm mid gid = Inr (db', x4) \<Longrightarrow> untouched db db'"
  "delete_monitor_agent_group_assignment db rlm mid gid = Inr db' \<Longrightarrow> untouched db db'"
  "delete_target db now rlm tid = Inr db' \<Longrightarrow> untouched db db'"
  "create_monitor_endpoint db rlm mp i = Inr (db', m) \<Longrightarrow> untouched db db'"
  "create_target db rlm tp i = Inr (db', t) \<Longrightarrow> untouched db db'"
  "create_agent_enrolment_token h ttl db now rlm aid i raw = Inr (db', n, r) \<Longrightarrow> untouched db db'"
  "delete_agent_enrolment_token db now rlm aid tid = Inr (db', n, r) \<Longrightarrow> untouched db db'"
  by (auto simp: create_agent_group_membership_def delete_agent_group_membership_def create_target_group_membership_def
      delete_target_group_membership_def create_monitor_agent_assignment_def delete_monitor_agent_assignment_def
      create_monitor_agent_group_assignment_def delete_monitor_agent_group_assignment_def delete_target_def
      create_monitor_endpoint_def create_target_def create_agent_enrolment_token_def issue_enrolment_token_def
      delete_agent_enrolment_token_def revoke_enrolment_token_def Let_def
      split: option.splits sum.splits prod.splits bool.splits dest: domain_untouched)

lemma update_monitor_untouched:
  assumes "update_monitor db rlm i p = Inr (db', m)"
  shows "untouched db db'"
proof -
  obtain m0 t db1 m1 where
    "update_monitor_behavior db m0 rlm t (mp_probe_type p) (mp_interval_seconds p) (mp_timeout_seconds p) (mp_configuration p) = Inr (db1, m1)"
    "rename_monitor db1 rlm m1 (strip (mp_name p)) (stripped_description (mp_description p)) = (db', m)"
    using assms(1) by (auto simp: update_monitor_def Let_def split: option.splits)
  then show ?thesis using update_monitor_behavior_untouched domain_untouched(10) untouched_trans by blast
qed

text \<open>A user endpoint leaves agents, groups, credentials and snapshots alone, adds one agent or
  group, or revokes a credential.\<close>

lemma run_endpoint_effect:
  assumes "run_endpoint env db now rlm r = Inr (db', note, resp)"
  obtains (other) "untouched db db'"
  | (agent) p i a where "create_agent db rlm p i = Inr (db', a)"
  | (agent_group) p i g where "create_agent_group db rlm p i = Inr (db', g)"
  | (target_group) p i g where "create_target_group db rlm p i = Inr (db', g)"
  | (credential) i d where "revoke_credential db now rlm i = (db', d)"
proof (cases r)
  case (DeleteCredential aid cid)
  then show ?thesis
    using assms that(5) by (auto simp: delete_agent_credential_def split: option.splits prod.splits bool.splits)
qed (use assms that(1-4) in \<open>auto simp: reading_def answering_def answering_nothing_def
    intro: user_endpoints_untouched update_monitor_untouched\<close>)

lemma ledger_groups [simp]:
  "ledger_inv (db\<lparr> agent_groups := gs \<rparr>) = ledger_inv db" "ledger_inv (db\<lparr> target_groups := hs \<rparr>) = ledger_inv db"
  by (simp_all add: ledger_inv_def in_realm_agent_def)

lemma create_group_ledger:
  "create_agent_group db rlm gp i = Inr (db', g) \<Longrightarrow> ledger_inv db \<Longrightarrow> ledger_inv db'"
  "create_target_group db rlm tgp i = Inr (db', tg) \<Longrightarrow> ledger_inv db \<Longrightarrow> ledger_inv db'"
  by (auto simp: create_agent_group_def create_target_group_def Let_def)

lemma run_endpoint_ledger:
  assumes "run_endpoint env db now rlm r = Inr (db', note, resp)" and "ledger_inv db"
  shows "ledger_inv db'"
  using assms(1) by (cases rule: run_endpoint_effect)
    (use assms(2) in \<open>auto intro: ledger_untouched create_agent_ledger create_group_ledger revoke_credential_ledger\<close>)

text \<open>Group hierarchies stay forests.\<close>

definition forest_inv :: "monitoring_db \<Rightarrow> bool" where
  "forest_inv db \<longleftrightarrow> acyclic (agent_group_edges db) \<and> acyclic (target_group_edges db)"

lemma forest_untouched: "untouched db db' \<Longrightarrow> forest_inv db' = forest_inv db"
  by (simp add: untouched_def forest_inv_def)

lemma forest_tables [simp]:
  "forest_inv (db\<lparr> agent_credentials := cs \<rparr>) = forest_inv db"
  "forest_inv (db\<lparr> agent_enrolment_tokens := ts \<rparr>) = forest_inv db"
  "forest_inv (db\<lparr> agent_configuration_states := ss \<rparr>) = forest_inv db"
  "forest_inv (db\<lparr> agent_configuration_snapshots := sn \<rparr>) = forest_inv db"
  by (simp_all add: forest_inv_def)

lemma parent_edges_append:
  "parent_edges gid gp (gs @ hs) = parent_edges gid gp gs \<union> parent_edges gid gp hs"
  by (auto simp: parent_edges_def)

lemma new_group_acyclic:
  assumes ac: "acyclic (parent_edges gid gp gs)" and co: "parents_coherent gid gr gp gs"
    and new: "\<And>h. h \<in> set gs \<Longrightarrow> gid h \<noteq> gid g" and par: "\<And>p. gp g = Some p \<Longrightarrow> \<exists>h \<in> set gs. gid h = p"
  shows "acyclic (parent_edges gid gp (gs @ [g]))"
proof (cases "gp g")
  case (Some p)
  have "(p, gid g) \<notin> (parent_edges gid gp gs)\<^sup>*"
  proof
    assume "(p, gid g) \<in> (parent_edges gid gp gs)\<^sup>*"
    moreover have "p \<noteq> gid g" using par [OF Some] new by blast
    ultimately obtain x where "(x, gid g) \<in> parent_edges gid gp gs" by (meson rtranclE)
    then show False using co new by (fastforce simp: parent_edges_def parents_coherent_def)
  qed
  then show ?thesis using ac Some by (simp add: parent_edges_append acyclic_insert)
qed (use ac in \<open>simp add: parent_edges_append\<close>)

lemma create_group_forest:
  assumes wf: "wf_db db" and f: "forest_inv db"
  shows "create_agent_group db rlm gp i = Inr (db', g) \<Longrightarrow> forest_inv db'"
    and "create_target_group db rlm tgp i = Inr (db', tg) \<Longrightarrow> forest_inv db'"
proof -
  assume "create_agent_group db rlm gp i = Inr (db', g)"
  then have db': "db' = db\<lparr> agent_groups := agent_groups db @ [g] \<rparr>"
    and new: "\<And>x. x \<in> set (agent_groups db) \<Longrightarrow> agent_group_id x \<noteq> agent_group_id g"
    and parent: "\<And>q. agent_group_parent g = Some q \<Longrightarrow> \<exists>h \<in> set (agent_groups db). agent_group_id h = q"
    by (auto simp: create_agent_group_def Let_def exists_row_iff split: option.splits)
  show "forest_inv db'"
    using f new_group_acyclic [OF _ conjunct2 [OF wf_agent_parents [OF wf]] new parent] by (simp add: db' forest_inv_def)
next
  assume "create_target_group db rlm tgp i = Inr (db', tg)"
  then have db': "db' = db\<lparr> target_groups := target_groups db @ [tg] \<rparr>"
    and new: "\<And>x. x \<in> set (target_groups db) \<Longrightarrow> target_group_id x \<noteq> target_group_id tg"
    and parent: "\<And>q. target_group_parent tg = Some q \<Longrightarrow> \<exists>h \<in> set (target_groups db). target_group_id h = q"
    by (auto simp: create_target_group_def Let_def exists_row_iff split: option.splits)
  show "forest_inv db'"
    using f new_group_acyclic [OF _ conjunct2 [OF wf_target_parents [OF wf]] new parent] by (simp add: db' forest_inv_def)
qed

lemma run_endpoint_forest:
  assumes "run_endpoint env db now rlm r = Inr (db', note, resp)" and "wf_db db" "forest_inv db"
  shows "forest_inv db'"
  using assms(1)
proof (cases rule: run_endpoint_effect)
  case other
  then show ?thesis using forest_untouched assms(3) by blast
next
  case (agent p i a)
  then have "db' = db\<lparr> agents := agents db @ [a] \<rparr>" by (auto simp: create_agent_def Let_def)
  then show ?thesis using assms(3) by (simp add: forest_inv_def)
next
  case (credential i d)
  then show ?thesis using assms(3) by (auto simp: revoke_credential_def Let_def forest_inv_def)
qed (use create_group_forest [OF assms(2,3)] in auto)

section \<open>Agent endpoints\<close>

definition monitoring_inv :: "(configuration_content \<Rightarrow> string) \<Rightarrow> monitoring_db \<Rightarrow> bool" where
  "monitoring_inv digest db \<longleftrightarrow> db_inv digest db \<and> ledger_inv db \<and> forest_inv db"

lemma untouched_states [simp]:
  "untouched db (db'\<lparr> agent_configuration_states := cs \<rparr>) = untouched db db'"
  "untouched db (db'\<lparr> agent_operational_states := os \<rparr>) = untouched db db'"
  by (simp_all add: untouched_def)

text \<open>Who an authenticated agent is: an active agent of the realm it acts in.\<close>

lemma authenticated_agent:
  assumes "authenticate_agent h rs db now header = Inr (db', az)" and inv: "monitoring_inv digest db"
  shows "monitoring_inv digest db'" "auth_agent az \<in> set (agents db')" "agent_realm (auth_agent az) = realm_id (auth_realm az)"
    "agent_row_active (auth_agent az)"
proof -
  have "monitoring_inv digest db' \<and> auth_agent az \<in> set (agents db') \<and>
    agent_realm (auth_agent az) = realm_id (auth_realm az) \<and> agent_row_active (auth_agent az)"
    using assms(1)
  proof (rule authenticate_Inr)
    fix c secret
    assume c: "c \<in> set (agent_credentials db)" and j: "joined_credential rs db (credential_id c) = Some (c, auth_agent az, auth_realm az)"
      and v: "credential_valid h now secret c (auth_agent az)"
      and db': "db' = db\<lparr> agent_credentials := update_rows (\<lambda>x. credential_id x = credential_id c)
        (\<lambda>x. x\<lparr> credential_last_used_at := Some now \<rparr>) (agent_credentials db) \<rparr>"
    have u: "unique_ids db" using inv wf_dbD(1) db_invD(1) by (auto simp: monitoring_inv_def)
    have f: "find_agent db (credential_agent c) = Some (auth_agent az)" "realm_id (auth_realm az) = credential_realm c"
      using j by (auto simp: joined_credential_def split: option.splits dest: find_Some_iff_in)
    have a: "auth_agent az \<in> set (agents db)" "agent_id (auth_agent az) = credential_agent c"
      using f(1) find_agent_iff [OF u] by simp_all
    have "in_realm_agent db (credential_realm c) (credential_agent c)" using inv c by (simp add: monitoring_inv_def ledger_inv_def)
    then have "agent_realm (auth_agent az) = credential_realm c"
      using agent_realm_unique [OF u _ in_realm_rowI(2) [OF a(1)]] a(2) by simp
    moreover have "monitoring_inv digest db'"
      using inv ledger_credentials unfolding db' monitoring_inv_def by simp
    moreover have "agent_row_active (auth_agent az)" using v by (simp add: credential_valid_def agent_row_active_def)
    ultimately show ?thesis using a f by (simp add: db')
  qed
  then show "monitoring_inv digest db'" "auth_agent az \<in> set (agents db')" "agent_realm (auth_agent az) = realm_id (auth_realm az)"
    "agent_row_active (auth_agent az)" by simp_all
qed

lemma exchange_monitoring_inv:
  assumes "exchange_enrolment_token h db (now, cid, secret) raw = Inr (db', agt, c, shown)" and inv: "monitoring_inv digest db"
  shows "monitoring_inv digest db'"
  using assms(1)
proof (rule exchange_Inr)
  fix t
  assume f: "find (\<lambda>a. agent_id a = token_agent t \<and> agent_realm a = token_realm t) (agents db) = Some agt"
    and c: "c = \<lparr> credential_id = cid, credential_realm = token_realm t, credential_agent = token_agent t,
      credential_name = ''Enrolled '' @ uuid_str cid, credential_hash = h secret, credential_created_at = now,
      credential_last_used_at = None, credential_expires_at = None, credential_revoked_at = None \<rparr>"
    and db': "db' = db\<lparr> agent_credentials := agent_credentials db @ [c],
       agent_enrolment_tokens := update_rows (\<lambda>x. token_id x = token_id t)
         (\<lambda>x. x\<lparr> token_consumed_at := Some now \<rparr>) (agent_enrolment_tokens db) \<rparr>"
  have "in_realm_agent db (credential_realm c) (credential_agent c)"
    using find_Some_iff_in [OF f] by (auto simp: c in_realm_agent_def)
  then show ?thesis
    using inv unfolding db' monitoring_inv_def by (simp add: ledger_inv_def in_realm_agent_def)
qed

lemma heartbeat_monitoring_inv:
  assumes x: "record_heartbeat db now rlm agt p = Inr (db', op, st)" and inv: "monitoring_inv digest db"
    and a: "agt \<in> set (agents db)" "agent_realm agt = realm_id rlm"
  shows "monitoring_inv digest db'"
proof -
  have "untouched db db'" using x by (auto simp: record_heartbeat_def Let_def)
  moreover have "db_inv digest db'"
    using record_heartbeat_inv [OF x] inv in_realm_rowI(1) [OF a] by (simp add: monitoring_inv_def)
  ultimately show ?thesis using inv ledger_untouched forest_untouched by (auto simp: monitoring_inv_def)
qed

lemma acknowledge_monitoring_inv:
  assumes x: "acknowledge_configuration db rlm agt rn h t = Inr (db', st)" and inv: "monitoring_inv digest db"
  shows "monitoring_inv digest db'"
proof -
  have "untouched db db'"
    using x by (auto simp: acknowledge_configuration_def Let_def split: option.splits if_splits)
  then show ?thesis
    using inv ledger_untouched forest_untouched acknowledge_configuration_inv [OF x] by (auto simp: monitoring_inv_def)
qed

lemma configuration_monitoring_inv:
  assumes x: "get_or_create_configuration digest db now rlm agt = Inr (db', res)"
    and ne: "\<And>c. digest c \<noteq> ''''" and inv: "monitoring_inv digest db"
    and a: "agt \<in> set (agents db)" "agent_realm agt = realm_id rlm"
  shows "monitoring_inv digest db'"
proof -
  have db: "db_inv digest db" and led: "ledger_inv db" and fo: "forest_inv db" using inv by (simp_all add: monitoring_inv_def)
  have "ledger_inv db' \<and> forest_inv db'"
  proof (rule get_or_create_configuration_Inr [OF x ne db])
    fix st
    let ?s = "result_snapshot res" and ?d = "desired_revision (raised st)"
    assume k: "snapshot_realm ?s = realm_id rlm" "snapshot_agent ?s = agent_id agt" "snapshot_revision ?s = ?d"
      and db': "db' = db\<lparr> agent_configuration_states := (agent_configuration_states db)(agent_id agt \<mapsto>
          (raised st)\<lparr> desired_content_hash := digest (current_content db rlm agt) \<rparr>),
        agent_configuration_snapshots := (if issued db rlm agt ?d = None
          then agent_configuration_snapshots db @ [?s] else agent_configuration_snapshots db) \<rparr>"
    have r: "in_realm_agent db (snapshot_realm ?s) (snapshot_agent ?s)" using in_realm_rowI(1) [OF a] k by simp
    have "(snapshot_agent s, snapshot_revision s) \<noteq> (snapshot_agent ?s, snapshot_revision ?s)"
      if "issued db rlm agt ?d = None" "s \<in> set (agent_configuration_snapshots db)" for s
    proof
      assume e: "(snapshot_agent s, snapshot_revision s) = (snapshot_agent ?s, snapshot_revision ?s)"
      have "in_realm_agent db (snapshot_realm s) (agent_id agt)" using led that(2) e k by (fastforce simp: ledger_inv_def)
      then have "snapshot_realm s = realm_id rlm"
        using agent_realm_unique [OF wf_dbD(1) [OF db_invD(1) [OF db]] _ in_realm_rowI(1) [OF a]] by blast
      then show False using that e k by (auto simp: issued_def find_None_iff_all)
    qed
    then have "distinct (map (\<lambda>s. (snapshot_agent s, snapshot_revision s)) (agent_configuration_snapshots db'))"
      using led distinct_map_snoc [of "\<lambda>s. (snapshot_agent s, snapshot_revision s)" "agent_configuration_snapshots db" ?s]
      by (simp add: db' ledger_inv_def)
    then show "ledger_inv db' \<and> forest_inv db'" using led r fo by (simp add: db' ledger_inv_def in_realm_agent_def)
  qed
  then show ?thesis using get_or_create_configuration_inv [OF x ne db a] by (simp add: monitoring_inv_def)
qed


section \<open>The transition system\<close>

definition initial_backend :: "auth_db \<Rightarrow> backend" where
  "initial_backend adb = \<lparr> be_auth = adb, be_monitoring = empty_db, be_observations = empty_store \<rparr>"

text \<open>
  One step: a user request, an agent request, a hierarchy move of \<^verbatim>\<open>monitoring/domain.py\<close>, or any
  change the account endpoints make to the account tables and sessions.
\<close>

inductive backend_step :: "environment \<Rightarrow> agent_environment \<Rightarrow> backend \<Rightarrow> backend \<Rightarrow> bool" for env aenv where
  user_request: "handle env \<lparr> auth_state = be_auth b, monitoring = be_monitoring b \<rparr> now req r = (s, answer) \<Longrightarrow>
    backend_step env aenv b (b\<lparr> be_auth := auth_state s, be_monitoring := monitoring s \<rparr>)"
| agent_request: "agent_handle aenv b now areq ar = (b', answer') \<Longrightarrow> backend_step env aenv b b'"
| agent_group_move: "g \<in> set (agent_groups (be_monitoring b)) \<Longrightarrow>
    \<forall>p. pr = Some p \<longrightarrow> p \<in> set (agent_groups (be_monitoring b)) \<Longrightarrow>
    move_agent_group (be_monitoring b) g pr = Inr db' \<Longrightarrow> backend_step env aenv b (b\<lparr> be_monitoring := db' \<rparr>)"
| target_group_move: "h \<in> set (target_groups (be_monitoring b)) \<Longrightarrow>
    \<forall>p. pr' = Some p \<longrightarrow> p \<in> set (target_groups (be_monitoring b)) \<Longrightarrow>
    move_target_group (be_monitoring b) h pr' = Inr db' \<Longrightarrow> backend_step env aenv b (b\<lparr> be_monitoring := db' \<rparr>)"
| accounts: "backend_step env aenv b (b\<lparr> be_auth := adb \<rparr>)"

definition reachable :: "environment \<Rightarrow> agent_environment \<Rightarrow> backend \<Rightarrow> bool" where
  "reachable env aenv b \<longleftrightarrow> (\<exists>adb. (backend_step env aenv)\<^sup>*\<^sup>* (initial_backend adb) b)"

definition backend_inv :: "(configuration_content \<Rightarrow> string) \<Rightarrow> backend \<Rightarrow> bool" where
  "backend_inv digest b \<longleftrightarrow> monitoring_inv digest (be_monitoring b) \<and> store_inv (be_observations b)"

lemma initial_inv: "backend_inv digest (initial_backend adb)"
proof -
  have "configuration_inv digest empty_db" by (simp add: configuration_inv_def empty_db_def)
  moreover have "ledger_inv empty_db" "forest_inv empty_db"
    by (simp_all add: ledger_inv_def forest_inv_def empty_db_def wf_acyclic)
  ultimately show ?thesis
    by (simp add: backend_inv_def monitoring_inv_def initial_backend_def db_inv_def wf_empty_db store_inv_empty)
qed

lemma handle_monitoring:
  assumes "handle env s now req r = (s', answer)"
  obtains (same) "monitoring s' = monitoring s"
  | (ran) adb az nt resp where
      "require_realm_permission (env_hash_token env) (env_session env) (auth_state s) now req (required_permission r) = (adb, Inr az)"
      "request_valid r" "run_endpoint env (monitoring s) now (az_realm az) r = Inr (monitoring s', nt, resp)"
proof -
  have "monitoring s' = monitoring s \<or> (\<exists>adb az nt resp. request_valid r \<and>
      require_realm_permission (env_hash_token env) (env_session env) (auth_state s) now req (required_permission r) = (adb, Inr az) \<and>
      run_endpoint env (monitoring s) now (az_realm az) r = Inr (monitoring s', nt, resp))"
    using assms by (simp add: handle_def split: if_splits prod.splits sum.splits option.splits) force+
  then show thesis using same ran by blast
qed

lemma agent_handle_inv:
  assumes h: "agent_handle aenv b now req r = (b', answer)" and ne: "\<And>c. ag_digest aenv c \<noteq> ''''"
    and inv: "backend_inv (ag_digest aenv) b"
  shows "backend_inv (ag_digest aenv) b'"
proof (cases r)
  case (Enrol p i secret)
  show ?thesis
  proof (cases "be_monitoring b' = be_monitoring b \<and> be_observations b' = be_observations b")
    case False
    obtain agt c raw where "exchange_enrolment_token (ag_hash_token aenv) (be_monitoring b) (now, i, secret) (er_enrolment_token p)
        = Inr (be_monitoring b', agt, c, raw)" and "be_observations b' = be_observations b"
      using h False by (auto simp: Enrol enrol_agent_def Let_def split: if_splits sum.splits credential_error.splits)
    then show ?thesis using inv exchange_monitoring_inv by (simp add: backend_inv_def)
  qed (use inv in \<open>simp add: backend_inv_def\<close>)
next
  case (Operation op)
  show ?thesis
  proof (cases "authenticate_agent (ag_hash_token aenv) (realms (be_auth b)) (be_monitoring b) now (authorization_header req)")
    case (Inl e)
    then show ?thesis using h inv by (simp add: Operation)
  next
    case (Inr q)
    obtain db1 az where "q = (db1, az)" by (cases q)
    note au = Inr [unfolded this]
    have m: "monitoring_inv (ag_digest aenv) (be_monitoring b)" and s: "store_inv (be_observations b)"
      using inv by (simp_all add: backend_inv_def)
    note who = authenticated_agent [OF au m]
    show ?thesis
    proof (cases "operation_valid op")
      case False
      then show ?thesis using h who(1) s by (auto simp: Operation au backend_inv_def)
    next
      case True
      then have e: "authenticated_endpoint aenv (b\<lparr> be_monitoring := db1 \<rparr>) now req az op = (b', answer)"
        using h by (simp add: Operation au)
      show ?thesis
      proof (cases op)
        case (Heartbeat p)
        then show ?thesis
          using e s who heartbeat_monitoring_inv [OF _ who(1-3)]
          by (auto simp: heartbeat_def backend_inv_def split: sum.splits)
      next
        case (GetConfiguration v active hash)
        then show ?thesis
          using e s who configuration_monitoring_inv [OF _ ne who(1-3)]
          by (auto simp: get_configuration_def backend_inv_def Let_def split: sum.splits if_splits)
      next
        case (Acknowledge p)
        then show ?thesis
          using e s who acknowledge_monitoring_inv [OF _ who(1)]
          by (auto simp: acknowledge_agent_configuration_def backend_inv_def split: sum.splits)
      next
        case (UploadObservations p)
        then show ?thesis
          using e s who ingest_store_inv True
          by (auto simp: upload_observations_def backend_inv_def split: sum.splits if_splits)
      qed
    qed
  qed
qed


lemma move_agent_group_forest:
  assumes "wf_db db" and "forest_inv db" and "\<forall>p. pr = Some p \<longrightarrow> p \<in> set (agent_groups db)"
    and m: "move_agent_group db g pr = Inr db'"
  shows "forest_inv db'"
  using move_agent_group_Inr [OF m] agent_hierarchy.reparent_acyclic [of "agent_groups db" pr g] wf_agent_parents [OF assms(1)] assms(2,3)
  by (simp add: forest_inv_def)

lemma move_target_group_forest:
  assumes "wf_db db" and "forest_inv db" and "\<forall>p. pr = Some p \<longrightarrow> p \<in> set (target_groups db)"
    and m: "move_target_group db g pr = Inr db'"
  shows "forest_inv db'"
  using move_target_group_Inr [OF m] target_hierarchy.reparent_acyclic [of "target_groups db" pr g] wf_target_parents [OF assms(1)] assms(2,3)
  by (simp add: forest_inv_def)

lemma move_ledger:
  "move_agent_group db g pr = Inr db' \<Longrightarrow> ledger_inv db' = ledger_inv db"
  "move_target_group db h pr' = Inr db' \<Longrightarrow> ledger_inv db' = ledger_inv db"
  by (auto dest: move_agent_group_Inr move_target_group_Inr)

lemma backend_step_inv:
  assumes "backend_step env aenv b b'" and ne: "\<And>c. ag_digest aenv c \<noteq> ''''" and inv: "backend_inv (ag_digest aenv) b"
  shows "backend_inv (ag_digest aenv) b'"
  using assms(1)
proof cases
  case (user_request now req r s answer)
  from user_request(2) show ?thesis
  proof (cases rule: handle_monitoring)
    case same
    then show ?thesis using inv user_request(1) by (simp add: backend_inv_def)
  next
    case (ran adb az nt resp)
    then show ?thesis
      using run_endpoint_inv [OF ran(3)] run_endpoint_ledger [OF ran(3)] run_endpoint_forest [OF ran(3)] inv db_invD(1)
      by (auto simp: backend_inv_def monitoring_inv_def user_request(1))
  qed
next
  case (agent_request now areq ar answer')
  then show ?thesis using agent_handle_inv [OF _ ne inv] by blast
next
  case (agent_group_move g pr db')
  then show ?thesis
    using inv move_agent_group_inv [OF agent_group_move(4)] move_agent_group_forest [OF _ _ agent_group_move(3,4)] move_ledger(1) [OF agent_group_move(4)] db_invD(1)
    by (auto simp: backend_inv_def monitoring_inv_def)
next
  case (target_group_move h pr' db')
  then show ?thesis
    using inv move_target_group_inv [OF target_group_move(4)] move_target_group_forest [OF _ _ target_group_move(3,4)] move_ledger(2) [OF target_group_move(4)] db_invD(1)
    by (auto simp: backend_inv_def monitoring_inv_def)
qed (use inv in \<open>simp add: backend_inv_def\<close>)

lemma steps_inv:
  assumes "(backend_step env aenv)\<^sup>*\<^sup>* b b'" and "\<And>c. ag_digest aenv c \<noteq> ''''" and "backend_inv (ag_digest aenv) b"
  shows "backend_inv (ag_digest aenv) b'"
  using assms by (induction rule: rtranclp_induct) (auto intro: backend_step_inv)

lemma reachable_inv:
  assumes "reachable env aenv b" and "\<And>c. ag_digest aenv c \<noteq> ''''"
  shows "backend_inv (ag_digest aenv) b"
  using assms steps_inv initial_inv unfolding reachable_def by blast

end
