(* ===== verification/Delivery_Guarantees.thy ===== *)
theory Delivery_Guarantees
  imports Monitoring_System
begin

text \<open>
  What an agent can rely on along any run of the backend, stated on requests and answers: helper
  lemmas for the cross-component properties of the root theory.
\<close>

section \<open>Snapshots are never lost\<close>

definition snapshots_kept :: "monitoring_db \<Rightarrow> monitoring_db \<Rightarrow> bool" where
  "snapshots_kept db db' \<longleftrightarrow> set (agent_configuration_snapshots db) \<subseteq> set (agent_configuration_snapshots db')"

lemma snapshots_kept_untouched: "untouched db db' \<Longrightarrow> snapshots_kept db db'"
  by (simp add: snapshots_kept_def untouched_def)

lemma run_endpoint_snapshots:
  assumes "run_endpoint env db now rlm r = Inr (db', nt, resp)"
  shows "snapshots_kept db db'"
  using assms
proof (cases rule: run_endpoint_effect)
  case other
  then show ?thesis by (rule snapshots_kept_untouched)
qed (auto simp: create_agent_def create_agent_group_def create_target_group_def revoke_credential_def Let_def snapshots_kept_def)

lemma authenticate_snapshots:
  "authenticate_agent h rs db now header = Inr (db', az) \<Longrightarrow>
     agent_configuration_snapshots db' = agent_configuration_snapshots db \<and> agents db' = agents db"
  by (erule authenticate_Inr) simp

lemma snapshots_kept_simps [simp]:
  "snapshots_kept db db"
  "snapshots_kept db (db'\<lparr> agent_configuration_states := cs \<rparr>) = snapshots_kept db db'"
  "snapshots_kept db (db'\<lparr> agent_operational_states := os \<rparr>) = snapshots_kept db db'"
  "snapshots_kept db (db'\<lparr> agent_credentials := xs \<rparr>) = snapshots_kept db db'"
  "snapshots_kept db (db'\<lparr> agent_enrolment_tokens := ts \<rparr>) = snapshots_kept db db'"
  "snapshots_kept db (db'\<lparr> agent_groups := gs \<rparr>) = snapshots_kept db db'"
  "snapshots_kept db (db'\<lparr> target_groups := hs \<rparr>) = snapshots_kept db db'"
  by (simp_all add: snapshots_kept_def)

lemma get_or_create_configuration_snapshots:
  assumes x: "get_or_create_configuration digest db now rlm agt = Inr (db', res)"
  shows "snapshots_kept db db'"
proof -
  obtain st where st: "get_or_create_state db rlm agt = Inr st"
    using x by (cases "get_or_create_state db rlm agt") (simp_all add: get_or_create_configuration_def)
  obtain op where op: "agent_operational_states db (agent_id agt) = Some op" "op_realm op = realm_id rlm"
    using x by (cases "agent_operational_states db (agent_id agt)")
      (simp_all add: get_or_create_configuration_def st Let_def split: if_splits)
  obtain es where es: "build_entries (op_capabilities op) (deliverable_monitors db rlm agt) = Inr es"
    using x by (cases "build_entries (op_capabilities op) (deliverable_monitors db rlm agt)")
      (simp_all add: get_or_create_configuration_def st op Let_def)
  have "set (agent_configuration_snapshots db) \<subseteq> set (agent_configuration_snapshots db')"
    using x by (simp add: get_or_create_configuration_def st op es Let_def) (elim conjE, erule subst, simp add: subset_insertI)
  then show ?thesis by (simp add: snapshots_kept_def)
qed

lemma authenticated_endpoint_snapshots:
  assumes "authenticated_endpoint aenv b now req az op = (b', answer)"
  shows "snapshots_kept (be_monitoring b) (be_monitoring b')"
proof (cases op)
  case (GetConfiguration v active h)
  then have "be_monitoring b' = be_monitoring b \<or> (\<exists>res. get_or_create_configuration (ag_digest aenv) (be_monitoring b) now
      (auth_realm az) (auth_agent az) = Inr (be_monitoring b', res))"
    using assms by (auto simp: get_configuration_def Let_def split: sum.splits if_splits)
  then show ?thesis using get_or_create_configuration_snapshots by auto
qed (use assms in \<open>auto simp: heartbeat_def record_heartbeat_def acknowledge_agent_configuration_def
      acknowledge_configuration_def upload_observations_def Let_def split: sum.splits if_splits option.splits\<close>)

lemma agent_handle_snapshots:
  assumes "agent_handle aenv b now req r = (b', answer)"
  shows "snapshots_kept (be_monitoring b) (be_monitoring b')"
proof (cases r)
  case (Enrol p i secret)
  then show ?thesis
    using assms by (auto simp: enrol_agent_def Let_def split: if_splits sum.splits credential_error.splits elim!: exchange_Inr)
next
  case (Operation op)
  show ?thesis
  proof (cases "authenticate_agent (ag_hash_token aenv) (realms (be_auth b)) (be_monitoring b) now (authorization_header req)")
    case (Inr q)
    obtain db1 az where "q = (db1, az)" by (cases q)
    note au = Inr [unfolded this]
    show ?thesis
    proof (cases "operation_valid op")
      case True
      then show ?thesis
        using assms authenticated_endpoint_snapshots [of aenv "b\<lparr> be_monitoring := db1 \<rparr>" now req az op b' answer] authenticate_snapshots [OF au]
        by (simp add: Operation au snapshots_kept_def)
    next
      case False
      then show ?thesis using assms authenticate_snapshots [OF au] by (auto simp: Operation au snapshots_kept_def)
    qed
  qed (use assms in \<open>simp add: Operation\<close>)
qed

lemma backend_step_snapshots:
  assumes "backend_step env aenv b b'"
  shows "snapshots_kept (be_monitoring b) (be_monitoring b')"
  using assms
proof cases
  case (user_request now req r s answer)
  from user_request(2) show ?thesis
  proof (cases rule: handle_monitoring)
    case (ran adb az nt resp)
    then show ?thesis using run_endpoint_snapshots [OF ran(3)] by (simp add: user_request(1))
  qed (simp add: user_request(1))
next
  case (agent_request now areq ar answer')
  then show ?thesis by (intro agent_handle_snapshots)
next
  case (agent_group_move g pr db')
  then show ?thesis using move_agent_group_Inr [OF agent_group_move(4)] by simp
next
  case (target_group_move h pr' db')
  then show ?thesis using move_target_group_Inr [OF target_group_move(4)] by simp
qed simp

lemma steps_snapshots:
  assumes "(backend_step env aenv)\<^sup>*\<^sup>* b b'" and "s \<in> set (agent_configuration_snapshots (be_monitoring b))"
  shows "s \<in> set (agent_configuration_snapshots (be_monitoring b'))"
  using assms
proof (induction rule: rtranclp_induct)
  case (step y z)
  then show ?case using backend_step_snapshots [OF step(2)] by (auto simp: snapshots_kept_def)
qed

section \<open>Answers to a configuration request\<close>

text \<open>An answered configuration request: who asked, and what the tables held.\<close>

lemma configuration_answer:
  assumes h: "agent_handle aenv b now req (Operation (GetConfiguration v active hash)) =
      (b', Inr (ConfigurationResponse aid rid rn text_hash t ms))"
    and inv: "backend_inv (ag_digest aenv) b" and ne: "\<And>c. ag_digest aenv c \<noteq> []"
  obtains agt rlm snap where "agt \<in> set (agents (be_monitoring b))" "agent_id agt = aid" "agent_realm agt = rid"
      "realm_id rlm = rid" "agent_row_active agt"
      "text_hash = sha256_text (ag_digest aenv (current_content (be_monitoring b) rlm agt))"
      "ms = content_monitors (current_content (be_monitoring b) rlm agt)" "1 \<le> rn"
      "desired_of (be_monitoring b') aid = rn"
      "snap \<in> set (agent_configuration_snapshots (be_monitoring b'))" "snapshot_agent snap = aid"
      "snapshot_revision snap = rn" "text_hash = sha256_text (snapshot_content_hash snap)" "t = snapshot_created_at snap"
proof -
  obtain db1 az where au: "authenticate_agent (ag_hash_token aenv) (realms (be_auth b)) (be_monitoring b) now (authorization_header req) = Inr (db1, az)"
    using h by (auto split: sum.splits prod.splits if_splits)
  have e: "get_configuration aenv (b\<lparr> be_monitoring := db1 \<rparr>) now az v active hash = (b', Inr (ConfigurationResponse aid rid rn text_hash t ms))"
    using h by (simp add: au split: if_splits)
  then obtain res where g: "get_or_create_configuration (ag_digest aenv) db1 now (auth_realm az) (auth_agent az) = Inr (be_monitoring b', res)"
    and k: "aid = agent_id (auth_agent az)" "rid = realm_id (auth_realm az)" "rn = snapshot_revision (result_snapshot res)"
      "text_hash = sha256_text (snapshot_content_hash (result_snapshot res))" "t = snapshot_created_at (result_snapshot res)"
      "ms = content_monitors (result_content res)"
    by (auto simp: get_configuration_def Let_def split: sum.splits if_splits)
  have m: "monitoring_inv (ag_digest aenv) (be_monitoring b)" using inv by (simp add: backend_inv_def)
  note who = authenticated_agent [OF au m]
  have db1: "db_inv (ag_digest aenv) db1" using who(1) by (simp add: monitoring_inv_def)
  have cc: "current_content db1 r x = current_content (be_monitoring b) r x" for r x
    using au by (rule authenticate_Inr)
      (auto intro!: current_content_assigned simp: set_eq_iff assigned_iff agent_group_active_def find_agent_group_def)
  have ag: "agents db1 = agents (be_monitoring b)" using authenticate_snapshots [OF au] by simp
  show thesis
  proof (rule get_or_create_configuration_Inr [OF g ne db1])
    fix st
    let ?s = "result_snapshot res"
    assume st: "get_or_create_state db1 (auth_realm az) (auth_agent az) = Inr st"
      and r: "result_content res = current_content db1 (auth_realm az) (auth_agent az)"
      "snapshot_content_hash ?s = ag_digest aenv (current_content db1 (auth_realm az) (auth_agent az))"
      "snapshot_agent ?s = agent_id (auth_agent az)" "snapshot_revision ?s = desired_revision (raised st)"
      and db': "be_monitoring b' = db1\<lparr> agent_configuration_states := (agent_configuration_states db1)(agent_id (auth_agent az) \<mapsto>
          (raised st)\<lparr> desired_content_hash := ag_digest aenv (current_content db1 (auth_realm az) (auth_agent az)) \<rparr>),
        agent_configuration_snapshots := (if issued db1 (auth_realm az) (auth_agent az) (desired_revision (raised st)) = None
          then agent_configuration_snapshots db1 @ [?s] else agent_configuration_snapshots db1) \<rparr>"
      and i: "issued db1 (auth_realm az) (auth_agent az) (desired_revision (raised st)) = None \<or>
        issued db1 (auth_realm az) (auth_agent az) (desired_revision (raised st)) = Some ?s"
    have "?s \<in> set (agent_configuration_snapshots (be_monitoring b'))"
      using i issuedD(1) by (auto simp: db')
    moreover have "1 \<le> rn" using get_or_create_state_Inr [OF st db1] r(4) k(3)
      by (auto simp: raised_def state_ok_def revisions_valid_def)
    moreover have "desired_of (be_monitoring b') aid = rn" using r(4) k(1,3) by (simp add: db' desired_of_def)
    ultimately show thesis
      using who r k cc ag by (intro that [of "auth_agent az" "auth_realm az" ?s]) simp_all
  qed
qed

section \<open>The content of a configuration\<close>

lemma current_content_sorted:
  assumes "wf_db db"
  shows "sorted_wrt (<) (map entry_monitor_id (content_monitors (current_content db rlm agt)))"
proof -
  let ?ms = "sort_key monitor_id (filter (deliverable db rlm agt) (monitors db))"
  have "map entry_monitor_id (content_monitors (current_content db rlm agt)) = map monitor_id ?ms"
    by (simp add: current_content_def content_of_def deliverable_monitors_filter monitor_entry_of_def comp_def)
  moreover have "distinct (map monitor_id (monitors db))" using wf_dbD(1) [OF assms] by (simp add: unique_ids_def)
  then have "distinct (map monitor_id ?ms)" by (auto simp: distinct_map elim: inj_on_subset)
  ultimately show ?thesis by (simp add: strict_sorted_iff)
qed

lemma build_entries_Inl:
  "build_entries caps ms = Inl e \<Longrightarrow> \<exists>m t. (m, t) \<in> set ms \<and> check_capability m caps = Inl e \<and> e = incompatible_capability m"
proof (induction caps ms rule: build_entries.induct)
  case (2 caps m t rest)
  show ?case
  proof (cases "check_capability m caps")
    case (Inl e')
    then have "e' = incompatible_capability m" by (auto simp: check_capability_def raise_if_def split: if_splits)
    with 2 Inl show ?thesis by auto
  next
    case (Inr u)
    then have "build_entries caps rest = Inl e" using 2(2) by (cases "build_entries caps rest") simp_all
    from 2(1) [OF this] show ?thesis by auto
  qed
qed simp

lemma build_entries_supported:
  "build_entries caps ms = Inr es \<Longrightarrow> (m, t) \<in> set ms \<Longrightarrow> check_capability m caps = Inr ()"
  by (induction caps ms arbitrary: es rule: build_entries.induct) auto

lemma deliverable_effective:
  assumes "agent_active db (agent_id agt)"
  shows "deliverable db rlm agt m \<longleftrightarrow> monitor_realm m = realm_id rlm \<and> agent_id agt \<in> set (effective_agent_ids db m) \<and>
    target_active db (monitor_target m)"
  using effective_iff_assigned [of m rlm db agt] assms unfolding deliverable_def effective_iff [of _ _ m] by blast

lemma current_content_effective:
  assumes "agent_active db (agent_id agt)"
  shows "e \<in> set (content_monitors (current_content db rlm agt)) \<longleftrightarrow> (\<exists>m x. m \<in> set (monitors db) \<and>
    monitor_realm m = realm_id rlm \<and> agent_id agt \<in> set (effective_agent_ids db m) \<and>
    find_target db (monitor_target m) = Some x \<and> target_enabled x \<and> target_archived_at x = None \<and> e = monitor_entry_of m x)"
    (is "?L = ?R")
proof -
  note d = deliverable_effective [OF assms]
  have "?L \<longleftrightarrow> (\<exists>m. m \<in> set (monitors db) \<and> deliverable db rlm agt m \<and> e = monitor_entry_of m (the (find_target db (monitor_target m))))"
    by (auto simp: current_content_def content_of_def deliverable_monitors_filter)
  also have "\<dots> \<longleftrightarrow> ?R"
    unfolding d target_active_def by (rule ex_cong1) (auto split: option.splits)
  finally show ?thesis .
qed

lemma authenticate_tables:
  assumes "authenticate_agent h rs db now header = Inr (db', az)"
  shows "agent_operational_states db' = agent_operational_states db" "monitors db' = monitors db"
    "effective_agent_ids db' = effective_agent_ids db" "target_active db' = target_active db"
proof -
  obtain cs where db': "db' = db\<lparr> agent_credentials := cs \<rparr>" using assms by (rule authenticate_Inr) simp
  show "agent_operational_states db' = agent_operational_states db" "monitors db' = monitors db"
    "effective_agent_ids db' = effective_agent_ids db" "target_active db' = target_active db"
    by (simp_all add: db' fun_eq_iff effective_agent_ids_def model_defs)
qed

lemma delivered_entries:
  assumes x: "get_or_create_configuration digest db now rlm agt = Inr (db', res)"
  shows "\<exists>op. agent_operational_states db (agent_id agt) = Some op \<and>
    (\<exists>es. build_entries (op_capabilities op) (deliverable_monitors db rlm agt) = Inr es)"
proof -
  obtain st where st: "get_or_create_state db rlm agt = Inr st"
    using x by (cases "get_or_create_state db rlm agt") (simp_all add: get_or_create_configuration_def)
  obtain op where op: "agent_operational_states db (agent_id agt) = Some op" "op_realm op = realm_id rlm"
    using x by (cases "agent_operational_states db (agent_id agt)")
      (simp_all add: get_or_create_configuration_def st Let_def split: if_splits)
  then show ?thesis
    using x by (cases "build_entries (op_capabilities op) (deliverable_monitors db rlm agt)")
      (simp_all add: get_or_create_configuration_def st op Let_def)
qed

lemma removeprefix_sha256: "removeprefix (sha256_text h) ''sha256:'' = h"
  by (simp add: removeprefix_def startswith_def sha256_text_def)

lemma acknowledge_issued:
  assumes db: "db_inv digest db" "ledger_inv db" and a: "agt \<in> set (agents db)" "agent_realm agt = realm_id rlm"
    and s: "s \<in> set (agent_configuration_snapshots db)" "snapshot_agent s = agent_id agt" "snapshot_revision s = rn"
      "removeprefix h ''sha256:'' = snapshot_content_hash s"
  obtains db' st where "acknowledge_configuration db rlm agt rn h activated = Inr (db', st)" "rn \<le> acknowledged_revision st"
proof -
  have u: "unique_ids db" using wf_dbD(1) db_invD(1) db(1) by blast
  have "in_realm_agent db (snapshot_realm s) (agent_id agt)" using db(2) s(1,2) by (auto simp: ledger_inv_def)
  then have r: "snapshot_realm s = realm_id rlm" using agent_realm_unique [OF u _ in_realm_rowI(1) [OF a]] by blast
  have rn: "1 \<le> rn" "rn \<le> desired_of db (agent_id agt)"
    using configuration_invD(2) [OF db_invD(2) [OF db(1)] s(1)] s(2,3) by simp_all
  then obtain old where old: "agent_configuration_states db (agent_id agt) = Some old"
    by (cases "agent_configuration_states db (agent_id agt)") (simp_all add: desired_of_def)
  have c: "cs_realm old = realm_id rlm" using own_states(2) [OF db(1) a old] .
  have e: "exists_row (\<lambda>s. snapshot_realm s = realm_id rlm \<and> snapshot_agent s = agent_id agt \<and> snapshot_revision s = rn \<and>
      snapshot_content_hash s = removeprefix h ''sha256:'') (agent_configuration_snapshots db)"
    using s r by (auto simp: exists_row_iff)
  note nr = acknowledge_never_rejected_by_database [OF db(1), of rlm agt rn h activated]
  show thesis
  proof (cases "acknowledged_revision old \<le> rn")
    case True
    let ?st = "old\<lparr> acknowledged_revision := rn, acknowledged_content_hash := removeprefix h ''sha256:'', acknowledged_at := Some activated \<rparr>"
    have "acknowledge_configuration db rlm agt rn h activated =
        bind_result (raise_if (\<not> revisions_valid ?st) StateIntegrityError) (\<lambda>_.
          Inr (db\<lparr> agent_configuration_states := (agent_configuration_states db)(agent_id agt \<mapsto> ?st) \<rparr>, ?st))"
      using True by (simp add: acknowledge_configuration_def e old c Let_def)
    moreover from this nr have "revisions_valid ?st" by (auto simp: raise_if_def split: if_splits)
    ultimately have "acknowledge_configuration db rlm agt rn h activated =
        Inr (db\<lparr> agent_configuration_states := (agent_configuration_states db)(agent_id agt \<mapsto> ?st) \<rparr>, ?st)" by simp
    then show thesis by (rule that) simp
  next
    case False
    then have "acknowledge_configuration db rlm agt rn h activated = Inr (db, old)"
      by (simp add: acknowledge_configuration_def e old c Let_def)
    then show thesis by (rule that) (use False in simp)
  qed
qed

end
