(* ===== verification/Backend_Example.thy ===== *)
theory Backend_Example
  imports Delivery_Guarantees
begin

text \<open>
  A concrete run of the backend: an owner creates a target, a TCP monitor, an agent and an enrolment
  token; the agent enrols, sends a heartbeat and asks for its configuration. The states are computed
  by the model's own functions.
\<close>

definition example_env :: environment where
  "example_env = \<lparr> env_hash_token = (\<lambda>s. s), env_session = sample_settings, agent_enrolment_ttl_minutes = 15,
     agent_offline_after_seconds = 90 \<rparr>"

definition example_hash :: string where
  "example_hash = replicate 64 (CHR ''d'')"

definition example_aenv :: agent_environment where
  "example_aenv = \<lparr> ag_hash_token = (\<lambda>s. s), ag_digest = (\<lambda>_. example_hash), ag_canonical_hash = (\<lambda>_. ''h''), ag_inet = ip_address,
     agent_heartbeat_interval_seconds = 30, agent_configuration_poll_interval_seconds = 30 \<rparr>"

definition example_token :: string where
  "example_token = ''0123456789abcdef0123456789abcdef''"

definition example_request :: agent_http_request where
  "example_request = \<lparr> authorization_header = Some (''Bearer '' @ uuid_str 6 @ ''.s''), content_length_header = None,
     agent_client = sample_request \<rparr>"

definition example_capabilities :: agent_capabilities where
  "example_capabilities = \<lparr> probes = [(''tcp'', \<lparr> schema_versions = [1], available = True \<rparr>)], runtime = [], external_tools = [] \<rparr>"

definition example_heartbeat :: agent_heartbeat_request where
  "example_heartbeat = \<lparr> hb_protocol_version = 1, hb_agent_version = ''1'', hb_platform = ''linux'', hb_architecture = ''x'',
     hb_hostname = ''h'', hb_capabilities = example_capabilities, hb_active_configuration_revision = 0,
     hb_known_desired_configuration_revision = 0, hb_queue_depth = 0, hb_queue_bytes = 0,
     hb_oldest_pending_observation_at = None, hb_database_health = DbHealthy, hb_scheduler_state = SchedulerRunning,
     hb_agent_time = 5, hb_warnings = [] \<rparr>"

text \<open>The rows the run creates.\<close>

definition example_target :: target where
  "example_target = \<lparr> target_id = 8, target_realm = 1, target_name = ''t'', target_description = None,
     target_address = ''192.0.2.1'', target_enabled = True, target_archived_at = None \<rparr>"

definition example_agent :: agent where
  "example_agent = \<lparr> agent_id = 5, agent_realm = 1, agent_name = ''a'', agent_description = None, agent_enabled = True,
     agent_archived_at = None \<rparr>"

definition example_configuration :: typed_probe_configuration where
  "example_configuration = TcpConfiguration \<lparr> tcp_schema_version = 1, tcp_port = 443, tcp_address_family = Auto \<rparr>"

definition example_monitor :: monitor where
  "example_monitor = \<lparr> monitor_id = 7, monitor_realm = 1, monitor_target = 8, monitor_name = ''m'', monitor_description = None,
     monitor_probe_type = TCP, interval_seconds = 60, timeout_seconds = 5, monitor_configuration = example_configuration,
     monitor_enabled = True, monitor_revision = 1, monitor_archived_at = None \<rparr>"

definition example_assignment :: monitor_agent_assignment where
  "example_assignment = \<lparr> maa_realm = 1, maa_monitor = 7, maa_agent = 5, maa_enabled = True \<rparr>"

definition example_state :: agent_configuration_state where
  "example_state = (new_configuration_state 1)\<lparr> desired_revision := 1 \<rparr>"

definition example_db :: monitoring_db where
  "example_db = empty_db\<lparr> targets := [example_target], agents := [example_agent], monitors := [example_monitor],
     monitor_agent_assignments := [example_assignment], agent_configuration_states := [5 \<mapsto> example_state] \<rparr>"

definition signed_in :: "monitoring_db \<Rightarrow> backend" where
  "signed_in db = \<lparr> be_auth = sample_auth_db ''owner'', be_monitoring = db, be_observations = empty_store \<rparr>"

lemma owner_authorised:
  "\<exists>adb az. require_realm_permission (env_hash_token example_env) (env_session example_env) (sample_auth_db ''owner'') 5 sample_request p
     = (adb, Inr az) \<and> az_realm az = sample_realm"
  by (cases p)
    (simp_all add: require_realm_permission_def get_session_user_def sample_request_def sample_settings_def example_env_def
        session_key_def redis_get_def sample_auth_db_def sample_session_def sample_user_def sample_realm_def redis_set_def
        authorize_realm_def parse_role_def role_has_permission_def Let_def)

lemma accounts_reachable: "reachable env aenv b \<Longrightarrow> reachable env aenv (b\<lparr> be_auth := adb \<rparr>)"
  unfolding reachable_def by (elim exE, rule exI, erule rtranclp.rtrancl_into_rtrancl) (rule accounts)

lemma signed_in_request:
  assumes "reachable example_env aenv (signed_in db)" and "request_valid r"
    and "run_endpoint example_env db 5 sample_realm r = Inr (db', audit, resp)"
  shows "reachable example_env aenv (signed_in db')"
proof -
  obtain adb az where p: "require_realm_permission (env_hash_token example_env) (env_session example_env) (sample_auth_db ''owner'') 5
      sample_request (required_permission r) = (adb, Inr az)" "az_realm az = sample_realm"
    using owner_authorised by blast
  then obtain adb' answer where
    "handle example_env \<lparr> auth_state = be_auth (signed_in db), monitoring = be_monitoring (signed_in db) \<rparr> 5 sample_request r =
      (\<lparr> auth_state = adb', monitoring = db' \<rparr>, answer)"
    using assms(2,3) by (cases audit; cases "audit_note_event adb sample_request az (the audit)") (auto simp: handle_def signed_in_def)
  from user_request [OF this, of aenv] have "reachable example_env aenv ((signed_in db)\<lparr> be_auth := adb', be_monitoring := db' \<rparr>)"
    using assms(1) unfolding reachable_def by (auto intro: rtranclp.rtrancl_into_rtrancl)
  from accounts_reachable [OF this, of "sample_auth_db ''owner''"] show ?thesis by (simp add: signed_in_def)
qed

lemma signed_in_agent_request:
  assumes "reachable env aenv (signed_in db)" and "agent_handle aenv (signed_in db) now req r = (b', answer)"
    and "be_observations b' = empty_store"
  shows "reachable env aenv (signed_in (be_monitoring b'))"
proof -
  have "reachable env aenv b'"
    using assms(1) agent_request [OF assms(2)] unfolding reachable_def
    by (elim exE, intro exI) (erule rtranclp.rtrancl_into_rtrancl)
  from accounts_reachable [OF this, of "sample_auth_db ''owner''"] assms(3) show ?thesis
    by (cases b') (simp add: signed_in_def)
qed

lemma example_strings:
  "strip ''t'' = ''t''" "strip ''a'' = ''a''" "strip ''m'' = ''m''" "strip ''192.0.2.1'' = ''192.0.2.1''"
  by code_simp+

lemmas example_rows = example_target_def example_agent_def example_monitor_def example_assignment_def example_configuration_def

lemma example_endpoints:
  "run_endpoint env empty_db now sample_realm
      (CreateTarget \<lparr> tc_name = ''t'', tc_description = None, tc_address = ''192.0.2.1'', tc_enabled = True \<rparr> 8) =
    Inr (empty_db\<lparr> targets := [example_target] \<rparr>, None, Targets [example_target])"
  "run_endpoint env (empty_db\<lparr> targets := [example_target] \<rparr>) now sample_realm
      (CreateAgent \<lparr> ac_name = ''a'', ac_description = None, ac_enabled = True \<rparr> 5) =
    Inr (empty_db\<lparr> targets := [example_target], agents := [example_agent] \<rparr>, None, Agents [example_agent])"
  "run_endpoint env (empty_db\<lparr> targets := [example_target], agents := [example_agent] \<rparr>) now sample_realm
      (CreateMonitor \<lparr> mp_target_id = 8, mp_name = ''m'', mp_description = None, mp_probe_type = TCP, mp_interval_seconds = 60,
         mp_timeout_seconds = 5, mp_configuration = example_configuration \<rparr> 7) =
    Inr (empty_db\<lparr> targets := [example_target], agents := [example_agent], monitors := [example_monitor] \<rparr>, None,
      Monitors [example_monitor])"
  "run_endpoint env (empty_db\<lparr> targets := [example_target], agents := [example_agent], monitors := [example_monitor] \<rparr>) now
      sample_realm (PutMonitorAgent 7 5) = Inr (example_db, None, AgentAssignments [example_assignment])"
  by (simp_all add: answering_def create_target_def create_agent_def create_monitor_endpoint_def create_monitor_def
      create_monitor_agent_assignment_def assign_monitor_to_agent_def both_def find_monitor_in_def find_agent_in_def
      require_same_realm_def require_active_def validate_schedule_def serialize_probe_configuration_def
      validate_probe_configuration_def validate_tcp_def target_name_taken_def agent_name_taken_def monitor_name_taken_def
      bump_configuration_revisions_def bump_state_def new_configuration_state_def example_db_def example_state_def
      example_rows sample_realm_def exists_row_def empty_db_def example_strings between_def Let_def)

lemma example_db_reachable: "reachable example_env aenv (signed_in example_db)"
proof -
  have 0: "reachable example_env aenv (signed_in empty_db)"
    unfolding reachable_def initial_backend_def signed_in_def by blast
  show ?thesis
    by (rule signed_in_request [OF signed_in_request [OF signed_in_request [OF signed_in_request [OF 0 _ example_endpoints(1)] _
        example_endpoints(2)] _ example_endpoints(3)] _ example_endpoints(4)])
      (simp_all add: target_create_valid_def agent_create_valid_def monitor_payload_valid_def length_between_def)
qed

text \<open>The token, the credential and the heartbeat of the example agent.\<close>

definition example_token_row :: agent_enrolment_token where
  "example_token_row = \<lparr> token_id = 9, token_realm = 1, token_agent = 5, token_hash = example_token,
     token_expires_at = 5 + minutes 15, token_consumed_at = None, token_revoked_at = None \<rparr>"

definition example_credential :: agent_credential where
  "example_credential = \<lparr> credential_id = 6, credential_realm = 1, credential_agent = 5,
     credential_name = ''Enrolled '' @ uuid_str 6, credential_hash = ''s'', credential_created_at = 5,
     credential_last_used_at = None, credential_expires_at = None, credential_revoked_at = None \<rparr>"

definition example_enrolment :: agent_enrolment_request where
  "example_enrolment = \<lparr> er_protocol_version = 1, er_enrolment_token = example_token, er_agent_version = ''1'',
     er_platform = ''linux'', er_architecture = ''x'', er_hostname = ''h'', er_capabilities = example_capabilities \<rparr>"

definition issued_db :: monitoring_db where
  "issued_db = example_db\<lparr> agent_enrolment_tokens := [example_token_row] \<rparr>"

definition enrolled_db :: monitoring_db where
  "enrolled_db = example_db\<lparr> agent_enrolment_tokens := [example_token_row\<lparr> token_consumed_at := Some 5 \<rparr>],
     agent_credentials := [example_credential] \<rparr>"

lemma issued_db_reachable: "reachable example_env aenv (signed_in issued_db)"
proof -
  have "run_endpoint example_env example_db 5 sample_realm (CreateEnrolmentToken 5 9 example_token) =
      Inr (issued_db, Some (''agent.enrolment.create'', ''agent_enrolment_token'', uuid_str 9),
        EnrolmentToken 9 5 example_token (5 + minutes 15))"
    by (simp add: create_agent_enrolment_token_def issue_enrolment_token_def issued_db_def example_db_def example_agent_def
        example_token_row_def example_env_def empty_db_def sample_realm_def exists_row_def update_rows_def Let_def)
  from signed_in_request [OF example_db_reachable _ this] show ?thesis by simp
qed

lemma enrolled_db_reachable: "reachable example_env example_aenv (signed_in enrolled_db)"
proof -
  have x: "exchange_enrolment_token (ag_hash_token example_aenv) issued_db (5, 6, ''s'') example_token =
      Inr (enrolled_db, example_agent, example_credential, uuid_str 6 @ ''.'' @ ''s'')"
    by (simp add: exchange_enrolment_token_def issued_db_def enrolled_db_def example_db_def empty_db_def example_agent_def
        example_token_row_def example_aenv_def example_credential_def exists_row_def update_rows_def Let_def)
  have v: "enrolment_request_valid example_enrolment"
    by (simp add: enrolment_request_valid_def example_enrolment_def example_token_def capabilities_valid_def
        example_capabilities_def probe_capability_valid_def)
  let ?h = "agent_handle example_aenv (signed_in issued_db) 5 example_request (Enrol example_enrolment 6 ''s'')"
  have p: "require_supported_protocol (er_protocol_version example_enrolment) = Inr ()"
    by (simp add: example_enrolment_def require_supported_protocol_def MINIMUM_PROTOCOL_VERSION_def MAXIMUM_PROTOCOL_VERSION_def)
  have "er_enrolment_token example_enrolment = example_token" by (simp add: example_enrolment_def)
  then have "be_monitoring (fst ?h) = enrolled_db" "be_observations (fst ?h) = empty_store"
    using x by (simp_all add: enrol_agent_def signed_in_def v p Let_def split: sum.split)
  with signed_in_agent_request [OF issued_db_reachable prod.collapse [symmetric], of example_aenv 5 example_request] show ?thesis by metis
qed

definition example_operational :: agent_operational_state where
  "example_operational = \<lparr> op_realm = 1, last_heartbeat_at = 5, op_agent_version = ''1'', op_platform = ''linux'',
     op_architecture = ''x'', op_hostname = ''h'', op_capabilities = example_capabilities,
     op_active_configuration_revision = 0, op_known_desired_configuration_revision = 0, op_queue_depth = 0,
     op_queue_bytes = 0, op_oldest_pending_observation_at = None, op_database_health = DbHealthy,
     op_scheduler_state = SchedulerRunning, op_agent_time = 5, clock_offset_ms = 0, op_warnings = [] \<rparr>"

definition used_credential :: agent_credential where
  "used_credential = example_credential\<lparr> credential_last_used_at := Some 5 \<rparr>"

definition running_db :: monitoring_db where
  "running_db = example_db\<lparr> agent_enrolment_tokens := [example_token_row\<lparr> token_consumed_at := Some 5 \<rparr>],
     agent_credentials := [used_credential], agent_operational_states := [5 \<mapsto> example_operational] \<rparr>"

definition example_authentication :: agent_authentication where
  "example_authentication = \<lparr> auth_realm = sample_realm, auth_agent = example_agent, auth_credential = used_credential \<rparr>"

text \<open>The configuration request and its answer.\<close>

definition example_content :: configuration_content where
  "example_content = content_of sample_realm example_agent [monitor_entry_of example_monitor example_target]"

definition example_snapshot :: agent_configuration_snapshot where
  "example_snapshot = \<lparr> snapshot_realm = 1, snapshot_agent = 5, snapshot_revision = 1, snapshot_content_hash = example_hash,
     snapshot_configuration = example_content, snapshot_created_at = 5 \<rparr>"

definition configured_db :: monitoring_db where
  "configured_db = running_db\<lparr> agent_configuration_states := [5 \<mapsto> example_state\<lparr> desired_content_hash := example_hash \<rparr>],
     agent_configuration_snapshots := [example_snapshot] \<rparr>"

lemma example_authenticates:
  "authenticate_agent (ag_hash_token example_aenv) (realms (sample_auth_db ''owner'')) enrolled_db 5
     (authorization_header example_request) =
   Inr (enrolled_db\<lparr> agent_credentials := [used_credential] \<rparr>, example_authentication)"
  "authenticate_agent (ag_hash_token example_aenv) (realms (sample_auth_db ''owner'')) running_db 5
     (authorization_header example_request) = Inr (running_db, example_authentication)"
  "authenticate_agent (ag_hash_token example_aenv) (realms (sample_auth_db ''owner'')) configured_db 5
     (authorization_header example_request) = Inr (configured_db, example_authentication)"
proof -
  have h: "authorization_header example_request = Some (''Bearer '' @ uuid_str 6 @ ''.'' @ ''s'')"
    by (simp add: example_request_def)
  have "(6::nat) < 2 ^ 128" by simp
  note bearer = authenticate_bearer [OF this, of "realms (sample_auth_db ''owner'')" _ _ example_agent sample_realm "ag_hash_token example_aenv" 5 "''s''"]
  have "joined_credential (realms (sample_auth_db ''owner'')) enrolled_db 6 = Some (example_credential, example_agent, sample_realm)"
    "joined_credential (realms (sample_auth_db ''owner'')) running_db 6 = Some (used_credential, example_agent, sample_realm)"
    "joined_credential (realms (sample_auth_db ''owner'')) configured_db 6 = Some (used_credential, example_agent, sample_realm)"
    by (simp_all add: joined_credential_def configured_db_def enrolled_db_def running_db_def example_db_def example_credential_def used_credential_def
        find_agent_def example_agent_def sample_auth_db_def sample_realm_def redis_set_def)
  moreover have "credential_valid (ag_hash_token example_aenv) 5 ''s'' example_credential example_agent"
    "credential_valid (ag_hash_token example_aenv) 5 ''s'' used_credential example_agent"
    by (simp_all add: credential_valid_def example_credential_def used_credential_def example_agent_def example_aenv_def)
  ultimately show
    "authenticate_agent (ag_hash_token example_aenv) (realms (sample_auth_db ''owner'')) enrolled_db 5
       (authorization_header example_request) =
     Inr (enrolled_db\<lparr> agent_credentials := [used_credential] \<rparr>, example_authentication)"
    "authenticate_agent (ag_hash_token example_aenv) (realms (sample_auth_db ''owner'')) running_db 5
       (authorization_header example_request) = Inr (running_db, example_authentication)"
    "authenticate_agent (ag_hash_token example_aenv) (realms (sample_auth_db ''owner'')) configured_db 5
       (authorization_header example_request) = Inr (configured_db, example_authentication)"
    unfolding h using bearer
    by (simp_all add: example_authentication_def used_credential_def enrolled_db_def running_db_def configured_db_def
        example_credential_def update_rows_def)
qed

lemma running_db_reachable: "reachable example_env example_aenv (signed_in running_db)"
proof -
  let ?h = "agent_handle example_aenv (signed_in enrolled_db) 5 example_request (Operation (Heartbeat example_heartbeat))"
  have v: "heartbeat_request_valid example_heartbeat"
    by (simp add: heartbeat_request_valid_def example_heartbeat_def capabilities_valid_def
        example_capabilities_def probe_capability_valid_def)
  have p: "require_supported_protocol (hb_protocol_version example_heartbeat) = Inr ()"
    by (simp add: example_heartbeat_def require_supported_protocol_def MINIMUM_PROTOCOL_VERSION_def MAXIMUM_PROTOCOL_VERSION_def)
  have "py_total_milliseconds 0 = 0" by code_simp
  then have r: "record_heartbeat (enrolled_db\<lparr> agent_credentials := [used_credential] \<rparr>) 5 sample_realm example_agent example_heartbeat =
      Inr (running_db, example_operational, example_state)"
    by (simp add: record_heartbeat_def enrolled_db_def running_db_def example_db_def example_heartbeat_def example_operational_def
        operational_row_ok_def int8_def text_ok_def get_or_create_state_def example_state_def new_configuration_state_def
        sample_realm_def example_agent_def empty_db_def Let_def fun_eq_iff)
  have "be_monitoring (fst ?h) = running_db" "be_observations (fst ?h) = empty_store"
    using r example_authenticates(1) by (simp_all add: heartbeat_def signed_in_def v p example_authentication_def)
  with signed_in_agent_request [OF enrolled_db_reachable prod.collapse [symmetric], of 5 example_request] show ?thesis by metis
qed

lemma example_answer:
  assumes "authenticate_agent (ag_hash_token example_aenv) (realms (sample_auth_db ''owner'')) db 5 (authorization_header example_request) =
      Inr (db, example_authentication)"
    and "get_or_create_configuration (ag_digest example_aenv) db 5 sample_realm example_agent =
      Inr (db', \<lparr> result_snapshot = example_snapshot, result_content = example_content \<rparr>)"
  shows "agent_handle example_aenv (signed_in db) 5 example_request (Operation (GetConfiguration 1 None None)) =
    (signed_in db', Inr (ConfigurationResponse 5 1 1 (sha256_text example_hash) 5 [monitor_entry_of example_monitor example_target]))"
proof -
  have p: "require_supported_protocol 1 = Inr ()"
    by (simp add: require_supported_protocol_def MINIMUM_PROTOCOL_VERSION_def MAXIMUM_PROTOCOL_VERSION_def)
  have "auth_realm example_authentication = sample_realm" "auth_agent example_authentication = example_agent"
    "agent_id example_agent = 5" "realm_id sample_realm = 1"
    by (simp_all add: example_authentication_def example_agent_def sample_realm_def)
  with assms show ?thesis
    by (simp add: p signed_in_def get_configuration_def example_snapshot_def example_content_def content_of_def opt_all_def Let_def)
qed

lemma example_monitors:
  "deliverable_monitors running_db sample_realm example_agent = [(example_monitor, example_target)]"
  "deliverable_monitors configured_db sample_realm example_agent = [(example_monitor, example_target)]"
  "build_entries example_capabilities [(example_monitor, example_target)] = Inr [monitor_entry_of example_monitor example_target]"
  by (simp_all add: deliverable_monitors_def assigned_monitor_ids_def configured_db_def running_db_def example_db_def
      example_assignment_def example_agent_def example_monitor_def example_target_def sample_realm_def target_active_def
      find_target_def empty_db_def check_capability_def example_capabilities_def example_configuration_def schema_version_def Let_def)

lemma example_configuration_created:
  "get_or_create_configuration (ag_digest example_aenv) running_db 5 sample_realm example_agent =
     Inr (configured_db, \<lparr> result_snapshot = example_snapshot, result_content = example_content \<rparr>)"
  "get_or_create_configuration (ag_digest example_aenv) configured_db 5 sample_realm example_agent =
     Inr (configured_db, \<lparr> result_snapshot = example_snapshot, result_content = example_content \<rparr>)"
  using example_monitors
  by (simp_all add: get_or_create_configuration_def get_or_create_state_def running_db_def example_db_def example_agent_def
      example_state_def new_configuration_state_def example_operational_def sample_realm_def empty_db_def configured_db_def
      example_aenv_def example_snapshot_def example_content_def Let_def)

lemmas example_configuration_answer = example_answer [OF example_authenticates(2) example_configuration_created(1)]
lemmas example_configuration_again = example_answer [OF example_authenticates(3) example_configuration_created(2)]

lemma configured_db_reachable: "reachable example_env example_aenv (signed_in configured_db)"
  using signed_in_agent_request [OF running_db_reachable example_configuration_answer] by (simp add: signed_in_def)

lemma example_digest: "ag_digest example_aenv c \<noteq> []"
  by (simp add: example_aenv_def example_hash_def)

end
