(* ===== verification/Py_Float.thy ===== *)
theory Py_Float
  imports Py_Stdlib
begin

text \<open>
  Bounds of floating-point rounding: rounding a value between zero and a representable integer stays
  between them.
\<close>

lemma pow2_powi: "pow2 e = 2 powi e"
  by (simp add: pow2_def power_int_def field_simps)

lemma pow2_pos [simp]: "0 < pow2 e"
  by (simp add: pow2_def)

lemma pow2_add: "pow2 (a + b) = pow2 a * pow2 b"
  by (simp add: pow2_powi power_int_add)

lemma pow2_nat: "0 \<le> e \<Longrightarrow> pow2 e = of_int (2 ^ nat e)"
  by (simp add: pow2_def)

lemma pow2_mono: "a < b \<Longrightarrow> pow2 (a + 1) \<le> pow2 b"
  by (simp add: pow2_powi power_int_increasing)

lemma ilog2_bounds:
  assumes "1 \<le> n"
  shows "0 \<le> ilog2 n \<and> 2 ^ nat (ilog2 n) \<le> n \<and> n < 2 ^ (nat (ilog2 n) + 1)"
  using assms
proof (induction n rule: ilog2.induct)
  case (1 n)
  show ?case
  proof (cases "n < 2")
    case True
    with 1(2) have "n = 1" by simp
    then show ?thesis by (simp add: ilog2.simps)
  next
    case False
    let ?k = "ilog2 (n div 2)"
    have ih: "0 \<le> ?k" "2 ^ nat ?k \<le> n div 2" "n div 2 < 2 ^ (nat ?k + 1)" using 1(1) False by auto
    have s: "nat (ilog2 n) = nat ?k + 1" using False ih(1) by (simp add: ilog2.simps [of n] nat_add_distrib)
    have "2 * 2 ^ nat ?k \<le> n" "n < 2 * 2 ^ (nat ?k + 1)" using ih(2,3) by linarith+
    then show ?thesis using s ih(1) False by (simp add: ilog2.simps [of n])
  qed
qed

lemma binary_exponent_bounds:
  assumes "0 < x"
  shows "pow2 (binary_exponent x) \<le> x" and "x < pow2 (binary_exponent x + 1)"
proof -
  obtain p q where pq: "quotient_of x = (p, q)" by (cases "quotient_of x")
  have x: "x = of_int p / of_int q" "0 < q" using quotient_of_div [OF pq] quotient_of_denom_pos [OF pq] by simp_all
  then have p: "1 \<le> p" using assms by (simp add: zero_less_divide_iff)
  let ?a = "ilog2 p" and ?b = "ilog2 q"
  note a = ilog2_bounds [OF p] and b = ilog2_bounds [of q]
  have pa: "pow2 ?a \<le> of_int p" "of_int p < pow2 (?a + 1)"
    using a pow2_nat [of ?a] pow2_nat [of "?a + 1"] by (simp_all add: nat_add_distrib del: of_int_power)
  have qb: "pow2 ?b \<le> of_int q" "of_int q < pow2 (?b + 1)"
    using b x(2) pow2_nat [of ?b] pow2_nat [of "?b + 1"] by (simp_all add: nat_add_distrib del: of_int_power)
  have q0: "(0 :: rat) < of_int q" using x(2) by simp
  have "x < pow2 (?a + 1) / pow2 ?b"
  proof -
    have "of_int p * pow2 ?b < pow2 (?a + 1) * of_int q"
      using pa(2) qb(1) q0 by (meson less_le_trans mult_strict_right_mono mult_left_mono pow2_pos less_imp_le mult_le_less_imp_less)
    then show ?thesis unfolding x(1) using q0 by (simp add: divide_less_eq less_divide_eq mult.commute)
  qed
  moreover have "pow2 ?a / pow2 (?b + 1) \<le> x"
  proof -
    have "pow2 ?a * of_int q \<le> of_int p * pow2 (?b + 1)"
      using pa(1) qb(2) q0 by (meson less_imp_le mult_mono pow2_pos order_trans)
    then show ?thesis unfolding x(1) using q0 by (simp add: divide_le_eq le_divide_eq mult.commute)
  qed
  moreover have "pow2 (?a + 1) / pow2 ?b = pow2 (?a - ?b + 1)" "pow2 ?a / pow2 (?b + 1) = pow2 (?a - ?b - 1)"
    by (simp_all add: pow2_powi power_int_add power_int_diff field_simps)
  ultimately show "pow2 (binary_exponent x) \<le> x" "x < pow2 (binary_exponent x + 1)"
    using assms by (simp_all add: binary_exponent_def pq Let_def)
qed

lemma round_half_even_le: "x \<le> of_int n \<Longrightarrow> round_half_even x \<le> n"
proof -
  assume x: "x \<le> of_int n"
  then have f: "\<lfloor>x\<rfloor> \<le> n" by linarith
  show ?thesis
  proof (cases "\<lfloor>x\<rfloor> = n")
    case True
    then have "x = of_int n" using x by linarith
    then show ?thesis by (simp add: round_half_even_def)
  next
    case False
    then show ?thesis using f by (simp add: round_half_even_def Let_def)
  qed
qed

lemma round_half_even_nonneg: "0 \<le> x \<Longrightarrow> 0 \<le> round_half_even x"
  by (simp add: round_half_even_def Let_def)

lemma binary64_between:
  assumes "0 \<le> x" and "x \<le> of_int n" and "n < 2 ^ 53"
  shows "0 \<le> binary64 x \<and> binary64 x \<le> of_int n"
proof (cases "x = 0")
  case False
  let ?k = "binary_exponent x"
  let ?u = "pow2 (?k - 52)"
  have "pow2 ?k \<le> of_int n" using binary_exponent_bounds(1) [of x] False assms(1,2) by simp
  also have "of_int n < (of_int (2 ^ 53) :: rat)" using assms(3) by (simp only: of_int_less_iff)
  also have "\<dots> = pow2 53" by (simp add: pow2_def)
  finally have k: "?k \<le> 52" using pow2_mono [of 52 ?k] by (cases "?k \<le> 52") simp_all
  have unit: "of_int n / ?u = of_int (n * 2 ^ nat (52 - ?k))"
  proof -
    have "1 / ?u = pow2 (52 - ?k)" by (simp add: pow2_powi power_int_diff)
    then show ?thesis using k pow2_nat [of "52 - ?k"] by (simp add: divide_inverse)
  qed
  have "x / ?u \<le> of_int n / ?u" using assms(2) by (simp add: divide_right_mono less_imp_le)
  then have "round_half_even (x / ?u) \<le> n * 2 ^ nat (52 - ?k)" unfolding unit by (rule round_half_even_le)
  then have "of_int (round_half_even (x / ?u)) * ?u \<le> of_int (n * 2 ^ nat (52 - ?k)) * ?u"
    by (intro mult_right_mono) (simp_all only: of_int_le_iff pow2_pos less_imp_le)
  also have "\<dots> = of_int n" unfolding unit [symmetric] using less_imp_neq [OF pow2_pos [of "?k - 52"]] by simp
  finally have "binary64 x \<le> of_int n" using False by (simp add: binary64_def Let_def)
  moreover have "0 \<le> round_half_even (x / ?u)" using assms(1) by (intro round_half_even_nonneg) (simp add: less_imp_le)
  then have "0 \<le> binary64 x" by (simp add: binary64_def Let_def less_imp_le)
  ultimately show ?thesis by simp
qed (use assms in \<open>simp add: binary64_def\<close>)

end
