(* ===== verification/Dashboard.thy ===== *)
theory Dashboard
  imports Backend_Example Py_Float
begin

text \<open>
  The read side: \<^verbatim>\<open>monitoring/dashboard.py\<close>, \<^verbatim>\<open>monitoring/measurements.py\<close> and their endpoints. A SQL
  query is the composition of its joins, filters, sorts and limit over the tables; the row it returns
  is a record of its columns.
\<close>

section \<open>Availability of one monitor on one agent\<close>

datatype availability_state =
    PendingConfiguration | NoDataYet | StateHealthy | StateUnhealthy | ProbeError | Overdue | AgentStale | AgentOffline
  | StateDisabled

datatype monitor_headline = HeadlineHealthy | Degraded | HeadlineUnhealthy | HeadlineUnknown | HeadlineDisabled

record dashboard_settings =
  offline_after_seconds :: int
  heartbeat_interval_seconds :: int
  configuration_poll_interval_seconds :: int

text \<open>A row of the state query.\<close>

record state_row =
  sr_monitor_id :: uuid
  sr_monitor_name :: string
  sr_probe_type :: probe_type
  sr_interval_seconds :: int
  sr_timeout_seconds :: int
  sr_agent_id :: uuid
  sr_agent_name :: string
  sr_desired_revision :: int
  sr_acknowledged_revision :: int
  sr_acknowledged_at :: "datetime option"
  sr_last_heartbeat_at :: "datetime option"
  sr_last_observation_id :: "uuid option"
  sr_last_scheduled_at :: "datetime option"
  sr_last_received_at :: "datetime option"
  sr_execution_status :: "execution_status option"
  sr_assessment :: "assessment option"

text \<open>\<^verbatim>\<open>timedelta.total_seconds()\<close>: the number of microseconds divided by a million, as a float.\<close>

definition total_seconds :: "timedelta \<Rightarrow> rat" where
  "total_seconds d = binary64 (of_int d / 1000000)"

definition grace_seconds :: "dashboard_settings \<Rightarrow> int" where
  "grace_seconds ds = heartbeat_interval_seconds ds + configuration_poll_interval_seconds ds"

definition availability_state_of :: "state_row \<Rightarrow> datetime \<Rightarrow> dashboard_settings \<Rightarrow> availability_state" where
  "availability_state_of row now ds =
     (if sr_desired_revision row = 0 \<or> sr_acknowledged_revision row < sr_desired_revision row then PendingConfiguration else
      case sr_last_heartbeat_at row of
        None \<Rightarrow> AgentOffline
      | Some seen \<Rightarrow>
         let heartbeat_age = total_seconds (now - seen);
             stale_after = min (offline_after_seconds ds) (heartbeat_interval_seconds ds * 2);
             allowance = seconds (sr_interval_seconds row + sr_timeout_seconds row + grace_seconds ds)
         in if heartbeat_age > of_int (offline_after_seconds ds) then AgentOffline
            else if heartbeat_age > of_int stale_after then AgentStale
            else (case sr_last_scheduled_at row of
               None \<Rightarrow> (case sr_acknowledged_at row of
                   None \<Rightarrow> NoDataYet
                 | Some since \<Rightarrow> if now \<le> since + allowance then NoDataYet else Overdue)
             | Some latest_scheduled_at \<Rightarrow>
                 if now > latest_scheduled_at + allowance then Overdue
                 else if sr_execution_status row = Some Failed then ProbeError
                 else if sr_assessment row = Some Unhealthy then StateUnhealthy
                 else if sr_assessment row = Some Healthy then StateHealthy
                 else ProbeError))"

section \<open>The state query\<close>

record effective_pair =
  ep_realm :: uuid
  ep_monitor_id :: uuid
  ep_monitor_name :: string
  ep_probe_type :: probe_type
  ep_interval_seconds :: int
  ep_timeout_seconds :: int
  ep_agent_id :: uuid
  ep_agent_name :: string

definition pair_of :: "monitor \<Rightarrow> agent \<Rightarrow> effective_pair" where
  "pair_of m a = \<lparr> ep_realm = monitor_realm m, ep_monitor_id = monitor_id m, ep_monitor_name = monitor_name m,
     ep_probe_type = monitor_probe_type m, ep_interval_seconds = interval_seconds m,
     ep_timeout_seconds = timeout_seconds m, ep_agent_id = agent_id a, ep_agent_name = agent_name a \<rparr>"

definition pair_enabled :: "uuid \<Rightarrow> monitor \<Rightarrow> target \<Rightarrow> agent \<Rightarrow> bool" where
  "pair_enabled r m t a \<longleftrightarrow> monitor_realm m = r \<and> monitor_enabled m \<and> monitor_archived_at m = None \<and>
     target_enabled t \<and> target_archived_at t = None \<and> agent_enabled a \<and> agent_archived_at a = None"

definition direct_pairs :: "monitoring_db \<Rightarrow> uuid \<Rightarrow> effective_pair list" where
  "direct_pairs db r = [pair_of m a. m \<leftarrow> monitors db,
     t \<leftarrow> targets db, target_id t = monitor_target m, target_realm t = monitor_realm m,
     x \<leftarrow> monitor_agent_assignments db, maa_monitor x = monitor_id m, maa_realm x = monitor_realm m, maa_enabled x,
     a \<leftarrow> agents db, agent_id a = maa_agent x, agent_realm a = monitor_realm m,
     pair_enabled r m t a]"

definition grouped_pairs :: "monitoring_db \<Rightarrow> uuid \<Rightarrow> effective_pair list" where
  "grouped_pairs db r = [pair_of m a. m \<leftarrow> monitors db,
     t \<leftarrow> targets db, target_id t = monitor_target m, target_realm t = monitor_realm m,
     x \<leftarrow> monitor_agent_group_assignments db, mga_monitor x = monitor_id m, mga_realm x = monitor_realm m, mga_enabled x,
     g \<leftarrow> agent_groups db, agent_group_id g = mga_group x, agent_group_realm g = monitor_realm m, agent_group_enabled g,
       agent_group_archived_at g = None,
     y \<leftarrow> agent_group_memberships db, agm_group y = agent_group_id g, agm_realm y = monitor_realm m,
     a \<leftarrow> agents db, agent_id a = agm_agent y, agent_realm a = monitor_realm m,
     pair_enabled r m t a]"

text \<open>\<^verbatim>\<open>UNION\<close> removes duplicate rows.\<close>

definition effective_pairs :: "monitoring_db \<Rightarrow> uuid \<Rightarrow> effective_pair list" where
  "effective_pairs db r = remdups (direct_pairs db r @ grouped_pairs db r)"

text \<open>\<^verbatim>\<open>ORDER BY x DESC, y DESC\<close>: stable sorts, the less significant key first.\<close>

definition latest_observation :: "observation_store \<Rightarrow> uuid \<Rightarrow> uuid \<Rightarrow> uuid \<Rightarrow> observation_row option" where
  "latest_observation s r m a =
     (case sort_key (\<lambda>ob. - row_scheduled_at ob) (sort_key (\<lambda>ob. - row_received_at ob)
        (filter (\<lambda>ob. row_realm ob = r \<and> row_monitor ob = m \<and> row_agent ob = a) (observations s))) of
        [] \<Rightarrow> None | x # _ \<Rightarrow> Some x)"

definition state_row_of :: "monitoring_db \<Rightarrow> observation_store \<Rightarrow> effective_pair \<Rightarrow> state_row" where
  "state_row_of db s p =
     (let configuration = Option.bind (agent_configuration_states db (ep_agent_id p))
            (\<lambda>c. if cs_realm c = ep_realm p then Some c else None);
          operational = Option.bind (agent_operational_states db (ep_agent_id p))
            (\<lambda>c. if op_realm c = ep_realm p then Some c else None);
          latest = latest_observation s (ep_realm p) (ep_monitor_id p) (ep_agent_id p)
      in \<lparr> sr_monitor_id = ep_monitor_id p, sr_monitor_name = ep_monitor_name p, sr_probe_type = ep_probe_type p,
           sr_interval_seconds = ep_interval_seconds p, sr_timeout_seconds = ep_timeout_seconds p,
           sr_agent_id = ep_agent_id p, sr_agent_name = ep_agent_name p,
           sr_desired_revision = (case configuration of None \<Rightarrow> 0 | Some c \<Rightarrow> desired_revision c),
           sr_acknowledged_revision = (case configuration of None \<Rightarrow> 0 | Some c \<Rightarrow> acknowledged_revision c),
           sr_acknowledged_at = Option.bind configuration acknowledged_at,
           sr_last_heartbeat_at = map_option last_heartbeat_at operational,
           sr_last_observation_id = map_option row_observation_id latest,
           sr_last_scheduled_at = map_option row_scheduled_at latest,
           sr_last_received_at = map_option row_received_at latest,
           sr_execution_status = map_option row_execution_status latest,
           sr_assessment = map_option row_assessment latest \<rparr>)"

definition state_rows :: "monitoring_db \<Rightarrow> observation_store \<Rightarrow> uuid \<Rightarrow> state_row list" where
  "state_rows db s r = sort_key sr_monitor_name (sort_key sr_agent_name (map (state_row_of db s) (effective_pairs db r)))"

section \<open>Summaries\<close>

record monitor_agent_state =
  mas_row :: state_row
  mas_availability_state :: availability_state

record monitor_state_summary =
  summary_monitor_id :: uuid
  summary_monitor_name :: string
  summary_target_id :: uuid
  summary_target_name :: string
  summary_probe_type :: probe_type
  summary_headline :: monitor_headline
  summary_effective_agents :: nat
  summary_healthy_agents :: nat
  summary_unhealthy_agents :: nat
  summary_unavailable_agents :: nat
  summary_coverage_percent :: rat
  summary_agents :: "monitor_agent_state list"

definition count_state :: "availability_state \<Rightarrow> monitor_agent_state list \<Rightarrow> nat" where
  "count_state st states = length (filter (\<lambda>x. mas_availability_state x = st) states)"

definition headline :: "monitor_agent_state list \<Rightarrow> monitor_headline" where
  "headline states =
     (if states = [] then HeadlineDisabled else
      let healthy = count_state StateHealthy states; unhealthy = count_state StateUnhealthy states
      in if healthy = length states then HeadlineHealthy
         else if unhealthy = length states then HeadlineUnhealthy
         else if healthy = 0 \<and> unhealthy = 0 then HeadlineUnknown
         else Degraded)"

text \<open>\<^verbatim>\<open>(trustworthy / total_agents * 100) if total_agents else 0\<close>, in floating point.\<close>

definition coverage_percent :: "nat \<Rightarrow> nat \<Rightarrow> rat" where
  "coverage_percent trustworthy total_agents =
     (if total_agents = 0 then 0 else binary64 (binary64 (of_nat trustworthy / of_nat total_agents) * 100))"

definition monitor_summary :: "monitor_agent_state list \<Rightarrow> monitor \<Rightarrow> target \<Rightarrow> monitor_state_summary" where
  "monitor_summary grouped m t =
     (let states = (if monitor_enabled m then filter (\<lambda>x. sr_monitor_id (mas_row x) = monitor_id m) grouped else []);
          healthy_agents = count_state StateHealthy states;
          unhealthy_agents = count_state StateUnhealthy states;
          trustworthy = healthy_agents + unhealthy_agents;
          total_agents = length states
      in \<lparr> summary_monitor_id = monitor_id m, summary_monitor_name = monitor_name m, summary_target_id = monitor_target m,
           summary_target_name = target_name t, summary_probe_type = monitor_probe_type m,
           summary_headline = headline states, summary_effective_agents = total_agents,
           summary_healthy_agents = healthy_agents, summary_unhealthy_agents = unhealthy_agents,
           summary_unavailable_agents = total_agents - trustworthy,
           summary_coverage_percent = coverage_percent trustworthy total_agents, summary_agents = states \<rparr>)"

definition query_monitor_states ::
  "monitoring_db \<Rightarrow> observation_store \<Rightarrow> uuid \<Rightarrow> dashboard_settings \<Rightarrow> datetime \<Rightarrow> monitor_state_summary list" where
  "query_monitor_states db s r ds now =
     (let grouped = map (\<lambda>row. \<lparr> mas_row = row, mas_availability_state = availability_state_of row now ds \<rparr>) (state_rows db s r)
      in [monitor_summary grouped m t.
            m \<leftarrow> sort_key monitor_name (filter (\<lambda>m. monitor_realm m = r \<and> monitor_archived_at m = None) (monitors db)),
            t \<leftarrow> targets db, target_id t = monitor_target m])"

section \<open>Observations\<close>

record observation_summary =
  os_observation_id :: uuid
  os_scheduled_at :: datetime
  os_received_at :: datetime
  os_monitor_id :: uuid
  os_agent_id :: uuid
  os_probe_type :: probe_type
  os_execution_status :: execution_status
  os_assessment :: assessment
  os_error_category :: "error_category option"
  os_error_code :: "string option"
  os_error_message :: "string option"

definition observation_summary_of :: "observation_row \<Rightarrow> observation_summary" where
  "observation_summary_of ob = \<lparr> os_observation_id = row_observation_id ob, os_scheduled_at = row_scheduled_at ob,
     os_received_at = row_received_at ob, os_monitor_id = row_monitor ob, os_agent_id = row_agent ob,
     os_probe_type = row_probe_type ob, os_execution_status = row_execution_status ob, os_assessment = row_assessment ob,
     os_error_category = row_error_category ob, os_error_code = row_error_code ob, os_error_message = row_error_message ob \<rparr>"

definition query_recent_observations :: "observation_store \<Rightarrow> uuid \<Rightarrow> nat \<Rightarrow> observation_summary list" where
  "query_recent_observations s r limit = map observation_summary_of (take limit
     (sort_key (\<lambda>ob. - row_received_at ob) (sort_key (\<lambda>ob. - row_scheduled_at ob)
       (filter (\<lambda>ob. row_realm ob = r) (observations s)))))"

record probe_history_point =
  point_summary :: observation_summary
  point_result :: "observation_result option"

text \<open>The \<^verbatim>\<open>LEFT JOIN\<close> with the result table of the observation's probe type.\<close>

definition left_join_results :: "observation_store \<Rightarrow> observation_row list \<Rightarrow> (observation_row \<times> typed_row option) list" where
  "left_join_results s os = concat (map (\<lambda>ob.
     (case filter (\<lambda>t. typed_scheduled_at t = row_scheduled_at ob \<and> typed_observation_id t = row_observation_id ob)
             (typed_results s (row_probe_type ob)) of
        [] \<Rightarrow> [(ob, None)]
      | ts \<Rightarrow> map (\<lambda>t. (ob, Some t)) ts)) os)"

definition history_rows ::
  "observation_store \<Rightarrow> uuid \<Rightarrow> uuid \<Rightarrow> probe_type \<Rightarrow> datetime \<Rightarrow> datetime \<Rightarrow> (observation_row \<times> typed_row option) list" where
  "history_rows s r m pt start stop =
     sort_key (\<lambda>(ob, _). row_scheduled_at ob) (sort_key (\<lambda>(ob, _). row_agent ob) (left_join_results s
       (filter (\<lambda>ob. row_realm ob = r \<and> row_monitor ob = m \<and> row_probe_type ob = pt \<and> start \<le> row_scheduled_at ob \<and>
          row_scheduled_at ob \<le> stop) (observations s))))"

definition history_point :: "observation_row \<times> typed_row option \<Rightarrow> probe_history_point" where
  "history_point x = (case x of (ob, t) \<Rightarrow>
     \<lparr> point_summary = observation_summary_of ob, point_result = map_option typed_result t \<rparr>)"

definition query_probe_history ::
  "observation_store \<Rightarrow> uuid \<Rightarrow> uuid \<Rightarrow> probe_type \<Rightarrow> datetime \<Rightarrow> datetime \<Rightarrow> nat \<Rightarrow> probe_history_point list" where
  "query_probe_history s r m pt start stop limit = map history_point (take limit (history_rows s r m pt start stop))"

text \<open>The older ICMP query joins on five columns and drops observations without a result.\<close>

record icmp_history_point =
  ihp_scheduled_at :: datetime
  ihp_agent_id :: uuid
  ihp_assessment :: assessment
  ihp_result :: icmp_result

definition icmp_joined :: "observation_row \<Rightarrow> typed_row \<Rightarrow> bool" where
  "icmp_joined ob t \<longleftrightarrow> typed_scheduled_at t = row_scheduled_at ob \<and> typed_observation_id t = row_observation_id ob \<and>
     typed_realm t = row_realm ob \<and> typed_agent t = row_agent ob \<and> typed_monitor t = row_monitor ob"

fun icmp_point :: "observation_row \<Rightarrow> observation_result \<Rightarrow> icmp_history_point option" where
  "icmp_point ob (IcmpObservationResult r) =
     Some \<lparr> ihp_scheduled_at = row_scheduled_at ob, ihp_agent_id = row_agent ob, ihp_assessment = row_assessment ob, ihp_result = r \<rparr>"
| "icmp_point ob _ = None"

definition icmp_rows ::
  "observation_store \<Rightarrow> uuid \<Rightarrow> uuid \<Rightarrow> datetime \<Rightarrow> datetime \<Rightarrow> (observation_row \<times> typed_row) list" where
  "icmp_rows s r m start stop = sort_key (\<lambda>(ob, _). row_scheduled_at ob) (sort_key (\<lambda>(ob, _). row_agent ob)
     [(ob, t). ob \<leftarrow> observations s, t \<leftarrow> typed_results s ICMP, icmp_joined ob t, row_realm ob = r, row_monitor ob = m,
        row_probe_type ob = ICMP, start \<le> row_scheduled_at ob, row_scheduled_at ob \<le> stop])"

definition query_icmp_history ::
  "observation_store \<Rightarrow> uuid \<Rightarrow> uuid \<Rightarrow> datetime \<Rightarrow> datetime \<Rightarrow> nat \<Rightarrow> icmp_history_point list" where
  "query_icmp_history s r m start stop limit =
     List.map_filter (\<lambda>(ob, t). icmp_point ob (typed_result t)) (take limit (icmp_rows s r m start stop))"

section \<open>Endpoints\<close>

text \<open>A query parameter of type \<^verbatim>\<open>datetime\<close> has a time zone or not.\<close>

datatype query_time = Aware datetime | Naive datetime

fun clock_value :: "query_time \<Rightarrow> datetime" where
  "clock_value (Aware t) = t"
| "clock_value (Naive t) = t"

fun shifted :: "timedelta \<Rightarrow> query_time \<Rightarrow> query_time" where
  "shifted d (Aware t) = Aware (t + d)"
| "shifted d (Naive t) = Naive (t + d)"

fun is_naive :: "query_time \<Rightarrow> bool" where
  "is_naive (Aware _) = False"
| "is_naive (Naive _) = True"

definition history_range :: "string \<Rightarrow> datetime \<Rightarrow> query_time option \<Rightarrow> query_time option \<Rightarrow> http_error + (datetime \<times> datetime)" where
  "history_range detail now start stop =
     (let resolved_end = (case stop of None \<Rightarrow> Aware now | Some t \<Rightarrow> t);
          resolved_start = (case start of None \<Rightarrow> shifted (- hours 24) resolved_end | Some t \<Rightarrow> t)
      in bind_result (raise_if (is_naive resolved_start \<or> is_naive resolved_end \<or>
             clock_value resolved_start \<ge> clock_value resolved_end \<or>
             clock_value resolved_end - clock_value resolved_start > days 30) (HTTPException 422 detail)) (\<lambda>_.
         Inr (clock_value resolved_start, clock_value resolved_end)))"

definition limit_valid :: "int \<Rightarrow> int \<Rightarrow> bool" where
  "limit_valid most n \<longleftrightarrow> 1 \<le> n \<and> n \<le> most"

definition current_state ::
  "environment \<Rightarrow> dashboard_settings \<Rightarrow> backend \<Rightarrow> datetime \<Rightarrow> http_request \<Rightarrow> auth_db \<times> (http_error + monitor_state_summary list)" where
  "current_state env ds b now req =
     (case require_realm_permission (env_hash_token env) (env_session env) (be_auth b) now req MONITORING_READ of
        (adb, Inl e) \<Rightarrow> (adb, Inl e)
      | (adb, Inr az) \<Rightarrow> (adb, Inr (query_monitor_states (be_monitoring b) (be_observations b) (realm_id (az_realm az)) ds now)))"

definition recent_observations ::
  "environment \<Rightarrow> backend \<Rightarrow> datetime \<Rightarrow> http_request \<Rightarrow> int \<Rightarrow> auth_db \<times> (http_error + observation_summary list)" where
  "recent_observations env b now req limit =
     (if \<not> limit_valid 250 limit then (be_auth b, Inl (HTTPException 422 ''limit'')) else
      case require_realm_permission (env_hash_token env) (env_session env) (be_auth b) now req MONITORING_READ of
        (adb, Inl e) \<Rightarrow> (adb, Inl e)
      | (adb, Inr az) \<Rightarrow> (adb, Inr (query_recent_observations (be_observations b) (realm_id (az_realm az)) (nat limit))))"

definition monitor_history ::
  "environment \<Rightarrow> backend \<Rightarrow> datetime \<Rightarrow> http_request \<Rightarrow> uuid \<Rightarrow> query_time option \<Rightarrow> query_time option \<Rightarrow> int \<Rightarrow>
     auth_db \<times> (http_error + probe_history_point list)" where
  "monitor_history env b now req mid start stop limit =
     (if \<not> limit_valid 5000 limit then (be_auth b, Inl (HTTPException 422 ''limit'')) else
      case require_realm_permission (env_hash_token env) (env_session env) (be_auth b) now req MONITORING_READ of
        (adb, Inl e) \<Rightarrow> (adb, Inl e)
      | (adb, Inr az) \<Rightarrow> (adb,
          (case find (\<lambda>m. monitor_id m = mid \<and> monitor_realm m = realm_id (az_realm az) \<and> monitor_archived_at m = None)
                  (monitors (be_monitoring b)) of
             None \<Rightarrow> Inl (not_found ''Monitor'')
           | Some m \<Rightarrow>
              bind_result (history_range ''History range must be positive and no longer than 30 days'' now start stop) (\<lambda>(t0, t1).
              Inr (query_probe_history (be_observations b) (realm_id (az_realm az)) (monitor_id m) (monitor_probe_type m)
                t0 t1 (nat limit))))))"

definition get_icmp_history ::
  "environment \<Rightarrow> backend \<Rightarrow> datetime \<Rightarrow> http_request \<Rightarrow> uuid \<Rightarrow> query_time option \<Rightarrow> query_time option \<Rightarrow> int \<Rightarrow>
     auth_db \<times> (http_error + icmp_history_point list)" where
  "get_icmp_history env b now req mid start stop limit =
     (if \<not> limit_valid 5000 limit then (be_auth b, Inl (HTTPException 422 ''limit'')) else
      case require_realm_permission (env_hash_token env) (env_session env) (be_auth b) now req MONITORING_READ of
        (adb, Inl e) \<Rightarrow> (adb, Inl e)
      | (adb, Inr az) \<Rightarrow> (adb,
          (case find (\<lambda>m. monitor_id m = mid \<and> monitor_realm m = realm_id (az_realm az) \<and> monitor_probe_type m = ICMP)
                  (monitors (be_monitoring b)) of
             None \<Rightarrow> Inl (not_found ''Monitor'')
           | Some m \<Rightarrow>
              bind_result (history_range ''ICMP history range must be positive and no longer than 30 days'' now start stop) (\<lambda>(t0, t1).
              Inr (query_icmp_history (be_observations b) (realm_id (az_realm az)) (monitor_id m) t0 t1 (nat limit))))))"

section \<open>The pairs on the dashboard\<close>

lemma case_find_iff:
  assumes "\<forall>a. x = Some a \<longleftrightarrow> Q a"
  shows "(case x of None \<Rightarrow> False | Some a \<Rightarrow> R a) \<longleftrightarrow> (\<exists>a. Q a \<and> R a)"
  using assms by (cases x) (auto simp: eq_commute)

lemma active_rows:
  assumes "wf_db db"
  shows "m \<in> set (monitors db) \<Longrightarrow> target_active db (monitor_target m) \<longleftrightarrow> (\<exists>t \<in> set (targets db). target_id t = monitor_target m \<and>
      target_realm t = monitor_realm m \<and> target_enabled t \<and> target_archived_at t = None)"
    and "agent_active db i \<longleftrightarrow> (\<exists>a \<in> set (agents db). agent_id a = i \<and> agent_enabled a \<and> agent_archived_at a = None)"
    and "agent_group_active db j \<longleftrightarrow> (\<exists>g \<in> set (agent_groups db). agent_group_id g = j \<and> agent_group_enabled g \<and> agent_group_archived_at g = None)"
proof -
  note u = wf_dbD(1) [OF assms]
  show "agent_active db i \<longleftrightarrow> (\<exists>a \<in> set (agents db). agent_id a = i \<and> agent_enabled a \<and> agent_archived_at a = None)"
    unfolding agent_active_def case_find_iff [OF allI [OF find_agent_iff [OF u]]] by blast
  show "agent_group_active db j \<longleftrightarrow> (\<exists>g \<in> set (agent_groups db). agent_group_id g = j \<and> agent_group_enabled g \<and> agent_group_archived_at g = None)"
    unfolding agent_group_active_def case_find_iff [OF allI [OF find_agent_group_iff [OF u]]] by blast
  assume m: "m \<in> set (monitors db)"
  have r: "target_realm t = monitor_realm m" if "t \<in> set (targets db)" "target_id t = monitor_target m" for t
    using target_realm_unique [OF u _ wf_dbD(3) [OF assms m]] that by (auto simp: in_realm_target_def)
  have "target_active db (monitor_target m) \<longleftrightarrow> (\<exists>t. (t \<in> set (targets db) \<and> target_id t = monitor_target m) \<and>
      target_enabled t \<and> target_archived_at t = None)"
    unfolding target_active_def case_find_iff [OF allI [OF find_target_iff [OF u]]] by blast
  then show "target_active db (monitor_target m) \<longleftrightarrow> (\<exists>t \<in> set (targets db). target_id t = monitor_target m \<and>
      target_realm t = monitor_realm m \<and> target_enabled t \<and> target_archived_at t = None)"
    using r by blast
qed

lemma in_comprehension:
  "p \<in> set (concat (map f xs)) \<longleftrightarrow> (\<exists>x \<in> set xs. p \<in> set (f x))"
  "p \<in> set (if P then ys else []) \<longleftrightarrow> P \<and> p \<in> set ys"
  "p \<in> set [y] \<longleftrightarrow> p = y"
  by auto

lemma direct_pairs_set:
  "p \<in> set (direct_pairs db r) \<longleftrightarrow> (\<exists>m \<in> set (monitors db). \<exists>t \<in> set (targets db). \<exists>x \<in> set (monitor_agent_assignments db).
     \<exists>a \<in> set (agents db). p = pair_of m a \<and> target_id t = monitor_target m \<and> target_realm t = monitor_realm m \<and>
     maa_monitor x = monitor_id m \<and> maa_realm x = monitor_realm m \<and> maa_enabled x \<and> agent_id a = maa_agent x \<and>
     agent_realm a = monitor_realm m \<and> pair_enabled r m t a)"
  unfolding direct_pairs_def in_comprehension by blast

lemma grouped_pairs_set:
  "p \<in> set (grouped_pairs db r) \<longleftrightarrow> (\<exists>m \<in> set (monitors db). \<exists>t \<in> set (targets db). \<exists>x \<in> set (monitor_agent_group_assignments db).
     \<exists>g \<in> set (agent_groups db). \<exists>y \<in> set (agent_group_memberships db). \<exists>a \<in> set (agents db). p = pair_of m a \<and>
     target_id t = monitor_target m \<and> target_realm t = monitor_realm m \<and>
     mga_monitor x = monitor_id m \<and> mga_realm x = monitor_realm m \<and> mga_enabled x \<and> agent_group_id g = mga_group x \<and>
     agent_group_realm g = monitor_realm m \<and> agent_group_enabled g \<and> agent_group_archived_at g = None \<and>
     agm_group y = agent_group_id g \<and> agm_realm y = monitor_realm m \<and> agent_id a = agm_agent y \<and>
     agent_realm a = monitor_realm m \<and> pair_enabled r m t a)"
  unfolding grouped_pairs_def in_comprehension by blast

text \<open>Per monitor and agent, the joins of the query are the effective assignments.\<close>

lemma agent_row_realm:
  assumes "wf_db db" and "a \<in> set (agents db)" and "in_realm_agent db x (agent_id a)"
  shows "agent_realm a = x"
  using agent_realm_unique [OF wf_dbD(1) [OF assms(1)] assms(3), of "agent_realm a"] assms(2) by (auto simp: in_realm_agent_def)

lemma direct_join_iff:
  assumes wf: "wf_db db" and m: "m \<in> set (monitors db)" and a: "a \<in> set (agents db)"
  shows "(\<exists>t \<in> set (targets db). \<exists>x \<in> set (monitor_agent_assignments db).
      target_id t = monitor_target m \<and> target_realm t = monitor_realm m \<and> maa_monitor x = monitor_id m \<and>
      maa_realm x = monitor_realm m \<and> maa_enabled x \<and> agent_id a = maa_agent x \<and> agent_realm a = monitor_realm m \<and> pair_enabled r m t a) \<longleftrightarrow>
    monitor_realm m = r \<and> monitor_enabled m \<and> monitor_archived_at m = None \<and> agent_active db (agent_id a) \<and>
      target_active db (monitor_target m) \<and>
      (\<exists>x \<in> set (monitor_agent_assignments db). maa_realm x = monitor_realm m \<and> maa_agent x = agent_id a \<and> maa_enabled x \<and>
         maa_monitor x = monitor_id m)"
proof -
  have ar: "agent_realm a = monitor_realm m" if "x \<in> set (monitor_agent_assignments db)" "maa_realm x = monitor_realm m" "maa_agent x = agent_id a" for x
    using wf_dbD(4) [OF wf that(1)] agent_row_realm [OF wf a] that by simp
  have aa: "agent_active db (agent_id a) \<longleftrightarrow> agent_enabled a \<and> agent_archived_at a = None"
    using agent_active_row [OF wf a] by (simp add: agent_row_active_def)
  show ?thesis unfolding pair_enabled_def aa active_rows(1) [OF wf m] using ar by fastforce
qed

lemma grouped_join_iff:
  assumes wf: "wf_db db" and m: "m \<in> set (monitors db)" and a: "a \<in> set (agents db)"
  shows "(\<exists>t \<in> set (targets db). \<exists>x \<in> set (monitor_agent_group_assignments db).
     \<exists>g \<in> set (agent_groups db). \<exists>y \<in> set (agent_group_memberships db).
      target_id t = monitor_target m \<and> target_realm t = monitor_realm m \<and>
      mga_monitor x = monitor_id m \<and> mga_realm x = monitor_realm m \<and> mga_enabled x \<and> agent_group_id g = mga_group x \<and>
      agent_group_realm g = monitor_realm m \<and> agent_group_enabled g \<and> agent_group_archived_at g = None \<and>
      agm_group y = agent_group_id g \<and> agm_realm y = monitor_realm m \<and> agent_id a = agm_agent y \<and>
      agent_realm a = monitor_realm m \<and> pair_enabled r m t a) \<longleftrightarrow>
    monitor_realm m = r \<and> monitor_enabled m \<and> monitor_archived_at m = None \<and> agent_active db (agent_id a) \<and>
      target_active db (monitor_target m) \<and>
      (\<exists>x \<in> set (monitor_agent_group_assignments db). \<exists>y \<in> set (agent_group_memberships db).
        mga_realm x = monitor_realm m \<and> mga_enabled x \<and> mga_monitor x = monitor_id m \<and>
        agm_realm y = monitor_realm m \<and> agm_agent y = agent_id a \<and> agent_group_active db (agm_group y) \<and> mga_group x = agm_group y)"
proof -
  have ar: "agent_realm a = monitor_realm m" if "y \<in> set (agent_group_memberships db)" "agm_realm y = monitor_realm m" "agm_agent y = agent_id a" for y
    using wf_dbD(2) [OF wf that(1)] agent_row_realm [OF wf a] that by simp
  have gr: "agent_group_realm g = monitor_realm m"
    if "y \<in> set (agent_group_memberships db)" "agm_realm y = monitor_realm m" "g \<in> set (agent_groups db)" "agm_group y = agent_group_id g" for y g
    using wf_dbD(2) [OF wf that(1)] that wf_dbD(1) [OF wf] by (auto simp: in_realm_group_def unique_ids_def dest: distinct_key_inj)
  have aa: "agent_active db (agent_id a) \<longleftrightarrow> agent_enabled a \<and> agent_archived_at a = None"
    using agent_active_row [OF wf a] by (simp add: agent_row_active_def)
  show ?thesis (is "?L \<longleftrightarrow> ?R")
  proof
    show "?L \<Longrightarrow> ?R" unfolding pair_enabled_def aa active_rows(1) [OF wf m] active_rows(3) [OF wf] by fastforce
    assume R: ?R
    then obtain t where t: "t \<in> set (targets db)" "target_id t = monitor_target m" "target_realm t = monitor_realm m"
        "target_enabled t" "target_archived_at t = None"
      unfolding active_rows(1) [OF wf m] by blast
    from R obtain x y where xy: "x \<in> set (monitor_agent_group_assignments db)" "y \<in> set (agent_group_memberships db)"
        "mga_realm x = monitor_realm m" "mga_enabled x" "mga_monitor x = monitor_id m" "agm_realm y = monitor_realm m"
        "agm_agent y = agent_id a" "agent_group_active db (agm_group y)" "mga_group x = agm_group y"
      by blast
    then obtain g where g: "g \<in> set (agent_groups db)" "agent_group_id g = agm_group y" "agent_group_enabled g" "agent_group_archived_at g = None"
      unfolding active_rows(3) [OF wf] by blast
    show ?L
      by (rule bexI [OF _ t(1)], rule bexI [OF _ xy(1)], rule bexI [OF _ g(1)], rule bexI [OF _ xy(2)])
        (use R t xy g ar [OF xy(2)] gr [OF xy(2) _ g(1)] in \<open>simp add: pair_enabled_def aa\<close>)
  qed
qed

lemma effective_pairs_iff:
  assumes wf: "wf_db db"
  shows "p \<in> set (effective_pairs db r) \<longleftrightarrow> (\<exists>m \<in> set (monitors db). \<exists>a \<in> set (agents db). p = pair_of m a \<and> monitor_realm m = r \<and>
    agent_id a \<in> set (effective_agent_ids db m) \<and> target_active db (monitor_target m))"
proof -
  have "p \<in> set (direct_pairs db r) \<longleftrightarrow> (\<exists>m \<in> set (monitors db). \<exists>a \<in> set (agents db). p = pair_of m a \<and>
      (\<exists>t \<in> set (targets db). \<exists>x \<in> set (monitor_agent_assignments db).
      target_id t = monitor_target m \<and> target_realm t = monitor_realm m \<and> maa_monitor x = monitor_id m \<and>
      maa_realm x = monitor_realm m \<and> maa_enabled x \<and> agent_id a = maa_agent x \<and> agent_realm a = monitor_realm m \<and> pair_enabled r m t a))"
    unfolding direct_pairs_set by blast
  then have d: "p \<in> set (direct_pairs db r) \<longleftrightarrow> (\<exists>m \<in> set (monitors db). \<exists>a \<in> set (agents db). p = pair_of m a \<and>
      monitor_realm m = r \<and> monitor_enabled m \<and> monitor_archived_at m = None \<and> agent_active db (agent_id a) \<and>
      target_active db (monitor_target m) \<and>
      (\<exists>x \<in> set (monitor_agent_assignments db). maa_realm x = monitor_realm m \<and> maa_agent x = agent_id a \<and> maa_enabled x \<and>
         maa_monitor x = monitor_id m))"
    by (simp only: direct_join_iff [OF wf] cong: bex_cong)
  have "p \<in> set (grouped_pairs db r) \<longleftrightarrow> (\<exists>m \<in> set (monitors db). \<exists>a \<in> set (agents db). p = pair_of m a \<and>
      (\<exists>t \<in> set (targets db). \<exists>x \<in> set (monitor_agent_group_assignments db).
     \<exists>g \<in> set (agent_groups db). \<exists>y \<in> set (agent_group_memberships db).
      target_id t = monitor_target m \<and> target_realm t = monitor_realm m \<and>
      mga_monitor x = monitor_id m \<and> mga_realm x = monitor_realm m \<and> mga_enabled x \<and> agent_group_id g = mga_group x \<and>
      agent_group_realm g = monitor_realm m \<and> agent_group_enabled g \<and> agent_group_archived_at g = None \<and>
      agm_group y = agent_group_id g \<and> agm_realm y = monitor_realm m \<and> agent_id a = agm_agent y \<and>
      agent_realm a = monitor_realm m \<and> pair_enabled r m t a))"
    unfolding grouped_pairs_set by blast
  then have g: "p \<in> set (grouped_pairs db r) \<longleftrightarrow> (\<exists>m \<in> set (monitors db). \<exists>a \<in> set (agents db). p = pair_of m a \<and>
      monitor_realm m = r \<and> monitor_enabled m \<and> monitor_archived_at m = None \<and> agent_active db (agent_id a) \<and>
      target_active db (monitor_target m) \<and>
      (\<exists>x \<in> set (monitor_agent_group_assignments db). \<exists>y \<in> set (agent_group_memberships db).
        mga_realm x = monitor_realm m \<and> mga_enabled x \<and> mga_monitor x = monitor_id m \<and>
        agm_realm y = monitor_realm m \<and> agm_agent y = agent_id a \<and> agent_group_active db (agm_group y) \<and> mga_group x = agm_group y))"
    by (simp only: grouped_join_iff [OF wf] cong: bex_cong)
  show ?thesis unfolding effective_pairs_def set_remdups set_append Un_iff d g effective_iff by blast
qed

lemma pair_of_simps [simp]:
  "ep_monitor_id (pair_of m a) = monitor_id m" "ep_agent_id (pair_of m a) = agent_id a" "ep_realm (pair_of m a) = monitor_realm m"
  by (simp_all add: pair_of_def)

lemma state_row_of_simps [simp]:
  "sr_monitor_id (state_row_of db s p) = ep_monitor_id p" "sr_agent_id (state_row_of db s p) = ep_agent_id p"
  by (simp_all add: state_row_of_def Let_def)

lemma pair_key_inj:
  assumes wf: "wf_db db" and "p \<in> set (effective_pairs db r)" "q \<in> set (effective_pairs db r)"
    and "ep_monitor_id p = ep_monitor_id q" "ep_agent_id p = ep_agent_id q"
  shows "p = q"
proof -
  obtain m a where p: "m \<in> set (monitors db)" "a \<in> set (agents db)" "p = pair_of m a" using assms(2) effective_pairs_iff [OF wf] by blast
  obtain m' a' where q: "m' \<in> set (monitors db)" "a' \<in> set (agents db)" "q = pair_of m' a'" using assms(3) effective_pairs_iff [OF wf] by blast
  have "m = m'" "a = a'"
    using wf_dbD(1) [OF wf] p q assms(4,5) distinct_key_inj [of monitor_id "monitors db" m m'] distinct_key_inj [of agent_id "agents db" a a']
    by (simp_all add: unique_ids_def)
  then show ?thesis using p(3) q(3) by simp
qed

lemma state_rows_set: "set (state_rows db s r) = state_row_of db s ` set (effective_pairs db r)"
  by (simp add: state_rows_def)

lemma state_rows_agents:
  assumes wf: "wf_db db"
  shows "distinct (map sr_agent_id (filter (\<lambda>x. sr_monitor_id x = i) (state_rows db s r)))"
proof -
  have "inj_on (state_row_of db s) (set (effective_pairs db r))"
    by (rule inj_onI) (metis pair_key_inj [OF wf] state_row_of_simps)
  then have "distinct (state_rows db s r)"
    by (simp add: state_rows_def distinct_map effective_pairs_def)
  moreover have "inj_on sr_agent_id (set (filter (\<lambda>x. sr_monitor_id x = i) (state_rows db s r)))"
    by (auto simp: state_rows_set intro!: inj_onI arg_cong [of _ _ "state_row_of db s"] pair_key_inj [OF wf])
  ultimately show ?thesis by (simp add: distinct_map)
qed

lemma listed_agents:
  "a \<in> sr_agent_id ` {x \<in> set (state_rows db s r). sr_monitor_id x = i} \<longleftrightarrow>
     (\<exists>p \<in> set (effective_pairs db r). ep_monitor_id p = i \<and> ep_agent_id p = a)"
  by (force simp: state_rows_set)

lemma pairs_of_monitor:
  assumes wf: "wf_db db" and m: "m \<in> set (monitors db)"
  shows "(\<exists>p \<in> set (effective_pairs db (monitor_realm m)). ep_monitor_id p = monitor_id m \<and> ep_agent_id p = a) \<longleftrightarrow>
    target_active db (monitor_target m) \<and> a \<in> set (effective_agent_ids db m)"
proof (intro iffI; elim bexE conjE)
  fix p assume p: "p \<in> set (effective_pairs db (monitor_realm m))" "ep_monitor_id p = monitor_id m" "ep_agent_id p = a"
  then obtain m2 a2 where m2: "m2 \<in> set (monitors db)" "p = pair_of m2 a2" "agent_id a2 \<in> set (effective_agent_ids db m2)"
    "target_active db (monitor_target m2)" using effective_pairs_iff [OF wf] by blast
  then have "m2 = m" using distinct_key_inj [of monitor_id "monitors db" m2 m] p(2) m wf_dbD(1) [OF wf]
    by (simp add: unique_ids_def)
  then show "target_active db (monitor_target m) \<and> a \<in> set (effective_agent_ids db m)" using m2 p(3) by simp
next
  assume e: "target_active db (monitor_target m)" "a \<in> set (effective_agent_ids db m)"
  then obtain a2 where "a2 \<in> set (agents db)" "agent_id a2 = a"
    using effective_in_realm [OF wf e(2)] by (auto simp: in_realm_agent_def)
  then show "\<exists>p \<in> set (effective_pairs db (monitor_realm m)). ep_monitor_id p = monitor_id m \<and> ep_agent_id p = a"
    using e m by (intro bexI [of _ "pair_of m a2"]) (auto simp: effective_pairs_iff [OF wf])
qed

lemma query_monitor_states_cases:
  assumes "\<sigma> \<in> set (query_monitor_states db s r ds now)"
  obtains m t where "m \<in> set (monitors db)" "monitor_realm m = r" "monitor_archived_at m = None" "t \<in> set (targets db)"
    "target_id t = monitor_target m"
    "\<sigma> = monitor_summary (map (\<lambda>row. \<lparr> mas_row = row, mas_availability_state = availability_state_of row now ds \<rparr>) (state_rows db s r)) m t"
  using assms unfolding query_monitor_states_def Let_def in_comprehension by auto

lemma summary_agents_eq:
  "summary_agents (monitor_summary grouped m t) =
     (if monitor_enabled m then filter (\<lambda>x. sr_monitor_id (mas_row x) = monitor_id m) grouped else [])"
  by (simp add: monitor_summary_def Let_def)

lemma count_states_le: "count_state StateHealthy states + count_state StateUnhealthy states \<le> length states"
  by (induction states) (auto simp: count_state_def)

lemma coverage_bounds:
  assumes "t \<le> n"
  shows "0 \<le> coverage_percent t n \<and> coverage_percent t n \<le> 100"
proof (cases "n = 0")
  case False
  have "of_nat t / of_nat n \<le> (of_int 1 :: rat)" "(0 :: rat) \<le> of_nat t / of_nat n" using assms False by (simp_all add: divide_le_eq)
  from binary64_between [OF this(2,1)] have q: "0 \<le> binary64 (of_nat t / of_nat n)" "binary64 (of_nat t / of_nat n) \<le> 1" by simp_all
  have "binary64 (of_nat t / of_nat n) * 100 \<le> of_int 100" "0 \<le> binary64 (of_nat t / of_nat n) * 100" using q by simp_all
  from binary64_between [OF this(2,1)] show ?thesis using False by (simp add: coverage_percent_def)
qed (simp add: coverage_percent_def)

lemma sort_key_head:
  assumes "sort_key f xs = y # ys"
  shows "y \<in> set xs" and "z \<in> set xs \<Longrightarrow> f y \<le> f z"
proof -
  have s: "set xs = set (y # ys)" using assms set_sort [of f xs] by simp
  have "sorted (map f (y # ys))" using sorted_sort_key [of f xs] assms by simp
  then show "y \<in> set xs" "z \<in> set xs \<Longrightarrow> f y \<le> f z" using s by auto
qed

lemma latest_observation_newest:
  assumes "latest_observation s r m a = Some ob"
  shows "ob \<in> set (observations s)" "row_realm ob = r" "row_monitor ob = m" "row_agent ob = a"
    and "ob' \<in> set (observations s) \<Longrightarrow> row_realm ob' = r \<Longrightarrow> row_monitor ob' = m \<Longrightarrow> row_agent ob' = a \<Longrightarrow>
      row_scheduled_at ob' \<le> row_scheduled_at ob"
proof -
  let ?xs = "sort_key (\<lambda>ob. - row_received_at ob) (filter (\<lambda>ob. row_realm ob = r \<and> row_monitor ob = m \<and> row_agent ob = a) (observations s))"
  obtain ys where y: "sort_key (\<lambda>ob. - row_scheduled_at ob) ?xs = ob # ys"
    using assms by (auto simp: latest_observation_def split: list.splits)
  have "ob \<in> set ?xs" by (rule sort_key_head(1) [OF y])
  then show "ob \<in> set (observations s)" "row_realm ob = r" "row_monitor ob = m" "row_agent ob = a" by simp_all
  show "ob' \<in> set (observations s) \<Longrightarrow> row_realm ob' = r \<Longrightarrow> row_monitor ob' = m \<Longrightarrow> row_agent ob' = a \<Longrightarrow>
      row_scheduled_at ob' \<le> row_scheduled_at ob"
    using sort_key_head(2) [OF y, of ob'] by simp
qed

text \<open>What it takes to be shown as healthy or unhealthy.\<close>

lemma trustworthy_state:
  assumes "availability_state_of row now ds = st" and "st = StateHealthy \<or> st = StateUnhealthy"
  shows "sr_desired_revision row \<noteq> 0 \<and> sr_desired_revision row \<le> sr_acknowledged_revision row \<and>
    (\<exists>seen t. sr_last_heartbeat_at row = Some seen \<and>
      total_seconds (now - seen) \<le> of_int (min (offline_after_seconds ds) (heartbeat_interval_seconds ds * 2)) \<and>
      sr_last_scheduled_at row = Some t \<and>
      now \<le> t + seconds (sr_interval_seconds row + sr_timeout_seconds row + grace_seconds ds)) \<and>
    sr_execution_status row \<noteq> Some Failed \<and> sr_assessment row = Some (if st = StateHealthy then Healthy else Unhealthy)"
  using assms by (auto simp: availability_state_of_def Let_def split: if_splits option.splits)

text \<open>Where the columns of the state query come from.\<close>

lemma configuration_columns:
  assumes "sr_desired_revision (state_row_of db s p) \<noteq> 0"
  shows "\<exists>c. agent_configuration_states db (ep_agent_id p) = Some c \<and> sr_desired_revision (state_row_of db s p) = desired_revision c \<and>
    sr_acknowledged_revision (state_row_of db s p) = acknowledged_revision c"
  using assms by (cases "agent_configuration_states db (ep_agent_id p)") (auto simp: state_row_of_def Let_def split: if_splits)

lemma heartbeat_column:
  "sr_last_heartbeat_at (state_row_of db s p) = Some t \<Longrightarrow>
     \<exists>op. agent_operational_states db (ep_agent_id p) = Some op \<and> last_heartbeat_at op = t"
  by (cases "agent_operational_states db (ep_agent_id p)") (auto simp: state_row_of_def Let_def split: if_splits)

lemma observation_columns:
  "sr_last_scheduled_at (state_row_of db s p) = Some t \<Longrightarrow>
     \<exists>ob. latest_observation s (ep_realm p) (ep_monitor_id p) (ep_agent_id p) = Some ob \<and> row_scheduled_at ob = t \<and>
       sr_execution_status (state_row_of db s p) = Some (row_execution_status ob) \<and>
       sr_assessment (state_row_of db s p) = Some (row_assessment ob)"
  by (auto simp: state_row_of_def Let_def)

text \<open>In a consistent store the join with the result tables neither drops nor repeats observations.\<close>

definition result_of :: "observation_store \<Rightarrow> observation_row \<Rightarrow> typed_row option" where
  "result_of s ob = find (\<lambda>t. typed_scheduled_at t = row_scheduled_at ob \<and> typed_observation_id t = row_observation_id ob)
     (typed_results s (row_probe_type ob))"

lemma filter_distinct_key:
  assumes "distinct (map f xs)"
  shows "filter (\<lambda>x. f x = k) xs = (case find (\<lambda>x. f x = k) xs of None \<Rightarrow> [] | Some x \<Rightarrow> [x])"
  using assms
proof (induction xs)
  case (Cons x xs)
  have "filter (\<lambda>y. f y = f x) xs = []" using Cons(2) by (auto simp: filter_empty_conv image_iff)
  with Cons show ?case by auto
qed simp

lemma left_join_single:
  assumes "store_inv s"
  shows "left_join_results s obs = map (\<lambda>ob. (ob, result_of s ob)) obs"
proof -
  have k: "(typed_scheduled_at t = row_scheduled_at ob \<and> typed_observation_id t = row_observation_id ob) = (typed_key t = row_key ob)" for t ob
    by (auto simp: typed_key_def row_key_def)
  have "filter (\<lambda>t. typed_key t = row_key ob) (typed_results s p) =
      (case find (\<lambda>t. typed_key t = row_key ob) (typed_results s p) of None \<Rightarrow> [] | Some t \<Rightarrow> [t])" for ob p
    using assms by (intro filter_distinct_key) (simp add: store_inv_def)
  then have "(case filter (\<lambda>t. typed_scheduled_at t = row_scheduled_at ob \<and> typed_observation_id t = row_observation_id ob)
      (typed_results s (row_probe_type ob)) of [] \<Rightarrow> [(ob, None)] | ts \<Rightarrow> map (\<lambda>t. (ob, Some t)) ts) = [(ob, result_of s ob)]" for ob
    by (cases "result_of s ob") (simp_all add: result_of_def k)
  then show ?thesis by (simp add: left_join_results_def)
qed

lemma result_of_belongs:
  assumes "store_inv s" and "ob \<in> set (observations s)"
  shows "result_of s ob = Some t \<Longrightarrow> t \<in> set (typed_results s (row_probe_type ob)) \<and> belongs (row_probe_type ob) t ob"
    and "row_execution_status ob = Completed \<Longrightarrow> \<exists>t. result_of s ob = Some t"
proof -
  assume "result_of s ob = Some t"
  then have t: "t \<in> set (typed_results s (row_probe_type ob))" "typed_key t = row_key ob"
    using find_Some_iff_in by (fastforce simp: result_of_def typed_key_def row_key_def)+
  then obtain ob' where ob': "ob' \<in> set (observations s)" "belongs (row_probe_type ob) t ob'"
    using assms(1) unfolding store_inv_def by blast
  have "row_key ob' = row_key ob" using ob'(2) t(2) by (simp add: belongs_def)
  then have "ob' = ob" using distinct_key_inj [of row_key "observations s" ob' ob] assms ob'(1) by (simp add: store_inv_def)
  then show "t \<in> set (typed_results s (row_probe_type ob)) \<and> belongs (row_probe_type ob) t ob" using t ob' by simp
next
  assume "row_execution_status ob = Completed"
  then obtain t where "t \<in> set (typed_results s (row_probe_type ob))" "belongs (row_probe_type ob) t ob"
    using assms unfolding store_inv_def by blast
  then show "\<exists>t. result_of s ob = Some t"
    unfolding result_of_def by (cases "find (\<lambda>t. typed_scheduled_at t = row_scheduled_at ob \<and> typed_observation_id t = row_observation_id ob)
        (typed_results s (row_probe_type ob))") (auto simp: find_None_iff belongs_def row_key_def typed_key_def)
qed

definition matching :: "observation_store \<Rightarrow> uuid \<Rightarrow> uuid \<Rightarrow> probe_type \<Rightarrow> datetime \<Rightarrow> datetime \<Rightarrow> observation_row list" where
  "matching s r m pt start stop = sort_key row_scheduled_at (sort_key row_agent
     (filter (\<lambda>ob. row_realm ob = r \<and> row_monitor ob = m \<and> row_probe_type ob = pt \<and> start \<le> row_scheduled_at ob \<and>
        row_scheduled_at ob \<le> stop) (observations s)))"

lemma history_rows_matching:
  assumes "store_inv s"
  shows "history_rows s r m pt start stop = map (\<lambda>ob. (ob, result_of s ob)) (matching s r m pt start stop)"
  by (simp add: history_rows_def matching_def left_join_single [OF assms] sort_key_map_key comp_def)

text \<open>The two history queries side by side.\<close>

definition icmp_view :: "probe_history_point \<Rightarrow> icmp_history_point option" where
  "icmp_view p = (case point_result p of
     Some (IcmpObservationResult res) \<Rightarrow> Some \<lparr> ihp_scheduled_at = os_scheduled_at (point_summary p),
       ihp_agent_id = os_agent_id (point_summary p), ihp_assessment = os_assessment (point_summary p), ihp_result = res \<rparr>
   | _ \<Rightarrow> None)"

lemma map_filter_take:
  "(\<And>x. x \<in> set xs \<Longrightarrow> f x \<noteq> None) \<Longrightarrow> List.map_filter f (take n xs) = take n (List.map_filter f xs)"
proof (induction xs arbitrary: n)
  case (Cons x xs)
  then obtain y where "f x = Some y" by auto
  with Cons show ?case by (cases n) (simp_all add: List.map_filter_simps)
qed (simp add: List.map_filter_simps)

lemma map_filter_of_filter:
  "List.map_filter g (map h (filter P xs)) = List.map_filter (\<lambda>x. if P x then g (h x) else None) xs"
  by (induction xs) (auto simp: List.map_filter_simps split: option.split)

lemma concat_map_guard:
  "concat (map (\<lambda>x. if P x then [f x] else []) xs) = map f (filter P xs)"
  by (induction xs) simp_all

lemma concat_map_cong: "(\<And>x. x \<in> set xs \<Longrightarrow> f x = g x) \<Longrightarrow> concat (map f xs) = concat (map g xs)"
  by (induction xs) auto

lemma icmp_joined_results:
  assumes "store_inv s" and "ob \<in> set (observations s)" and "row_probe_type ob = ICMP"
  shows "filter (icmp_joined ob) (typed_results s ICMP) = (case result_of s ob of None \<Rightarrow> [] | Some t \<Rightarrow> [t])"
proof -
  have "icmp_joined ob t \<longleftrightarrow> typed_key t = row_key ob" if t: "t \<in> set (typed_results s ICMP)" for t
  proof -
    obtain ob' where ob': "ob' \<in> set (observations s)" "belongs ICMP t ob'" using assms(1) t unfolding store_inv_def by blast
    have "ob' = ob" if "row_key ob' = row_key ob"
      using distinct_key_inj [of row_key "observations s" ob' ob] assms(1,2) ob'(1) that by (simp add: store_inv_def)
    then show ?thesis using ob'(2) by (auto simp: icmp_joined_def belongs_def row_key_def typed_key_def)
  qed
  then have "filter (icmp_joined ob) (typed_results s ICMP) = filter (\<lambda>t. typed_key t = row_key ob) (typed_results s ICMP)"
    by (intro filter_cong) simp_all
  also have "\<dots> = (case find (\<lambda>t. typed_key t = row_key ob) (typed_results s ICMP) of None \<Rightarrow> [] | Some t \<Rightarrow> [t])"
    using assms(1) by (intro filter_distinct_key) (simp add: store_inv_def)
  also have "find (\<lambda>t. typed_key t = row_key ob) (typed_results s ICMP) = result_of s ob"
    by (simp add: result_of_def assms(3) typed_key_def row_key_def)
  finally show ?thesis .
qed

lemma icmp_rows_matching:
  assumes "store_inv s"
  shows "icmp_rows s r m start stop = map (\<lambda>ob. (ob, the (result_of s ob)))
    (filter (\<lambda>ob. result_of s ob \<noteq> None) (matching s r m ICMP start stop))"
proof -
  let ?C = "\<lambda>ob. row_realm ob = r \<and> row_monitor ob = m \<and> row_probe_type ob = ICMP \<and> start \<le> row_scheduled_at ob \<and> row_scheduled_at ob \<le> stop"
  have inner: "concat (map (\<lambda>t. if icmp_joined ob t then if row_realm ob = r then if row_monitor ob = m then
        if row_probe_type ob = ICMP then if start \<le> row_scheduled_at ob then if row_scheduled_at ob \<le> stop then [(ob, t)]
        else [] else [] else [] else [] else [] else []) (typed_results s ICMP)) =
      (if ?C ob \<and> result_of s ob \<noteq> None then [(ob, the (result_of s ob))] else [])"
    if "ob \<in> set (observations s)" for ob
  proof -
    have "(if icmp_joined ob t then if row_realm ob = r then if row_monitor ob = m then
        if row_probe_type ob = ICMP then if start \<le> row_scheduled_at ob then if row_scheduled_at ob \<le> stop then [(ob, t)]
        else [] else [] else [] else [] else [] else []) = (if ?C ob \<and> icmp_joined ob t then [(ob, t)] else [])" for t
      by simp
    then have "?thesis \<longleftrightarrow> map (Pair ob) (filter (\<lambda>t. ?C ob \<and> icmp_joined ob t) (typed_results s ICMP)) =
        (if ?C ob \<and> result_of s ob \<noteq> None then [(ob, the (result_of s ob))] else [])"
      by (simp only: concat_map_guard)
    moreover have "map (Pair ob) (filter (\<lambda>t. ?C ob \<and> icmp_joined ob t) (typed_results s ICMP)) =
        (if ?C ob \<and> result_of s ob \<noteq> None then [(ob, the (result_of s ob))] else [])"
    proof (cases "?C ob")
      case True
      then show ?thesis using icmp_joined_results [OF assms that] by (cases "result_of s ob") simp_all
    next
      case False
      then have "filter (\<lambda>t. ?C ob \<and> icmp_joined ob t) (typed_results s ICMP) = []"
        unfolding filter_empty_conv by blast
      with False show ?thesis by (simp only: if_False simp_thms list.map)
    qed
    ultimately show ?thesis by (rule iffD2)
  qed
  have "icmp_rows s r m start stop = sort_key (\<lambda>(ob, _). row_scheduled_at ob) (sort_key (\<lambda>(ob, _). row_agent ob)
      (map (\<lambda>ob. (ob, the (result_of s ob))) (filter (\<lambda>ob. ?C ob \<and> result_of s ob \<noteq> None) (observations s))))"
    unfolding icmp_rows_def concat_map_guard [symmetric]
    by (rule arg_cong [of _ _ "\<lambda>xs. sort_key (\<lambda>(ob, _). row_scheduled_at ob) (sort_key (\<lambda>(ob, _). row_agent ob) xs)"])
      (rule concat_map_cong, erule inner)
  also have "\<dots> = map (\<lambda>ob. (ob, the (result_of s ob))) (sort_key row_scheduled_at (sort_key row_agent
      (filter (\<lambda>ob. result_of s ob \<noteq> None) (filter ?C (observations s)))))"
    by (simp add: sort_key_map_key comp_def)
  finally show ?thesis by (simp add: matching_def filter_sort)
qed

lemma icmp_rows_point:
  assumes "store_inv s" and "x \<in> set (icmp_rows s r m start stop)"
  shows "(\<lambda>(ob, t). icmp_point ob (typed_result t)) x \<noteq> None"
proof -
  obtain ob t where x: "x = (ob, t)" "ob \<in> set (observations s)" "row_probe_type ob = ICMP" "result_of s ob = Some t"
    using assms(2) unfolding icmp_rows_matching [OF assms(1)] by (auto simp: matching_def)
  from result_of_belongs(1) [OF assms(1) x(2,4)] x(3) have "result_probe_type (typed_result t) = ICMP" by (simp add: belongs_def)
  then show ?thesis by (cases "typed_result t") (simp_all add: x(1))
qed

section \<open>Properties\<close>

text \<open>C9: the dashboard counts exactly the agents a monitor is delivered to: for each monitor it
  summarises, the agents listed are those the monitor is effectively assigned to, each once, provided
  the monitor's target is active; otherwise there are none. The SQL of the dashboard and the queries
  that assemble agent configurations agree.\<close>

theorem dashboard_shows_effective_agents:
  assumes "wf_db db" and "\<sigma> \<in> set (query_monitor_states db s r ds now)"
    and "m \<in> set (monitors db)" and "summary_monitor_id \<sigma> = monitor_id m"
  shows "monitor_realm m = r \<and> distinct (map (\<lambda>x. sr_agent_id (mas_row x)) (summary_agents \<sigma>)) \<and>
    set (map (\<lambda>x. sr_agent_id (mas_row x)) (summary_agents \<sigma>)) =
      (if target_active db (monitor_target m) then set (effective_agent_ids db m) else {})"
  using assms(2)
proof (rule query_monitor_states_cases)
  fix m' t
  let ?g = "map (\<lambda>row. \<lparr> mas_row = row, mas_availability_state = availability_state_of row now ds \<rparr>) (state_rows db s r)"
  assume m': "m' \<in> set (monitors db)" "monitor_realm m' = r" and \<sigma>: "\<sigma> = monitor_summary ?g m' t"
  have "monitor_id m' = monitor_id m" using assms(4) by (simp add: \<sigma> monitor_summary_def Let_def)
  then have [simp]: "m' = m" using distinct_key_inj [of monitor_id "monitors db" m' m] m'(1) assms(3) wf_dbD(1) [OF assms(1)]
    by (simp add: unique_ids_def)
  have l: "map (\<lambda>x. sr_agent_id (mas_row x)) (summary_agents \<sigma>) =
      (if monitor_enabled m then map sr_agent_id (filter (\<lambda>x. sr_monitor_id x = monitor_id m) (state_rows db s r)) else [])"
    by (simp add: \<sigma> summary_agents_eq filter_map comp_def)
  have "a \<in> sr_agent_id ` {x \<in> set (state_rows db s r). sr_monitor_id x = monitor_id m} \<longleftrightarrow>
      target_active db (monitor_target m) \<and> a \<in> set (effective_agent_ids db m)" for a
    unfolding listed_agents using pairs_of_monitor [OF assms(1,3)] m'(2) by simp
  moreover have "\<not> monitor_enabled m \<Longrightarrow> effective_agent_ids db m = []" by (simp add: effective_agent_ids_def)
  ultimately show ?thesis using m'(2) state_rows_agents [OF assms(1), of "monitor_id m" s r] unfolding l by auto
qed


text \<open>C10: a monitor is shown as healthy or unhealthy on an agent only on current evidence: the agent
  acknowledged its desired configuration and was heard from recently, and the newest observation of this
  monitor by this agent was executed, has that assessment and is not overdue. Old data never hides an
  agent that went offline.\<close>

theorem shown_health_is_current:
  assumes "\<sigma> \<in> set (query_monitor_states db s r ds now)" and "x \<in> set (summary_agents \<sigma>)"
    and "mas_availability_state x = st" and "st = StateHealthy \<or> st = StateUnhealthy"
  shows "\<exists>c op ob. agent_configuration_states db (sr_agent_id (mas_row x)) = Some c \<and> desired_revision c \<noteq> 0 \<and>
      desired_revision c \<le> acknowledged_revision c \<and>
      agent_operational_states db (sr_agent_id (mas_row x)) = Some op \<and>
      total_seconds (now - last_heartbeat_at op) \<le> of_int (min (offline_after_seconds ds) (heartbeat_interval_seconds ds * 2)) \<and>
      ob \<in> set (observations s) \<and> row_realm ob = r \<and> row_monitor ob = summary_monitor_id \<sigma> \<and>
      row_agent ob = sr_agent_id (mas_row x) \<and> row_execution_status ob = Completed \<and>
      row_assessment ob = (if st = StateHealthy then Healthy else Unhealthy) \<and>
      now \<le> row_scheduled_at ob + seconds (sr_interval_seconds (mas_row x) + sr_timeout_seconds (mas_row x) + grace_seconds ds) \<and>
      (\<forall>ob' \<in> set (observations s). row_realm ob' = r \<and> row_monitor ob' = row_monitor ob \<and> row_agent ob' = row_agent ob \<longrightarrow>
         row_scheduled_at ob' \<le> row_scheduled_at ob)"
  using assms(1)
proof (rule query_monitor_states_cases)
  fix m t
  let ?g = "map (\<lambda>row. \<lparr> mas_row = row, mas_availability_state = availability_state_of row now ds \<rparr>) (state_rows db s r)"
  assume \<sigma>: "\<sigma> = monitor_summary ?g m t"
  then obtain p where p: "p \<in> set (effective_pairs db r)" "x = \<lparr> mas_row = state_row_of db s p,
      mas_availability_state = availability_state_of (state_row_of db s p) now ds \<rparr>" "ep_monitor_id p = monitor_id m"
    using assms(2) by (auto simp: summary_agents_eq state_rows_set split: if_splits)
  have r: "ep_realm p = r" using p(1) unfolding effective_pairs_def set_remdups set_append Un_iff direct_pairs_set grouped_pairs_set
    by (auto simp: pair_enabled_def)
  let ?row = "state_row_of db s p"
  have t: "sr_desired_revision ?row \<noteq> 0" "sr_desired_revision ?row \<le> sr_acknowledged_revision ?row"
      "\<exists>seen t. sr_last_heartbeat_at ?row = Some seen \<and>
        total_seconds (now - seen) \<le> of_int (min (offline_after_seconds ds) (heartbeat_interval_seconds ds * 2)) \<and>
        sr_last_scheduled_at ?row = Some t \<and> now \<le> t + seconds (sr_interval_seconds ?row + sr_timeout_seconds ?row + grace_seconds ds)"
      "sr_execution_status ?row \<noteq> Some Failed" "sr_assessment ?row = Some (if st = StateHealthy then Healthy else Unhealthy)"
    using trustworthy_state [of ?row now ds st] assms(3,4) p(2) by simp_all
  obtain c where c: "agent_configuration_states db (ep_agent_id p) = Some c" "desired_revision c \<noteq> 0" "desired_revision c \<le> acknowledged_revision c"
    using configuration_columns [OF t(1)] t(1,2) by auto
  obtain seen t0 where h: "sr_last_heartbeat_at ?row = Some seen"
      "total_seconds (now - seen) \<le> of_int (min (offline_after_seconds ds) (heartbeat_interval_seconds ds * 2))"
      "sr_last_scheduled_at ?row = Some t0" "now \<le> t0 + seconds (sr_interval_seconds ?row + sr_timeout_seconds ?row + grace_seconds ds)"
    using t(3) by blast
  obtain op where op: "agent_operational_states db (ep_agent_id p) = Some op" "last_heartbeat_at op = seen"
    using heartbeat_column [OF h(1)] by blast
  obtain ob where ob: "latest_observation s (ep_realm p) (ep_monitor_id p) (ep_agent_id p) = Some ob" "row_scheduled_at ob = t0"
      "sr_execution_status ?row = Some (row_execution_status ob)" "sr_assessment ?row = Some (row_assessment ob)"
    using observation_columns [OF h(3)] by blast
  note n = latest_observation_newest [OF ob(1)]
  have "row_execution_status ob = Completed" using ob(3) t(4) by (cases "row_execution_status ob") simp_all
  moreover have "summary_monitor_id \<sigma> = monitor_id m" by (simp add: \<sigma> monitor_summary_def Let_def)
  ultimately show ?thesis
    using c op h ob t(5) n r p(2,3) by (intro exI [of _ c] exI [of _ op] exI [of _ ob]) simp
qed

text \<open>C11: a history holds the observations asked for, in order and each once, up to the limit: those of
  the monitor in the realm and time range, ordered by schedule time; and a point has a result, of the
  monitor's probe type, exactly if the observation was completed.\<close>

theorem history_complete:
  assumes "store_inv s"
  shows "map point_summary (query_probe_history s r m pt start stop limit) =
      map observation_summary_of (take limit (matching s r m pt start stop)) \<and>
    sorted (map (\<lambda>p. os_scheduled_at (point_summary p)) (query_probe_history s r m pt start stop limit)) \<and>
    (\<forall>p \<in> set (query_probe_history s r m pt start stop limit). start \<le> os_scheduled_at (point_summary p) \<and>
      os_scheduled_at (point_summary p) \<le> stop \<and> os_monitor_id (point_summary p) = m \<and>
      (case point_result p of None \<Rightarrow> os_execution_status (point_summary p) = Failed
       | Some res \<Rightarrow> os_execution_status (point_summary p) = Completed \<and> result_probe_type res = pt))"
proof (intro conjI ballI)
  let ?q = "query_probe_history s r m pt start stop limit"
  have q: "?q = map (\<lambda>ob. \<lparr> point_summary = observation_summary_of ob, point_result = map_option typed_result (result_of s ob) \<rparr>)
      (take limit (matching s r m pt start stop))"
    by (simp add: query_probe_history_def history_rows_matching [OF assms] take_map history_point_def comp_def)
  show "map point_summary ?q = map observation_summary_of (take limit (matching s r m pt start stop))"
    by (simp add: q comp_def)
  have "sorted (map row_scheduled_at (matching s r m pt start stop))" by (simp add: matching_def)
  then show "sorted (map (\<lambda>p. os_scheduled_at (point_summary p)) ?q)"
    by (simp add: q comp_def observation_summary_of_def take_map [symmetric] sorted_wrt_take)
  fix p assume "p \<in> set ?q"
  then obtain ob where ob: "ob \<in> set (matching s r m pt start stop)"
      "p = \<lparr> point_summary = observation_summary_of ob, point_result = map_option typed_result (result_of s ob) \<rparr>"
    unfolding q by (auto dest: in_set_takeD)
  then have o: "ob \<in> set (observations s)" "row_monitor ob = m" "row_probe_type ob = pt" "start \<le> row_scheduled_at ob" "row_scheduled_at ob \<le> stop"
    by (simp_all add: matching_def)
  show "start \<le> os_scheduled_at (point_summary p)" "os_scheduled_at (point_summary p) \<le> stop" "os_monitor_id (point_summary p) = m"
    using o ob(2) by (simp_all add: observation_summary_of_def)
  show "case point_result p of None \<Rightarrow> os_execution_status (point_summary p) = Failed
      | Some res \<Rightarrow> os_execution_status (point_summary p) = Completed \<and> result_probe_type res = pt"
    using result_of_belongs [OF assms o(1)] ob(2) o(3)
    by (cases "result_of s ob"; cases "row_execution_status ob") (auto simp: observation_summary_of_def belongs_def)
qed

text \<open>C12: the older ICMP history query and the general one agree: the ICMP history is the general
  history of the monitor, with the observations that have no result left out, in the same order, up to
  the limit. Joining on five columns instead of two makes no difference.\<close>

theorem icmp_history_agrees:
  assumes "store_inv s"
  shows "query_icmp_history s r m start stop limit = take limit (List.map_filter icmp_view
    (query_probe_history s r m ICMP start stop (length (observations s))))"
proof -
  let ?M = "matching s r m ICMP start stop"
  have n: "length ?M \<le> length (observations s)" by (simp add: matching_def)
  have q: "query_probe_history s r m ICMP start stop (length (observations s)) = map (\<lambda>ob. history_point (ob, result_of s ob)) ?M"
    using n by (simp add: query_probe_history_def history_rows_matching [OF assms] comp_def)
  have v: "icmp_view (history_point (ob, result_of s ob)) = (case result_of s ob of None \<Rightarrow> None | Some t \<Rightarrow> icmp_point ob (typed_result t))" for ob
    by (cases "result_of s ob"; cases "typed_result (the (result_of s ob))")
      (simp_all add: icmp_view_def history_point_def observation_summary_of_def)
  have "query_icmp_history s r m start stop limit = take limit (List.map_filter (\<lambda>(ob, t). icmp_point ob (typed_result t)) (icmp_rows s r m start stop))"
    unfolding query_icmp_history_def by (rule map_filter_take) (rule icmp_rows_point [OF assms])
  also have "List.map_filter (\<lambda>(ob, t). icmp_point ob (typed_result t)) (icmp_rows s r m start stop) =
      List.map_filter (\<lambda>ob. icmp_view (history_point (ob, result_of s ob))) ?M"
    unfolding icmp_rows_matching [OF assms] map_filter_of_filter
    by (rule arg_cong [of _ _ "\<lambda>f. List.map_filter f ?M"]) (simp add: v fun_eq_iff split: option.split)
  finally show ?thesis by (simp add: q List.map_filter_def filter_map comp_def)
qed

section \<open>A concrete dashboard\<close>

text \<open>The example agent has acknowledged its configuration and reported one healthy TCP observation.\<close>

definition example_settings :: dashboard_settings where
  "example_settings = \<lparr> offline_after_seconds = 90, heartbeat_interval_seconds = 30, configuration_poll_interval_seconds = 30 \<rparr>"

definition acknowledged_db :: monitoring_db where
  "acknowledged_db = configured_db\<lparr> agent_configuration_states :=
     [5 \<mapsto> example_state\<lparr> desired_content_hash := example_hash, acknowledged_revision := 1, acknowledged_at := Some 5 \<rparr>] \<rparr>"

definition example_pair :: effective_pair where
  "example_pair = pair_of example_monitor example_agent"

definition example_agent_state :: monitor_agent_state where
  "example_agent_state = \<lparr> mas_row = state_row_of acknowledged_db sample_store example_pair, mas_availability_state = StateHealthy \<rparr>"

lemmas example_tables = acknowledged_db_def configured_db_def running_db_def example_db_def empty_db_def

lemma acknowledged_db_wf: "wf_db acknowledged_db"
  by (simp add: wf_db_def unique_ids_def realm_coherent_def in_realm_defs example_tables example_rows example_state_def
      new_configuration_state_def example_operational_def)

lemma example_availability:
  "availability_state_of (state_row_of acknowledged_db sample_store example_pair) 5 example_settings = StateHealthy"
proof -
  have "latest_observation sample_store 1 7 5 = Some (hd (observations sample_store))"
    by (simp add: latest_observation_def sample_store_def common_row_def sample_defs)
  then show ?thesis
    by (simp add: state_row_of_def example_pair_def pair_of_def example_rows example_tables example_state_def new_configuration_state_def
        example_operational_def sample_store_def common_row_def sample_defs availability_state_of_def example_settings_def
        total_seconds_def grace_seconds_def binary64_def Let_def)
qed

lemma example_dashboard:
  "query_monitor_states acknowledged_db sample_store 1 example_settings 5 = [monitor_summary [example_agent_state] example_monitor example_target]"
proof -
  have "effective_pairs acknowledged_db 1 = [example_pair]"
    by (simp add: effective_pairs_def direct_pairs_def grouped_pairs_def example_pair_def example_tables example_rows pair_enabled_def)
  then have "state_rows acknowledged_db sample_store 1 = [state_row_of acknowledged_db sample_store example_pair]"
    by (simp add: state_rows_def)
  moreover have "monitors acknowledged_db = [example_monitor]" "targets acknowledged_db = [example_target]"
    by (simp_all add: example_tables)
  moreover have "monitor_realm example_monitor = 1" "monitor_archived_at example_monitor = None" "target_id example_target = monitor_target example_monitor"
    by (simp_all add: example_rows)
  ultimately show ?thesis
    by (simp add: query_monitor_states_def example_availability example_agent_state_def)
qed

lemma example_summary:
  "summary_agents (monitor_summary [example_agent_state] example_monitor example_target) = [example_agent_state]"
  "summary_monitor_id (monitor_summary [example_agent_state] example_monitor example_target) = 7"
  by (simp_all add: monitor_summary_def example_agent_state_def example_pair_def example_monitor_def Let_def)

lemma example_ids:
  "monitors acknowledged_db = [example_monitor]" "monitor_id example_monitor = 7" "monitor_target example_monitor = 8"
  "sr_agent_id (mas_row example_agent_state) = 5" "mas_availability_state example_agent_state = StateHealthy"
  by (simp_all add: example_tables example_agent_state_def example_pair_def) (simp_all add: example_rows)

lemma sample_store_inv: "store_inv sample_store"
  by (auto simp: store_inv_def sample_store_def belongs_def row_key_def typed_key_def common_row_def sample_defs)

theorem dashboard_shows_effective_agents_witness:
  "set (effective_agent_ids acknowledged_db example_monitor) = {5} \<and> target_active acknowledged_db 8"
  using dashboard_shows_effective_agents [OF acknowledged_db_wf, of "monitor_summary [example_agent_state] example_monitor example_target"
      sample_store 1 example_settings 5 example_monitor] example_dashboard
  by (simp add: example_summary example_ids split: if_splits)


theorem shown_health_is_current_witness:
  "\<exists>ob \<in> set (observations sample_store). row_monitor ob = 7 \<and> row_agent ob = 5 \<and> row_assessment ob = Healthy"
  using shown_health_is_current [of "monitor_summary [example_agent_state] example_monitor example_target"
      acknowledged_db sample_store 1 example_settings 5 example_agent_state StateHealthy] example_dashboard
  by (auto simp: example_summary example_ids)

theorem history_complete_witness:
  "map point_summary (query_probe_history sample_store 1 7 TCP 0 5 10) = map observation_summary_of (take 10 (matching sample_store 1 7 TCP 0 5)) \<and>
   matching sample_store 1 7 TCP 0 5 = observations sample_store"
proof
  show "map point_summary (query_probe_history sample_store 1 7 TCP 0 5 10) = map observation_summary_of (take 10 (matching sample_store 1 7 TCP 0 5))"
    using history_complete [OF sample_store_inv] by blast
qed (simp add: matching_def sample_store_def common_row_def sample_defs)

theorem icmp_history_agrees_witness:
  "query_icmp_history sample_store 1 7 0 5 10 = take 10 (List.map_filter icmp_view (query_probe_history sample_store 1 7 ICMP 0 5 1))"
  using icmp_history_agrees [OF sample_store_inv, of 1 7 0 5 10] by (simp add: sample_store_def)

end
