(* ===== verification/Tenant_Isolation.thy ===== *)
theory Tenant_Isolation
  imports Monitoring_System
begin

text \<open>
  Realms are isolated from one another: what a user endpoint writes, and what it answers with, stays
  in the realm it was authorised for.
\<close>

section \<open>The tables outside a realm\<close>

definition keep_if :: "('a \<Rightarrow> bool) \<Rightarrow> ('k \<rightharpoonup> 'a) \<Rightarrow> ('k \<rightharpoonup> 'a)" where
  "keep_if P t = (\<lambda>k. case t k of None \<Rightarrow> None | Some x \<Rightarrow> if P x then Some x else None)"

definition outside :: "uuid \<Rightarrow> monitoring_db \<Rightarrow> monitoring_db" where
  "outside r db = \<lparr>
     agents = filter (\<lambda>x. agent_realm x \<noteq> r) (agents db),
     agent_groups = filter (\<lambda>x. agent_group_realm x \<noteq> r) (agent_groups db),
     agent_group_memberships = filter (\<lambda>x. agm_realm x \<noteq> r) (agent_group_memberships db),
     agent_credentials = filter (\<lambda>x. credential_realm x \<noteq> r) (agent_credentials db),
     agent_enrolment_tokens = filter (\<lambda>x. token_realm x \<noteq> r) (agent_enrolment_tokens db),
     agent_operational_states = keep_if (\<lambda>x. op_realm x \<noteq> r) (agent_operational_states db),
     targets = filter (\<lambda>x. target_realm x \<noteq> r) (targets db),
     target_groups = filter (\<lambda>x. target_group_realm x \<noteq> r) (target_groups db),
     target_group_memberships = filter (\<lambda>x. tgm_realm x \<noteq> r) (target_group_memberships db),
     monitors = filter (\<lambda>x. monitor_realm x \<noteq> r) (monitors db),
     monitor_agent_assignments = filter (\<lambda>x. maa_realm x \<noteq> r) (monitor_agent_assignments db),
     monitor_agent_group_assignments = filter (\<lambda>x. mga_realm x \<noteq> r) (monitor_agent_group_assignments db),
     agent_configuration_states = keep_if (\<lambda>x. cs_realm x \<noteq> r) (agent_configuration_states db),
     agent_configuration_snapshots = filter (\<lambda>x. snapshot_realm x \<noteq> r) (agent_configuration_snapshots db) \<rparr>"

lemma filter_update_rows_kept:
  "(\<And>x. x \<in> set t \<Longrightarrow> P x \<Longrightarrow> \<not> Q x \<and> \<not> Q (f x)) \<Longrightarrow> filter Q (update_rows P f t) = filter Q t"
  by (induction t) (auto simp: update_rows_def)

lemma filter_delete_rows_other:
  "(\<And>x. x \<in> set t \<Longrightarrow> P x \<Longrightarrow> \<not> Q x) \<Longrightarrow> filter Q (delete_rows P t) = filter Q t"
  by (induction t) (auto simp: delete_rows_def)

lemma keep_if_upd [simp]:
  "(\<And>y. t k = Some y \<Longrightarrow> \<not> P y) \<Longrightarrow> \<not> P x \<Longrightarrow> keep_if P (t(k \<mapsto> x)) = keep_if P t"
  by (auto simp: keep_if_def fun_eq_iff split: option.splits)

text \<open>Raising revisions of agents of the realm touches states of that realm only.\<close>

lemma outside_bump:
  assumes wf: "wf_db db" and ids: "\<And>a. a \<in> set ids \<Longrightarrow> in_realm_agent db r a"
    and st: "agent_configuration_states db' = agent_configuration_states db"
  shows "outside r (bump_configuration_revisions ids r db') = outside r db'"
proof -
  have "cs_realm (bumped r (agent_configuration_states db a)) = r" "agent_configuration_states db a = Some st \<Longrightarrow> cs_realm st = r"
    if "a \<in> set ids" for a st
    using agent_realm_unique [OF wf_dbD(1) [OF wf] _ ids [OF that]] wf_dbD(6) [OF wf]
    by (auto simp: bumped_def Let_def new_configuration_state_def split: option.splits)
  then have "keep_if (\<lambda>x. cs_realm x \<noteq> r) (agent_configuration_states (bump_configuration_revisions ids r db')) =
      keep_if (\<lambda>x. cs_realm x \<noteq> r) (agent_configuration_states db')"
    by (auto simp: bump_states st keep_if_def fun_eq_iff split: option.splits)
  then show ?thesis by (simp add: outside_def)
qed

section \<open>Domain operations\<close>

lemma relationships_outside:
  assumes wf: "wf_db db" and a: "a \<in> set (agents db)"
  shows "add_agent_to_group db rlm g a = Inr (db', x1) \<Longrightarrow> outside (realm_id rlm) db' = outside (realm_id rlm) db"
    and "remove_agent_from_group db rlm g a = Inr (db', d) \<Longrightarrow> outside (realm_id rlm) db' = outside (realm_id rlm) db"
    and "assign_monitor_to_agent db rlm m a = Inr (db', x3) \<Longrightarrow> outside (realm_id rlm) db' = outside (realm_id rlm) db"
    and "unassign_monitor_from_agent db rlm m a = Inr (db', d) \<Longrightarrow> outside (realm_id rlm) db' = outside (realm_id rlm) db"
proof -
  have b: "agent_realm a = realm_id rlm \<Longrightarrow> agent_configuration_states db2 = agent_configuration_states db \<Longrightarrow>
      outside (realm_id rlm) (bump_configuration_revisions [agent_id a] (realm_id rlm) db2) = outside (realm_id rlm) db2" for db2
    using a by (intro outside_bump [OF wf]) (auto simp: in_realm_agent_def)
  show "add_agent_to_group db rlm g a = Inr (db', x1) \<Longrightarrow> outside (realm_id rlm) db' = outside (realm_id rlm) db"
    by (auto simp: add_agent_to_group_def Let_def b split: option.splits if_splits) (auto simp: outside_def intro!: filter_update_rows_kept filter_delete_rows_other)
  show "remove_agent_from_group db rlm g a = Inr (db', d) \<Longrightarrow> outside (realm_id rlm) db' = outside (realm_id rlm) db"
    by (auto simp: remove_agent_from_group_def Let_def b split: if_splits) (auto simp: outside_def intro!: filter_update_rows_kept filter_delete_rows_other)
  show "assign_monitor_to_agent db rlm m a = Inr (db', x3) \<Longrightarrow> outside (realm_id rlm) db' = outside (realm_id rlm) db"
    by (auto simp: assign_monitor_to_agent_def Let_def b split: option.splits if_splits) (auto simp: outside_def intro!: filter_update_rows_kept filter_delete_rows_other)
  show "unassign_monitor_from_agent db rlm m a = Inr (db', d) \<Longrightarrow> outside (realm_id rlm) db' = outside (realm_id rlm) db"
    by (auto simp: unassign_monitor_from_agent_def Let_def b split: if_splits) (auto simp: outside_def intro!: filter_update_rows_kept filter_delete_rows_other)
qed

lemma group_assignments_outside:
  assumes wf: "wf_db db"
  shows "assign_monitor_to_agent_group db rlm m g = Inr (db', x) \<Longrightarrow> outside (realm_id rlm) db' = outside (realm_id rlm) db"
    and "unassign_monitor_from_agent_group db rlm m g = Inr (db', d) \<Longrightarrow> outside (realm_id rlm) db' = outside (realm_id rlm) db"
proof -
  have m: "active_group_members (db\<lparr> monitor_agent_group_assignments := xs \<rparr>) rlm g = active_group_members db rlm g" for xs
    by (simp add: active_group_members_def agent_active_def find_agent_def)
  have b: "agent_configuration_states db2 = agent_configuration_states db \<Longrightarrow>
      outside (realm_id rlm) (bump_configuration_revisions (active_group_members db rlm g) (realm_id rlm) db2) = outside (realm_id rlm) db2" for db2
    by (rule outside_bump [OF wf members_in_realm [OF wf]])
  show "assign_monitor_to_agent_group db rlm m g = Inr (db', x) \<Longrightarrow> outside (realm_id rlm) db' = outside (realm_id rlm) db"
    by (auto simp: assign_monitor_to_agent_group_def Let_def b m split: option.splits if_splits) (auto simp: outside_def intro!: filter_update_rows_kept filter_delete_rows_other)
  show "unassign_monitor_from_agent_group db rlm m g = Inr (db', d) \<Longrightarrow> outside (realm_id rlm) db' = outside (realm_id rlm) db"
    by (auto simp: unassign_monitor_from_agent_group_def Let_def b split: if_splits) (auto simp: outside_def intro!: filter_update_rows_kept filter_delete_rows_other)
qed

lemmas same_rows = filter_update_rows_kept filter_delete_rows_other

lemma add_target_outside:
  "add_target_to_group db rlm g t = Inr (db', x) \<Longrightarrow> outside (realm_id rlm) db' = outside (realm_id rlm) db"
  by (auto simp: add_target_to_group_def Let_def outside_def split: option.splits)

lemma archive_target_outside:
  assumes wf: "wf_db db" and t: "t \<in> set (targets db)" and x: "archive_target db now rlm t = Inr db'"
  shows "outside (realm_id rlm) db' = outside (realm_id rlm) db"
proof (cases "target_archived_at t = None")
  case True
  define db1 where "db1 = db\<lparr> targets := update_rows (\<lambda>x. target_id x = target_id t)
    (\<lambda>x. x\<lparr> target_enabled := False, target_archived_at := Some now \<rparr>) (targets db) \<rparr>"
  define hit where "hit = (\<lambda>m :: monitor. monitor_realm m = realm_id rlm \<and> monitor_target m = target_id t \<and> monitor_archived_at m = None)"
  define db2 where "db2 = db1\<lparr> monitors := update_rows hit (\<lambda>m. m\<lparr> monitor_enabled := False, monitor_archived_at := Some now \<rparr>) (monitors db1) \<rparr>"
  have r: "target_realm t = realm_id rlm"
    and db': "db' = bump_configuration_revisions (concat (map (effective_agent_ids db1) (filter hit (monitors db1)))) (realm_id rlm) db2"
    using x True by (auto simp: archive_target_def Let_def db1_def hit_def db2_def)
  have e: "effective_agent_ids db1 m = effective_agent_ids db m" for m
    by (simp add: db1_def effective_agent_ids_def model_defs)
  have u: "target_realm x = realm_id rlm" if "x \<in> set (targets db)" "target_id x = target_id t" for x
    using distinct_key_inj [of target_id "targets db" x t] wf_dbD(1) [OF wf] that t r by (auto simp: unique_ids_def)
  have "outside (realm_id rlm) db' = outside (realm_id rlm) db2"
    unfolding db'
  proof (rule outside_bump [OF wf])
    show "agent_configuration_states db2 = agent_configuration_states db" by (simp add: db2_def db1_def)
    fix a
    assume "a \<in> set (concat (map (effective_agent_ids db1) (filter hit (monitors db1))))"
    then obtain m where "hit m" and m: "a \<in> set (effective_agent_ids db m)" by (auto simp: e)
    with effective_in_realm [OF wf m] show "in_realm_agent db (realm_id rlm) a" by (simp add: hit_def)
  qed
  also have "\<dots> = outside (realm_id rlm) db"
    using u by (auto simp: db2_def db1_def hit_def outside_def intro!: same_rows)
  finally show ?thesis .
qed (use x in \<open>simp add: archive_target_def\<close>)

lemma update_monitor_behavior_outside:
  assumes wf: "wf_db db" and m: "m \<in> set (monitors db)"
    and x: "update_monitor_behavior db m rlm t pt iv to c = Inr (db', m')"
  shows "outside (realm_id rlm) db' = outside (realm_id rlm) db"
  using x
proof (cases rule: update_monitor_behavior_cases)
  case (changed db1)
  have e: "effective_agent_ids db1 m' = effective_agent_ids db m'"
    by (simp add: changed(1) effective_agent_ids_def model_defs)
  have u: "monitor_realm x = realm_id rlm" if "x \<in> set (monitors db)" "monitor_id x = monitor_id m" for x
    using distinct_key_inj [of monitor_id "monitors db" x m] wf_dbD(1) [OF wf] that m changed(7) by (auto simp: unique_ids_def)
  have "outside (realm_id rlm) db' = outside (realm_id rlm) db1"
    unfolding changed(2) using effective_in_realm [OF wf, of _ m'] changed(4,7)
    by (intro outside_bump [OF wf]) (simp_all add: e changed(1) [symmetric], simp add: changed(1))
  also have "\<dots> = outside (realm_id rlm) db"
    using u by (auto simp: changed(1) outside_def behavior_row_def intro!: same_rows)
  finally show ?thesis .
qed simp

lemma update_monitor_outside:
  assumes wf: "wf_db db" and x: "update_monitor db rlm i p = Inr (db', m)"
  shows "outside (realm_id rlm) db' = outside (realm_id rlm) db"
proof -
  obtain m0 t db1 m1 where "m0 \<in> set (monitors db)"
    "update_monitor_behavior db m0 rlm t (mp_probe_type p) (mp_interval_seconds p) (mp_timeout_seconds p) (mp_configuration p) = Inr (db1, m1)"
    and r: "rename_monitor db1 rlm m1 (strip (mp_name p)) (stripped_description (mp_description p)) = (db', m)"
    using x by (auto simp: update_monitor_def Let_def split: option.splits dest!: found_row)
  then have "outside (realm_id rlm) db1 = outside (realm_id rlm) db" using update_monitor_behavior_outside [OF wf] by blast
  moreover have "outside (realm_id rlm) db' = outside (realm_id rlm) db1"
    using r by (auto simp: rename_monitor_def outside_def split: if_splits intro!: same_rows)
  ultimately show ?thesis by simp
qed

section \<open>User endpoints\<close>

lemma creations_outside:
  "create_agent db rlm ap i = Inr (db', a) \<Longrightarrow> outside (realm_id rlm) db' = outside (realm_id rlm) db"
  "create_target db rlm tp i = Inr (db', t) \<Longrightarrow> outside (realm_id rlm) db' = outside (realm_id rlm) db"
  "create_agent_group db rlm gp i = Inr (db', g) \<Longrightarrow> outside (realm_id rlm) db' = outside (realm_id rlm) db"
  "create_target_group db rlm tgp i = Inr (db', tg) \<Longrightarrow> outside (realm_id rlm) db' = outside (realm_id rlm) db"
  by (auto simp: create_agent_def create_target_def create_agent_group_def create_target_group_def outside_def Let_def)

lemma create_monitor_outside:
  assumes "create_monitor_endpoint db rlm p i = Inr (db', m)"
  shows "outside (realm_id rlm) db' = outside (realm_id rlm) db"
proof -
  obtain t n pt iv to c d where "create_monitor db i rlm t n pt iv to c d = Inr (db', m)"
    using assms by (auto simp: create_monitor_endpoint_def split: option.splits)
  from create_monitor_Inr(1,3) [OF this] show ?thesis by (simp add: outside_def)
qed

lemma tokens_outside:
  "create_agent_enrolment_token h ttl db now rlm aid i raw = Inr (db', n, r) \<Longrightarrow> outside (realm_id rlm) db' = outside (realm_id rlm) db"
  "delete_agent_enrolment_token db now rlm aid tid = Inr (db', n, r) \<Longrightarrow> outside (realm_id rlm) db' = outside (realm_id rlm) db"
  "delete_agent_credential db now rlm aid cid = Inr (db', n, r) \<Longrightarrow> outside (realm_id rlm) db' = outside (realm_id rlm) db"
  by (auto simp: create_agent_enrolment_token_def delete_agent_enrolment_token_def delete_agent_credential_def
      issue_enrolment_token_def revoke_enrolment_token_def revoke_credential_def outside_def Let_def
      split: option.splits sum.splits prod.splits bool.splits intro!: same_rows)

lemma relationship_endpoints_outside:
  assumes wf: "wf_db db"
  shows "create_agent_group_membership db rlm gid aid = Inr (db', x1) \<Longrightarrow> outside (realm_id rlm) db' = outside (realm_id rlm) db"
    and "delete_agent_group_membership db rlm gid aid = Inr db' \<Longrightarrow> outside (realm_id rlm) db' = outside (realm_id rlm) db"
    and "create_target_group_membership db rlm gid tid = Inr (db', x2) \<Longrightarrow> outside (realm_id rlm) db' = outside (realm_id rlm) db"
    and "delete_target_group_membership db rlm gid tid = Inr db' \<Longrightarrow> outside (realm_id rlm) db' = outside (realm_id rlm) db"
    and "create_monitor_agent_assignment db rlm mid aid = Inr (db', x3) \<Longrightarrow> outside (realm_id rlm) db' = outside (realm_id rlm) db"
    and "delete_monitor_agent_assignment db rlm mid aid = Inr db' \<Longrightarrow> outside (realm_id rlm) db' = outside (realm_id rlm) db"
    and "create_monitor_agent_group_assignment db rlm mid gid = Inr (db', x4) \<Longrightarrow> outside (realm_id rlm) db' = outside (realm_id rlm) db"
    and "delete_monitor_agent_group_assignment db rlm mid gid = Inr db' \<Longrightarrow> outside (realm_id rlm) db' = outside (realm_id rlm) db"
    and "delete_target db now rlm tid = Inr db' \<Longrightarrow> outside (realm_id rlm) db' = outside (realm_id rlm) db"
proof -
  show "delete_target_group_membership db rlm gid tid = Inr db' \<Longrightarrow> outside (realm_id rlm) db' = outside (realm_id rlm) db"
    by (auto simp: delete_target_group_membership_def Let_def outside_def intro!: same_rows)
qed (auto simp: create_agent_group_membership_def delete_agent_group_membership_def create_target_group_membership_def
      create_monitor_agent_assignment_def delete_monitor_agent_assignment_def
      create_monitor_agent_group_assignment_def delete_monitor_agent_group_assignment_def delete_target_def
      split: option.splits dest!: found_in found_row
      intro: relationships_outside [OF wf] group_assignments_outside [OF wf] add_target_outside archive_target_outside [OF wf])

lemma run_endpoint_outside:
  assumes "run_endpoint env db now rlm r = Inr (db', n, resp)" and wf: "wf_db db"
  shows "outside (realm_id rlm) db' = outside (realm_id rlm) db"
  using assms(1) by (cases r) (auto simp: reading_def answering_def answering_nothing_def
      intro: creations_outside create_monitor_outside tokens_outside relationship_endpoints_outside [OF wf] update_monitor_outside [OF wf])

lemma run_endpoint_reads:
  "run_endpoint env db now rlm r = Inr (db', n, resp) \<Longrightarrow> required_permission r = MONITORING_READ \<Longrightarrow> db' = db"
  by (cases r) (auto simp: reading_def)

lemma required_permission_cases: "required_permission r = MONITORING_READ \<or> required_permission r = MONITORING_MANAGE"
  by (cases r) simp_all

section \<open>Answers\<close>

text \<open>The realms of the rows an answer shows.\<close>

fun response_realms :: "monitoring_response \<Rightarrow> uuid list" where
  "response_realms (Agents xs) = map agent_realm xs"
| "response_realms (Targets xs) = map target_realm xs"
| "response_realms (Monitors xs) = map monitor_realm xs"
| "response_realms (AgentGroups xs) = map agent_group_realm xs"
| "response_realms (TargetGroups xs) = map target_group_realm xs"
| "response_realms (Credentials xs) = map credential_realm xs"
| "response_realms (Status st) = (case as_state st of None \<Rightarrow> [] | Some op \<Rightarrow> [op_realm op])"
| "response_realms (EnrolmentToken _ _ _ _) = []"
| "response_realms (AgentMemberships xs) = map agm_realm xs"
| "response_realms (TargetMemberships xs) = map tgm_realm xs"
| "response_realms (AgentAssignments xs) = map maa_realm xs"
| "response_realms (GroupAssignments xs) = map mga_realm xs"
| "response_realms NoContent = []"

lemma found_satisfies: "find P t = Some r \<Longrightarrow> P r"
  using find_Some_iff_in by fastforce

lemma created_in_realm:
  "create_agent db rlm ap i = Inr (db', a) \<Longrightarrow> agent_realm a = realm_id rlm"
  "create_target db rlm tp i = Inr (db', t) \<Longrightarrow> target_realm t = realm_id rlm"
  "create_agent_group db rlm gp i = Inr (db', g) \<Longrightarrow> agent_group_realm g = realm_id rlm"
  "create_target_group db rlm tgp i = Inr (db', tg) \<Longrightarrow> target_group_realm tg = realm_id rlm"
  "create_monitor_endpoint db rlm mp i = Inr (db', m) \<Longrightarrow> monitor_realm m = realm_id rlm"
  by (auto simp: create_agent_def create_target_def create_agent_group_def create_target_group_def create_monitor_endpoint_def
      Let_def dest: create_monitor_Inr(3) split: option.splits)

lemma relation_in_realm:
  "add_agent_to_group db rlm g a = Inr (db', x1) \<Longrightarrow> agm_realm x1 = realm_id rlm"
  "add_target_to_group db rlm tg t = Inr (db', x2) \<Longrightarrow> tgm_realm x2 = realm_id rlm"
  "assign_monitor_to_agent db rlm m a = Inr (db', x3) \<Longrightarrow> maa_realm x3 = realm_id rlm"
  "assign_monitor_to_agent_group db rlm m g = Inr (db', x4) \<Longrightarrow> mga_realm x4 = realm_id rlm"
  by (auto simp: add_agent_to_group_def add_target_to_group_def assign_monitor_to_agent_def
      assign_monitor_to_agent_group_def Let_def split: option.splits if_splits dest: found_satisfies)

lemma related_in_realm:
  "create_agent_group_membership db rlm gid aid = Inr (db', x1) \<Longrightarrow> agm_realm x1 = realm_id rlm"
  "create_target_group_membership db rlm gid tid = Inr (db', x2) \<Longrightarrow> tgm_realm x2 = realm_id rlm"
  "create_monitor_agent_assignment db rlm mid aid = Inr (db', x3) \<Longrightarrow> maa_realm x3 = realm_id rlm"
  "create_monitor_agent_group_assignment db rlm mid gid = Inr (db', x4) \<Longrightarrow> mga_realm x4 = realm_id rlm"
  by (auto simp: create_agent_group_membership_def create_target_group_membership_def create_monitor_agent_assignment_def
      create_monitor_agent_group_assignment_def dest: relation_in_realm)

lemma update_monitor_in_realm:
  assumes "update_monitor db rlm i p = Inr (db', m)"
  shows "monitor_realm m = realm_id rlm"
proof -
  obtain m0 t db1 m1 where m0: "monitor_realm m0 = realm_id rlm"
    and b: "update_monitor_behavior db m0 rlm t (mp_probe_type p) (mp_interval_seconds p) (mp_timeout_seconds p) (mp_configuration p) = Inr (db1, m1)"
    and r: "rename_monitor db1 rlm m1 (strip (mp_name p)) (stripped_description (mp_description p)) = (db', m)"
    using assms by (auto simp: update_monitor_def Let_def split: option.splits dest!: found_satisfies)
  have "monitor_realm m1 = realm_id rlm" using b m0 by (cases rule: update_monitor_behavior_cases) simp_all
  then show ?thesis using r by (auto simp: rename_monitor_def split: if_splits)
qed

lemma run_endpoint_answer:
  assumes "run_endpoint env db now rlm r = Inr (db', n, resp)"
  shows "set (response_realms resp) \<subseteq> {realm_id rlm}"
proof (cases r)
  case (GetAgentStatus aid)
  then show ?thesis using assms
    by (auto simp: reading_def get_agent_status_def Let_def bind_eq_Some_conv split: option.splits if_splits)
next
  case (GetMonitor mid)
  then show ?thesis using assms by (auto simp: reading_def get_monitor_def split: option.splits dest: found_satisfies)
qed (use assms in \<open>auto simp: reading_def answering_def answering_nothing_def list_agents_def list_targets_def list_monitors_def
    list_agent_groups_def list_target_groups_def list_agent_credentials_def list_agent_group_memberships_def
    list_target_group_memberships_def list_monitor_agent_assignments_def list_monitor_agent_group_assignments_def
    create_agent_enrolment_token_def delete_agent_enrolment_token_def delete_agent_credential_def
    split: option.splits sum.splits prod.splits bool.splits
    dest: created_in_realm related_in_realm update_monitor_in_realm\<close>)

section \<open>Agents write their own rows\<close>

text \<open>Everything but the rows of one agent; of credentials, everything but the time of last use.\<close>

definition others :: "uuid \<Rightarrow> monitoring_db \<Rightarrow> monitoring_db" where
  "others a db = db\<lparr> agent_credentials := map (\<lambda>c. c\<lparr> credential_last_used_at := None \<rparr>) (agent_credentials db),
     agent_operational_states := (agent_operational_states db)(a := None),
     agent_configuration_states := (agent_configuration_states db)(a := None),
     agent_configuration_snapshots := filter (\<lambda>s. snapshot_agent s \<noteq> a) (agent_configuration_snapshots db) \<rparr>"

lemma authenticate_others:
  assumes "authenticate_agent h rs db now header = Inr (db', az)"
  shows "others a db' = others a db"
  using assms by (rule authenticate_Inr) (simp add: others_def update_rows_def comp_def cong: map_cong)

lemma get_or_create_configuration_others:
  assumes x: "get_or_create_configuration digest db now rlm agt = Inr (db', res)"
  shows "others (agent_id agt) db' = others (agent_id agt) db"
proof -
  obtain st where st: "get_or_create_state db rlm agt = Inr st"
    using x by (cases "get_or_create_state db rlm agt") (simp_all add: get_or_create_configuration_def)
  obtain op where op: "agent_operational_states db (agent_id agt) = Some op" "op_realm op = realm_id rlm"
    using x by (cases "agent_operational_states db (agent_id agt)")
      (simp_all add: get_or_create_configuration_def st Let_def split: if_splits)
  obtain es where es: "build_entries (op_capabilities op) (deliverable_monitors db rlm agt) = Inr es"
    using x by (cases "build_entries (op_capabilities op) (deliverable_monitors db rlm agt)")
      (simp_all add: get_or_create_configuration_def st op Let_def)
  show ?thesis
    using x by (simp add: get_or_create_configuration_def st op es Let_def) (elim conjE, erule subst, simp add: others_def)
qed

lemma authenticated_endpoint_others:
  assumes "authenticated_endpoint aenv b now req az op = (b', answer)"
  shows "others (agent_id (auth_agent az)) (be_monitoring b') = others (agent_id (auth_agent az)) (be_monitoring b)"
proof (cases op)
  case (GetConfiguration v active h)
  then have "be_monitoring b' = be_monitoring b \<or> (\<exists>res. get_or_create_configuration (ag_digest aenv) (be_monitoring b) now
      (auth_realm az) (auth_agent az) = Inr (be_monitoring b', res))"
    using assms by (auto simp: get_configuration_def Let_def split: sum.splits if_splits)
  then show ?thesis using get_or_create_configuration_others by auto
qed (use assms in \<open>auto simp: heartbeat_def record_heartbeat_def acknowledge_agent_configuration_def others_def
      acknowledge_configuration_def upload_observations_def Let_def split: sum.splits if_splits option.splits\<close>)

lemma agent_operation_others:
  assumes "agent_handle aenv b now req (Operation op) = (b', answer)"
    and "authenticate_agent (ag_hash_token aenv) (realms (be_auth b)) (be_monitoring b) now (authorization_header req) = Inr (db1, az)"
  shows "others (agent_id (auth_agent az)) (be_monitoring b') = others (agent_id (auth_agent az)) (be_monitoring b)"
proof (cases "operation_valid op")
  case True
  then show ?thesis
    using assms authenticated_endpoint_others [of aenv "b\<lparr> be_monitoring := db1 \<rparr>" now req az op b' answer] authenticate_others [OF assms(2)]
    by simp
next
  case False
  then show ?thesis using assms authenticate_others [OF assms(2)] by auto
qed

end
