(* ===== verification/Auth_Accounts.thy ===== *)
theory Auth_Accounts
  imports Auth_Security "HOL-Library.While_Combinator" "HOL-Library.AList"
begin

text \<open>
  Accounts: \<^verbatim>\<open>auth/account_lifecycle.py\<close>, \<^verbatim>\<open>auth/two_factor.py\<close> and the endpoints of
  \<^verbatim>\<open>api/auth.py\<close> and \<^verbatim>\<open>api/two_factor.py\<close>. Parameters: the token hash, the password hash and its
  verification (\<^verbatim>\<open>pwdlib\<close>), the decryption of a stored TOTP secret (\<^verbatim>\<open>Fernet\<close>), the check of a
  TOTP code (\<^verbatim>\<open>pyotp\<close>), the random tokens and codes and the identifiers of new rows.
\<close>

section \<open>Account tokens\<close>

record crypto =
  hash_token :: "string \<Rightarrow> string"
  hash_password :: "string \<Rightarrow> string"
  verify_password :: "string \<Rightarrow> string \<Rightarrow> bool"
  decrypt_secret :: "string \<Rightarrow> string"
  totp_verify :: "string \<Rightarrow> string \<Rightarrow> datetime \<Rightarrow> bool"

definition create_account_token ::
  "crypto \<Rightarrow> auth_db \<Rightarrow> datetime \<Rightarrow> uuid \<Rightarrow> string \<Rightarrow> user \<Rightarrow> string \<Rightarrow> timedelta \<Rightarrow> http_error + auth_db" where
  "create_account_token cr db now new_id token u ctype ttl =
     (let challenges = update_rows (\<lambda>c. ch_user c = Some (user_id u) \<and> ch_type c = ctype \<and>
            ch_consumed_at c = None) (\<lambda>c. c\<lparr> ch_consumed_at := Some now \<rparr>) (authentication_challenges db)
      in bind_result (raise_if (exists_row (\<lambda>c. ch_id c = new_id \<or> ch_hash c = hash_token cr token) challenges)
           (UnhandledException ''IntegrityError'')) (\<lambda>_.
         Inr (db\<lparr> authentication_challenges := challenges @ [\<lparr> ch_id = new_id, ch_user = Some (user_id u),
           ch_type = ctype, ch_hash = hash_token cr token, ch_expires_at = now + ttl,
           ch_consumed_at = None, ch_metadata = [] \<rparr>] \<rparr>)))"

text \<open>\<^verbatim>\<open>select_related("user")\<close> on a nullable relation is an outer join.\<close>

definition challenge_user :: "auth_db \<Rightarrow> authentication_challenge \<Rightarrow> user option" where
  "challenge_user db c = Option.bind (ch_user c) (\<lambda>i. find (\<lambda>u. user_id u = i) (users db))"

definition consume_challenge :: "auth_db \<Rightarrow> datetime \<Rightarrow> authentication_challenge \<Rightarrow> auth_db" where
  "consume_challenge db now c = db\<lparr> authentication_challenges := update_rows (\<lambda>x. ch_id x = ch_id c)
     (\<lambda>x. x\<lparr> ch_consumed_at := Some now \<rparr>) (authentication_challenges db) \<rparr>"

definition consume_account_token ::
  "crypto \<Rightarrow> string \<Rightarrow> auth_db \<Rightarrow> datetime \<Rightarrow> string \<Rightarrow> unit + (auth_db \<times> user)" where
  "consume_account_token cr ctype db now token =
     (case find (\<lambda>c. ch_type c = ctype \<and> ch_hash c = hash_token cr token \<and> ch_consumed_at c = None \<and>
             ch_expires_at c > now) (authentication_challenges db) of
        None \<Rightarrow> Inl ()
      | Some c \<Rightarrow> (case challenge_user db c of
          None \<Rightarrow> Inl ()
        | Some u \<Rightarrow> if \<not> user_is_active u then Inl () else Inr (consume_challenge db now c, u)))"

record account_settings =
  email_verification_ttl_hours :: int
  password_reset_ttl_minutes :: int

definition create_verification_token ::
  "crypto \<Rightarrow> account_settings \<Rightarrow> auth_db \<Rightarrow> datetime \<Rightarrow> uuid \<Rightarrow> string \<Rightarrow> user \<Rightarrow> http_error + auth_db" where
  "create_verification_token cr st db now new_id token u =
     create_account_token cr db now new_id token u ''email_verification'' (hours (email_verification_ttl_hours st))"

definition create_password_reset_token ::
  "crypto \<Rightarrow> account_settings \<Rightarrow> auth_db \<Rightarrow> datetime \<Rightarrow> uuid \<Rightarrow> string \<Rightarrow> user \<Rightarrow> http_error + auth_db" where
  "create_password_reset_token cr st db now new_id token u =
     create_account_token cr db now new_id token u ''password_reset'' (minutes (password_reset_ttl_minutes st))"

definition verify_email_token ::
  "crypto \<Rightarrow> auth_db \<Rightarrow> datetime \<Rightarrow> string \<Rightarrow> unit + (auth_db \<times> user)" where
  "verify_email_token cr db now token =
     bind_result (consume_account_token cr ''email_verification'' db now token) (\<lambda>(db', u).
     if \<not> email_verified u
     then Inr (db'\<lparr> users := update_rows (\<lambda>x. user_id x = user_id u)
                 (\<lambda>x. x\<lparr> email_verified := True \<rparr>) (users db') \<rparr>, u\<lparr> email_verified := True \<rparr>)
     else Inr (db', u))"

definition reset_password ::
  "crypto \<Rightarrow> auth_db \<Rightarrow> datetime \<Rightarrow> string \<Rightarrow> string \<Rightarrow> unit + (auth_db \<times> user)" where
  "reset_password cr db now token password =
     bind_result (consume_account_token cr ''password_reset'' db now token) (\<lambda>(db', u).
     let u' = u\<lparr> user_password_hash := hash_password cr password, session_version := session_version u + 1 \<rparr>
     in Inr (db'\<lparr> users := update_rows (\<lambda>x. user_id x = user_id u)
               (\<lambda>x. x\<lparr> user_password_hash := user_password_hash u', session_version := session_version u' \<rparr>)
               (users db') \<rparr>, u'))"

section \<open>Two-factor authentication\<close>

definition hash_recovery_code :: "crypto \<Rightarrow> string \<Rightarrow> string" where
  "hash_recovery_code cr c = hash_token cr (filter (\<lambda>x. x \<noteq> CHR '' '') (upper (strip c)))"

definition create_totp_setup ::
  "auth_db \<Rightarrow> uuid \<Rightarrow> string \<Rightarrow> user \<Rightarrow> http_error + (auth_db \<times> two_factor_method)" where
  "create_totp_setup db new_id secret_encrypted u =
     (let methods = delete_rows (\<lambda>m. tf_user m = user_id u \<and> tf_method_type m = ''totp'' \<and> \<not> tf_is_enabled m)
            (two_factor_methods db);
          m = \<lparr> tf_id = new_id, tf_user = user_id u, tf_method_type = ''totp'',
                tf_secret_encrypted = secret_encrypted, tf_is_enabled = False, tf_verified_at = None,
                tf_last_used_at = None \<rparr>
      in bind_result (raise_if (exists_row (\<lambda>x. tf_id x = new_id \<or>
             (tf_user x = user_id u \<and> tf_method_type x = ''totp'')) methods)
           (UnhandledException ''IntegrityError'')) (\<lambda>_.
         Inr (db\<lparr> two_factor_methods := methods @ [m] \<rparr>, m)))"

definition verify_totp_setup ::
  "crypto \<Rightarrow> auth_db \<Rightarrow> datetime \<Rightarrow> user \<Rightarrow> uuid \<Rightarrow> string \<Rightarrow> (uuid \<times> string) list \<Rightarrow>
     http_error + (auth_db \<times> string list)" where
  "verify_totp_setup cr db now u method_id code new_codes =
     (case find (\<lambda>m. tf_id m = method_id \<and> tf_user m = user_id u \<and> tf_method_type m = ''totp'')
             (two_factor_methods db) of
        None \<Rightarrow> Inl (HTTPException 400 ''TOTP setup not found'')
      | Some m \<Rightarrow>
         if \<not> totp_verify cr (decrypt_secret cr (tf_secret_encrypted m)) (strip code) now
         then Inl (HTTPException 400 ''Invalid verification code'')
         else Inr (db\<lparr> two_factor_methods := update_rows (\<lambda>x. tf_id x = tf_id m)
                        (\<lambda>x. x\<lparr> tf_is_enabled := True, tf_verified_at := Some now \<rparr>) (two_factor_methods db),
                      recovery_codes := delete_rows (\<lambda>r. rc_user r = user_id u) (recovery_codes db) @
                        map (\<lambda>(i, c). \<lparr> rc_id = i, rc_user = user_id u, rc_code_hash = hash_recovery_code cr c,
                               rc_used_at = None \<rparr>) new_codes \<rparr>,
                   map snd new_codes))"

definition user_has_two_factor :: "auth_db \<Rightarrow> user \<Rightarrow> bool" where
  "user_has_two_factor db u =
     exists_row (\<lambda>m. tf_user m = user_id u \<and> tf_method_type m = ''totp'' \<and> tf_is_enabled m)
       (two_factor_methods db)"

definition use_recovery_code ::
  "crypto \<Rightarrow> user \<Rightarrow> auth_db \<Rightarrow> datetime \<Rightarrow> string \<Rightarrow> unit + (auth_db \<times> recovery_code)" where
  "use_recovery_code cr u db now code =
     (case find (\<lambda>r. rc_user r = user_id u \<and> rc_code_hash r = hash_recovery_code cr code \<and>
             rc_used_at r = None) (recovery_codes db) of
        None \<Rightarrow> Inl ()
      | Some r \<Rightarrow> Inr (db\<lparr> recovery_codes := update_rows (\<lambda>x. rc_id x = rc_id r)
                          (\<lambda>x. x\<lparr> rc_used_at := Some now \<rparr>) (recovery_codes db) \<rparr>, r))"

definition verify_two_factor ::
  "crypto \<Rightarrow> auth_db \<Rightarrow> datetime \<Rightarrow> user \<Rightarrow> string \<Rightarrow> bool \<Rightarrow> auth_db \<times> bool" where
  "verify_two_factor cr db now u code recovery =
     (if recovery then
        (case use_recovery_code cr u db now code of Inl _ \<Rightarrow> (db, False) | Inr (db', _) \<Rightarrow> (db', True))
      else
        (case find (\<lambda>m. tf_user m = user_id u \<and> tf_method_type m = ''totp'' \<and> tf_is_enabled m)
                (two_factor_methods db) of
           None \<Rightarrow> (db, False)
         | Some m \<Rightarrow>
            if totp_verify cr (decrypt_secret cr (tf_secret_encrypted m)) (strip code) now
            then (db\<lparr> two_factor_methods := update_rows (\<lambda>x. tf_id x = tf_id m)
                       (\<lambda>x. x\<lparr> tf_last_used_at := Some now \<rparr>) (two_factor_methods db) \<rparr>, True)
            else (db, False)))"

definition CHALLENGE_TTL_MINUTES :: int where "CHALLENGE_TTL_MINUTES = 5"

definition create_login_challenge ::
  "crypto \<Rightarrow> auth_db \<Rightarrow> datetime \<Rightarrow> uuid \<Rightarrow> string \<Rightarrow> user \<Rightarrow> http_error + auth_db" where
  "create_login_challenge cr db now new_id token u =
     (let challenges = delete_rows (\<lambda>c. ch_user c = Some (user_id u) \<and> ch_type c = ''two_factor_login'' \<and>
            ch_consumed_at c = None) (authentication_challenges db)
      in bind_result (raise_if (exists_row (\<lambda>c. ch_id c = new_id \<or> ch_hash c = hash_token cr token) challenges)
           (UnhandledException ''IntegrityError'')) (\<lambda>_.
         Inr (db\<lparr> authentication_challenges := challenges @ [\<lparr> ch_id = new_id, ch_user = Some (user_id u),
           ch_type = ''two_factor_login'', ch_hash = hash_token cr token,
           ch_expires_at = now + minutes CHALLENGE_TTL_MINUTES,
           ch_consumed_at = None, ch_metadata = [] \<rparr>] \<rparr>)))"

definition consume_login_challenge ::
  "crypto \<Rightarrow> auth_db \<Rightarrow> datetime \<Rightarrow> string \<Rightarrow> unit + (auth_db \<times> user)" where
  "consume_login_challenge cr db now token =
     (case find (\<lambda>c. ch_type c = ''two_factor_login'' \<and> ch_hash c = hash_token cr token \<and>
             ch_consumed_at c = None) (authentication_challenges db) of
        None \<Rightarrow> Inl ()
      | Some c \<Rightarrow> if ch_expires_at c \<le> now then Inl () else
         (case challenge_user db c of None \<Rightarrow> Inl ()
          | Some u \<Rightarrow> Inr (consume_challenge db now c, u)))"

section \<open>Realm slugs\<close>

definition slug_char :: "char \<Rightarrow> bool" where
  "slug_char c \<longleftrightarrow> is_lower_ascii c \<or> is_digit_ascii c"

text \<open>\<^verbatim>\<open>re.sub(r"[^a-z0-9]+", "-", s)\<close>: every maximal run of other characters becomes one hyphen.
  The flag says whether the previous character was in such a run.\<close>

fun hyphenate :: "bool \<Rightarrow> string \<Rightarrow> string" where
  "hyphenate in_run [] = []"
| "hyphenate in_run (c # cs) =
     (if slug_char c then c # hyphenate False cs
      else if in_run then hyphenate True cs else CHR ''-'' # hyphenate True cs)"

definition slugify :: "string \<Rightarrow> string" where
  "slugify s = (let v = strip_on (\<lambda>c. c = CHR ''-'') (hyphenate False (lower (strip s)))
     in if v = '''' then ''realm'' else v)"

definition slug_candidate :: "string \<Rightarrow> nat \<Rightarrow> string" where
  "slug_candidate base n = base @ ''-'' @ dec n"

text \<open>The loop \<^verbatim>\<open>while await Realm.filter(slug=slug).exists()\<close> of sign-up and of the superuser
  command; \<^const>\<open>while_option\<close> is \<open>None\<close> where a loop does not end.\<close>

definition unique_slug :: "realm list \<Rightarrow> string \<Rightarrow> string option" where
  "unique_slug rs base =
     map_option fst (while_option (\<lambda>(slug, counter). exists_row (\<lambda>r. realm_slug r = slug) rs)
       (\<lambda>(slug, counter). (slug_candidate base counter, counter + 1)) (base, 2))"

section \<open>Endpoints\<close>

record account_mail =
  mail_to :: string
  mail_subject :: string
  mail_path :: string
  mail_token :: string

record realm_summary =
  summary_id :: uuid
  summary_name :: string
  summary_slug :: string
  summary_role :: string

record user_response =
  ur_id :: uuid
  ur_email :: string
  ur_full_name :: string
  ur_email_verified :: bool
  ur_is_superuser :: bool
  ur_active_realm_id :: "uuid option"
  ur_realms :: "realm_summary list"

definition summary_of :: "realm \<Rightarrow> string \<Rightarrow> realm_summary" where
  "summary_of r role = \<lparr> summary_id = realm_id r, summary_name = realm_name r,
     summary_slug = realm_slug r, summary_role = role \<rparr>"

text \<open>The dictionary of realms in insertion order; \<^verbatim>\<open>setdefault\<close> keeps an entry already there.\<close>

definition serialize_user :: "auth_db \<Rightarrow> user \<Rightarrow> session_data option \<Rightarrow> user_response" where
  "serialize_user db u s =
     (let joined = List.map_filter (\<lambda>m. map_option (\<lambda>r. (m, r))
            (find (\<lambda>r. realm_id r = membership_realm m) (realms db)))
            (filter (\<lambda>m. membership_user m = user_id u) (realm_memberships db));
          own = fold (\<lambda>(m, r). AList.update (realm_id r) (summary_of r (membership_role m))) joined [];
          all = (if is_superuser u
                 then fold (\<lambda>r d. if map_of d (realm_id r) = None
                        then d @ [(realm_id r, summary_of r ''superuser'')] else d)
                        (sort_key realm_name (filter realm_is_active (realms db))) own
                 else own)
      in \<lparr> ur_id = user_id u, ur_email = email u, ur_full_name = full_name u,
           ur_email_verified = email_verified u, ur_is_superuser = is_superuser u,
           ur_active_realm_id = (case s of None \<Rightarrow> None | Some x \<Rightarrow> active_realm_id x),
           ur_realms = map snd all \<rparr>)"

record signup_request =
  su_email :: string
  su_password :: string
  su_first_name :: string
  su_last_name :: string
  su_realm_name :: "string option"

text \<open>The random values and new identifiers one sign-up draws.\<close>

record signup_draws =
  new_user_id :: uuid
  new_realm_id :: uuid
  new_membership_id :: uuid
  new_challenge_id :: uuid
  new_account_token :: string
  new_session_token :: string

definition signup_user :: "crypto \<Rightarrow> signup_request \<Rightarrow> uuid \<Rightarrow> user" where
  "signup_user cr p i = \<lparr> user_id = i, email = normalize_email (su_email p),
     user_password_hash = hash_password cr (su_password p), first_name = strip (su_first_name p),
     last_name = strip (su_last_name p), user_is_active = True, is_superuser = False,
     email_verified = False, session_version = 1 \<rparr>"

definition signup_realm_name :: "signup_request \<Rightarrow> string" where
  "signup_realm_name p = (case su_realm_name p of
      Some n \<Rightarrow> if n = '''' then strip (su_first_name p) @ [CHR 0x27] @ ''s Realm'' else n
    | None \<Rightarrow> strip (su_first_name p) @ [CHR 0x27] @ ''s Realm'')"

text \<open>Sign-up runs outside a transaction, so the database is returned on every path. The slug
  loop is \<open>None\<close> only if it did not end.\<close>

definition signup ::
  "crypto \<Rightarrow> session_settings \<Rightarrow> account_settings \<Rightarrow> auth_db \<Rightarrow> datetime \<Rightarrow> signup_draws \<Rightarrow> signup_request \<Rightarrow>
     http_request \<Rightarrow> (auth_db \<times> (http_error + user_response \<times> account_mail)) option" where
  "signup cr ss st db now dr p req =
     (if exists_row (\<lambda>u. email u = normalize_email (su_email p)) (users db)
      then Some (db, Inl (HTTPException 409 ''An account already exists for that email'')) else
      let u = signup_user cr p (new_user_id dr) in
      if exists_row (\<lambda>x. user_id x = user_id u) (users db)
      then Some (db, Inl (UnhandledException ''IntegrityError'')) else
      let db1 = db\<lparr> users := users db @ [u] \<rparr>;
          name = signup_realm_name p in
      (case unique_slug (realms db1) (slugify name) of
         None \<Rightarrow> None
       | Some slug \<Rightarrow>
          if exists_row (\<lambda>x. realm_id x = new_realm_id dr) (realms db1)
          then Some (db1, Inl (UnhandledException ''IntegrityError'')) else
          let r = \<lparr> realm_id = new_realm_id dr, realm_name = name, realm_slug = slug,
                    realm_is_active = True, realm_created_at = now \<rparr>;
              m = \<lparr> membership_id = new_membership_id dr, membership_user = user_id u,
                    membership_realm = realm_id r, membership_role = ''owner'' \<rparr>;
              db2 = db1\<lparr> realms := realms db1 @ [r], realm_memberships := realm_memberships db1 @ [m] \<rparr>
          in (case create_verification_token cr st db2 now (new_challenge_id dr) (new_account_token dr) u of
                Inl e \<Rightarrow> Some (db2, Inl e)
              | Inr db3 \<Rightarrow>
                  let (db4, s) = create_session (hash_token cr) ss db3 now (new_session_token dr) u req ''password''
                  in Some (db4, Inr (serialize_user db4 u (Some s),
                       \<lparr> mail_to = email u, mail_subject = ''Verify your BifrostNMS email'',
                         mail_path = ''/verify-email'', mail_token = new_account_token dr \<rparr>)))))"

definition request_email_verification ::
  "crypto \<Rightarrow> session_settings \<Rightarrow> account_settings \<Rightarrow> auth_db \<Rightarrow> datetime \<Rightarrow> uuid \<Rightarrow> string \<Rightarrow> http_request \<Rightarrow>
     auth_db \<times> (http_error + account_mail option)" where
  "request_email_verification cr ss st db now new_id token req =
     (case get_session_user (hash_token cr) ss db now req of
        (db', Inl e) \<Rightarrow> (db', Inl e)
      | (db', Inr (u, s)) \<Rightarrow>
         if email_verified u then (db', Inr None) else
         (case create_verification_token cr st db' now new_id token u of
            Inl e \<Rightarrow> (db', Inl e)
          | Inr db'' \<Rightarrow> (db'', Inr (Some \<lparr> mail_to = email u,
              mail_subject = ''Verify your BifrostNMS email'', mail_path = ''/verify-email'',
              mail_token = token \<rparr>))))"

definition confirm_email_verification ::
  "crypto \<Rightarrow> auth_db \<Rightarrow> datetime \<Rightarrow> string \<Rightarrow> http_error + auth_db" where
  "confirm_email_verification cr db now token = (case verify_email_token cr db now token of
      Inl _ \<Rightarrow> Inl (HTTPException 400 ''Invalid or expired token'')
    | Inr (db', u) \<Rightarrow> Inr db')"

definition forgot_password ::
  "crypto \<Rightarrow> account_settings \<Rightarrow> auth_db \<Rightarrow> datetime \<Rightarrow> uuid \<Rightarrow> string \<Rightarrow> string \<Rightarrow>
     http_error + (auth_db \<times> account_mail option)" where
  "forgot_password cr st db now new_id token address =
     (case find (\<lambda>u. email u = normalize_email address \<and> user_is_active u) (users db) of
        None \<Rightarrow> Inr (db, None)
      | Some u \<Rightarrow> bind_result (create_password_reset_token cr st db now new_id token u) (\<lambda>db'.
          Inr (db', Some \<lparr> mail_to = email u, mail_subject = ''Reset your BifrostNMS password'',
                          mail_path = ''/reset-password'', mail_token = token \<rparr>)))"

definition confirm_password_reset ::
  "crypto \<Rightarrow> auth_db \<Rightarrow> datetime \<Rightarrow> string \<Rightarrow> string \<Rightarrow> http_error + auth_db" where
  "confirm_password_reset cr db now token password = (case reset_password cr db now token password of
      Inl _ \<Rightarrow> Inl (HTTPException 400 ''Invalid or expired token'')
    | Inr (db', u) \<Rightarrow> Inr db')"

datatype login_response = LoggedIn user_response session_data | RequiresTwoFactor string

definition login ::
  "crypto \<Rightarrow> session_settings \<Rightarrow> auth_db \<Rightarrow> datetime \<Rightarrow> uuid \<Rightarrow> string \<Rightarrow> string \<Rightarrow> string \<Rightarrow> string \<Rightarrow>
     http_request \<Rightarrow> http_error + (auth_db \<times> login_response)" where
  "login cr ss db now new_id challenge_token session_token address password req =
     (case find (\<lambda>u. email u = normalize_email address) (users db) of
        None \<Rightarrow> Inl (HTTPException 401 ''Invalid email or password'')
      | Some u \<Rightarrow>
         if \<not> verify_password cr password (user_password_hash u)
         then Inl (HTTPException 401 ''Invalid email or password'')
         else if \<not> user_is_active u then Inl (HTTPException 403 ''Account is disabled'')
         else if user_has_two_factor db u then
           bind_result (create_login_challenge cr db now new_id challenge_token u) (\<lambda>db'.
           Inr (db', RequiresTwoFactor challenge_token))
         else
           let (db', s) = create_session (hash_token cr) ss db now session_token u req ''password''
           in Inr (db', LoggedIn (serialize_user db' u (Some s)) s))"

text \<open>A challenge is consumed before the code is checked, so it is spent even by a wrong code.\<close>

definition verify_login_challenge ::
  "crypto \<Rightarrow> session_settings \<Rightarrow> auth_db \<Rightarrow> datetime \<Rightarrow> string \<Rightarrow> string \<Rightarrow> string \<Rightarrow> bool \<Rightarrow> http_request \<Rightarrow>
     auth_db \<times> (http_error + user_response \<times> session_data)" where
  "verify_login_challenge cr ss db now session_token challenge_token code recovery req =
     (case consume_login_challenge cr db now challenge_token of
        Inl _ \<Rightarrow> (db, Inl (HTTPException 401 ''2FA challenge expired''))
      | Inr (db1, u) \<Rightarrow>
         (case verify_two_factor cr db1 now u code recovery of
            (db2, False) \<Rightarrow> (db2, Inl (HTTPException 401 ''Invalid verification code''))
          | (db2, True) \<Rightarrow>
             let (db3, s) = create_session (hash_token cr) ss db2 now session_token u req ''password+2fa''
             in (db3, Inr (serialize_user db3 u (Some s), s))))"

definition disable_totp ::
  "crypto \<Rightarrow> session_settings \<Rightarrow> auth_db \<Rightarrow> datetime \<Rightarrow> http_request \<Rightarrow> auth_db \<times> (http_error + unit)" where
  "disable_totp cr ss db now req = (case get_session_user (hash_token cr) ss db now req of
      (db', Inl e) \<Rightarrow> (db', Inl e)
    | (db', Inr (u, s)) \<Rightarrow>
       (db'\<lparr> two_factor_methods := delete_rows (\<lambda>m. tf_user m = user_id u \<and> tf_method_type m = ''totp'')
               (two_factor_methods db'),
             recovery_codes := delete_rows (\<lambda>r. rc_user r = user_id u) (recovery_codes db') \<rparr>, Inr ()))"

definition activate_realm ::
  "crypto \<Rightarrow> session_settings \<Rightarrow> auth_db \<Rightarrow> datetime \<Rightarrow> http_request \<Rightarrow> uuid \<Rightarrow>
     auth_db \<times> (http_error + user_response)" where
  "activate_realm cr ss db now req rid = (case get_session_user (hash_token cr) ss db now req of
      (db', Inl e) \<Rightarrow> (db', Inl e)
    | (db', Inr (u, s)) \<Rightarrow>
       (case (if is_superuser u then find (\<lambda>r. realm_id r = rid \<and> realm_is_active r) (realms db')
              else Option.bind (find (\<lambda>m. membership_user m = user_id u \<and> membership_realm m = rid)
                     (realm_memberships db'))
                   (\<lambda>m. find (\<lambda>r. realm_id r = membership_realm m) (realms db'))) of
          None \<Rightarrow> (db', Inl (HTTPException 404 ''Realm not found''))
        | Some r \<Rightarrow>
           let (db'', s') = set_active_realm ss db' now s (realm_id r)
           in (db'', Inr (serialize_user db'' u (Some s')))))"

text \<open>Signing out drops the session whether or not it is still valid.\<close>

definition logout :: "crypto \<Rightarrow> session_settings \<Rightarrow> auth_db \<Rightarrow> http_request \<Rightarrow> auth_db" where
  "logout cr ss db req = delete_session (hash_token cr) ss db req"

definition me ::
  "crypto \<Rightarrow> session_settings \<Rightarrow> auth_db \<Rightarrow> datetime \<Rightarrow> http_request \<Rightarrow> auth_db \<times> (http_error + user_response)" where
  "me cr ss db now req = (case get_session_user (hash_token cr) ss db now req of
      (db', Inl e) \<Rightarrow> (db', Inl e)
    | (db', Inr (u, s)) \<Rightarrow> (db', Inr (serialize_user db' u (Some s))))"

text \<open>The random secret, its encryption and the provisioning address are drawn by libraries.\<close>

definition setup_totp ::
  "crypto \<Rightarrow> session_settings \<Rightarrow> auth_db \<Rightarrow> datetime \<Rightarrow> uuid \<Rightarrow> string \<Rightarrow> (string \<Rightarrow> string) \<Rightarrow>
     (string \<Rightarrow> string \<Rightarrow> string) \<Rightarrow> http_request \<Rightarrow> auth_db \<times> (http_error + uuid \<times> string \<times> string)" where
  "setup_totp cr ss db now new_id secret encrypt_secret provisioning_uri req =
     (case get_session_user (hash_token cr) ss db now req of
        (db', Inl e) \<Rightarrow> (db', Inl e)
      | (db', Inr (u, s)) \<Rightarrow>
         (case create_totp_setup db' new_id (encrypt_secret secret) u of
            Inl e \<Rightarrow> (db', Inl e)
          | Inr (db'', m) \<Rightarrow> (db'', Inr (tf_id m, secret, provisioning_uri secret (email u)))))"

definition totp_verify_request_valid :: "string \<Rightarrow> bool" where
  "totp_verify_request_valid code \<longleftrightarrow> 6 \<le> length code \<and> length code \<le> 8"

definition verify_totp ::
  "crypto \<Rightarrow> session_settings \<Rightarrow> auth_db \<Rightarrow> datetime \<Rightarrow> http_request \<Rightarrow> uuid \<Rightarrow> string \<Rightarrow> (uuid \<times> string) list \<Rightarrow>
     auth_db \<times> (http_error + string list)" where
  "verify_totp cr ss db now req method_id code new_codes =
     (if \<not> totp_verify_request_valid code then (db, Inl (HTTPException 422 ''code'')) else
      case get_session_user (hash_token cr) ss db now req of
        (db', Inl e) \<Rightarrow> (db', Inl e)
      | (db', Inr (u, s)) \<Rightarrow>
         (case verify_totp_setup cr db' now u method_id code new_codes of
            Inl e \<Rightarrow> (db', Inl e)
          | Inr (db'', codes) \<Rightarrow> (db'', Inr codes)))"

definition two_factor_enabled ::
  "crypto \<Rightarrow> session_settings \<Rightarrow> auth_db \<Rightarrow> datetime \<Rightarrow> http_request \<Rightarrow> auth_db \<times> (http_error + bool)" where
  "two_factor_enabled cr ss db now req = (case get_session_user (hash_token cr) ss db now req of
      (db', Inl e) \<Rightarrow> (db', Inl e)
    | (db', Inr (u, s)) \<Rightarrow> (db', Inr (user_has_two_factor db' u)))"

section \<open>Slugs\<close>

lemma slug_candidate_inject [simp]: "slug_candidate base m = slug_candidate base n \<longleftrightarrow> m = n"
  by (simp add: slug_candidate_def)

text \<open>The numbers from \<open>c - 1\<close> on whose candidate is taken: finitely many, and the loop passes one
  of them in every iteration.\<close>

lemma finite_taken_candidates: "finite {k. c \<le> k + 1 \<and> slug_candidate base k \<in> realm_slug ` set rs}"
proof -
  have "finite (slug_candidate base -` (realm_slug ` set rs))"
    by (intro finite_vimageI) (auto simp: inj_on_def)
  then show ?thesis by (rule rev_finite_subset) auto
qed

lemma slug_loop_ends:
  "\<exists>slug c'. while_option (\<lambda>(slug, counter). exists_row (\<lambda>r. realm_slug r = slug) rs)
     (\<lambda>(slug, counter). (slug_candidate base counter, counter + 1)) (slug_candidate base k, Suc k) = Some (slug, c')"
proof -
  let ?b = "\<lambda>(slug, counter). exists_row (\<lambda>r. realm_slug r = slug) rs"
  let ?c = "\<lambda>(slug, counter). (slug_candidate base counter, counter + 1)"
  let ?P = "\<lambda>(slug, counter). \<exists>j. slug = slug_candidate base j \<and> counter = Suc j"
  let ?f = "\<lambda>(slug, counter). card {j. counter \<le> j + 1 \<and> slug_candidate base j \<in> realm_slug ` set rs}"
  have "\<exists>t. while_option ?b ?c (slug_candidate base k, Suc k) = Some t"
  proof (rule measure_while_option_Some [where P = ?P and f = ?f])
    fix s assume p: "?P s" and b: "?b s"
    obtain j where s: "s = (slug_candidate base j, Suc j)" using p by (cases s) auto
    from b have "slug_candidate base j \<in> realm_slug ` set rs"
      by (auto simp: s exists_row_iff intro: rev_image_eqI)
    then have "j \<in> {i. Suc j \<le> i + 1 \<and> slug_candidate base i \<in> realm_slug ` set rs}" by simp
    moreover have "j \<notin> {i. Suc (Suc j) \<le> i + 1 \<and> slug_candidate base i \<in> realm_slug ` set rs}" by simp
    moreover have "{i. Suc (Suc j) \<le> i + 1 \<and> slug_candidate base i \<in> realm_slug ` set rs} \<subseteq>
        {i. Suc j \<le> i + 1 \<and> slug_candidate base i \<in> realm_slug ` set rs}" by auto
    ultimately have "{i. Suc (Suc j) \<le> i + 1 \<and> slug_candidate base i \<in> realm_slug ` set rs} \<subset>
        {i. Suc j \<le> i + 1 \<and> slug_candidate base i \<in> realm_slug ` set rs}" by blast
    then have "card {i. Suc (Suc j) \<le> i + 1 \<and> slug_candidate base i \<in> realm_slug ` set rs} <
        card {i. Suc j \<le> i + 1 \<and> slug_candidate base i \<in> realm_slug ` set rs}"
      by (intro psubset_card_mono finite_taken_candidates)
    then show "?P (?c s) \<and> ?f (?c s) < ?f s" by (auto simp: s)
  qed simp
  then show ?thesis by auto
qed

text \<open>The slug loop of sign-up and of the superuser command always ends, and the slug it
  ends with is used by no realm.\<close>

theorem unique_slug_terminates:
  "\<exists>slug. unique_slug rs base = Some slug \<and> \<not> exists_row (\<lambda>r. realm_slug r = slug) rs"
proof -
  let ?b = "\<lambda>(slug, counter). exists_row (\<lambda>r. realm_slug r = slug) rs"
  let ?c = "\<lambda>(slug, counter). (slug_candidate base counter, counter + 1)"
  have "\<exists>t. while_option ?b ?c (base, 2) = Some t"
  proof (cases "?b (base, 2)")
    case True
    then have "while_option ?b ?c (base, 2) = while_option ?b ?c (slug_candidate base 2, Suc 2)"
      by (subst while_option_unfold) (simp add: numeral_3_eq_3 numeral_2_eq_2)
    then show ?thesis using slug_loop_ends by metis
  qed (subst while_option_unfold, simp)
  then obtain t where t: "while_option ?b ?c (base, 2) = Some t" by blast
  then have "\<not> ?b t" by (rule while_option_stop)
  then show ?thesis using t by (auto simp: unique_slug_def split: prod.splits)
qed

lemma hyphenate_chars: "c \<in> set (hyphenate b s) \<Longrightarrow> slug_char c \<or> c = CHR ''-''"
  by (induction b s rule: hyphenate.induct) (auto split: if_splits)

lemma strip_on_ends:
  assumes "strip_on P s \<noteq> []"
  shows "\<not> P (hd (strip_on P s))" and "\<not> P (last (strip_on P s))"
proof -
  let ?t = "dropWhile P s"
  show "\<not> P (last (strip_on P s))"
    using assms last_rstrip_on [of P ?t] by (simp add: strip_on_def)
  have "dropWhile P ?t = ?t" by simp
  then have "dropWhile P (strip_on P s) = strip_on P s"
    unfolding strip_on_def by (rule dropWhile_rstrip_on)
  then show "\<not> P (hd (strip_on P s))" using assms by (metis hd_dropWhile)
qed

text \<open>A slug is never empty, consists of lower-case letters, digits and hyphens, and neither
  starts nor ends with a hyphen.\<close>

theorem slugify_well_formed:
  "slugify s \<noteq> '''' \<and> (\<forall>c \<in> set (slugify s). slug_char c \<or> c = CHR ''-'') \<and>
   hd (slugify s) \<noteq> CHR ''-'' \<and> last (slugify s) \<noteq> CHR ''-''"
proof (cases "strip_on (\<lambda>c. c = CHR ''-'') (hyphenate False (lower (strip s))) = []")
  case True
  then have "slugify s = ''realm''" by (simp add: slugify_def)
  moreover have "list_all slug_char ''realm''" by code_simp
  ultimately show ?thesis by (simp add: list_all_iff)
next
  case False
  then have e: "slugify s = strip_on (\<lambda>c. c = CHR ''-'') (hyphenate False (lower (strip s)))"
    by (simp add: slugify_def)
  have "slug_char c \<or> c = CHR ''-''" if "c \<in> set (slugify s)" for c
    using that set_strip_on hyphenate_chars unfolding e by blast
  then show ?thesis using False strip_on_ends [OF False] unfolding e by blast
qed

theorem slugify_well_formed_witness:
  "slugify '' My Realm! 2'' = ''my-realm-2'' \<and> hd (slugify '' My Realm! 2'') \<noteq> CHR ''-''"
proof -
  have "slugify '' My Realm! 2'' = ''my-realm-2''" by code_simp
  with slugify_well_formed [of "'' My Realm! 2''"] show ?thesis by simp
qed

section \<open>Secrets of an account are used once\<close>

definition unique_challenge_hashes :: "auth_db \<Rightarrow> bool" where
  "unique_challenge_hashes db \<longleftrightarrow> distinct (map ch_hash (authentication_challenges db))"

definition challenge_spent :: "string \<Rightarrow> auth_db \<Rightarrow> string \<Rightarrow> bool" where
  "challenge_spent ctype db h \<longleftrightarrow> list_all (\<lambda>c. \<not> (ch_type c = ctype \<and> ch_hash c = h \<and> ch_consumed_at c = None))
     (authentication_challenges db)"

lemma consume_challenge_facts:
  assumes "c \<in> set (authentication_challenges db)"
  shows "unique_challenge_hashes db \<Longrightarrow> unique_challenge_hashes (consume_challenge db now c)"
    and "unique_challenge_hashes db \<Longrightarrow> challenge_spent ctype (consume_challenge db now c) (ch_hash c)"
    and "challenge_spent ctype db h \<Longrightarrow> challenge_spent ctype (consume_challenge db now c) h"
proof -
  show "unique_challenge_hashes (consume_challenge db now c)" if "unique_challenge_hashes db"
    using that by (simp add: unique_challenge_hashes_def consume_challenge_def map_update_rows)
  show "challenge_spent ctype (consume_challenge db now c) (ch_hash c)" if "unique_challenge_hashes db"
    using distinct_key_inj [OF that [unfolded unique_challenge_hashes_def]] assms
    by (auto simp: challenge_spent_def consume_challenge_def list_all_iff update_rows_def)
  show "challenge_spent ctype (consume_challenge db now c) h" if "challenge_spent ctype db h"
    using that by (auto simp: challenge_spent_def consume_challenge_def list_all_iff update_rows_def)
qed

lemma consume_account_token_Inr:
  assumes "consume_account_token cr ctype db now token = Inr (db', u)"
  obtains c where "c \<in> set (authentication_challenges db)" "ch_type c = ctype"
    "ch_hash c = hash_token cr token" "ch_consumed_at c = None" "now < ch_expires_at c"
    "challenge_user db c = Some u" "user_is_active u" "db' = consume_challenge db now c"
  using assms that
  by (auto simp: consume_account_token_def split: option.splits if_splits dest: find_Some_iff_in)

lemma consume_login_challenge_Inr:
  assumes "consume_login_challenge cr db now token = Inr (db', u)"
  obtains c where "c \<in> set (authentication_challenges db)" "ch_type c = ''two_factor_login''"
    "ch_hash c = hash_token cr token" "ch_consumed_at c = None" "now < ch_expires_at c"
    "challenge_user db c = Some u" "db' = consume_challenge db now c"
  using assms that
  by (auto simp: consume_login_challenge_def split: option.splits if_splits dest: find_Some_iff_in)

lemma spent_account_token_refused:
  "challenge_spent ctype db (hash_token cr token) \<Longrightarrow> consume_account_token cr ctype db now token = Inl ()"
  by (auto simp: challenge_spent_def list_all_iff consume_account_token_def
      split: option.splits dest!: find_Some_iff_in)

lemma spent_login_challenge_refused:
  "challenge_spent ''two_factor_login'' db (hash_token cr token) \<Longrightarrow> consume_login_challenge cr db now token = Inl ()"
  by (auto simp: challenge_spent_def list_all_iff consume_login_challenge_def
      split: option.splits dest!: find_Some_iff_in)

interpretation account_token: single_use "consume_account_token cr ctype" "hash_token cr"
  "challenge_spent ctype" unique_challenge_hashes for cr ctype
proof
  show "unique_challenge_hashes s'" if "unique_challenge_hashes s"
    "consume_account_token cr ctype s a k = Inr (s', r)" for s a k s' r
    using that(2) by (rule consume_account_token_Inr) (simp add: consume_challenge_facts that(1))
  show "challenge_spent ctype s' (hash_token cr k)" if "unique_challenge_hashes s"
    "consume_account_token cr ctype s a k = Inr (s', r)" for s a k s' r
    using that(2) by (rule consume_account_token_Inr) (metis consume_challenge_facts(2) that(1))
  show "consume_account_token cr ctype s a k \<noteq> Inr x" if "challenge_spent ctype s (hash_token cr k)" for s k a x
    using that by (simp add: spent_account_token_refused)
  show "challenge_spent ctype s' i" if "challenge_spent ctype s i"
    "consume_account_token cr ctype s a k = Inr (s', r)" for s i a k s' r
    using that(2) by (rule consume_account_token_Inr) (simp add: consume_challenge_facts that(1))
qed

interpretation login_challenge: single_use "consume_login_challenge cr" "hash_token cr"
  "challenge_spent ''two_factor_login''" unique_challenge_hashes for cr
proof
  show "unique_challenge_hashes s'" if "unique_challenge_hashes s"
    "consume_login_challenge cr s a k = Inr (s', r)" for s a k s' r
    using that(2) by (rule consume_login_challenge_Inr) (simp add: consume_challenge_facts that(1))
  show "challenge_spent ''two_factor_login'' s' (hash_token cr k)" if "unique_challenge_hashes s"
    "consume_login_challenge cr s a k = Inr (s', r)" for s a k s' r
    using that(2) by (rule consume_login_challenge_Inr) (metis consume_challenge_facts(2) that(1))
  show "consume_login_challenge cr s a k \<noteq> Inr x"
    if "challenge_spent ''two_factor_login'' s (hash_token cr k)" for s k a x
    using that by (simp add: spent_login_challenge_refused)
  show "challenge_spent ''two_factor_login'' s' i" if "challenge_spent ''two_factor_login'' s i"
    "consume_login_challenge cr s a k = Inr (s', r)" for s i a k s' r
    using that(2) by (rule consume_login_challenge_Inr) (simp add: consume_challenge_facts that(1))
qed

definition unique_recovery_codes :: "user \<Rightarrow> auth_db \<Rightarrow> bool" where
  "unique_recovery_codes u db \<longleftrightarrow>
     distinct (map rc_code_hash (filter (\<lambda>r. rc_user r = user_id u) (recovery_codes db)))"

definition recovery_code_spent :: "user \<Rightarrow> auth_db \<Rightarrow> string \<Rightarrow> bool" where
  "recovery_code_spent u db h \<longleftrightarrow>
     list_all (\<lambda>r. \<not> (rc_user r = user_id u \<and> rc_code_hash r = h \<and> rc_used_at r = None)) (recovery_codes db)"

lemma use_recovery_code_Inr:
  assumes "use_recovery_code cr u db now code = Inr (db', r)"
  shows "r \<in> set (recovery_codes db)" and "rc_user r = user_id u"
    and "rc_code_hash r = hash_recovery_code cr code" and "rc_used_at r = None"
    and "recovery_codes db' = update_rows (\<lambda>x. rc_id x = rc_id r) (\<lambda>x. x\<lparr> rc_used_at := Some now \<rparr>)
      (recovery_codes db)"
  using assms by (auto simp: use_recovery_code_def split: option.splits dest: find_Some_iff_in)

lemma recovery_hashes_update:
  "map rc_code_hash (filter (\<lambda>r. rc_user r = i) (update_rows Q (\<lambda>x. x\<lparr> rc_used_at := v \<rparr>) rs)) =
     map rc_code_hash (filter (\<lambda>r. rc_user r = i) rs)"
  by (induction rs) (auto simp: update_rows_def)

lemma spent_recovery_code_refused:
  "recovery_code_spent u db (hash_recovery_code cr code) \<Longrightarrow> use_recovery_code cr u db now code = Inl ()"
  by (auto simp: recovery_code_spent_def list_all_iff use_recovery_code_def find_None_iff_all
      split: option.splits dest!: find_Some_iff_in)

lemma recovery_code_spent_update:
  assumes "recovery_codes db' = update_rows Q (\<lambda>x. x\<lparr> rc_used_at := Some now \<rparr>) (recovery_codes db)"
    and "\<And>x. x \<in> set (recovery_codes db) \<Longrightarrow> rc_user x = user_id u \<Longrightarrow> rc_code_hash x = h \<Longrightarrow>
           rc_used_at x = None \<Longrightarrow> Q x"
  shows "recovery_code_spent u db' h"
  using assms(2) by (auto simp: recovery_code_spent_def assms(1) list_all_iff update_rows_def)

interpretation recovery: single_use "use_recovery_code cr u" "hash_recovery_code cr"
  "recovery_code_spent u" "unique_recovery_codes u" for cr u
proof
  show "unique_recovery_codes u s'" if "unique_recovery_codes u s"
    "use_recovery_code cr u s a k = Inr (s', r)" for s a k s' r
    using that(1) use_recovery_code_Inr(5) [OF that(2)]
    by (simp add: unique_recovery_codes_def recovery_hashes_update)
  show "recovery_code_spent u s' (hash_recovery_code cr k)" if "unique_recovery_codes u s"
    "use_recovery_code cr u s a k = Inr (s', r)" for s a k s' r
  proof (rule recovery_code_spent_update [OF use_recovery_code_Inr(5) [OF that(2)]])
    fix x assume x: "x \<in> set (recovery_codes s)" "rc_user x = user_id u" "rc_code_hash x = hash_recovery_code cr k"
    have "x = r"
      by (rule distinct_key_inj [OF that(1) [unfolded unique_recovery_codes_def]])
        (simp_all add: x use_recovery_code_Inr(1-3) [OF that(2)])
    then show "rc_id x = rc_id r" by simp
  qed
  show "use_recovery_code cr u s a k \<noteq> Inr x" if "recovery_code_spent u s (hash_recovery_code cr k)" for s k a x
    using that by (simp add: spent_recovery_code_refused)
  show "recovery_code_spent u s' i" if "recovery_code_spent u s i"
    "use_recovery_code cr u s a k = Inr (s', r)" for s i a k s' r
    by (rule recovery_code_spent_update [OF use_recovery_code_Inr(5) [OF that(2)]])
      (use that(1) in \<open>auto simp: recovery_code_spent_def list_all_iff\<close>)
qed


definition sample_crypto :: crypto where
  "sample_crypto = \<lparr> hash_token = id, hash_password = id, verify_password = (=), decrypt_secret = id,
     totp_verify = (\<lambda>secret c now. secret = c) \<rparr>"

definition sample_challenge :: "uuid \<Rightarrow> string \<Rightarrow> string \<Rightarrow> authentication_challenge" where
  "sample_challenge i ctype h = \<lparr> ch_id = i, ch_user = Some 4, ch_type = ctype, ch_hash = h,
     ch_expires_at = 100, ch_consumed_at = None, ch_metadata = [] \<rparr>"


section \<open>Sign-in\<close>

text \<open>A password alone opens a session only for an active account without two-factor
  authentication, and only if the password is the account's.\<close>

theorem password_login_needs_no_second_factor:
  assumes "login cr ss db now new_id challenge_token session_token address password req = Inr (db', LoggedIn resp s)"
  shows "\<exists>u \<in> set (users db). email u = normalize_email address \<and> user_is_active u \<and>
    verify_password cr password (user_password_hash u) \<and> \<not> user_has_two_factor db u \<and>
    sd_user_id s = user_id u \<and> user_session_version s = session_version u"
proof -
  obtain u where u: "find (\<lambda>u. email u = normalize_email address) (users db) = Some u"
    "verify_password cr password (user_password_hash u)" "user_is_active u" "\<not> user_has_two_factor db u"
    and s: "create_session (hash_token cr) ss db now session_token u req ''password'' = (db', s)"
    using assms by (auto simp: login_def split: option.splits if_splits prod.splits)
  have "sd_user_id s = user_id u \<and> user_session_version s = session_version u"
    using s by (auto simp: create_session_def Let_def)
  with u find_Some_iff_in [OF u(1)] show ?thesis by blast
qed

theorem password_login_needs_no_second_factor_witness:
  "\<exists>db' resp s. login sample_crypto sample_settings (empty_auth_db\<lparr> users := [sample_user] \<rparr>) 0 1 ''c'' ''tok''
      ''A@b.c '' ''h'' sample_request = Inr (db', LoggedIn resp s) \<and> sd_user_id s = 4"
proof -
  let ?db = "empty_auth_db\<lparr> users := [sample_user] \<rparr>"
  obtain db' s where c: "create_session (hash_token sample_crypto) sample_settings ?db 0 ''tok'' sample_user
      sample_request ''password'' = (db', s)" by (metis surj_pair)
  have e: "normalize_email ''A@b.c '' = ''a@b.c''" by code_simp
  have l: "login sample_crypto sample_settings ?db 0 1 ''c'' ''tok'' ''A@b.c '' ''h'' sample_request =
      Inr (db', LoggedIn (serialize_user db' sample_user (Some s)) s)"
    using c by (simp add: login_def e user_has_two_factor_def exists_row_def empty_auth_db_def sample_crypto_def)
      (simp add: sample_user_def)
  from password_login_needs_no_second_factor [OF l] l show ?thesis
    by (auto simp: sample_user_def)
qed


section \<open>Password reset ends every session\<close>

text \<open>C34: resetting a password signs the account out everywhere: any request whose session was
  accepted for that user before the reset is answered with 401 afterwards.\<close>

theorem password_reset_ends_sessions:
  assumes "distinct (map user_id (users db))"
    and "reset_password cr db now token password = Inr (db', u')"
    and "get_session_user (hash_token cr) ss db now req = (db1, Inr (u, s))"
    and "user_id u = user_id u'"
  shows "snd (get_session_user (hash_token cr) ss db' now req) = Inl (HTTPException 401 ''Session expired'')"
proof -
  obtain db0 u0 where c: "consume_account_token cr ''password_reset'' db now token = Inr (db0, u0)"
    and db': "users db' = update_rows (\<lambda>x. user_id x = user_id u0)
       (\<lambda>x. x\<lparr> user_password_hash := hash_password cr password, session_version := session_version u0 + 1 \<rparr>) (users db0)"
      "redis db' = redis db0" and u': "user_id u' = user_id u0"
    using assms(2) by (auto simp: reset_password_def Let_def)
  obtain ch where ch: "challenge_user db ch = Some u0" "db0 = consume_challenge db now ch"
    using c by (rule consume_account_token_Inr)
  have u0: "u0 \<in> set (users db)"
    using ch(1) by (auto simp: challenge_user_def bind_eq_Some_conv dest: find_Some_iff_in)
  have t: "users db0 = users db" "redis db0 = redis db" by (simp_all add: ch(2) consume_challenge_def)
  from assms(3) show ?thesis
  proof (rule get_session_user_Inr)
    fix tok stored
    assume a: "req_cookie req = Some tok" "tok \<noteq> ''''"
      "redis_get db now (session_key (hash_token cr) ss tok) = Some stored"
      "find (\<lambda>x. user_id x = sd_user_id stored \<and> user_is_active x) (users db) = Some u"
      "user_session_version stored = session_version u"
    have "u = u0"
      using distinct_key_inj [OF assms(1)] find_Some_iff_in [OF a(4)] u0 assms(4) u' by simp
    moreover have "find (\<lambda>x. user_id x = sd_user_id stored \<and> user_is_active x) (users db') =
        Some (u\<lparr> user_password_hash := hash_password cr password, session_version := session_version u0 + 1 \<rparr>)"
      using a(4) \<open>u = u0\<close> unfolding db' t by (subst find_update_rows) auto
    moreover have "redis_get db' now k = redis_get db now k" for k
      by (simp add: redis_get_def db' t)
    ultimately show ?thesis
      using a by (simp add: get_session_user_def Let_def)
  qed
qed

theorem password_reset_ends_sessions_witness:
  "\<exists>db' u'. reset_password sample_crypto ((sample_auth_db ''owner'')\<lparr> authentication_challenges :=
        [sample_challenge 1 ''password_reset'' ''t''] \<rparr>) 5 ''t'' ''new password'' = Inr (db', u') \<and>
     snd (get_session_user (hash_token sample_crypto) sample_settings db' 5 sample_request) =
       Inl (HTTPException 401 ''Session expired'')"
proof -
  let ?db = "(sample_auth_db ''owner'')\<lparr> authentication_challenges := [sample_challenge 1 ''password_reset'' ''t''] \<rparr>"
  have d: "distinct (map user_id (users ?db))" by (simp add: sample_auth_db_def)
  obtain db' where r: "reset_password sample_crypto ?db 5 ''t'' ''new password'' =
      Inr (db', sample_user\<lparr> user_password_hash := ''new password'', session_version := 2 \<rparr>)"
    by (simp add: reset_password_def consume_account_token_def sample_crypto_def sample_challenge_def
        challenge_user_def sample_auth_db_def sample_user_def)
  obtain db1 s where g: "get_session_user (hash_token sample_crypto) sample_settings ?db 5 sample_request =
      (db1, Inr (sample_user, s))"
    by (simp add: get_session_user_def sample_request_def sample_settings_def session_key_def redis_get_def
        sample_auth_db_def sample_session_def sample_user_def sample_crypto_def Let_def)
  from password_reset_ends_sessions [OF d r g] r show ?thesis by auto
qed


end
