(* ===== verification/Base64.thy ===== *)
theory Base64
  imports Py_Stdlib "HOL-Library.Word"
begin

text \<open>
  The part of Python's \<^verbatim>\<open>base64\<close> the passkeys use (\<^verbatim>\<open>_b64\<close> and \<^verbatim>\<open>_unb64\<close> of \<^verbatim>\<open>auth/webauthn.py\<close>):
  \<^verbatim>\<open>urlsafe_b64encode\<close> and \<^verbatim>\<open>urlsafe_b64decode\<close>. The decoder is the lenient one of \<^verbatim>\<open>binascii\<close>: it skips
  characters outside the alphabet and stops at a complete padding. Bytes are 8-bit words.
\<close>

unbundle bit_operations_syntax

type_synonym bytes = "8 word list"

section \<open>The alphabet\<close>

definition sextet_char :: "8 word \<Rightarrow> char" where
  "sextet_char w = (let n = unat w in
     if n < 26 then char_of (65 + n)
     else if n < 52 then char_of (97 + (n - 26))
     else if n < 62 then char_of (48 + (n - 52))
     else if n = 62 then CHR ''-'' else CHR ''_'')"

text \<open>\<^verbatim>\<open>urlsafe_b64decode\<close> translates \<^verbatim>\<open>-_\<close> to \<^verbatim>\<open>+/\<close>, so that both spellings are read.\<close>

definition char_sextet :: "char \<Rightarrow> 8 word option" where
  "char_sextet c = (let n = (of_char c :: nat) in
     if 65 \<le> n \<and> n \<le> 90 then Some (of_nat (n - 65))
     else if 97 \<le> n \<and> n \<le> 122 then Some (of_nat (n - 97 + 26))
     else if 48 \<le> n \<and> n \<le> 57 then Some (of_nat (n - 48 + 52))
     else if c = CHR ''-'' \<or> c = CHR ''+'' then Some 62
     else if c = CHR ''_'' \<or> c = CHR ''/'' then Some 63
     else None)"

section \<open>Encoding\<close>

fun b64_sextets :: "bytes \<Rightarrow> bytes" where
  "b64_sextets [] = []"
| "b64_sextets [a] = [drop_bit 2 a, push_bit 4 (a AND 3)]"
| "b64_sextets [a, b] = [drop_bit 2 a, push_bit 4 (a AND 3) OR drop_bit 4 b, push_bit 2 (b AND 15)]"
| "b64_sextets (a # b # c # rest) =
     [drop_bit 2 a, push_bit 4 (a AND 3) OR drop_bit 4 b, push_bit 2 (b AND 15) OR drop_bit 6 c, c AND 63]
     @ b64_sextets rest"

definition padding :: "nat \<Rightarrow> string" where
  "padding n = replicate ((4 - n mod 4) mod 4) (CHR ''='')"

definition urlsafe_b64encode :: "bytes \<Rightarrow> string" where
  "urlsafe_b64encode bs = (let s = map sextet_char (b64_sextets bs)
     in s @ padding (length s))"

definition b64 :: "bytes \<Rightarrow> string" where
  "b64 bs = rev (dropWhile (\<lambda>c. c = CHR ''='') (rev (urlsafe_b64encode bs)))"

section \<open>Decoding\<close>

text \<open>
  \<^verbatim>\<open>binascii.a2b_base64\<close>: \<open>q\<close> is the position within a group of four, \<open>left\<close> the bits left over from
  the previous character and \<open>pads\<close> the number of padding characters just read.
\<close>

fun a2b_base64 :: "nat \<Rightarrow> 8 word \<Rightarrow> nat \<Rightarrow> string \<Rightarrow> string + bytes" where
  "a2b_base64 q left pads [] =
     (if q = 0 then Inr []
      else if q = 1 then Inl ''Invalid base64-encoded string'' else Inl ''Incorrect padding'')"
| "a2b_base64 q left pads (c # cs) =
     (if c = CHR ''='' then
        (if 2 \<le> q \<and> 4 \<le> q + (pads + 1) then Inr []
         else a2b_base64 q left (if 2 \<le> q then pads + 1 else pads) cs)
      else case char_sextet c of
        None \<Rightarrow> a2b_base64 q left pads cs
      | Some w \<Rightarrow>
          if q = 0 then a2b_base64 1 w 0 cs
          else if q = 1 then
            map_sum id ((#) (push_bit 2 left OR drop_bit 4 w)) (a2b_base64 2 (w AND 15) 0 cs)
          else if q = 2 then
            map_sum id ((#) (push_bit 4 left OR drop_bit 2 w)) (a2b_base64 3 (w AND 3) 0 cs)
          else map_sum id ((#) (push_bit 6 left OR w)) (a2b_base64 0 0 0 cs))"

text \<open>A string with a character outside ASCII is refused; the errors are \<^verbatim>\<open>ValueError\<close>s.\<close>

definition urlsafe_b64decode :: "string \<Rightarrow> string + bytes" where
  "urlsafe_b64decode s =
     (if list_ex (\<lambda>c. 128 \<le> (of_char c :: nat)) s then Inl ''string argument should contain only ASCII characters''
      else a2b_base64 0 0 0 s)"

definition unb64 :: "string \<Rightarrow> string + bytes" where
  "unb64 v = urlsafe_b64decode (v @ padding (length v))"

section \<open>Decoding what was encoded\<close>

lemma of_char_sextet_char:
  assumes "w < 64"
  shows "of_char (sextet_char w) = (let n = unat w in if n < 26 then 65 + n else if n < 52 then n + 71
    else if n < 62 then n - 4 else if n = 62 then 45 else 95)"
proof -
  have "unat w < 64" using assms by (simp add: word_less_nat_alt)
  then show ?thesis by (simp add: sextet_char_def Let_def)
qed

lemma char_sextet_sextet_char:
  assumes "w < 64"
  shows "char_sextet (sextet_char w) = Some w" and "sextet_char w \<noteq> CHR ''=''" and "(of_char (sextet_char w) :: nat) < 128"
proof -
  let ?n = "unat w"
  have n: "?n < 64" using assms by (simp add: word_less_nat_alt)
  have o: "(of_char (sextet_char w) :: nat) = (let n = ?n in if n < 26 then 65 + n else if n < 52 then n + 71
    else if n < 62 then n - 4 else if n = 62 then 45 else 95)" by (rule of_char_sextet_char [OF assms])
  show "(of_char (sextet_char w) :: nat) < 128" unfolding o Let_def using n by (simp split: if_splits) linarith
  have "(of_char (sextet_char w) :: nat) \<noteq> 61" unfolding o Let_def using n by auto
  then show "sextet_char w \<noteq> CHR ''=''" by auto
  have w: "of_nat ?n = w" by simp
  consider "?n < 26" | "26 \<le> ?n" "?n < 52" | "52 \<le> ?n" "?n < 62" | "?n = 62" | "?n = 63" using n by linarith
  then show "char_sextet (sextet_char w) = Some w"
  proof cases
    case 4
    then have "w = 62" using w by simp
    then show ?thesis by (simp add: sextet_char_def char_sextet_def)
  next
    case 5
    then have "w = 63" using w by simp
    then show ?thesis by (simp add: sextet_char_def char_sextet_def)
  next
    case 3
    then have "48 \<le> ?n - 4" "?n - 4 \<le> 57" "?n - 4 - 48 + 52 = ?n" by linarith+
    then show ?thesis using w 3 by (simp add: char_sextet_def o Let_def)
  qed (use w in \<open>simp_all add: char_sextet_def o Let_def\<close>)
qed

lemma masks: "(3 :: 8 word) = mask 2" "(15 :: 8 word) = mask 4" "(63 :: 8 word) = mask 6"
  by (simp_all add: mask_eq_exp_minus_1)

lemma bit_8: "bit (w :: 8 word) n \<Longrightarrow> n < 8"
  using bit_imp_le_length [of w n] by simp

lemma shift_again: "2 \<le> n \<Longrightarrow> Suc (Suc (n - 2)) = n" "4 \<le> n \<Longrightarrow> 4 + (n - 4) = n" "6 \<le> n \<Longrightarrow> 6 + (n - 6) = n"
  by simp_all

lemma less_64: "(w :: 8 word) < 64 \<longleftrightarrow> (\<forall>n. bit w n \<longrightarrow> n < 6)"
proof -
  have "w < 64 \<longleftrightarrow> unat w < 64" by (simp add: word_less_nat_alt)
  also have "\<dots> \<longleftrightarrow> unat w mod 64 = unat w" by (metis mod_less mod_less_divisor zero_less_numeral)
  also have "\<dots> \<longleftrightarrow> unat (take_bit 6 w) = unat w" by (simp only: take_bit_eq_mod unat_mod_distrib) simp
  also have "\<dots> \<longleftrightarrow> take_bit 6 w = w" by (simp only: word_unat_eq_iff)
  also have "\<dots> \<longleftrightarrow> (\<forall>n. bit w n \<longrightarrow> n < 6)" by (auto simp: bit_eq_iff bit_take_bit_iff dest: bit_8)
  finally show ?thesis .
qed

lemma sextet_small:
  fixes a b c :: "8 word"
  shows "drop_bit 2 a < 64" "push_bit 4 (a AND 3) < 64" "push_bit 4 (a AND 3) OR drop_bit 4 b < 64"
    "push_bit 2 (b AND 15) < 64" "push_bit 2 (b AND 15) OR drop_bit 6 c < 64" "c AND 63 < 64"
  unfolding masks less_64 by (auto simp: bit_simps dest!: bit_8)

lemma sextets_small: "w \<in> set (b64_sextets bs) \<Longrightarrow> w < 64"
  by (induction bs rule: b64_sextets.induct) (auto simp: sextet_small simp del: bit.conj_disj_distrib push_bit_and)

lemma group_first: "push_bit 2 (drop_bit 2 a) OR drop_bit 4 (push_bit 4 (a AND 3) OR drop_bit 4 b) = (a :: 8 word)"
proof (rule bit_word_eqI)
  fix n assume "n < LENGTH(8)"
  moreover have "\<not> bit b (4 + (4 + n))" using bit_8 by force
  ultimately show "bit (push_bit 2 (drop_bit 2 a) OR drop_bit 4 (push_bit 4 (a AND 3) OR drop_bit 4 b)) n = bit a n"
    unfolding masks by (cases "2 \<le> n") (auto simp: bit_simps shift_again)
qed

lemma group_second:
  "push_bit 4 ((push_bit 4 (a AND 3) OR drop_bit 4 b) AND 15) OR drop_bit 2 (push_bit 2 (b AND 15) OR drop_bit 6 c) = (b :: 8 word)"
proof (rule bit_word_eqI)
  fix n assume "n < LENGTH(8)"
  moreover have "\<not> bit c (6 + (2 + n))" using bit_8 by force
  ultimately show "bit (push_bit 4 ((push_bit 4 (a AND 3) OR drop_bit 4 b) AND 15) OR
      drop_bit 2 (push_bit 2 (b AND 15) OR drop_bit 6 c)) n = bit b n"
    unfolding masks by (cases "4 \<le> n") (auto simp: bit_simps shift_again)
qed

lemma group_third: "push_bit 6 ((push_bit 2 (b AND 15) OR drop_bit 6 c) AND 3) OR (c AND 63) = (c :: 8 word)"
proof (rule bit_word_eqI)
  fix n assume "n < LENGTH(8)"
  then show "bit (push_bit 6 ((push_bit 2 (b AND 15) OR drop_bit 6 c) AND 3) OR (c AND 63)) n = bit c n"
    unfolding masks by (cases "6 \<le> n") (auto simp: bit_simps shift_again)
qed

lemma decode_group:
  assumes "w0 < 64" "w1 < 64" "w2 < 64" "w3 < 64"
  shows "a2b_base64 0 l p (sextet_char w0 # sextet_char w1 # sextet_char w2 # sextet_char w3 # cs) =
    map_sum id (\<lambda>r. (push_bit 2 w0 OR drop_bit 4 w1) # (push_bit 4 (w1 AND 15) OR drop_bit 2 w2) #
      (push_bit 6 (w2 AND 3) OR w3) # r) (a2b_base64 0 0 0 cs)"
  using assms by (simp add: char_sextet_sextet_char sum.map_comp comp_def id_def)

lemma decode_last_three:
  assumes "w0 < 64" "w1 < 64" "w2 < 64"
  shows "a2b_base64 0 l p [sextet_char w0, sextet_char w1, sextet_char w2, CHR ''=''] =
    Inr [push_bit 2 w0 OR drop_bit 4 w1, push_bit 4 (w1 AND 15) OR drop_bit 2 w2]"
  using assms by (simp add: char_sextet_sextet_char)

lemma decode_last_two:
  assumes "w0 < 64" "w1 < 64"
  shows "a2b_base64 0 l p [sextet_char w0, sextet_char w1, CHR ''='', CHR ''=''] = Inr [push_bit 2 w0 OR drop_bit 4 w1]"
  using assms by (simp add: char_sextet_sextet_char)

lemma padding_simps: "padding 0 = ''''" "padding 2 = ''==''" "padding 3 = ''=''" "padding (4 + n) = padding n"
  by (simp_all add: padding_def numeral_2_eq_2)

lemma decode_sextets:
  "a2b_base64 0 l p (map sextet_char (b64_sextets bs) @ padding (length (b64_sextets bs))) = Inr bs"
proof (induction bs arbitrary: l p rule: b64_sextets.induct)
  case (2 a)
  have "push_bit 2 (drop_bit 2 a) OR drop_bit 4 (push_bit 4 (a AND 3)) = a" using group_first [of a 0] by simp
  moreover have "padding (length (b64_sextets [a])) = ''==''" using padding_simps(2) by (simp add: numeral_eq_Suc)
  ultimately show ?case
    by (simp only: b64_sextets.simps list.map append.simps decode_last_two [OF sextet_small(1, 2)])
next
  case (3 a b)
  have "push_bit 4 ((push_bit 4 (a AND 3) OR drop_bit 4 b) AND 15) OR drop_bit 2 (push_bit 2 (b AND 15)) = b"
    using group_second [of a b 0] by simp
  moreover have "padding (length (b64_sextets [a, b])) = ''=''" using padding_simps(3) by (simp add: numeral_eq_Suc)
  ultimately show ?case
    by (simp only: b64_sextets.simps list.map append.simps decode_last_three [OF sextet_small(1, 3, 4)] group_first)
next
  case (4 a b c rest)
  have "padding (length (b64_sextets (a # b # c # rest))) = padding (length (b64_sextets rest))"
    using padding_simps(4) [of "length (b64_sextets rest)"] by (simp add: numeral_eq_Suc)
  then show ?case
    by (simp only: b64_sextets.simps list.map append.simps decode_group [OF sextet_small(1, 3, 5, 6)] "4.IH"
        group_first group_second group_third map_sum.simps)
qed (simp add: padding_simps)

lemma padding_end: "set (padding n) \<subseteq> {CHR ''=''}"
  by (auto simp: padding_def)

lemma sextet_chars:
  assumes "c \<in> set (map sextet_char (b64_sextets bs))"
  shows "c \<noteq> CHR ''=''" and "(of_char c :: nat) < 128"
proof -
  obtain w where w: "c = sextet_char w" "w \<in> set (b64_sextets bs)" using assms by (simp only: set_map image_iff) blast
  from sextets_small [OF this(2)] show "c \<noteq> CHR ''=''" "(of_char c :: nat) < 128"
    unfolding w(1) by (rule char_sextet_sextet_char)+
qed

lemma drop_padding: "dropWhile (\<lambda>c. c = CHR ''='') (rev (padding n) @ xs) = dropWhile (\<lambda>c. c = CHR ''='') xs"
  using padding_end [of n] by (intro dropWhile_append2) auto

lemma b64_sextet_chars: "b64 bs = map sextet_char (b64_sextets bs)"
proof -
  let ?s = "map sextet_char (b64_sextets bs)"
  have "dropWhile (\<lambda>c. c = CHR ''='') (rev ?s) = rev ?s"
  proof (cases "rev ?s")
    case (Cons c cs)
    then have "c \<in> set ?s" by (metis list.set_intros(1) set_rev)
    then show ?thesis using sextet_chars(1) [of c bs] unfolding Cons by simp
  qed simp
  then show ?thesis by (simp only: b64_def urlsafe_b64encode_def Let_def rev_append drop_padding rev_rev_ident)
qed

lemma unb64_b64: "unb64 (b64 bs) = Inr bs"
proof -
  let ?v = "b64 bs @ padding (length (b64 bs))"
  have "\<not> list_ex (\<lambda>c. 128 \<le> (of_char c :: nat)) (b64 bs)"
    using sextet_chars(2) [of _ bs] unfolding b64_sextet_chars list_ex_iff by (meson not_le)
  moreover have "\<not> list_ex (\<lambda>c. 128 \<le> (of_char c :: nat)) (padding n)" for n
    using padding_end [of n] by (auto simp: list_ex_iff)
  ultimately have "unb64 (b64 bs) = a2b_base64 0 0 0 ?v"
    by (simp only: unb64_def urlsafe_b64decode_def list_ex_append) simp
  also have "\<dots> = Inr bs" using decode_sextets [of 0 0 bs] by (simp only: b64_sextet_chars length_map)
  finally show ?thesis .
qed

lemma b64_inject [simp]: "b64 xs = b64 ys \<longleftrightarrow> xs = ys"
  by (metis unb64_b64 sum.inject(2))

end
