(* ===== verification/Auth_WebAuthn.thy ===== *)
theory Auth_WebAuthn
  imports Auth_Accounts Py_Uuid Base64
begin

text \<open>
  Passkeys: \<^verbatim>\<open>auth/webauthn.py\<close>, the endpoints of \<^verbatim>\<open>api/webauthn.py\<close> and the overview of
  \<^verbatim>\<open>api/security.py\<close>. The \<^verbatim>\<open>webauthn\<close> package and the digest of a challenge are parameters: the package
  makes the options and checks a response against the challenge, the relying party, the origin and,
  for a sign-in, the stored key and counter. A time of a response stands for its ISO form. The random
  challenges and the identifiers of new rows are arguments.
\<close>

section \<open>JSON values as Python prints them\<close>

definition str_int :: "int \<Rightarrow> string" where
  "str_int n = (if n < 0 then ''-'' @ dec (nat (- n)) else dec (nat n))"

definition repr_char :: "char \<Rightarrow> char \<Rightarrow> string" where
  "repr_char quote c = (let n = (of_char c :: nat) in
     if c = quote \<or> c = CHR 0x5C then [CHR 0x5C, c]
     else if n = 10 then [CHR 0x5C] @ ''n''
     else if n = 13 then [CHR 0x5C] @ ''r''
     else if n = 9 then [CHR 0x5C] @ ''t''
     else if n < 32 \<or> n = 127 \<or> 128 \<le> n \<and> n < 161 \<or> n = 173 then [CHR 0x5C] @ ''x'' @ hex_digits 2 n
     else [c])"

definition repr_str :: "string \<Rightarrow> string" where
  "repr_str s =
     (let quote = (if CHR 0x27 \<in> set s \<and> CHR 0x22 \<notin> set s then CHR 0x22 else CHR 0x27)
      in [quote] @ concat (map (repr_char quote) s) @ [quote])"

fun py_repr :: "json \<Rightarrow> string" where
  "py_repr JNull = ''None''"
| "py_repr (JBool b) = (if b then ''True'' else ''False'')"
| "py_repr (JNum n) = str_int n"
| "py_repr (JStr s) = repr_str s"
| "py_repr (JList xs) = ''['' @ join_with '', '' (map py_repr xs) @ '']''"
| "py_repr (JDict kvs) = ''{'' @ join_with '', '' (map (\<lambda>(k, v). repr_str k @ '': '' @ py_repr v) kvs) @ ''}''"

definition py_str :: "json \<Rightarrow> string" where
  "py_str j = (case j of JStr s \<Rightarrow> s | _ \<Rightarrow> py_repr j)"

section \<open>The WebAuthn package\<close>

record webauthn_settings =
  webauthn_rp_id :: string
  webauthn_rp_name :: string
  webauthn_origin :: string

text \<open>The endpoints treat a \<^verbatim>\<open>ValueError\<close> differently from every other exception, which they leave alone.\<close>

datatype passkey_error = PyValueError string | PyOtherError string

record registration_verification =
  rv_credential_id :: bytes
  rv_credential_public_key :: bytes
  rv_sign_count :: int
  rv_device_type :: string
  rv_backed_up :: bool

record authentication_verification =
  av_new_sign_count :: int
  av_device_type :: string
  av_backed_up :: bool

type_synonym passkey_response = "(string \<times> json) list"

record webauthn_package =
  generate_registration_options :: "webauthn_settings \<Rightarrow> bytes \<Rightarrow> user \<Rightarrow> bytes list \<Rightarrow> json"
  generate_authentication_options :: "webauthn_settings \<Rightarrow> bytes \<Rightarrow> json"
  verify_registration_response ::
    "passkey_response \<Rightarrow> bytes \<Rightarrow> string \<Rightarrow> string \<Rightarrow> passkey_error + registration_verification"
  verify_authentication_response ::
    "passkey_response \<Rightarrow> bytes \<Rightarrow> string \<Rightarrow> string \<Rightarrow> bytes \<Rightarrow> int \<Rightarrow> passkey_error + authentication_verification"
  sha256_hexdigest :: "bytes \<Rightarrow> string"

section \<open>Challenges\<close>

definition decoded :: "string \<Rightarrow> passkey_error + bytes" where
  "decoded s = map_sum PyValueError id (unb64 s)"

definition store_challenge ::
  "webauthn_package \<Rightarrow> auth_db \<Rightarrow> datetime \<Rightarrow> uuid \<Rightarrow> bytes \<Rightarrow> string \<Rightarrow> user option \<Rightarrow> passkey_error + auth_db" where
  "store_challenge wp db now new_id challenge ctype u =
     (let c = \<lparr> ch_id = new_id, ch_user = map_option user_id u, ch_type = ctype,
                ch_hash = sha256_hexdigest wp challenge, ch_expires_at = now + minutes CHALLENGE_TTL_MINUTES,
                ch_consumed_at = None, ch_metadata = [(''challenge'', b64 challenge)] \<rparr>
      in bind_result (raise_if (exists_row (\<lambda>x. ch_id x = ch_id c \<or> ch_hash x = ch_hash c)
             (authentication_challenges db)) (PyOtherError ''IntegrityError'')) (\<lambda>_.
         Inr (db\<lparr> authentication_challenges := authentication_challenges db @ [c] \<rparr>)))"

definition get_challenge :: "auth_db \<Rightarrow> datetime \<Rightarrow> uuid \<Rightarrow> string \<Rightarrow> passkey_error + authentication_challenge" where
  "get_challenge db now cid ctype =
     (case find (\<lambda>c. ch_id c = cid \<and> ch_type c = ctype \<and> ch_consumed_at c = None) (authentication_challenges db) of
        None \<Rightarrow> Inl (PyValueError ''WebAuthn challenge expired'')
      | Some c \<Rightarrow> if ch_expires_at c \<le> now then Inl (PyValueError ''WebAuthn challenge expired'') else Inr c)"

text \<open>\<^verbatim>\<open>_unb64(str(challenge.metadata["challenge"]))\<close>.\<close>

definition expected_challenge :: "authentication_challenge \<Rightarrow> passkey_error + bytes" where
  "expected_challenge c = (case map_of (ch_metadata c) ''challenge'' of
      None \<Rightarrow> Inl (PyOtherError ''KeyError'')
    | Some v \<Rightarrow> decoded v)"

section \<open>Registration\<close>

fun decoded_ids :: "webauthn_credential list \<Rightarrow> passkey_error + bytes list" where
  "decoded_ids [] = Inr []"
| "decoded_ids (c # cs) =
     bind_result (decoded (wc_credential_id c)) (\<lambda>i. bind_result (decoded_ids cs) (\<lambda>is. Inr (i # is)))"

definition registration_options ::
  "webauthn_package \<Rightarrow> webauthn_settings \<Rightarrow> auth_db \<Rightarrow> datetime \<Rightarrow> uuid \<Rightarrow> bytes \<Rightarrow> user \<Rightarrow>
     passkey_error + auth_db \<times> uuid \<times> json" where
  "registration_options wp st db now new_id challenge u =
     bind_result (decoded_ids (filter (\<lambda>c. wc_user c = user_id u) (webauthn_credentials db))) (\<lambda>exclude.
     bind_result (store_challenge wp db now new_id challenge ''webauthn_registration'' (Some u)) (\<lambda>db'.
     Inr (db', new_id, generate_registration_options wp st challenge u exclude)))"

definition transports_of :: "passkey_response \<Rightarrow> passkey_error + string list" where
  "transports_of credential =
     (case (case map_of credential ''response'' of None \<Rightarrow> JDict [] | Some v \<Rightarrow> v) of
        JDict d \<Rightarrow> Inr (case (case map_of d ''transports'' of None \<Rightarrow> JList [] | Some v \<Rightarrow> v) of
                      JList xs \<Rightarrow> map py_str xs | _ \<Rightarrow> [])
      | _ \<Rightarrow> Inl (PyOtherError ''AttributeError''))"

text \<open>The columns of \<^verbatim>\<open>WebAuthnCredential\<close> a registration can violate.\<close>

definition insert_credential :: "auth_db \<Rightarrow> webauthn_credential \<Rightarrow> passkey_error + auth_db" where
  "insert_credential db c =
     bind_result (raise_if (length (wc_credential_id c) > 1024 \<or> length (wc_device_type c) > 64)
       (PyOtherError ''ValidationError'')) (\<lambda>_.
     bind_result (raise_if (exists_row (\<lambda>x. wc_id x = wc_id c \<or> wc_credential_id x = wc_credential_id c)
       (webauthn_credentials db)) (PyOtherError ''IntegrityError'')) (\<lambda>_.
     Inr (db\<lparr> webauthn_credentials := webauthn_credentials db @ [c] \<rparr>)))"

definition verify_registration ::
  "webauthn_package \<Rightarrow> webauthn_settings \<Rightarrow> auth_db \<Rightarrow> datetime \<Rightarrow> uuid \<Rightarrow> user \<Rightarrow> uuid \<Rightarrow> passkey_response \<Rightarrow> string \<Rightarrow>
     passkey_error + auth_db \<times> webauthn_credential" where
  "verify_registration wp st db now new_id u cid credential name =
     bind_result (get_challenge db now cid ''webauthn_registration'') (\<lambda>c.
     bind_result (raise_if (ch_user c \<noteq> Some (user_id u))
       (PyValueError ''WebAuthn challenge does not belong to this user'')) (\<lambda>_.
     bind_result (expected_challenge c) (\<lambda>challenge.
     bind_result (verify_registration_response wp credential challenge (webauthn_rp_id st) (webauthn_origin st)) (\<lambda>v.
     bind_result (transports_of credential) (\<lambda>transports.
     let stored = \<lparr> wc_id = new_id, wc_user = user_id u, wc_credential_id = b64 (rv_credential_id v),
           wc_public_key = b64 (rv_credential_public_key v), wc_sign_count = rv_sign_count v,
           wc_name = (if strip name = '''' then ''Passkey'' else strip name), wc_device_type = rv_device_type v,
           wc_backed_up = rv_backed_up v, wc_transports = transports, wc_last_used_at = None, wc_created_at = now \<rparr>
     in bind_result (insert_credential db stored) (\<lambda>db'. Inr (consume_challenge db' now c, stored)))))))"

section \<open>Authentication\<close>

definition authentication_options ::
  "webauthn_package \<Rightarrow> webauthn_settings \<Rightarrow> auth_db \<Rightarrow> datetime \<Rightarrow> uuid \<Rightarrow> bytes \<Rightarrow> passkey_error + auth_db \<times> uuid \<times> json" where
  "authentication_options wp st db now new_id challenge =
     bind_result (store_challenge wp db now new_id challenge ''webauthn_authentication'' None) (\<lambda>db'.
     Inr (db', new_id, generate_authentication_options wp st challenge))"

text \<open>\<^verbatim>\<open>WebAuthnCredential.filter(credential_id=...).select_related("user").first()\<close>: an inner join.\<close>

definition find_credential :: "auth_db \<Rightarrow> string \<Rightarrow> (webauthn_credential \<times> user) option" where
  "find_credential db i =
     find (\<lambda>_. True) [(c, u). c \<leftarrow> webauthn_credentials db, u \<leftarrow> users db, wc_credential_id c = i, user_id u = wc_user c]"

definition use_credential ::
  "auth_db \<Rightarrow> datetime \<Rightarrow> webauthn_credential \<Rightarrow> authentication_verification \<Rightarrow> auth_db" where
  "use_credential db now c v = db\<lparr> webauthn_credentials := update_rows (\<lambda>x. wc_id x = wc_id c)
     (\<lambda>x. x\<lparr> wc_sign_count := av_new_sign_count v, wc_last_used_at := Some now,
             wc_device_type := av_device_type v, wc_backed_up := av_backed_up v \<rparr>) (webauthn_credentials db) \<rparr>"

definition verify_authentication ::
  "webauthn_package \<Rightarrow> webauthn_settings \<Rightarrow> auth_db \<Rightarrow> datetime \<Rightarrow> uuid \<Rightarrow> passkey_response \<Rightarrow> passkey_error + auth_db \<times> user" where
  "verify_authentication wp st db now cid credential =
     bind_result (get_challenge db now cid ''webauthn_authentication'') (\<lambda>c.
     bind_result (case map_of credential ''id'' of Some (JStr i) \<Rightarrow> Inr i
         | _ \<Rightarrow> Inl (PyValueError ''Invalid passkey response'')) (\<lambda>i.
     bind_result (case find_credential db i of Some x \<Rightarrow> Inr x
         | None \<Rightarrow> Inl (PyValueError ''Passkey is not registered'')) (\<lambda>(stored, u).
     bind_result (expected_challenge c) (\<lambda>challenge.
     bind_result (decoded (wc_public_key stored)) (\<lambda>key.
     bind_result (verify_authentication_response wp credential challenge (webauthn_rp_id st) (webauthn_origin st) key
       (wc_sign_count stored)) (\<lambda>v.
     bind_result (raise_if (length (av_device_type v) > 64) (PyOtherError ''ValidationError'')) (\<lambda>_.
     Inr (consume_challenge (use_credential db now stored v) now c, u))))))))"

section \<open>Endpoints\<close>

fun passkey_http_error :: "int \<Rightarrow> passkey_error \<Rightarrow> http_error" where
  "passkey_http_error status (PyValueError m) = HTTPException status m"
| "passkey_http_error status (PyOtherError n) = UnhandledException n"

fun uncaught :: "passkey_error \<Rightarrow> http_error" where
  "uncaught (PyValueError m) = UnhandledException ''ValueError''"
| "uncaught (PyOtherError n) = UnhandledException n"

definition register_options ::
  "crypto \<Rightarrow> session_settings \<Rightarrow> webauthn_package \<Rightarrow> webauthn_settings \<Rightarrow> auth_db \<Rightarrow> datetime \<Rightarrow> uuid \<Rightarrow> bytes \<Rightarrow>
     http_request \<Rightarrow> auth_db \<times> (http_error + uuid \<times> json)" where
  "register_options cr ss wp st db now new_id challenge req =
     (case get_session_user (hash_token cr) ss db now req of
        (db', Inl e) \<Rightarrow> (db', Inl e)
      | (db', Inr (u, s)) \<Rightarrow>
         (case registration_options wp st db' now new_id challenge u of
            Inl e \<Rightarrow> (db', Inl (uncaught e))
          | Inr (db'', r) \<Rightarrow> (db'', Inr r)))"

definition register_verify ::
  "crypto \<Rightarrow> session_settings \<Rightarrow> webauthn_package \<Rightarrow> webauthn_settings \<Rightarrow> auth_db \<Rightarrow> datetime \<Rightarrow> uuid \<Rightarrow> http_request \<Rightarrow>
     uuid \<Rightarrow> passkey_response \<Rightarrow> string \<Rightarrow> auth_db \<times> (http_error + uuid \<times> string)" where
  "register_verify cr ss wp st db now new_id req cid credential name =
     (if length name > 120 then (db, Inl (HTTPException 422 ''name'')) else
      case get_session_user (hash_token cr) ss db now req of
        (db', Inl e) \<Rightarrow> (db', Inl e)
      | (db', Inr (u, s)) \<Rightarrow>
         (case verify_registration wp st db' now new_id u cid credential name of
            Inl e \<Rightarrow> (db', Inl (passkey_http_error 400 e))
          | Inr (db'', stored) \<Rightarrow> (db'', Inr (wc_id stored, wc_name stored))))"

definition authenticate_options ::
  "webauthn_package \<Rightarrow> webauthn_settings \<Rightarrow> auth_db \<Rightarrow> datetime \<Rightarrow> uuid \<Rightarrow> bytes \<Rightarrow> auth_db \<times> (http_error + uuid \<times> json)" where
  "authenticate_options wp st db now new_id challenge =
     (case authentication_options wp st db now new_id challenge of
        Inl e \<Rightarrow> (db, Inl (uncaught e))
      | Inr (db', r) \<Rightarrow> (db', Inr r))"

text \<open>A disabled account is refused only after the challenge and the counter have been written.\<close>

definition authenticate_verify ::
  "crypto \<Rightarrow> session_settings \<Rightarrow> webauthn_package \<Rightarrow> webauthn_settings \<Rightarrow> auth_db \<Rightarrow> datetime \<Rightarrow> string \<Rightarrow> http_request \<Rightarrow>
     uuid \<Rightarrow> passkey_response \<Rightarrow> auth_db \<times> (http_error + user_response \<times> session_data)" where
  "authenticate_verify cr ss wp st db now session_token req cid credential =
     (case verify_authentication wp st db now cid credential of
        Inl e \<Rightarrow> (db, Inl (passkey_http_error 401 e))
      | Inr (db', u) \<Rightarrow>
         if \<not> user_is_active u then (db', Inl (HTTPException 403 ''Account is disabled''))
         else let (db'', s) = create_session (hash_token cr) ss db' now session_token u req ''passkey''
              in (db'', Inr (serialize_user db'' u (Some s), s)))"

text \<open>How the database layer reads an identifier from a path, \<open>Inl\<close> what it raises, is a parameter.\<close>

definition delete_passkey ::
  "(string \<Rightarrow> string + uuid) \<Rightarrow> crypto \<Rightarrow> session_settings \<Rightarrow> auth_db \<Rightarrow> datetime \<Rightarrow> http_request \<Rightarrow> string \<Rightarrow> auth_db \<times> (http_error + unit)" where
  "delete_passkey uuid_of cr ss db now req passkey =
     (case get_session_user (hash_token cr) ss db now req of
        (db', Inl e) \<Rightarrow> (db', Inl e)
      | (db', Inr (u, s)) \<Rightarrow>
         (case uuid_of passkey of
            Inl e \<Rightarrow> (db', Inl (UnhandledException e))
          | Inr i \<Rightarrow>
             let mine = (\<lambda>c. wc_id c = i \<and> wc_user c = user_id u) in
             if exists_row mine (webauthn_credentials db')
             then (db'\<lparr> webauthn_credentials := delete_rows mine (webauthn_credentials db') \<rparr>, Inr ())
             else (db', Inl (HTTPException 404 ''Passkey not found''))))"

record passkey_summary =
  ps_id :: uuid
  ps_name :: string
  ps_device_type :: string
  ps_backed_up :: bool
  ps_transports :: "string list"
  ps_created_at :: datetime
  ps_last_used_at :: "datetime option"

record security_overview =
  so_two_factor_enabled :: bool
  so_recovery_codes_remaining :: nat
  so_passkeys :: "passkey_summary list"

definition passkey_summary_of :: "webauthn_credential \<Rightarrow> passkey_summary" where
  "passkey_summary_of c = \<lparr> ps_id = wc_id c, ps_name = wc_name c, ps_device_type = wc_device_type c,
     ps_backed_up = wc_backed_up c, ps_transports = wc_transports c, ps_created_at = wc_created_at c,
     ps_last_used_at = wc_last_used_at c \<rparr>"

definition security_summary ::
  "crypto \<Rightarrow> session_settings \<Rightarrow> auth_db \<Rightarrow> datetime \<Rightarrow> http_request \<Rightarrow> auth_db \<times> (http_error + security_overview)" where
  "security_summary cr ss db now req =
     (case get_session_user (hash_token cr) ss db now req of
        (db', Inl e) \<Rightarrow> (db', Inl e)
      | (db', Inr (u, s)) \<Rightarrow> (db', Inr \<lparr> so_two_factor_enabled = user_has_two_factor db' u,
          so_recovery_codes_remaining = length (filter (\<lambda>r. rc_user r = user_id u \<and> rc_used_at r = None) (recovery_codes db')),
          so_passkeys = map passkey_summary_of (sort_key (\<lambda>c. - wc_created_at c)
            (filter (\<lambda>c. wc_user c = user_id u) (webauthn_credentials db'))) \<rparr>))"

section \<open>The ceremonies\<close>

lemma decoded_b64 [simp]: "decoded (b64 x) = Inr x"
  by (simp add: decoded_def unb64_b64)

lemma get_challenge_Inr:
  "get_challenge db now cid ctype = Inr c \<longleftrightarrow>
     find (\<lambda>c. ch_id c = cid \<and> ch_type c = ctype \<and> ch_consumed_at c = None) (authentication_challenges db) = Some c \<and>
     now < ch_expires_at c"
  by (auto simp: get_challenge_def split: option.splits)

lemma store_challenge_found:
  assumes "store_challenge wp db now cid challenge ctype u = Inr db'" and "now' < now + minutes CHALLENGE_TTL_MINUTES"
  obtains c where "get_challenge db' now' cid ctype = Inr c" and "expected_challenge c = Inr challenge"
    and "users db' = users db" and "webauthn_credentials db' = webauthn_credentials db"
proof -
  let ?c = "\<lparr> ch_id = cid, ch_user = map_option user_id u, ch_type = ctype, ch_hash = sha256_hexdigest wp challenge,
    ch_expires_at = now + minutes CHALLENGE_TTL_MINUTES, ch_consumed_at = None, ch_metadata = [(''challenge'', b64 challenge)] \<rparr>"
  have fresh: "\<forall>x \<in> set (authentication_challenges db). ch_id x \<noteq> cid"
    and db': "db' = db\<lparr> authentication_challenges := authentication_challenges db @ [?c] \<rparr>"
    using assms(1) by (auto simp: store_challenge_def Let_def exists_row_def)
  have "find (\<lambda>c. ch_id c = cid \<and> ch_type c = ctype \<and> ch_consumed_at c = None) (authentication_challenges db) = None"
    using fresh by (auto simp: find_None_iff)
  then have "get_challenge db' now' cid ctype = Inr ?c"
    using assms(2) by (simp add: get_challenge_Inr db' find_append)
  moreover have "expected_challenge ?c = Inr challenge" by (simp add: expected_challenge_def)
  ultimately show thesis using that by (simp add: db')
qed

lemma find_first: "find (\<lambda>_. True) xs = Some x \<longleftrightarrow> (\<exists>ys. xs = x # ys)"
  by (cases xs) auto

lemma credential_pairs:
  "x \<in> set [(c, u). c \<leftarrow> cs, u \<leftarrow> us, wc_credential_id c = i, user_id u = wc_user c] \<longleftrightarrow>
     fst x \<in> set cs \<and> snd x \<in> set us \<and> wc_credential_id (fst x) = i \<and> user_id (snd x) = wc_user (fst x)"
  by (cases x) (auto split: if_splits)

lemma find_credential_Some:
  assumes "find_credential db i = Some (c, u)"
  shows "c \<in> set (webauthn_credentials db) \<and> u \<in> set (users db) \<and> wc_credential_id c = i \<and> user_id u = wc_user c"
  using assms credential_pairs [where x = "(c, u)" and cs = "webauthn_credentials db" and us = "users db" and i = i]
  unfolding find_credential_def find_first by (metis fst_conv list.set_intros(1) snd_conv)

lemma find_credential_unique:
  assumes "c \<in> set (webauthn_credentials db)"
    and "\<And>c'. c' \<in> set (webauthn_credentials db) \<Longrightarrow> wc_credential_id c' = wc_credential_id c \<Longrightarrow> c' = c"
    and "u \<in> set (users db)" and "distinct (map user_id (users db))" and "user_id u = wc_user c"
  shows "find_credential db (wc_credential_id c) = Some (c, u)"
proof -
  define xs where "xs = [(c', u'). c' \<leftarrow> webauthn_credentials db, u' \<leftarrow> users db,
    wc_credential_id c' = wc_credential_id c, user_id u' = wc_user c']"
  have pairs: "x \<in> set xs \<longleftrightarrow> fst x \<in> set (webauthn_credentials db) \<and> snd x \<in> set (users db) \<and>
      wc_credential_id (fst x) = wc_credential_id c \<and> user_id (snd x) = wc_user (fst x)" for x
    unfolding xs_def by (rule credential_pairs)
  have "(c, u) \<in> set xs" using assms by (simp add: pairs)
  then obtain y ys where xs: "xs = y # ys" by (cases xs) auto
  then have y: "y \<in> set xs" by simp
  then have c: "fst y = c" using assms(2) pairs by blast
  then have "snd y \<in> set (users db)" "user_id (snd y) = user_id u" using y assms(5) pairs [of y] by auto
  then have "snd y = u" using assms(3, 4) by (metis distinct_map inj_onD)
  with c xs show ?thesis unfolding find_credential_def xs_def [symmetric] find_first by (metis prod.collapse)
qed

lemma challenge_used_once:
  "get_challenge (consume_challenge db now c) now' (ch_id c) ctype = Inl (PyValueError ''WebAuthn challenge expired'')"
proof -
  have "find (\<lambda>x. ch_id x = ch_id c \<and> ch_type x = ctype \<and> ch_consumed_at x = None)
      (authentication_challenges (consume_challenge db now c)) = None"
    by (auto simp: find_None_iff consume_challenge_def update_rows_def)
  then show ?thesis by (simp add: get_challenge_def)
qed

lemma create_session_keeps:
  "create_session h ss db now token u req m = (db', s) \<Longrightarrow>
     authentication_challenges db' = authentication_challenges db \<and> sd_user_id s = user_id u \<and> auth_method s = m"
  by (auto simp: create_session_def redis_set_def Let_def)

lemma get_challenge_cong:
  "authentication_challenges db' = authentication_challenges db \<Longrightarrow> get_challenge db' now cid ctype = get_challenge db now cid ctype"
  by (simp add: get_challenge_def)

lemma stored_registration:
  "registration_options wp st db now cid challenge u = Inr (db', opts) \<Longrightarrow>
     store_challenge wp db now cid challenge ''webauthn_registration'' (Some u) = Inr db'"
  by (auto simp: registration_options_def)

lemma stored_authentication:
  "authenticate_options wp st db now cid challenge = (db', Inr opts) \<Longrightarrow>
     store_challenge wp db now cid challenge ''webauthn_authentication'' None = Inr db'"
  by (auto simp: authenticate_options_def authentication_options_def split: sum.splits)

text \<open>C15: a passkey sign-in that succeeds answers an unexpired, unused challenge with the identifier sent,
  for a credential stored under the identifier the response names, was accepted by the package against that
  very challenge, the stored key and the stored counter, and opens a session for the active owner of the
  credential; the challenge is spent, so that no later sign-in can use it.\<close>

theorem passkey_login_sound:
  assumes "authenticate_verify cr ss wp st db now token req cid response = (db', Inr (answer, s))"
  shows "(\<exists>c stored u challenge key v. c \<in> set (authentication_challenges db) \<and> ch_id c = cid \<and>
      ch_type c = ''webauthn_authentication'' \<and> ch_consumed_at c = None \<and> now < ch_expires_at c \<and>
      stored \<in> set (webauthn_credentials db) \<and> map_of response ''id'' = Some (JStr (wc_credential_id stored)) \<and>
      u \<in> set (users db) \<and> user_id u = wc_user stored \<and> user_is_active u \<and> sd_user_id s = user_id u \<and>
      expected_challenge c = Inr challenge \<and> decoded (wc_public_key stored) = Inr key \<and>
      verify_authentication_response wp response challenge (webauthn_rp_id st) (webauthn_origin st) key
        (wc_sign_count stored) = Inr v) \<and>
    authenticate_verify cr ss wp st db' now' token' req' cid response' =
      (db', Inl (HTTPException 401 ''WebAuthn challenge expired''))"
proof -
  obtain db1 u where v: "verify_authentication wp st db now cid response = Inr (db1, u)" and "user_is_active u"
    and cs: "create_session (hash_token cr) ss db1 now token u req ''passkey'' = (db', s)"
    using assms by (auto simp: authenticate_verify_def Let_def split: sum.splits if_splits prod.splits)
  from v obtain c i stored challenge key w where c: "get_challenge db now cid ''webauthn_authentication'' = Inr c"
    and i: "map_of response ''id'' = Some (JStr i)" and f: "find_credential db i = Some (stored, u)"
    and facts: "expected_challenge c = Inr challenge" "decoded (wc_public_key stored) = Inr key"
      "verify_authentication_response wp response challenge (webauthn_rp_id st) (webauthn_origin st) key (wc_sign_count stored) = Inr w"
    and db1: "db1 = consume_challenge (use_credential db now stored w) now c"
    by (auto simp: verify_authentication_def split: option.splits json.splits)
  have cc: "c \<in> set (authentication_challenges db) \<and> ch_id c = cid \<and> ch_type c = ''webauthn_authentication'' \<and>
      ch_consumed_at c = None \<and> now < ch_expires_at c"
    using c by (auto simp: get_challenge_Inr find_Some_iff)
  have "get_challenge db' now' cid ''webauthn_authentication'' = Inl (PyValueError ''WebAuthn challenge expired'')"
    using challenge_used_once [of "use_credential db now stored w" now c now'] cc create_session_keeps [OF cs]
    by (simp add: get_challenge_cong [of db' db1] db1)
  then have "authenticate_verify cr ss wp st db' now' token' req' cid response' =
      (db', Inl (HTTPException 401 ''WebAuthn challenge expired''))"
    by (simp add: authenticate_verify_def verify_authentication_def)
  with cc i facts find_credential_Some [OF f] create_session_keeps [OF cs] \<open>user_is_active u\<close> show ?thesis by blast
qed

text \<open>C16: what is registered can be used: once a registration ceremony has stored a passkey, a response with
  its identifier that the package accepts for the next challenge, the public key and the counter the
  registration had returned signs its owner in, within the lifetime of the challenge. Challenge and key
  come back from the database byte for byte.\<close>

theorem registered_passkey_signs_in:
  assumes "registration_options wp st db0 t0 cid challenge u = Inr (db1, opts)"
    and "verify_registration wp st db1 t1 new_id u cid credential name = Inr (db2, stored)"
    and "t1 < t0 + minutes CHALLENGE_TTL_MINUTES"
    and "verify_registration_response wp credential challenge (webauthn_rp_id st) (webauthn_origin st) = Inr rv"
    and "authenticate_options wp st db2 t2 cid2 challenge2 = (db3, Inr opts2)"
    and "t3 < t2 + minutes CHALLENGE_TTL_MINUTES"
    and "map_of response ''id'' = Some (JStr (b64 (rv_credential_id rv)))"
    and "verify_authentication_response wp response challenge2 (webauthn_rp_id st) (webauthn_origin st)
      (rv_credential_public_key rv) (rv_sign_count rv) = Inr v" and "length (av_device_type v) \<le> 64"
    and "distinct (map user_id (users db0))" and "u \<in> set (users db0)" and "user_is_active u"
  shows "\<exists>db4 answer s. authenticate_verify cr ss wp st db3 t3 token req cid2 response = (db4, Inr (answer, s)) \<and>
    sd_user_id s = user_id u \<and> auth_method s = ''passkey''"
proof -
  obtain c where c: "get_challenge db1 t1 cid ''webauthn_registration'' = Inr c" "expected_challenge c = Inr challenge"
    and u1: "users db1 = users db0"
    using store_challenge_found [OF stored_registration [OF assms(1)] assms(3)] by metis
  have s: "wc_user stored = user_id u" "wc_credential_id stored = b64 (rv_credential_id rv)"
      "wc_public_key stored = b64 (rv_credential_public_key rv)" "wc_sign_count stored = rv_sign_count rv"
    and w2: "webauthn_credentials db2 = webauthn_credentials db1 @ [stored]"
    and fresh: "\<forall>x \<in> set (webauthn_credentials db1). wc_credential_id x \<noteq> wc_credential_id stored"
    and u2: "users db2 = users db1"
    using assms(2, 4) c
    by (auto simp: verify_registration_def insert_credential_def consume_challenge_def exists_row_def Let_def)
  obtain c2 where c2: "get_challenge db3 t3 cid2 ''webauthn_authentication'' = Inr c2" "expected_challenge c2 = Inr challenge2"
    and k: "users db3 = users db2" "webauthn_credentials db3 = webauthn_credentials db2"
    using store_challenge_found [OF stored_authentication [OF assms(5)] assms(6)] by metis
  have "find_credential db3 (wc_credential_id stored) = Some (stored, u)"
    by (rule find_credential_unique) (use assms(10-11) fresh k w2 u1 u2 s in auto)
  then have f: "find_credential db3 (b64 (rv_credential_id rv)) = Some (stored, u)" using s by simp
  have "verify_authentication wp st db3 t3 cid2 response =
      Inr (consume_challenge (use_credential db3 t3 stored v) t3 c2, u)"
    using c2 f assms(7-9) s by (simp add: verify_authentication_def raise_if_def)
  then show ?thesis
    using assms(12) create_session_keeps
    by (auto simp: authenticate_verify_def Let_def split: prod.splits)
qed

section \<open>A concrete ceremony\<close>

text \<open>A package that accepts a response naming the challenge, and returns one credential.\<close>

definition sample_package :: webauthn_package where
  "sample_package = \<lparr>
     generate_registration_options = (\<lambda>st challenge u exclude. JStr (b64 challenge)),
     generate_authentication_options = (\<lambda>st challenge. JStr (b64 challenge)),
     verify_registration_response = (\<lambda>response challenge rp_id origin.
       if map_of response ''challenge'' = Some (JStr (b64 challenge))
       then Inr \<lparr> rv_credential_id = [7], rv_credential_public_key = [1, 2, 3], rv_sign_count = 0,
                  rv_device_type = ''single_device'', rv_backed_up = False \<rparr>
       else Inl (PyOtherError ''InvalidRegistrationResponse'')),
     verify_authentication_response = (\<lambda>response challenge rp_id origin key sign_count.
       if map_of response ''challenge'' = Some (JStr (b64 challenge)) \<and> key = [1, 2, 3]
       then Inr \<lparr> av_new_sign_count = sign_count + 1, av_device_type = ''single_device'', av_backed_up = False \<rparr>
       else Inl (PyOtherError ''InvalidAuthenticationResponse'')),
     sha256_hexdigest = b64 \<rparr>"

definition sample_relying_party :: webauthn_settings where
  "sample_relying_party = \<lparr> webauthn_rp_id = ''nms.example'', webauthn_rp_name = ''BifrostNMS'',
     webauthn_origin = ''https://nms.example'' \<rparr>"

definition sample_passkey :: webauthn_credential where
  "sample_passkey = \<lparr> wc_id = 30, wc_user = 4, wc_credential_id = b64 [7], wc_public_key = b64 [1, 2, 3],
     wc_sign_count = 0, wc_name = ''Passkey'', wc_device_type = ''single_device'', wc_backed_up = False,
     wc_transports = [''usb''], wc_last_used_at = None, wc_created_at = 20 \<rparr>"

definition registration_response :: passkey_response where
  "registration_response = [(''challenge'', JStr (b64 [9])),
     (''response'', JDict [(''transports'', JList [JStr ''usb''])])]"

definition authentication_response :: passkey_response where
  "authentication_response = [(''id'', JStr (b64 [7])), (''challenge'', JStr (b64 [8]))]"

definition passkey_challenge :: "uuid \<Rightarrow> uuid option \<Rightarrow> string \<Rightarrow> bytes \<Rightarrow> datetime \<Rightarrow> datetime option \<Rightarrow> authentication_challenge" where
  "passkey_challenge i u ctype challenge now consumed = \<lparr> ch_id = i, ch_user = u, ch_type = ctype, ch_hash = b64 challenge,
     ch_expires_at = now + minutes 5, ch_consumed_at = consumed, ch_metadata = [(''challenge'', b64 challenge)] \<rparr>"

definition signing_up_db :: auth_db where
  "signing_up_db = empty_auth_db\<lparr> users := [sample_user],
     authentication_challenges := [passkey_challenge 20 (Some 4) ''webauthn_registration'' [9] 10 None] \<rparr>"

definition passkey_db :: auth_db where
  "passkey_db = signing_up_db\<lparr> webauthn_credentials := [sample_passkey],
     authentication_challenges := [passkey_challenge 20 (Some 4) ''webauthn_registration'' [9] 10 (Some 20)] \<rparr>"

definition signing_in_db :: auth_db where
  "signing_in_db = passkey_db\<lparr> authentication_challenges := authentication_challenges passkey_db @
     [passkey_challenge 21 None ''webauthn_authentication'' [8] 30 None] \<rparr>"

lemmas ceremony_defs = sample_package_def sample_relying_party_def sample_passkey_def registration_response_def
  authentication_response_def passkey_challenge_def signing_up_db_def passkey_db_def signing_in_db_def
  empty_auth_db_def CHALLENGE_TTL_MINUTES_def exists_row_def update_rows_def raise_if_def

lemma sample_registration_options:
  "registration_options sample_package sample_relying_party (empty_auth_db\<lparr> users := [sample_user] \<rparr>) 10 20 [9] sample_user =
     Inr (signing_up_db, 20, JStr (b64 [9]))"
  by (simp add: registration_options_def store_challenge_def ceremony_defs sample_user_def)

lemma sample_registration:
  "verify_registration sample_package sample_relying_party signing_up_db 20 30 sample_user 20 registration_response '' '' =
     Inr (passkey_db, sample_passkey)"
proof -
  have "strip '' '' = ''''" by code_simp
  moreover have "length (b64 [7]) \<le> 1024" by (simp add: b64_sextet_chars)
  ultimately show ?thesis
    by (simp add: verify_registration_def get_challenge_def expected_challenge_def transports_of_def insert_credential_def
        consume_challenge_def py_str_def ceremony_defs sample_user_def Let_def)
qed

lemma sample_authentication_options:
  "authenticate_options sample_package sample_relying_party passkey_db 30 21 [8] = (signing_in_db, Inr (21, JStr (b64 [8])))"
  by (simp add: authenticate_options_def authentication_options_def store_challenge_def ceremony_defs)

lemma sample_verifications:
  "verify_registration_response sample_package registration_response [9] rp_id origin =
     Inr \<lparr> rv_credential_id = [7], rv_credential_public_key = [1, 2, 3], rv_sign_count = 0,
       rv_device_type = ''single_device'', rv_backed_up = False \<rparr>"
  "verify_authentication_response sample_package authentication_response [8] rp_id origin [1, 2, 3] 0 =
     Inr \<lparr> av_new_sign_count = 1, av_device_type = ''single_device'', av_backed_up = False \<rparr>"
  by (simp_all add: ceremony_defs)

theorem registered_passkey_signs_in_witness:
  "\<exists>db4 answer s. authenticate_verify sample_crypto sample_settings sample_package sample_relying_party signing_in_db 40
     ''tok'' sample_request 21 authentication_response = (db4, Inr (answer, s)) \<and> sd_user_id s = user_id sample_user \<and>
     auth_method s = ''passkey''"
  using registered_passkey_signs_in [OF sample_registration_options sample_registration _ sample_verifications(1)
      sample_authentication_options, of 40 authentication_response
        "\<lparr> av_new_sign_count = 1, av_device_type = ''single_device'', av_backed_up = False \<rparr>" sample_crypto sample_settings "''tok''" sample_request]
    sample_verifications(2)
  by (simp add: CHALLENGE_TTL_MINUTES_def authentication_response_def sample_user_def)

theorem passkey_login_sound_witness:
  "\<exists>db' answer s. authenticate_verify sample_crypto sample_settings sample_package sample_relying_party signing_in_db 40
     ''tok'' sample_request 21 authentication_response = (db', Inr (answer, s)) \<and>
     authenticate_verify sample_crypto sample_settings sample_package sample_relying_party db' 50
       ''other'' sample_request 21 authentication_response = (db', Inl (HTTPException 401 ''WebAuthn challenge expired''))"
proof -
  obtain db1 s where c: "create_session (hash_token sample_crypto) sample_settings (consume_challenge
      (use_credential signing_in_db 40 sample_passkey \<lparr> av_new_sign_count = 1, av_device_type = ''single_device'', av_backed_up = False \<rparr>)
      40 (passkey_challenge 21 None ''webauthn_authentication'' [8] 30 None)) 40 ''tok'' sample_user sample_request ''passkey'' = (db1, s)"
    by (metis surj_pair)
  have "find_credential signing_in_db (b64 [7]) = Some (sample_passkey, sample_user)"
    by (simp add: find_credential_def ceremony_defs sample_user_def)
  then have "verify_authentication sample_package sample_relying_party signing_in_db 40 21 authentication_response =
      Inr (consume_challenge (use_credential signing_in_db 40 sample_passkey
        \<lparr> av_new_sign_count = 1, av_device_type = ''single_device'', av_backed_up = False \<rparr>)
        40 (passkey_challenge 21 None ''webauthn_authentication'' [8] 30 None), sample_user)"
    by (simp add: verify_authentication_def get_challenge_def expected_challenge_def ceremony_defs)
  with c have a: "authenticate_verify sample_crypto sample_settings sample_package sample_relying_party signing_in_db 40
     ''tok'' sample_request 21 authentication_response = (db1, Inr (serialize_user db1 sample_user (Some s), s))"
    by (simp add: authenticate_verify_def) (simp add: sample_user_def)
  from passkey_login_sound [OF a] a show ?thesis by blast
qed

end
