(* ===== verification/Email_Delivery.thy ===== *)
theory Email_Delivery
  imports Auth_WebAuthn
begin

text \<open>
  E-mail: \<^verbatim>\<open>email/base.py\<close>, \<^verbatim>\<open>email/smtp.py\<close>, \<^verbatim>\<open>email/microsoft_graph.py\<close>, the choice of a backend, the task
  \<^verbatim>\<open>tasks/email.py\<close> and the account messages of \<^verbatim>\<open>api/auth.py\<close>. What the other side answers is a parameter: the
  SMTP server for each call of \<^verbatim>\<open>smtplib\<close> after the calls before it, the file system, the token service and the
  Graph service. So is the serialised form of a MIME message. A send by SMTP returns the trace of the calls it
  made with their outcomes. PEM text is represented by its UTF-8 bytes. Repeating a task that failed is the work of
  Celery.
\<close>

section \<open>Messages\<close>

record email_message =
  msg_to :: "string list"
  msg_subject :: string
  msg_text :: string
  msg_html :: "string option"
  msg_reply_to :: "string option"
  msg_headers :: "(string \<times> string) list"

record mime_message =
  mime_headers :: "(string \<times> string) list"
  mime_text :: string
  mime_html :: "string option"

datatype mail_error =
    MailValueError string | MailTypeError string | MailUnicodeError string | MailLibraryError string
  | GraphConfigurationError string | GraphDeliveryError string

definition given :: "string option \<Rightarrow> string" where
  "given v = (case v of None \<Rightarrow> '''' | Some s \<Rightarrow> s)"

definition is_ascii :: "string \<Rightarrow> bool" where
  "is_ascii s \<longleftrightarrow> list_all (\<lambda>c. (of_char c :: nat) < 128) s"

text \<open>UTF-8 of a character below 256.\<close>

definition utf8_char :: "char \<Rightarrow> nat list" where
  "utf8_char c = (let n = (of_char c :: nat) in if n < 128 then [n] else [192 + n div 64, 128 + n mod 64])"

definition hex_byte :: "nat \<Rightarrow> string" where
  "hex_byte n = upper (hex_digits 2 n)"

text \<open>\<^verbatim>\<open>formataddr\<close> with the two encodings of a name outside ASCII, of which the shorter is taken.\<close>

definition quopri_header_byte :: "nat \<Rightarrow> string" where
  "quopri_header_byte n = (let c = char_of n in
     if is_alnum_ascii c \<or> c \<in> set ''-!*+/'' then [c] else if n = 32 then ''_'' else ''='' @ hex_byte n)"

definition standard_b64 :: "nat list \<Rightarrow> string" where
  "standard_b64 bs = map (\<lambda>c. if c = CHR ''-'' then CHR ''+'' else if c = CHR ''_'' then CHR ''/'' else c)
     (urlsafe_b64encode (map of_nat bs))"

definition header_encode :: "string \<Rightarrow> string" where
  "header_encode name = (let bs = concat (map utf8_char name); qp = concat (map quopri_header_byte bs); b = standard_b64 bs in
     if length b < length qp then ''=?utf-8?b?'' @ b @ ''?='' else ''=?utf-8?q?'' @ qp @ ''?='')"

definition formataddr :: "string \<Rightarrow> string \<Rightarrow> mail_error + string" where
  "formataddr name address =
     (if \<not> is_ascii address then Inl (MailUnicodeError ''UnicodeEncodeError'')
      else if name = '''' then Inr address
      else if \<not> is_ascii name then Inr (header_encode name @ '' <'' @ address @ ''>'')
      else let quotes = (if list_ex (\<lambda>c. c \<in> set ([CHR 0x5C, CHR 0x22] @ ''[]()<>@,:;.'')) name then [CHR 0x22] else [])
           in Inr (quotes @ concat (map (\<lambda>c. if c = CHR 0x5C \<or> c = CHR 0x22 then [CHR 0x5C, c] else [c]) name) @
                quotes @ '' <'' @ address @ ''>''))"

text \<open>Setting a header of the standard library's \<^verbatim>\<open>EmailMessage\<close>.\<close>

definition line_boundary :: "char \<Rightarrow> bool" where
  "line_boundary c \<longleftrightarrow> (let n = (of_char c :: nat) in 10 \<le> n \<and> n \<le> 13 \<or> 28 \<le> n \<and> n \<le> 30 \<or> n = 133)"

definition several_lines :: "string \<Rightarrow> bool" where
  "several_lines s \<longleftrightarrow> (let r = rev s;
       body = (case r of [] \<Rightarrow> [] | c # cs \<Rightarrow>
         if c = CHR 10 \<and> cs \<noteq> [] \<and> hd cs = CHR 13 then tl cs else if line_boundary c then cs else r)
     in list_ex line_boundary body)"

definition UNIQUE_HEADERS :: "string list" where
  "UNIQUE_HEADERS = [''subject'', ''date'', ''orig-date'', ''sender'', ''to'', ''cc'', ''bcc'', ''from'', ''reply-to'',
     ''mime-version'', ''content-type'', ''content-disposition'', ''content-transfer-encoding'', ''message-id'']"

definition set_header :: "string \<Rightarrow> string \<Rightarrow> (string \<times> string) list \<Rightarrow> mail_error + (string \<times> string) list" where
  "set_header key value hs =
     bind_result (raise_if (lower key \<in> set UNIQUE_HEADERS \<and> list_ex (\<lambda>(k, _). lower k = lower key) hs)
       (MailValueError ''There may be at most 1 such header in a message'')) (\<lambda>_.
     bind_result (raise_if (several_lines value)
       (MailValueError ''Header values may not contain linefeed or carriage return characters'')) (\<lambda>_.
     Inr (hs @ [(key, value)])))"

fun set_headers :: "(string \<times> string) list \<Rightarrow> (string \<times> string) list \<Rightarrow> mail_error + (string \<times> string) list" where
  "set_headers [] hs = Inr hs"
| "set_headers ((k, v) # kvs) hs = bind_result (set_header k v hs) (set_headers kvs)"

text \<open>\<^verbatim>\<open>set_content\<close> refuses a multipart message and drops the headers that describe the content.\<close>

definition is_multipart :: "(string \<times> string) list \<Rightarrow> bool" where
  "is_multipart hs = (case find (\<lambda>(k, _). lower k = ''content-type'') hs of
      None \<Rightarrow> False
    | Some (_, v) \<Rightarrow> let ctype = lower (strip (takeWhile (\<lambda>c. c \<noteq> CHR '';'') v)) in
        length (filter (\<lambda>c. c = CHR ''/'') ctype) = 1 \<and> takeWhile (\<lambda>c. c \<noteq> CHR ''/'') ctype = ''multipart'')"

definition build_mime_message :: "email_message \<Rightarrow> string \<Rightarrow> string option \<Rightarrow> mail_error + mime_message" where
  "build_mime_message msg from_email from_name =
     bind_result (raise_if (msg_to msg = []) (MailValueError ''Email message must contain at least one recipient'')) (\<lambda>_.
     bind_result (formataddr (given from_name) from_email) (\<lambda>sender.
     bind_result (set_headers ([(''From'', sender), (''To'', join_with '', '' (msg_to msg)), (''Subject'', msg_subject msg)] @
         (if given (msg_reply_to msg) \<noteq> '''' then [(''Reply-To'', given (msg_reply_to msg))] else []) @ msg_headers msg) []) (\<lambda>hs.
     bind_result (raise_if (is_multipart hs) (MailTypeError ''set_content not valid on multipart'')) (\<lambda>_.
     Inr \<lparr> mime_headers = filter (\<lambda>(k, _). \<not> startswith (lower k) ''content-'') hs, mime_text = msg_text msg,
           mime_html = (if given (msg_html msg) \<noteq> '''' then msg_html msg else None) \<rparr>))))"

section \<open>SMTP\<close>

record smtp_backend =
  smtp_host :: string
  smtp_port :: int
  smtp_security :: string
  smtp_from_email :: string
  smtp_from_name :: "string option"
  smtp_username :: "string option"
  smtp_password :: "string option"

definition smtp_init :: "smtp_backend \<Rightarrow> mail_error + smtp_backend" where
  "smtp_init b =
     bind_result (raise_if ((given (smtp_username b) \<noteq> '''') \<noteq> (given (smtp_password b) \<noteq> ''''))
       (MailValueError ''SMTP username and password must either both be set or both be omitted'')) (\<lambda>_.
     bind_result (raise_if (smtp_security b \<notin> {''none'', ''starttls'', ''ssl''})
       (MailValueError (''Unsupported SMTP security mode: '' @ smtp_security b))) (\<lambda>_.
     Inr b))"

definition authenticated :: "smtp_backend \<Rightarrow> bool" where
  "authenticated b \<longleftrightarrow> smtp_username b \<noteq> None \<and> smtp_password b \<noteq> None"

text \<open>The calls of \<^verbatim>\<open>smtplib\<close>. A connection is encrypted from the start or in the clear.\<close>

datatype smtp_action = Connect string int bool | Ehlo | StartTls | Login string string | SendMessage mime_message | Quit

type_synonym smtp_trace = "(smtp_action \<times> bool) list"
type_synonym smtp_server = "smtp_trace \<Rightarrow> smtp_action \<Rightarrow> string option"

fun smtp_calls :: "smtp_server \<Rightarrow> smtp_trace \<Rightarrow> smtp_action list \<Rightarrow> smtp_trace \<times> (mail_error + unit)" where
  "smtp_calls server tr [] = (tr, Inr ())"
| "smtp_calls server tr (a # as) = (case server tr a of
      Some e \<Rightarrow> (tr @ [(a, False)], Inl (MailLibraryError e))
    | None \<Rightarrow> smtp_calls server (tr @ [(a, True)]) as)"

text \<open>\<^verbatim>\<open>with smtplib.SMTP(...) as client\<close>: the connection is closed with QUIT whatever happened, and an error there replaces the
  result.\<close>

definition with_client :: "smtp_server \<Rightarrow> smtp_action \<Rightarrow> smtp_action list \<Rightarrow> smtp_trace \<times> (mail_error + unit)" where
  "with_client server connect calls = (case smtp_calls server [] [connect] of
      (tr, Inl e) \<Rightarrow> (tr, Inl e)
    | (tr, Inr _) \<Rightarrow> (case smtp_calls server tr calls of (tr1, r) \<Rightarrow>
        (case smtp_calls server tr1 [Quit] of (tr2, Inl e) \<Rightarrow> (tr2, Inl e) | (tr2, Inr _) \<Rightarrow> (tr2, r))))"

definition authenticate_and_send :: "smtp_backend \<Rightarrow> mime_message \<Rightarrow> smtp_action list" where
  "authenticate_and_send b mime =
     (if authenticated b then [Login (given (smtp_username b)) (given (smtp_password b))] else []) @ [SendMessage mime]"

definition smtp_send :: "smtp_server \<Rightarrow> smtp_backend \<Rightarrow> email_message \<Rightarrow> smtp_trace \<times> (mail_error + unit)" where
  "smtp_send server b msg = (case build_mime_message msg (smtp_from_email b) (smtp_from_name b) of
      Inl e \<Rightarrow> ([], Inl e)
    | Inr mime \<Rightarrow>
        if smtp_security b = ''ssl''
        then with_client server (Connect (smtp_host b) (smtp_port b) True) (authenticate_and_send b mime)
        else with_client server (Connect (smtp_host b) (smtp_port b) False)
          ([Ehlo] @ (if smtp_security b = ''starttls'' then [StartTls, Ehlo] else []) @ authenticate_and_send b mime))"

section \<open>Microsoft Graph\<close>

text \<open>\<^verbatim>\<open>b64decode(..., validate=True)\<close>: the strict mode of the decoder. \<open>pads\<close> counts as in \<^const>\<open>a2b_base64\<close>.\<close>

fun b64_strict :: "nat \<Rightarrow> nat \<Rightarrow> string \<Rightarrow> bool" where
  "b64_strict q pads [] \<longleftrightarrow> q = 0"
| "b64_strict q pads (c # cs) \<longleftrightarrow>
     (if c = CHR ''='' then
        (if 2 \<le> q \<and> 4 \<le> q + (pads + 1) then cs = [] else b64_strict q (if 2 \<le> q then pads + 1 else pads) cs)
      else c \<notin> {CHR ''-'', CHR ''_''} \<and> char_sextet c \<noteq> None \<and> pads = 0 \<and> b64_strict ((q + 1) mod 4) 0 cs)"

definition b64decode_valid :: "string \<Rightarrow> bytes option" where
  "b64decode_valid s = (if is_ascii s \<and> (s \<noteq> [] \<longrightarrow> hd s \<noteq> CHR ''='') \<and> b64_strict 0 0 s
     then (case a2b_base64 0 0 0 s of Inl _ \<Rightarrow> None | Inr bs \<Rightarrow> Some bs) else None)"

definition continuation :: "nat \<Rightarrow> bool" where
  "continuation n \<longleftrightarrow> 128 \<le> n \<and> n < 192"

text \<open>What \<^verbatim>\<open>decode("utf-8")\<close> accepts: no overlong form, no surrogate, nothing above U+10FFFF.\<close>

fun utf8_valid :: "nat list \<Rightarrow> bool" where
  "utf8_valid [] \<longleftrightarrow> True"
| "utf8_valid (a # bs) \<longleftrightarrow>
     (if a < 128 then utf8_valid bs
      else if 194 \<le> a \<and> a < 224 then
        (case bs of b # cs \<Rightarrow> continuation b \<and> utf8_valid cs | _ \<Rightarrow> False)
      else if 224 \<le> a \<and> a < 240 then
        (case bs of b # c # cs \<Rightarrow> continuation b \<and> continuation c \<and> (a = 224 \<longrightarrow> 160 \<le> b) \<and> (a = 237 \<longrightarrow> b < 160) \<and> utf8_valid cs
         | _ \<Rightarrow> False)
      else if 240 \<le> a \<and> a < 245 then
        (case bs of b # c # d # cs \<Rightarrow> continuation b \<and> continuation c \<and> continuation d \<and>
           (a = 240 \<longrightarrow> 144 \<le> b) \<and> (a = 244 \<longrightarrow> b < 144) \<and> utf8_valid cs
         | _ \<Rightarrow> False)
      else False)"

definition text_of_bytes :: "bytes \<Rightarrow> string" where
  "text_of_bytes bs = map (\<lambda>b. char_of (unat b)) bs"

type_synonym file_system = "string \<Rightarrow> bytes option"

definition read_pem_credential ::
  "file_system \<Rightarrow> string option \<Rightarrow> string option \<Rightarrow> string \<Rightarrow> mail_error + string" where
  "read_pem_credential files base64_value path_value label =
     (let encoded = strip (given base64_value); raw_path = strip (given path_value) in
      if encoded \<noteq> '''' then
        (case b64decode_valid encoded of
           None \<Rightarrow> Inl (if is_ascii encoded then GraphConfigurationError (label @ '' base64 value is not valid base64-encoded UTF-8'')
                     else MailValueError ''string argument should contain only ASCII characters'')
         | Some bs \<Rightarrow>
            if \<not> utf8_valid (map unat bs) then Inl (GraphConfigurationError (label @ '' base64 value is not valid base64-encoded UTF-8''))
            else if \<not> contains (text_of_bytes bs) ''-----BEGIN '' then Inl (GraphConfigurationError (label @ '' does not contain PEM data''))
            else Inr (text_of_bytes bs))
      else if raw_path = '''' then
        Inl (GraphConfigurationError (''Configure '' @ label @ '' using either its base64 value or file path''))
      else (case files raw_path of
           None \<Rightarrow> Inl (GraphConfigurationError (''Could not read '' @ label @ '': '' @ raw_path))
         | Some bs \<Rightarrow>
            if \<not> utf8_valid (map unat bs) then Inl (MailUnicodeError ''UnicodeDecodeError'')
            else if \<not> contains (text_of_bytes bs) ''-----BEGIN ''
            then Inl (GraphConfigurationError (label @ '' file does not contain PEM data''))
            else Inr (text_of_bytes bs)))"

record graph_backend =
  graph_tenant_id :: string
  graph_client_id :: string
  graph_sender_email :: string
  graph_private_key :: string
  graph_public_certificate :: string
  graph_passphrase :: "string option"
  graph_from_name :: "string option"

fun all_required :: "(string \<times> string) list \<Rightarrow> mail_error + unit" where
  "all_required [] = Inr ()"
| "all_required ((name, v) # nvs) =
     (if strip v = '''' then Inl (GraphConfigurationError (''Microsoft Graph '' @ name @ '' is required'')) else all_required nvs)"

definition graph_init :: "graph_backend \<Rightarrow> mail_error + graph_backend" where
  "graph_init b =
     bind_result (all_required [(''tenant_id'', graph_tenant_id b), (''client_id'', graph_client_id b),
       (''sender_email'', graph_sender_email b), (''private_key'', graph_private_key b),
       (''public_certificate'', graph_public_certificate b)]) (\<lambda>_. Inr b)"

fun truthy :: "json \<Rightarrow> bool" where
  "truthy JNull \<longleftrightarrow> False"
| "truthy (JBool b) \<longleftrightarrow> b"
| "truthy (JNum n) \<longleftrightarrow> n \<noteq> 0"
| "truthy (JStr s) \<longleftrightarrow> s \<noteq> ''''"
| "truthy (JList xs) \<longleftrightarrow> xs \<noteq> []"
| "truthy (JDict kvs) \<longleftrightarrow> kvs \<noteq> []"

text \<open>What the send asks of the outside: the token service gets the client, the authority, the credential and the
  scopes; the Graph service gets the address, the headers and the body, and answers with a status and its headers.\<close>

record graph_services =
  acquire_token :: "string \<Rightarrow> string \<Rightarrow> (string \<times> string) list \<Rightarrow> string list \<Rightarrow> (string \<times> json) list"
  post :: "string \<Rightarrow> (string \<times> string) list \<Rightarrow> string \<Rightarrow> string + int \<times> (string \<times> string) list"
  as_bytes :: "mime_message \<Rightarrow> bytes"

definition GRAPH_SCOPE :: "string list" where
  "GRAPH_SCOPE = [''https://graph.microsoft.com/.default'']"

definition get_access_token :: "graph_services \<Rightarrow> graph_backend \<Rightarrow> mail_error + string" where
  "get_access_token gs b =
     (let credential = [(''private_key'', graph_private_key b), (''public_certificate'', graph_public_certificate b)] @
            (if given (graph_passphrase b) \<noteq> '''' then [(''passphrase'', given (graph_passphrase b))] else []);
          result = acquire_token gs (graph_client_id b) (''https://login.microsoftonline.com/'' @ graph_tenant_id b) credential GRAPH_SCOPE
      in case map_of result ''access_token'' of
           Some t \<Rightarrow> if truthy t then Inr (py_str t) else Inl (GraphDeliveryError
             (''Could not authenticate Microsoft Graph email service: '' @ (case map_of result ''error_description'' of
                None \<Rightarrow> ''Microsoft identity rejected the request'' | Some d \<Rightarrow> py_str d)))
         | None \<Rightarrow> Inl (GraphDeliveryError
             (''Could not authenticate Microsoft Graph email service: '' @ (case map_of result ''error_description'' of
                None \<Rightarrow> ''Microsoft identity rejected the request'' | Some d \<Rightarrow> py_str d))))"

text \<open>\<^verbatim>\<open>quote(s, safe="")\<close> and \<^verbatim>\<open>quote_plus(s)\<close>.\<close>

definition quote_char :: "char \<Rightarrow> string" where
  "quote_char c = (if is_alnum_ascii c \<or> c \<in> set ''_.-~'' then [c] else concat (map (\<lambda>n. ''%'' @ hex_byte n) (utf8_char c)))"

definition quote_all :: "string \<Rightarrow> string" where
  "quote_all s = concat (map quote_char s)"

definition quote_plus :: "string \<Rightarrow> string" where
  "quote_plus s = concat (map (\<lambda>c. if c = CHR '' '' then ''+'' else quote_char c) s)"

definition graph_send :: "graph_services \<Rightarrow> graph_backend \<Rightarrow> email_message \<Rightarrow> mail_error + unit" where
  "graph_send gs b msg =
     bind_result (build_mime_message msg (graph_sender_email b) (graph_from_name b)) (\<lambda>mime.
     bind_result (get_access_token gs b) (\<lambda>token.
     case post gs (''https://graph.microsoft.com/v1.0/users/'' @ quote_all (graph_sender_email b) @ ''/sendMail'')
         [(''Authorization'', ''Bearer '' @ token), (''Content-Type'', ''text/plain'')]
         (standard_b64 (map unat (as_bytes gs mime))) of
       Inl e \<Rightarrow> Inl (MailLibraryError e)
     | Inr (status, hs) \<Rightarrow>
         if status \<noteq> 202 then Inl (GraphDeliveryError (''Microsoft Graph rejected the email (status '' @ str_int status @
           '', request ID '' @ (case map_of hs ''request-id'' of None \<Rightarrow> ''unknown'' | Some i \<Rightarrow> i) @ '')''))
         else Inr ()))"

section \<open>The task\<close>

datatype email_backend = SmtpBackend smtp_backend | GraphBackend graph_backend

record mail_settings =
  ms_email_backend :: string
  ms_smtp :: smtp_backend
  ms_tenant_id :: "string option"
  ms_client_id :: "string option"
  ms_sender_email :: "string option"
  ms_certificate_base64 :: "string option"
  ms_private_key_base64 :: "string option"
  ms_certificate_path :: "string option"
  ms_private_key_path :: "string option"
  ms_passphrase :: "string option"
  ms_from_name :: "string option"

definition get_email_backend :: "file_system \<Rightarrow> mail_settings \<Rightarrow> mail_error + email_backend" where
  "get_email_backend files ms =
     (if ms_email_backend ms = ''smtp'' then bind_result (smtp_init (ms_smtp ms)) (\<lambda>b. Inr (SmtpBackend b))
      else if ms_email_backend ms = ''microsoft_graph'' then
        bind_result (read_pem_credential files (ms_private_key_base64 ms) (ms_private_key_path ms) ''Microsoft Graph private key'') (\<lambda>key.
        bind_result (read_pem_credential files (ms_certificate_base64 ms) (ms_certificate_path ms) ''Microsoft Graph certificate'') (\<lambda>cert.
        bind_result (graph_init \<lparr> graph_tenant_id = given (ms_tenant_id ms), graph_client_id = given (ms_client_id ms),
            graph_sender_email = given (ms_sender_email ms), graph_private_key = key, graph_public_certificate = cert,
            graph_passphrase = ms_passphrase ms, graph_from_name = ms_from_name ms \<rparr>) (\<lambda>b. Inr (GraphBackend b))))
      else Inl (MailValueError (''Unsupported email backend: '' @ ms_email_backend ms)))"

definition send_email :: "file_system \<Rightarrow> smtp_server \<Rightarrow> graph_services \<Rightarrow> mail_settings \<Rightarrow> email_message \<Rightarrow> smtp_trace \<times> (mail_error + unit)" where
  "send_email files server gs ms msg = (case get_email_backend files ms of
      Inl e \<Rightarrow> ([], Inl e)
    | Inr (SmtpBackend b) \<Rightarrow> smtp_send server b msg
    | Inr (GraphBackend b) \<Rightarrow> ([], graph_send gs b msg))"

text \<open>The message that \<^verbatim>\<open>_send_account_email\<close> hands to the task.\<close>

definition send_account_email :: "string \<Rightarrow> account_mail \<Rightarrow> email_message" where
  "send_account_email frontend_url mail =
     (let url = rstrip_on (\<lambda>c. c = CHR ''/'') frontend_url @ mail_path mail @ ''?token='' @ quote_plus (mail_token mail) in
      \<lparr> msg_to = [mail_to mail], msg_subject = mail_subject mail,
        msg_text = ''Open this link to continue:'' @ [CHR 10, CHR 10] @ url @ [CHR 10, CHR 10] @
          ''If you did not request this, ignore this email.'',
        msg_html = None, msg_reply_to = None, msg_headers = [] \<rparr>)"

section \<open>What is sent in the clear\<close>

text \<open>A connection is protected once it was made encrypted or STARTTLS has succeeded.\<close>

definition protected :: "smtp_trace \<Rightarrow> bool" where
  "protected tr \<longleftrightarrow> list_ex (\<lambda>(a, ok). ok \<and> (a = StartTls \<or> (case a of Connect _ _ encrypted \<Rightarrow> encrypted | _ \<Rightarrow> False))) tr"

fun confidential :: "smtp_action \<Rightarrow> bool" where
  "confidential (Login _ _) \<longleftrightarrow> True"
| "confidential (SendMessage _) \<longleftrightarrow> True"
| "confidential _ \<longleftrightarrow> False"

text \<open>\<open>guarded p as\<close>: in the calls \<open>as\<close>, made when the connection is protected if \<open>p\<close>, nothing confidential comes first.\<close>

fun guarded :: "bool \<Rightarrow> smtp_action list \<Rightarrow> bool" where
  "guarded p [] \<longleftrightarrow> True"
| "guarded p (a # as) \<longleftrightarrow> (confidential a \<longrightarrow> p) \<and> guarded (p \<or> a = StartTls) as"

definition safe_trace :: "smtp_trace \<Rightarrow> bool" where
  "safe_trace tr \<longleftrightarrow> (\<forall>pre a ok post. tr = pre @ (a, ok) # post \<longrightarrow> confidential a \<longrightarrow> protected pre)"

lemma protected_append: "protected (tr @ tr') \<longleftrightarrow> protected tr \<or> protected tr'"
  by (simp only: protected_def list_ex_append)

lemma safe_trace_snoc: "safe_trace (tr @ [(a, ok)]) \<longleftrightarrow> safe_trace tr \<and> (confidential a \<longrightarrow> protected tr)"
proof
  assume l: "safe_trace (tr @ [(a, ok)])"
  have "confidential b \<Longrightarrow> protected pre" if "tr = pre @ (b, ok') # post" for pre b ok' post
    using l that unfolding safe_trace_def by (metis append_Cons append_assoc)
  with l show "safe_trace tr \<and> (confidential a \<longrightarrow> protected tr)" unfolding safe_trace_def by blast
next
  assume r: "safe_trace tr \<and> (confidential a \<longrightarrow> protected tr)"
  show "safe_trace (tr @ [(a, ok)])"
    unfolding safe_trace_def
  proof (intro allI impI)
    fix pre b ok' post assume t: "tr @ [(a, ok)] = pre @ (b, ok') # post" and "confidential b"
    show "protected pre"
    proof (cases post rule: rev_cases)
      case Nil
      with t r \<open>confidential b\<close> show ?thesis by simp
    next
      case (snoc ys y)
      with t have "tr = pre @ (b, ok') # ys" by (metis append_Cons append_assoc butlast_snoc)
      with r \<open>confidential b\<close> show ?thesis unfolding safe_trace_def by blast
    qed
  qed
qed

lemma guarded_mono: "guarded p as \<Longrightarrow> (p \<longrightarrow> q) \<Longrightarrow> guarded q as"
proof (induction as arbitrary: p q)
  case (Cons a as)
  show ?case using Cons.prems Cons.IH [of "p \<or> a = StartTls" "q \<or> a = StartTls"] by auto
qed simp

lemma smtp_calls_safe:
  assumes "smtp_calls server tr as = (tr', r)" and "guarded (protected tr) as" and "safe_trace tr"
  shows "safe_trace tr'"
  using assms
proof (induction as arbitrary: tr)
  case (Cons a as)
  have "a = StartTls \<Longrightarrow> protected [(a, True)]" by (simp add: protected_def)
  then have "protected tr \<or> a = StartTls \<longrightarrow> protected (tr @ [(a, True)])" using protected_append by blast
  moreover have "guarded (protected tr \<or> a = StartTls) as" using Cons.prems(2) by simp
  ultimately have g: "guarded (protected (tr @ [(a, True)])) as" using guarded_mono by blast
  have s: "safe_trace (tr @ [(a, ok)])" for ok using Cons.prems(2, 3) by (simp add: safe_trace_snoc)
  show ?case
  proof (cases "server tr a")
    case None
    then show ?thesis using Cons.prems(1) Cons.IH [of "tr @ [(a, True)]", OF _ g s] by simp
  qed (use Cons.prems(1) s in auto)
qed simp

lemma smtp_calls_outcome:
  assumes "smtp_calls server tr as = (tr', r)"
  shows "\<exists>k \<le> length as. (r = Inr () \<longrightarrow> k = length as) \<and>
    (tr' = tr @ map (\<lambda>a. (a, True)) (take k as) \<and> k = length as \<or>
     k < length as \<and> tr' = tr @ map (\<lambda>a. (a, True)) (take k as) @ [(as ! k, False)] \<and> r \<noteq> Inr ())"
  using assms
proof (induction as arbitrary: tr)
  case (Cons a as)
  show ?case
  proof (cases "server tr a")
    case None
    with Cons.prems have "smtp_calls server (tr @ [(a, True)]) as = (tr', r)" by simp
    from Cons.IH [OF this] obtain k where "k \<le> length as" "(r = Inr () \<longrightarrow> k = length as) \<and>
      (tr' = (tr @ [(a, True)]) @ map (\<lambda>a. (a, True)) (take k as) \<and> k = length as \<or>
       k < length as \<and> tr' = (tr @ [(a, True)]) @ map (\<lambda>a. (a, True)) (take k as) @ [(as ! k, False)] \<and> r \<noteq> Inr ())" by blast
    then show ?thesis by (intro exI [of _ "Suc k"]) auto
  next
    case (Some e)
    with Cons.prems show ?thesis by (intro exI [of _ 0]) auto
  qed
qed simp

lemma with_client_success:
  assumes "with_client server c calls = (tr, Inr ())"
  shows "tr = (c, True) # map (\<lambda>a. (a, True)) calls @ [(Quit, True)]"
proof -
  obtain tr1 r1 where 1: "smtp_calls server [(c, True)] calls = (tr1, r1)" by (metis surj_pair)
  from assms 1 have r: "r1 = Inr ()" and tr: "tr = tr1 @ [(Quit, True)]"
    by (auto simp: with_client_def split: option.splits prod.splits)
  from smtp_calls_outcome [OF 1] r have "tr1 = [(c, True)] @ map (\<lambda>a. (a, True)) calls" by auto
  with tr show ?thesis by simp
qed

lemma with_client_safe:
  assumes "with_client server (Connect h p encrypted) calls = (tr, r)" and "guarded encrypted calls"
  shows "safe_trace tr"
proof -
  have s: "safe_trace []" "safe_trace [(Connect h p encrypted, ok)]" for ok
    using safe_trace_snoc [of "[]"] by (auto simp: safe_trace_def)
  obtain tr1 r1 where 1: "smtp_calls server [(Connect h p encrypted, True)] calls = (tr1, r1)" by (metis surj_pair)
  have "protected [(Connect h p encrypted, True)] \<longleftrightarrow> encrypted" by (simp add: protected_def)
  then have "safe_trace tr1" using smtp_calls_safe [OF 1] assms(2) s by simp
  then show ?thesis
    using assms(1) 1 s by (auto simp: with_client_def safe_trace_snoc split: option.splits prod.splits sum.splits)
qed

text \<open>C18: with a security mode other than none, an SMTP delivery never gives the credentials or the message away
  in the clear: whatever the server answers, every attempt to log in or to send comes after a successful
  encrypted connection or a successful STARTTLS. A delivery that reports success has had exactly one message accepted,
  the one built from the request, on a connection it has closed.\<close>

theorem smtp_delivery_protected:
  assumes "smtp_init b = Inr b'" and "smtp_security b \<noteq> ''none''" and "smtp_send server b msg = (tr, r)"
  shows "(\<forall>pre a ok post. tr = pre @ (a, ok) # post \<longrightarrow> confidential a \<longrightarrow> protected pre) \<and>
    (r = Inr () \<longrightarrow> (\<exists>mime. build_mime_message msg (smtp_from_email b) (smtp_from_name b) = Inr mime \<and>
      filter (\<lambda>(a, _). case a of SendMessage _ \<Rightarrow> True | _ \<Rightarrow> False) tr = [(SendMessage mime, True)] \<and> last tr = (Quit, True)))"
proof (cases "build_mime_message msg (smtp_from_email b) (smtp_from_name b)")
  case (Inl e)
  then show ?thesis using assms(3) by (auto simp: smtp_send_def)
next
  case (Inr mime)
  define encrypted calls where "encrypted = (smtp_security b = ''ssl'')"
    and "calls = (if encrypted then [] else [Ehlo, StartTls, Ehlo]) @ authenticate_and_send b mime"
  have "smtp_security b = ''ssl'' \<or> smtp_security b = ''starttls''" using assms(1, 2) by (auto simp: smtp_init_def)
  then have w: "with_client server (Connect (smtp_host b) (smtp_port b) encrypted) calls = (tr, r)"
    using assms(3) Inr by (auto simp: smtp_send_def encrypted_def calls_def)
  have "guarded encrypted calls" by (auto simp: calls_def authenticate_and_send_def)
  from with_client_safe [OF w this] have s: "safe_trace tr" .
  have "filter (\<lambda>(a, _). case a of SendMessage _ \<Rightarrow> True | _ \<Rightarrow> False) tr = [(SendMessage mime, True)] \<and> last tr = (Quit, True)"
    if "r = Inr ()"
  proof -
    have "tr = (Connect (smtp_host b) (smtp_port b) encrypted, True) # map (\<lambda>a. (a, True)) calls @ [(Quit, True)]"
      using with_client_success w that by simp
    then show ?thesis by (simp add: calls_def authenticate_and_send_def)
  qed
  with s Inr show ?thesis unfolding safe_trace_def by blast
qed

text \<open>C40: empty credentials, as an empty environment variable gives them, pass the check of the constructor as if
  they were omitted, but are not None, so that every delivery logs in with them: with a server that refuses such a
  login no message is ever delivered.\<close>

theorem empty_smtp_credentials_log_in:
  assumes "smtp_username b = Some ''''" and "smtp_password b = Some ''''"
    and "smtp_security b \<in> {''none'', ''starttls'', ''ssl''}" and "\<And>tr. server tr (Login '''' '''') \<noteq> None"
  shows "smtp_init b = Inr b \<and> snd (smtp_send server b msg) \<noteq> Inr ()"
proof -
  have i: "smtp_init b = Inr b" using assms(1-3) by (auto simp: smtp_init_def given_def raise_if_def)
  have c: "authenticate_and_send b mime = [Login '''' '''', SendMessage mime]" for mime
    using assms(1, 2) by (simp add: authenticate_and_send_def authenticated_def given_def)
  have f: "snd (smtp_calls server tr (as @ Login '''' '''' # cs)) \<noteq> Inr ()" for tr as cs
  proof (induction as arbitrary: tr)
    case Nil
    show ?case using assms(4) [of tr] by auto
  qed (auto split: option.splits)
  have w: "snd (with_client server x (as @ [Login '''' '''', SendMessage mime])) \<noteq> Inr ()" for x as mime
  proof
    assume "snd (with_client server x (as @ [Login '''' '''', SendMessage mime])) = Inr ()"
    then obtain tr where t: "with_client server x (as @ [Login '''' '''', SendMessage mime]) = (tr, Inr ())" by (metis prod.collapse)
    obtain tr1 r1 where r1: "smtp_calls server [(x, True)] (as @ [Login '''' '''', SendMessage mime]) = (tr1, r1)" by (metis surj_pair)
    with t have "r1 = Inr ()" by (auto simp: with_client_def split: option.splits prod.splits)
    with f [of "[(x, True)]" as "[SendMessage mime]"] r1 show False by simp
  qed
  show ?thesis
  proof (cases "build_mime_message msg (smtp_from_email b) (smtp_from_name b)")
    case (Inr mime)
    then show ?thesis
      using i w [of "Connect (smtp_host b) (smtp_port b) True" "[]" mime]
        w [of "Connect (smtp_host b) (smtp_port b) False" "[Ehlo]" mime]
        w [of "Connect (smtp_host b) (smtp_port b) False" "[Ehlo, StartTls, Ehlo]" mime]
      by (simp add: smtp_send_def c)
  qed (use i in \<open>simp add: smtp_send_def\<close>)
qed

section \<open>A concrete delivery\<close>

definition sample_smtp :: smtp_backend where
  "sample_smtp = \<lparr> smtp_host = ''mail.example'', smtp_port = 587, smtp_security = ''starttls'',
     smtp_from_email = ''nms@example'', smtp_from_name = Some ''Bifrost, NMS'', smtp_username = Some ''u'',
     smtp_password = Some ''p'' \<rparr>"

definition sample_message :: email_message where
  "sample_message = send_account_email ''https://nms.example/'' \<lparr> mail_to = ''a@b.c'', mail_subject = ''Verify'',
     mail_path = ''/verify-email'', mail_token = ''t k'' \<rparr>"

definition sample_mime :: mime_message where
  "sample_mime = \<lparr> mime_headers = [(''From'', [CHR 0x22] @ ''Bifrost, NMS'' @ [CHR 0x22] @ '' <nms@example>''), (''To'', ''a@b.c''),
     (''Subject'', ''Verify'')], mime_text = msg_text sample_message, mime_html = None \<rparr>"

lemma sample_link: "contains (msg_text sample_message) ''https://nms.example/verify-email?token=t+k''"
  by code_simp

lemma sample_message_built: "build_mime_message sample_message ''nms@example'' (Some ''Bifrost, NMS'') = Inr sample_mime"
  by code_simp

text \<open>A server that accepts every call.\<close>

lemma sample_delivery:
  "smtp_send (\<lambda>_ _. None) sample_smtp sample_message =
     ([(Connect ''mail.example'' 587 False, True), (Ehlo, True), (StartTls, True), (Ehlo, True), (Login ''u'' ''p'', True),
       (SendMessage sample_mime, True), (Quit, True)], Inr ())"
  using sample_message_built
  by (simp add: smtp_send_def sample_smtp_def with_client_def authenticate_and_send_def authenticated_def given_def)

theorem smtp_delivery_protected_witness:
  "protected [(Connect ''mail.example'' 587 False, True), (Ehlo, True), (StartTls, True), (Ehlo, True)] \<and>
   build_mime_message sample_message ''nms@example'' (Some ''Bifrost, NMS'') = Inr sample_mime"
proof -
  have i: "smtp_init sample_smtp = Inr sample_smtp" by (simp add: smtp_init_def sample_smtp_def given_def raise_if_def)
  have "smtp_security sample_smtp \<noteq> ''none''" by (simp add: sample_smtp_def)
  from smtp_delivery_protected [OF i this sample_delivery] show ?thesis
    by (auto simp: sample_smtp_def) (metis append_Cons append_Nil confidential.simps(1))
qed

theorem empty_smtp_credentials_log_in_witness:
  "smtp_init (sample_smtp\<lparr> smtp_username := Some '''', smtp_password := Some '''' \<rparr>) =
     Inr (sample_smtp\<lparr> smtp_username := Some '''', smtp_password := Some '''' \<rparr>) \<and>
   snd (smtp_send (\<lambda>_ a. if a = Login '''' '''' then Some ''SMTPAuthenticationError'' else None)
     (sample_smtp\<lparr> smtp_username := Some '''', smtp_password := Some '''' \<rparr>) sample_message) \<noteq> Inr ()"
  by (rule empty_smtp_credentials_log_in) (simp_all add: sample_smtp_def)

end
