(* ===== verification/Installation.thy ===== *)
theory Installation
  imports Auth_Accounts
begin

text \<open>
  Setting up an installation: the production checks of \<^verbatim>\<open>config.py\<close> and the command
  \<^verbatim>\<open>cli/create_superuser.py\<close>. What a user types is a list of lines, separately for \<^verbatim>\<open>input\<close> and for
  \<^verbatim>\<open>getpass\<close>; a prompt that finds no further line raises \<^verbatim>\<open>EOFError\<close>. The password hash, the clock and the
  identifiers of new rows are arguments.
\<close>

section \<open>Settings\<close>

record settings =
  deployment_env :: string
  auto_create_schema :: bool
  session_ttl_days :: int
  cookie_secure :: bool
  cors_origins :: string
  auth_encryption_key :: string
  auth_frontend_url :: string
  rp_id :: string
  rp_origin :: string

definition default_settings :: settings where
  "default_settings = \<lparr> deployment_env = ''development'', auto_create_schema = False, session_ttl_days = 30,
     cookie_secure = False, cors_origins = ''http://localhost:3000,http://localhost:3001'',
     auth_encryption_key = ''development-only-change-me'', auth_frontend_url = ''http://localhost:3001'',
     rp_id = ''localhost'', rp_origin = ''http://localhost:3001'' \<rparr>"

definition ttl_seconds :: "settings \<Rightarrow> int" where
  "ttl_seconds st = session_ttl_days st * 24 * 60 * 60"

definition cors_origin_list :: "settings \<Rightarrow> string list" where
  "cors_origin_list st = filter (\<lambda>x. x \<noteq> '''') (map strip (split_on (CHR '','') (cors_origins st)))"

text \<open>
  \<^verbatim>\<open>urlparse(url).scheme\<close>: leading control characters and blanks and all tabs and line ends are dropped;
  the part before the first colon is the scheme if it is made of scheme characters and begins with a
  letter. A host with an unmatched bracket is a \<^verbatim>\<open>ValueError\<close>.
\<close>

definition is_letter_ascii :: "char \<Rightarrow> bool" where
  "is_letter_ascii c \<longleftrightarrow> is_lower_ascii c \<or> is_upper_ascii c"

definition scheme_char :: "char \<Rightarrow> bool" where
  "scheme_char c \<longleftrightarrow> is_letter_ascii c \<or> is_digit_ascii c \<or> c \<in> set ''+-.''"

definition cleaned_url :: "string \<Rightarrow> string" where
  "cleaned_url url = filter (\<lambda>c. (of_char c :: nat) \<notin> {9, 10, 13}) (dropWhile (\<lambda>c. (of_char c :: nat) \<le> 32) url)"

definition url_parts :: "string \<Rightarrow> string \<times> string" where
  "url_parts url = (let u = cleaned_url url; before = takeWhile (\<lambda>c. c \<noteq> CHR '':'') u in
     if before \<noteq> u \<and> before \<noteq> '''' \<and> is_letter_ascii (hd before) \<and> list_all scheme_char before
     then (lower before, drop (length before + 1) u) else ('''', u))"

definition urlparse_scheme :: "string \<Rightarrow> string + string" where
  "urlparse_scheme url = (let (scheme, rest) = url_parts url;
       netloc = (if take 2 rest = ''//'' then takeWhile (\<lambda>c. c \<notin> set ''/?#'') (drop 2 rest) else '''')
     in bind_result (raise_if ((CHR ''['' \<in> set netloc) \<noteq> (CHR '']'' \<in> set netloc)) ''Invalid IPv6 URL'') (\<lambda>_. Inr scheme))"

fun origins_insecure :: "string list \<Rightarrow> string + bool" where
  "origins_insecure [] = Inr False"
| "origins_insecure (x # xs) =
     (if x = ''*'' then Inr True
      else bind_result (urlparse_scheme x) (\<lambda>s. if s \<noteq> ''https'' then Inr True else origins_insecure xs))"

definition problem_if :: "bool \<Rightarrow> string \<Rightarrow> string list" where
  "problem_if b e = (if b then [e] else [])"

definition validate_production_security :: "settings \<Rightarrow> string + settings" where
  "validate_production_security st =
     (if deployment_env st \<noteq> ''production'' then Inr st else
      bind_result (urlparse_scheme (auth_frontend_url st)) (\<lambda>frontend.
      bind_result (urlparse_scheme (rp_origin st)) (\<lambda>origin.
      bind_result (origins_insecure (cors_origin_list st)) (\<lambda>insecure.
      let errors =
        problem_if (\<not> cookie_secure st) ''BIFROSTNMS_COOKIE_SECURE must be true'' @
        problem_if (auth_encryption_key st = ''development-only-change-me'' \<or> length (auth_encryption_key st) < 32)
          ''BIFROSTNMS_AUTH_ENCRYPTION_KEY must be a strong deployment secret'' @
        problem_if (frontend \<noteq> ''https'') ''BIFROSTNMS_AUTH_FRONTEND_URL must use HTTPS'' @
        problem_if (origin \<noteq> ''https'') ''BIFROSTNMS_WEBAUTHN_ORIGIN must use HTTPS'' @
        problem_if (rp_id st = ''localhost'') ''BIFROSTNMS_WEBAUTHN_RP_ID must not be localhost'' @
        problem_if (auto_create_schema st) ''BIFROSTNMS_AUTO_CREATE_SCHEMA must be false'' @
        problem_if insecure ''BIFROSTNMS_CORS_ORIGINS must contain only explicit HTTPS origins''
      in if errors \<noteq> [] then Inl (''Invalid production configuration: '' @ join_with ''; '' errors) else Inr st))))"

section \<open>The superuser command\<close>

datatype cli_error = EOFError | CommandValueError string | DatabaseError string

record superuser_args =
  arg_email :: "string option"
  arg_first_name :: "string option"
  arg_last_name :: "string option"
  arg_realm_name :: string
  arg_promote_existing :: bool

definition MIN_PASSWORD_LENGTH :: nat where "MIN_PASSWORD_LENGTH = 12"

definition DEFAULT_REALM_NAME :: string where "DEFAULT_REALM_NAME = ''Default''"

fun entered :: "string list \<Rightarrow> cli_error + string \<times> string list" where
  "entered [] = Inl EOFError"
| "entered (l # typed) = (if strip l \<noteq> '''' then Inr (strip l, typed) else entered typed)"

text \<open>A value given as an argument is taken as it is, even when it is blank.\<close>

definition prompt :: "string option \<Rightarrow> string list \<Rightarrow> cli_error + string \<times> string list" where
  "prompt v typed = (case v of
      Some x \<Rightarrow> if x \<noteq> '''' then Inr (strip x, typed) else entered typed
    | None \<Rightarrow> entered typed)"

definition validate_password :: "string \<Rightarrow> cli_error + string" where
  "validate_password p = bind_result (raise_if (length p < MIN_PASSWORD_LENGTH)
     (CommandValueError ''Password must be at least 12 characters.'')) (\<lambda>_. Inr p)"

fun password_twice :: "string list \<Rightarrow> cli_error + string" where
  "password_twice [] = Inl EOFError"
| "password_twice [p] = Inl EOFError"
| "password_twice (p # q # typed) =
     (case validate_password p of
        Inl _ \<Rightarrow> password_twice (q # typed)
      | Inr _ \<Rightarrow> if p \<noteq> q then password_twice typed else Inr p)"

definition read_password :: "string option \<Rightarrow> string list \<Rightarrow> cli_error + string" where
  "read_password env_password typed = (case env_password of
      Some p \<Rightarrow> if p \<noteq> '''' then validate_password p else password_twice typed
    | None \<Rightarrow> password_twice typed)"

text \<open>The columns of \<^verbatim>\<open>User\<close> and \<^verbatim>\<open>Realm\<close> that the command can violate.\<close>

definition insert_user :: "auth_db \<Rightarrow> user \<Rightarrow> cli_error + auth_db" where
  "insert_user db u =
     bind_result (raise_if (length (email u) > 320 \<or> length (user_password_hash u) > 255 \<or>
       length (first_name u) > 150 \<or> length (last_name u) > 150) (DatabaseError ''ValidationError'')) (\<lambda>_.
     bind_result (raise_if (exists_row (\<lambda>x. user_id x = user_id u \<or> email x = email u) (users db))
       (DatabaseError ''IntegrityError'')) (\<lambda>_.
     Inr (db\<lparr> users := users db @ [u] \<rparr>)))"

definition insert_realm :: "auth_db \<Rightarrow> realm \<Rightarrow> cli_error + auth_db" where
  "insert_realm db r =
     bind_result (raise_if (length (realm_name r) > 200 \<or> length (realm_slug r) > 120)
       (DatabaseError ''ValidationError'')) (\<lambda>_.
     bind_result (raise_if (exists_row (\<lambda>x. realm_id x = realm_id r \<or> realm_slug x = realm_slug r) (realms db))
       (DatabaseError ''IntegrityError'')) (\<lambda>_.
     Inr (db\<lparr> realms := realms db @ [r] \<rparr>)))"

definition ensure_initial_realm :: "auth_db \<Rightarrow> datetime \<Rightarrow> uuid \<Rightarrow> string \<Rightarrow> (cli_error + auth_db \<times> realm) option" where
  "ensure_initial_realm db now new_id requested =
     (case find (\<lambda>_. True) (sort_key realm_created_at (filter realm_is_active (realms db))) of
        Some r \<Rightarrow> Some (Inr (db, r))
      | None \<Rightarrow>
         let name = (if strip requested \<noteq> '''' then strip requested else DEFAULT_REALM_NAME) in
         map_option (\<lambda>slug.
           let r = \<lparr> realm_id = new_id, realm_name = name, realm_slug = slug, realm_is_active = True,
                     realm_created_at = now \<rparr>
           in bind_result (insert_realm db r) (\<lambda>db'. Inr (db', r))) (unique_slug (realms db) (slugify name)))"

definition then_realm :: "auth_db \<Rightarrow> datetime \<Rightarrow> uuid \<Rightarrow> string \<Rightarrow> (auth_db \<times> (cli_error + nat)) option" where
  "then_realm db now new_id requested = map_option (\<lambda>r. case r of
      Inl e \<Rightarrow> (db, Inl e) | Inr (db', _) \<Rightarrow> (db', Inr 0)) (ensure_initial_realm db now new_id requested)"

text \<open>The result is the exit status; \<open>None\<close> would be a slug loop that does not end.\<close>

definition create_superuser ::
  "crypto \<Rightarrow> superuser_args \<Rightarrow> string option \<Rightarrow> string list \<Rightarrow> string list \<Rightarrow> auth_db \<Rightarrow> datetime \<Rightarrow> uuid \<Rightarrow> uuid \<Rightarrow>
     (auth_db \<times> (cli_error + nat)) option" where
  "create_superuser cr args env_password typed secret db now new_user new_realm =
     (case prompt (arg_email args) typed of
        Inl e \<Rightarrow> Some (db, Inl e)
      | Inr (address, typed1) \<Rightarrow>
         (case find (\<lambda>u. email u = normalize_email address) (users db) of
            Some existing \<Rightarrow>
              if \<not> arg_promote_existing args then Some (db, Inr 1) else
              then_realm (db\<lparr> users := update_rows (\<lambda>u. user_id u = user_id existing)
                  (\<lambda>u. u\<lparr> is_superuser := True, user_is_active := True \<rparr>) (users db) \<rparr>) now new_realm (arg_realm_name args)
          | None \<Rightarrow>
              (case bind_result (prompt (arg_first_name args) typed1) (\<lambda>(first, typed2).
                    bind_result (prompt (arg_last_name args) typed2) (\<lambda>(last, _).
                    bind_result (read_password env_password secret) (\<lambda>password.
                    insert_user db \<lparr> user_id = new_user, email = normalize_email address,
                      user_password_hash = hash_password cr password, first_name = first, last_name = last,
                      user_is_active = True, is_superuser = True, email_verified = True, session_version = 1 \<rparr>))) of
                 Inl e \<Rightarrow> Some (db, Inl e)
               | Inr db' \<Rightarrow> then_realm db' now new_realm (arg_realm_name args))))"

section \<open>Settings that are accepted\<close>

text \<open>An accepted production configuration has no weakness the checks look for.\<close>

lemma accepted_production_settings:
  assumes "validate_production_security st = Inr st'" and "deployment_env st = ''production''"
  shows "st' = st \<and> cookie_secure st \<and> 32 \<le> length (auth_encryption_key st) \<and> rp_id st \<noteq> ''localhost'' \<and>
    \<not> auto_create_schema st \<and> urlparse_scheme (auth_frontend_url st) = Inr ''https'' \<and>
    urlparse_scheme (rp_origin st) = Inr ''https'' \<and>
    (\<forall>x \<in> set (cors_origin_list st). x \<noteq> ''*'' \<and> urlparse_scheme x = Inr ''https'')"
proof -
  have o: "origins_insecure xs = Inr False \<Longrightarrow> x \<in> set xs \<Longrightarrow> x \<noteq> ''*'' \<and> urlparse_scheme x = Inr ''https''" for x xs
    by (induction xs) (auto split: if_splits)
  show ?thesis
    using assms o by (simp add: validate_production_security_def problem_if_def Let_def split: if_splits) blast
qed

lemma default_settings_not_for_production:
  "validate_production_security default_settings = Inr default_settings"
  "\<exists>e. validate_production_security (default_settings\<lparr> deployment_env := ''production'' \<rparr>) = Inl e"
proof -
  show "validate_production_security default_settings = Inr default_settings"
    by (simp add: validate_production_security_def default_settings_def)
  have "validate_production_security (default_settings\<lparr> deployment_env := ''production'' \<rparr>) \<noteq> Inr st" for st
    using accepted_production_settings [of "default_settings\<lparr> deployment_env := ''production'' \<rparr>" st]
    by (auto simp: default_settings_def)
  then show "\<exists>e. validate_production_security (default_settings\<lparr> deployment_env := ''production'' \<rparr>) = Inl e"
    by (metis obj_sumE)
qed

section \<open>A superuser can work at once\<close>

definition initial_realm_name :: "string \<Rightarrow> string" where
  "initial_realm_name requested = (if strip requested \<noteq> '''' then strip requested else DEFAULT_REALM_NAME)"

definition realm_can_be_made :: "auth_db \<Rightarrow> uuid \<Rightarrow> string \<Rightarrow> bool" where
  "realm_can_be_made db new_id requested \<longleftrightarrow> \<not> exists_row (\<lambda>r. realm_id r = new_id) (realms db) \<and>
     length (initial_realm_name requested) \<le> 200 \<and>
     (case unique_slug (realms db) (slugify (initial_realm_name requested)) of
        None \<Rightarrow> False | Some slug \<Rightarrow> length slug \<le> 120)"

lemma first_active_realm:
  "find (\<lambda>_. True) (sort_key realm_created_at (filter realm_is_active rs)) = None \<longleftrightarrow> (\<forall>r \<in> set rs. \<not> realm_is_active r)"
  by (auto simp: find_None_iff)

lemma then_realm_succeeds:
  assumes "realm_can_be_made db new_id requested"
  shows "\<exists>db'. then_realm db now new_id requested = Some (db', Inr 0) \<and> users db' = users db \<and>
    realm_memberships db' = realm_memberships db \<and> two_factor_methods db' = two_factor_methods db \<and>
    (\<exists>r \<in> set (realms db'). realm_is_active r)"
proof (cases "find (\<lambda>_. True) (sort_key realm_created_at (filter realm_is_active (realms db)))")
  case None
  obtain slug where s: "unique_slug (realms db) (slugify (initial_realm_name requested)) = Some slug" "length slug \<le> 120"
    using assms by (auto simp: realm_can_be_made_def split: option.splits)
  then have "\<not> exists_row (\<lambda>r. realm_slug r = slug) (realms db)" using unique_slug_terminates by (metis option.inject)
  then show ?thesis
    using None s assms
    by (auto simp: then_realm_def ensure_initial_realm_def insert_realm_def Let_def raise_if_def exists_row_def
        realm_can_be_made_def initial_realm_name_def)
next
  case (Some r)
  then have "r \<in> set (realms db) \<and> realm_is_active r" by (auto dest!: find_Some_iff_in)
  with Some show ?thesis by (auto simp: then_realm_def ensure_initial_realm_def)
qed

lemma superuser_session_authorised:
  assumes "is_superuser u" and "session_version u' = session_version u" and "is_superuser u'"
    and "\<not> exists_row (\<lambda>m. membership_user m = user_id u) (realm_memberships db)"
    and "\<exists>r \<in> set (realms db). realm_is_active r"
    and "find (\<lambda>x. user_id x = user_id u \<and> user_is_active x) (users db) = Some u'"
    and "create_session h ss db now token u req meth = (db1, s)" and "token \<noteq> ''''" and "req_cookie req' = Some token"
    and "later < now + seconds (session_ttl_seconds ss)"
  shows "\<exists>db2 az. require_realm_permission h ss db1 later req' p = (db2, Inr az) \<and> is_superuser_bypass az \<and>
    az_user az = u' \<and> az_realm az \<in> set (realms db)"
proof -
  obtain r0 where r0: "find (\<lambda>_. True) (sort_key realm_created_at (filter realm_is_active (realms db))) = Some r0"
    using assms(5) first_active_realm by (metis not_None_eq)
  then have r0': "r0 \<in> set (realms db)" "realm_is_active r0" by (auto dest!: find_Some_iff_in)
  then have "find (\<lambda>r. realm_id r = realm_id r0 \<and> realm_is_active r) (realms db) \<noteq> None" by (auto simp: find_None_iff)
  then obtain r where r: "find (\<lambda>r. realm_id r = realm_id r0 \<and> realm_is_active r) (realms db) = Some r" by blast
  have "find (\<lambda>m. membership_user m = user_id u) (realm_memberships db) = None"
    using assms(4) by (auto simp: find_None_iff exists_row_def)
  then have i: "initial_realm_id db u = Some (realm_id r0)" using r0 assms(1) by (simp add: initial_realm_id_def)
  then have g: "\<exists>db2 s'. get_session_user h ss db1 later req' = (db2, Inr (u', s')) \<and> active_realm_id s' = Some (realm_id r0) \<and>
      realms db2 = realms db"
    using assms(2, 6-10) by (auto simp: create_session_def get_session_user_def redis_get_def redis_set_def Let_def)
  then obtain db2 s' where "get_session_user h ss db1 later req' = (db2, Inr (u', s'))"
    "active_realm_id s' = Some (realm_id r0)" "realms db2 = realms db" by blast
  moreover have "r \<in> set (realms db)" using r by (auto dest!: find_Some_iff_in)
  ultimately show ?thesis using r assms(3) by (simp add: require_realm_permission_def authorize_realm_def)
qed


section \<open>A concrete installation\<close>

definition sample_args :: superuser_args where
  "sample_args = \<lparr> arg_email = Some '' Root@nms.example'', arg_first_name = None, arg_last_name = None,
     arg_realm_name = '' '', arg_promote_existing = False \<rparr>"

lemma unique_slug_unused: "unique_slug [] base = Some base"
  unfolding unique_slug_def by (subst while_option_unfold) (simp add: exists_row_def)

lemma sample_realm_can_be_made: "realm_can_be_made empty_auth_db 2 '' ''"
proof -
  have "initial_realm_name '' '' = ''Default''" "slugify ''Default'' = ''default''" by code_simp+
  then show ?thesis by (simp add: realm_can_be_made_def empty_auth_db_def unique_slug_unused exists_row_def)
qed


end
