(* ===== verification/Schema_Migrations.thy ===== *)
theory Schema_Migrations
  imports Py_Stdlib
begin

text \<open>
  The database schema: what the model classes of \<^verbatim>\<open>models/auth.py\<close> and \<^verbatim>\<open>models/monitoring.py\<close> declare and
  what the operations of \<^verbatim>\<open>migrations/\<close> build. How Tortoise applies an operation to its picture of the
  models is a parameter with the documented laws of each operation (locale \<open>migration_runner\<close>); a law is
  assumed only where the operation is in order: a model is created once and after the models it refers
  to, a field is added once, and only an existing field is renamed or altered. The raw SQL of the migrations adds
  constraints, indexes and the observation tables, which are outside this picture. The coders of a JSON
  field and the description of an enumeration are left out.
\<close>

section \<open>Fields, models and operations\<close>

datatype on_delete = CASCADE | RESTRICT | SET_NULL

datatype default_value = DefaultUuid4 | DefaultBool bool | DefaultInt int | DefaultStr string | DefaultDict | DefaultList

text \<open>The referred model, the name of the reverse relation (\<^verbatim>\<open>None\<close> where it is \<^verbatim>\<open>False\<close>), what a deletion does, the
  column, the referred column and whether the database has a constraint.\<close>

datatype relation = Relation string "string option" on_delete string string bool

datatype field_kind =
    DatetimeField bool bool | UUIDField | CharField nat | CharEnumField string nat | TextField | BooleanField
  | IntField | BigIntField | JSONField | ForeignKeyField relation | OneToOneField relation

record field =
  f_kind :: field_kind
  f_null :: bool
  f_unique :: bool
  f_index :: bool
  f_pk :: bool
  f_default :: "default_value option"

definition a_field :: "field_kind \<Rightarrow> field" where
  "a_field k = \<lparr> f_kind = k, f_null = False, f_unique = False, f_index = False, f_pk = False, f_default = None \<rparr>"

text \<open>The defaults of a relation field: the column is named after the field and holds the other model's \<^verbatim>\<open>id\<close>.\<close>

definition relation :: "string \<Rightarrow> string \<Rightarrow> string option \<Rightarrow> on_delete \<Rightarrow> relation" where
  "relation name target related action = Relation target related action (name @ ''_id'') ''id'' True"

record model =
  m_table :: string
  m_uniques :: "string list list"
  m_fields :: "string \<rightharpoonup> field"

type_synonym schema = "string \<rightharpoonup> model"

datatype operation =
    CreateModel string string "string list list" "(string \<times> field) list"
  | RenameField string string string
  | AddField string string field
  | AlterField string string field

section \<open>The migrations\<close>

subsection \<open>\<^verbatim>\<open>0001_initial.py\<close>\<close>

definition create_realm_model :: "operation" where
  "create_realm_model =
     CreateModel ''Realm'' ''realm'' []
    [(''created_at'', a_field (DatetimeField False True)),
     (''updated_at'', a_field (DatetimeField True False)),
     (''id'', (a_field UUIDField)\<lparr> f_unique := True, f_index := True, f_pk := True, f_default := Some DefaultUuid4 \<rparr>),
     (''name'', a_field (CharField 200)),
     (''slug'', (a_field (CharField 120))\<lparr> f_unique := True, f_index := True \<rparr>),
     (''is_active'', (a_field BooleanField)\<lparr> f_default := Some (DefaultBool True) \<rparr>)]"

definition create_user_model :: "operation" where
  "create_user_model =
     CreateModel ''User'' ''user'' []
    [(''created_at'', a_field (DatetimeField False True)),
     (''updated_at'', a_field (DatetimeField True False)),
     (''id'', (a_field UUIDField)\<lparr> f_unique := True, f_index := True, f_pk := True, f_default := Some DefaultUuid4 \<rparr>),
     (''email'', (a_field (CharField 320))\<lparr> f_unique := True, f_index := True \<rparr>),
     (''password_hash'', a_field (CharField 255)),
     (''first_name'', a_field (CharField 150)),
     (''last_name'', a_field (CharField 150)),
     (''is_active'', (a_field BooleanField)\<lparr> f_default := Some (DefaultBool True) \<rparr>),
     (''is_staff'', (a_field BooleanField)\<lparr> f_default := Some (DefaultBool False) \<rparr>),
     (''email_verified'', (a_field BooleanField)\<lparr> f_default := Some (DefaultBool False) \<rparr>)]"

definition create_authentication_challenge_model :: "operation" where
  "create_authentication_challenge_model =
     CreateModel ''AuthenticationChallenge'' ''authenticationchallenge'' []
    [(''created_at'', a_field (DatetimeField False True)),
     (''updated_at'', a_field (DatetimeField True False)),
     (''id'', (a_field UUIDField)\<lparr> f_unique := True, f_index := True, f_pk := True, f_default := Some DefaultUuid4 \<rparr>),
     (''user'', (a_field (ForeignKeyField (Relation ''models.User'' (Some ''authentication_challenges'') CASCADE ''user_id'' ''id'' True)))\<lparr> f_null := True \<rparr>),
     (''challenge_type'', (a_field (CharField 32))\<lparr> f_index := True \<rparr>),
     (''challenge_hash'', (a_field (CharField 64))\<lparr> f_unique := True, f_index := True \<rparr>),
     (''expires_at'', (a_field (DatetimeField False False))\<lparr> f_index := True \<rparr>),
     (''consumed_at'', (a_field (DatetimeField False False))\<lparr> f_null := True \<rparr>),
     (''metadata'', (a_field JSONField)\<lparr> f_default := Some DefaultDict \<rparr>)]"

definition create_realm_membership_model :: "operation" where
  "create_realm_membership_model =
     CreateModel ''RealmMembership'' ''realmmembership'' [[''user'', ''realm'']]
    [(''created_at'', a_field (DatetimeField False True)),
     (''updated_at'', a_field (DatetimeField True False)),
     (''id'', (a_field UUIDField)\<lparr> f_unique := True, f_index := True, f_pk := True, f_default := Some DefaultUuid4 \<rparr>),
     (''user'', a_field (ForeignKeyField (Relation ''models.User'' (Some ''memberships'') CASCADE ''user_id'' ''id'' True))),
     (''realm'', a_field (ForeignKeyField (Relation ''models.Realm'' (Some ''memberships'') CASCADE ''realm_id'' ''id'' True))),
     (''role'', (a_field (CharField 32))\<lparr> f_default := Some (DefaultStr ''owner'') \<rparr>)]"

definition create_recovery_code_model :: "operation" where
  "create_recovery_code_model =
     CreateModel ''RecoveryCode'' ''recoverycode'' []
    [(''created_at'', a_field (DatetimeField False True)),
     (''updated_at'', a_field (DatetimeField True False)),
     (''id'', (a_field UUIDField)\<lparr> f_unique := True, f_index := True, f_pk := True, f_default := Some DefaultUuid4 \<rparr>),
     (''user'', a_field (ForeignKeyField (Relation ''models.User'' (Some ''recovery_codes'') CASCADE ''user_id'' ''id'' True))),
     (''code_hash'', (a_field (CharField 64))\<lparr> f_index := True \<rparr>),
     (''used_at'', (a_field (DatetimeField False False))\<lparr> f_null := True \<rparr>)]"

definition create_two_factor_method_model :: "operation" where
  "create_two_factor_method_model =
     CreateModel ''TwoFactorMethod'' ''twofactormethod'' [[''user'', ''method_type'']]
    [(''created_at'', a_field (DatetimeField False True)),
     (''updated_at'', a_field (DatetimeField True False)),
     (''id'', (a_field UUIDField)\<lparr> f_unique := True, f_index := True, f_pk := True, f_default := Some DefaultUuid4 \<rparr>),
     (''user'', a_field (ForeignKeyField (Relation ''models.User'' (Some ''two_factor_methods'') CASCADE ''user_id'' ''id'' True))),
     (''method_type'', (a_field (CharField 32))\<lparr> f_default := Some (DefaultStr ''totp'') \<rparr>),
     (''secret_encrypted'', a_field TextField),
     (''name'', (a_field (CharField 120))\<lparr> f_default := Some (DefaultStr ''Authenticator app'') \<rparr>),
     (''is_enabled'', (a_field BooleanField)\<lparr> f_default := Some (DefaultBool False) \<rparr>),
     (''verified_at'', (a_field (DatetimeField False False))\<lparr> f_null := True \<rparr>),
     (''last_used_at'', (a_field (DatetimeField False False))\<lparr> f_null := True \<rparr>)]"

definition create_webauthn_credential_model :: "operation" where
  "create_webauthn_credential_model =
     CreateModel ''WebAuthnCredential'' ''webauthncredential'' []
    [(''created_at'', a_field (DatetimeField False True)),
     (''updated_at'', a_field (DatetimeField True False)),
     (''id'', (a_field UUIDField)\<lparr> f_unique := True, f_index := True, f_pk := True, f_default := Some DefaultUuid4 \<rparr>),
     (''user'', a_field (ForeignKeyField (Relation ''models.User'' (Some ''webauthn_credentials'') CASCADE ''user_id'' ''id'' True))),
     (''credential_id'', (a_field (CharField 1024))\<lparr> f_unique := True \<rparr>),
     (''public_key'', a_field TextField),
     (''sign_count'', (a_field BigIntField)\<lparr> f_default := Some (DefaultInt 0) \<rparr>),
     (''name'', (a_field (CharField 120))\<lparr> f_default := Some (DefaultStr ''Passkey'') \<rparr>),
     (''device_type'', (a_field (CharField 64))\<lparr> f_default := Some (DefaultStr '''') \<rparr>),
     (''backed_up'', (a_field BooleanField)\<lparr> f_default := Some (DefaultBool False) \<rparr>),
     (''transports'', (a_field JSONField)\<lparr> f_default := Some DefaultList \<rparr>),
     (''last_used_at'', (a_field (DatetimeField False False))\<lparr> f_null := True \<rparr>)]"

subsection \<open>\<^verbatim>\<open>0002_rename_is_staff_to_is_superuser.py\<close>\<close>

definition rename_is_staff :: "operation" where
  "rename_is_staff =
     RenameField ''User'' ''is_staff'' ''is_superuser''"

subsection \<open>\<^verbatim>\<open>0003_add_session_version.py\<close>\<close>

definition add_session_version :: "operation" where
  "add_session_version =
     AddField ''User'' ''session_version'' ((a_field IntField)\<lparr> f_null := True \<rparr>)"

definition alter_session_version :: "operation" where
  "alter_session_version =
     AlterField ''User'' ''session_version'' ((a_field IntField)\<lparr> f_default := Some (DefaultInt 1) \<rparr>)"

subsection \<open>\<^verbatim>\<open>0004_add_audit_events.py\<close>\<close>

definition create_audit_event_model :: "operation" where
  "create_audit_event_model =
     CreateModel ''AuditEvent'' ''auditevent'' []
    [(''id'', (a_field UUIDField)\<lparr> f_unique := True, f_index := True, f_pk := True, f_default := Some DefaultUuid4 \<rparr>),
     (''occurred_at'', (a_field (DatetimeField False True))\<lparr> f_index := True \<rparr>),
     (''realm'', (a_field (ForeignKeyField (Relation ''models.Realm'' (Some ''audit_events'') SET_NULL ''realm_id'' ''id'' True)))\<lparr> f_null := True \<rparr>),
     (''actor_user'', (a_field (ForeignKeyField (Relation ''models.User'' (Some ''audit_events'') SET_NULL ''actor_user_id'' ''id'' True)))\<lparr> f_null := True \<rparr>),
     (''actor_type'', a_field (CharField 32)),
     (''action'', (a_field (CharField 120))\<lparr> f_index := True \<rparr>),
     (''outcome'', (a_field (CharField 32))\<lparr> f_index := True \<rparr>),
     (''target_type'', (a_field (CharField 80))\<lparr> f_null := True \<rparr>),
     (''target_id'', (a_field (CharField 255))\<lparr> f_null := True \<rparr>),
     (''source_ip'', (a_field (CharField 64))\<lparr> f_null := True \<rparr>),
     (''user_agent'', (a_field (CharField 512))\<lparr> f_default := Some (DefaultStr '''') \<rparr>),
     (''superuser_bypass'', (a_field BooleanField)\<lparr> f_default := Some (DefaultBool False) \<rparr>),
     (''metadata'', (a_field JSONField)\<lparr> f_default := Some DefaultDict \<rparr>)]"

subsection \<open>\<^verbatim>\<open>0006_add_monitoring_domain.py\<close>\<close>

definition create_agent_model :: "operation" where
  "create_agent_model =
     CreateModel ''Agent'' ''agent'' [[''realm'', ''name'']]
    [(''id'', (a_field UUIDField)\<lparr> f_unique := True, f_index := True, f_pk := True, f_default := Some DefaultUuid4 \<rparr>),
     (''realm'', a_field (ForeignKeyField (Relation ''models.Realm'' None RESTRICT ''realm_id'' ''id'' True))),
     (''created_at'', a_field (DatetimeField False True)),
     (''updated_at'', a_field (DatetimeField True False)),
     (''name'', a_field (CharField 200)),
     (''description'', (a_field TextField)\<lparr> f_null := True \<rparr>),
     (''enabled'', (a_field BooleanField)\<lparr> f_default := Some (DefaultBool True) \<rparr>),
     (''archived_at'', (a_field (DatetimeField False False))\<lparr> f_null := True, f_index := True \<rparr>)]"

definition create_agent_configuration_snapshot_model :: "operation" where
  "create_agent_configuration_snapshot_model =
     CreateModel ''AgentConfigurationSnapshot'' ''agentconfigurationsnapshot'' [[''realm'', ''agent'', ''revision'']]
    [(''id'', (a_field UUIDField)\<lparr> f_unique := True, f_index := True, f_pk := True, f_default := Some DefaultUuid4 \<rparr>),
     (''realm'', a_field (ForeignKeyField (Relation ''models.Realm'' None RESTRICT ''realm_id'' ''id'' True))),
     (''agent'', a_field (ForeignKeyField (Relation ''models.Agent'' (Some ''configuration_snapshots'') RESTRICT ''agent_id'' ''id'' True))),
     (''revision'', a_field BigIntField),
     (''content_hash'', a_field (CharField 64)),
     (''configuration'', a_field JSONField),
     (''created_at'', a_field (DatetimeField False True))]"

definition create_agent_configuration_state_model :: "operation" where
  "create_agent_configuration_state_model =
     CreateModel ''AgentConfigurationState'' ''agentconfigurationstate'' []
    [(''id'', (a_field UUIDField)\<lparr> f_unique := True, f_index := True, f_pk := True, f_default := Some DefaultUuid4 \<rparr>),
     (''realm'', a_field (ForeignKeyField (Relation ''models.Realm'' None RESTRICT ''realm_id'' ''id'' True))),
     (''created_at'', a_field (DatetimeField False True)),
     (''updated_at'', a_field (DatetimeField True False)),
     (''agent'', a_field (OneToOneField (Relation ''models.Agent'' (Some ''configuration_state'') CASCADE ''agent_id'' ''id'' True))),
     (''desired_revision'', (a_field BigIntField)\<lparr> f_default := Some (DefaultInt 0) \<rparr>),
     (''desired_content_hash'', (a_field (CharField 64))\<lparr> f_default := Some (DefaultStr '''') \<rparr>),
     (''acknowledged_revision'', (a_field BigIntField)\<lparr> f_default := Some (DefaultInt 0) \<rparr>),
     (''acknowledged_at'', (a_field (DatetimeField False False))\<lparr> f_null := True \<rparr>)]"

definition create_agent_credential_model :: "operation" where
  "create_agent_credential_model =
     CreateModel ''AgentCredential'' ''agentcredential'' [[''realm'', ''agent'', ''name'']]
    [(''id'', (a_field UUIDField)\<lparr> f_unique := True, f_index := True, f_pk := True, f_default := Some DefaultUuid4 \<rparr>),
     (''realm'', a_field (ForeignKeyField (Relation ''models.Realm'' None RESTRICT ''realm_id'' ''id'' True))),
     (''created_at'', a_field (DatetimeField False True)),
     (''updated_at'', a_field (DatetimeField True False)),
     (''agent'', a_field (ForeignKeyField (Relation ''models.Agent'' (Some ''credentials'') CASCADE ''agent_id'' ''id'' True))),
     (''name'', a_field (CharField 120)),
     (''credential_hash'', a_field (CharField 128)),
     (''last_used_at'', (a_field (DatetimeField False False))\<lparr> f_null := True \<rparr>),
     (''expires_at'', (a_field (DatetimeField False False))\<lparr> f_null := True \<rparr>),
     (''revoked_at'', (a_field (DatetimeField False False))\<lparr> f_null := True, f_index := True \<rparr>)]"

definition create_agent_group_model :: "operation" where
  "create_agent_group_model =
     CreateModel ''AgentGroup'' ''agentgroup'' []
    [(''id'', (a_field UUIDField)\<lparr> f_unique := True, f_index := True, f_pk := True, f_default := Some DefaultUuid4 \<rparr>),
     (''realm'', a_field (ForeignKeyField (Relation ''models.Realm'' None RESTRICT ''realm_id'' ''id'' True))),
     (''created_at'', a_field (DatetimeField False True)),
     (''updated_at'', a_field (DatetimeField True False)),
     (''parent'', (a_field (ForeignKeyField (Relation ''models.AgentGroup'' (Some ''children'') RESTRICT ''parent_id'' ''id'' True)))\<lparr> f_null := True \<rparr>),
     (''name'', a_field (CharField 200)),
     (''description'', (a_field TextField)\<lparr> f_null := True \<rparr>),
     (''enabled'', (a_field BooleanField)\<lparr> f_default := Some (DefaultBool True) \<rparr>),
     (''archived_at'', (a_field (DatetimeField False False))\<lparr> f_null := True, f_index := True \<rparr>)]"

definition create_agent_group_membership_model :: "operation" where
  "create_agent_group_membership_model =
     CreateModel ''AgentGroupMembership'' ''agentgroupmembership'' [[''realm'', ''agent_group'', ''agent'']]
    [(''id'', (a_field UUIDField)\<lparr> f_unique := True, f_index := True, f_pk := True, f_default := Some DefaultUuid4 \<rparr>),
     (''realm'', a_field (ForeignKeyField (Relation ''models.Realm'' None RESTRICT ''realm_id'' ''id'' True))),
     (''agent_group'', a_field (ForeignKeyField (Relation ''models.AgentGroup'' (Some ''memberships'') CASCADE ''agent_group_id'' ''id'' True))),
     (''agent'', a_field (ForeignKeyField (Relation ''models.Agent'' (Some ''group_memberships'') CASCADE ''agent_id'' ''id'' True))),
     (''created_at'', a_field (DatetimeField False True))]"

definition create_target_model :: "operation" where
  "create_target_model =
     CreateModel ''Target'' ''target'' [[''realm'', ''name'']]
    [(''id'', (a_field UUIDField)\<lparr> f_unique := True, f_index := True, f_pk := True, f_default := Some DefaultUuid4 \<rparr>),
     (''realm'', a_field (ForeignKeyField (Relation ''models.Realm'' None RESTRICT ''realm_id'' ''id'' True))),
     (''created_at'', a_field (DatetimeField False True)),
     (''updated_at'', a_field (DatetimeField True False)),
     (''name'', a_field (CharField 200)),
     (''description'', (a_field TextField)\<lparr> f_null := True \<rparr>),
     (''address'', a_field (CharField 253)),
     (''enabled'', (a_field BooleanField)\<lparr> f_default := Some (DefaultBool True) \<rparr>),
     (''archived_at'', (a_field (DatetimeField False False))\<lparr> f_null := True, f_index := True \<rparr>)]"

definition create_monitor_model :: "operation" where
  "create_monitor_model =
     CreateModel ''Monitor'' ''monitor'' [[''realm'', ''name'']]
    [(''id'', (a_field UUIDField)\<lparr> f_unique := True, f_index := True, f_pk := True, f_default := Some DefaultUuid4 \<rparr>),
     (''realm'', a_field (ForeignKeyField (Relation ''models.Realm'' None RESTRICT ''realm_id'' ''id'' True))),
     (''created_at'', a_field (DatetimeField False True)),
     (''updated_at'', a_field (DatetimeField True False)),
     (''target'', a_field (ForeignKeyField (Relation ''models.Target'' (Some ''monitors'') RESTRICT ''target_id'' ''id'' True))),
     (''name'', a_field (CharField 200)),
     (''description'', (a_field TextField)\<lparr> f_null := True \<rparr>),
     (''probe_type'', a_field (CharEnumField ''ProbeType'' 16)),
     (''interval_seconds'', a_field IntField),
     (''timeout_seconds'', a_field IntField),
     (''configuration'', (a_field JSONField)\<lparr> f_default := Some DefaultDict \<rparr>),
     (''enabled'', (a_field BooleanField)\<lparr> f_default := Some (DefaultBool True) \<rparr>),
     (''revision'', (a_field IntField)\<lparr> f_default := Some (DefaultInt 1) \<rparr>),
     (''archived_at'', (a_field (DatetimeField False False))\<lparr> f_null := True, f_index := True \<rparr>)]"

definition create_monitor_agent_assignment_model :: "operation" where
  "create_monitor_agent_assignment_model =
     CreateModel ''MonitorAgentAssignment'' ''monitoragentassignment'' [[''realm'', ''monitor'', ''agent'']]
    [(''id'', (a_field UUIDField)\<lparr> f_unique := True, f_index := True, f_pk := True, f_default := Some DefaultUuid4 \<rparr>),
     (''realm'', a_field (ForeignKeyField (Relation ''models.Realm'' None RESTRICT ''realm_id'' ''id'' True))),
     (''created_at'', a_field (DatetimeField False True)),
     (''updated_at'', a_field (DatetimeField True False)),
     (''monitor'', a_field (ForeignKeyField (Relation ''models.Monitor'' (Some ''agent_assignments'') CASCADE ''monitor_id'' ''id'' True))),
     (''agent'', a_field (ForeignKeyField (Relation ''models.Agent'' (Some ''monitor_assignments'') CASCADE ''agent_id'' ''id'' True))),
     (''enabled'', (a_field BooleanField)\<lparr> f_default := Some (DefaultBool True) \<rparr>)]"

definition create_monitor_agent_group_assignment_model :: "operation" where
  "create_monitor_agent_group_assignment_model =
     CreateModel ''MonitorAgentGroupAssignment'' ''monitoragentgroupassignment'' [[''realm'', ''monitor'', ''agent_group'']]
    [(''id'', (a_field UUIDField)\<lparr> f_unique := True, f_index := True, f_pk := True, f_default := Some DefaultUuid4 \<rparr>),
     (''realm'', a_field (ForeignKeyField (Relation ''models.Realm'' None RESTRICT ''realm_id'' ''id'' True))),
     (''created_at'', a_field (DatetimeField False True)),
     (''updated_at'', a_field (DatetimeField True False)),
     (''monitor'', a_field (ForeignKeyField (Relation ''models.Monitor'' (Some ''agent_group_assignments'') CASCADE ''monitor_id'' ''id'' True))),
     (''agent_group'', a_field (ForeignKeyField (Relation ''models.AgentGroup'' (Some ''monitor_assignments'') CASCADE ''agent_group_id'' ''id'' True))),
     (''enabled'', (a_field BooleanField)\<lparr> f_default := Some (DefaultBool True) \<rparr>)]"

definition create_target_group_model :: "operation" where
  "create_target_group_model =
     CreateModel ''TargetGroup'' ''targetgroup'' []
    [(''id'', (a_field UUIDField)\<lparr> f_unique := True, f_index := True, f_pk := True, f_default := Some DefaultUuid4 \<rparr>),
     (''realm'', a_field (ForeignKeyField (Relation ''models.Realm'' None RESTRICT ''realm_id'' ''id'' True))),
     (''created_at'', a_field (DatetimeField False True)),
     (''updated_at'', a_field (DatetimeField True False)),
     (''parent'', (a_field (ForeignKeyField (Relation ''models.TargetGroup'' (Some ''children'') RESTRICT ''parent_id'' ''id'' True)))\<lparr> f_null := True \<rparr>),
     (''name'', a_field (CharField 200)),
     (''description'', (a_field TextField)\<lparr> f_null := True \<rparr>),
     (''archived_at'', (a_field (DatetimeField False False))\<lparr> f_null := True, f_index := True \<rparr>)]"

definition create_target_group_membership_model :: "operation" where
  "create_target_group_membership_model =
     CreateModel ''TargetGroupMembership'' ''targetgroupmembership'' [[''realm'', ''target_group'', ''target'']]
    [(''id'', (a_field UUIDField)\<lparr> f_unique := True, f_index := True, f_pk := True, f_default := Some DefaultUuid4 \<rparr>),
     (''realm'', a_field (ForeignKeyField (Relation ''models.Realm'' None RESTRICT ''realm_id'' ''id'' True))),
     (''target_group'', a_field (ForeignKeyField (Relation ''models.TargetGroup'' (Some ''memberships'') CASCADE ''target_group_id'' ''id'' True))),
     (''target'', a_field (ForeignKeyField (Relation ''models.Target'' (Some ''group_memberships'') CASCADE ''target_id'' ''id'' True))),
     (''created_at'', a_field (DatetimeField False True))]"

subsection \<open>\<^verbatim>\<open>0008_add_agent_enrollment_tokens.py\<close>\<close>

definition create_agent_enrolment_token_model :: "operation" where
  "create_agent_enrolment_token_model =
     CreateModel ''AgentEnrolmentToken'' ''agentenrolmenttoken'' []
    [(''id'', (a_field UUIDField)\<lparr> f_unique := True, f_index := True, f_pk := True, f_default := Some DefaultUuid4 \<rparr>),
     (''realm'', a_field (ForeignKeyField (Relation ''models.Realm'' None RESTRICT ''realm_id'' ''id'' True))),
     (''created_at'', a_field (DatetimeField False True)),
     (''updated_at'', a_field (DatetimeField True False)),
     (''agent'', a_field (ForeignKeyField (Relation ''models.Agent'' (Some ''enrolment_tokens'') CASCADE ''agent_id'' ''id'' True))),
     (''token_hash'', (a_field (CharField 64))\<lparr> f_unique := True, f_index := True \<rparr>),
     (''expires_at'', a_field (DatetimeField False False)),
     (''consumed_at'', (a_field (DatetimeField False False))\<lparr> f_null := True, f_index := True \<rparr>),
     (''revoked_at'', (a_field (DatetimeField False False))\<lparr> f_null := True, f_index := True \<rparr>)]"

subsection \<open>\<^verbatim>\<open>0009_add_agent_operational_state.py\<close>\<close>

definition create_agent_operational_state_model :: "operation" where
  "create_agent_operational_state_model =
     CreateModel ''AgentOperationalState'' ''agentoperationalstate'' []
    [(''id'', (a_field UUIDField)\<lparr> f_unique := True, f_index := True, f_pk := True, f_default := Some DefaultUuid4 \<rparr>),
     (''realm'', a_field (ForeignKeyField (Relation ''models.Realm'' None RESTRICT ''realm_id'' ''id'' True))),
     (''created_at'', a_field (DatetimeField False True)),
     (''updated_at'', a_field (DatetimeField True False)),
     (''agent'', a_field (OneToOneField (Relation ''models.Agent'' (Some ''operational_state'') CASCADE ''agent_id'' ''id'' True))),
     (''last_heartbeat_at'', (a_field (DatetimeField False False))\<lparr> f_index := True \<rparr>),
     (''agent_version'', a_field (CharField 120)),
     (''platform'', a_field (CharField 120)),
     (''architecture'', a_field (CharField 120)),
     (''hostname'', a_field (CharField 253)),
     (''capabilities'', (a_field JSONField)\<lparr> f_default := Some DefaultDict \<rparr>),
     (''active_configuration_revision'', (a_field BigIntField)\<lparr> f_default := Some (DefaultInt 0) \<rparr>),
     (''known_desired_configuration_revision'', (a_field BigIntField)\<lparr> f_default := Some (DefaultInt 0) \<rparr>),
     (''queue_depth'', (a_field BigIntField)\<lparr> f_default := Some (DefaultInt 0) \<rparr>),
     (''queue_bytes'', (a_field BigIntField)\<lparr> f_default := Some (DefaultInt 0) \<rparr>),
     (''oldest_pending_observation_at'', (a_field (DatetimeField False False))\<lparr> f_null := True \<rparr>),
     (''database_health'', a_field (CharField 16)),
     (''scheduler_state'', a_field (CharField 16)),
     (''agent_time'', a_field (DatetimeField False False)),
     (''clock_offset_ms'', a_field BigIntField),
     (''warnings'', (a_field JSONField)\<lparr> f_default := Some DefaultList \<rparr>)]"

subsection \<open>\<^verbatim>\<open>0010_add_acknowledged_configuration_hash.py\<close>\<close>

definition add_acknowledged_content_hash :: "operation" where
  "add_acknowledged_content_hash =
     AddField ''AgentConfigurationState'' ''acknowledged_content_hash'' ((a_field (CharField 64))\<lparr> f_default := Some (DefaultStr '''') \<rparr>)"

subsection \<open>All migrations in the order of their dependencies\<close>

definition model_operations :: "operation list" where
  "model_operations =
     [create_realm_model,
      create_user_model,
      create_authentication_challenge_model,
      create_realm_membership_model,
      create_recovery_code_model,
      create_two_factor_method_model,
      create_webauthn_credential_model,
      rename_is_staff,
      add_session_version,
      alter_session_version,
      create_audit_event_model,
      create_agent_model,
      create_agent_configuration_snapshot_model,
      create_agent_configuration_state_model,
      create_agent_credential_model,
      create_agent_group_model,
      create_agent_group_membership_model,
      create_target_model,
      create_monitor_model,
      create_monitor_agent_assignment_model,
      create_monitor_agent_group_assignment_model,
      create_target_group_model,
      create_target_group_membership_model,
      create_agent_enrolment_token_model,
      create_agent_operational_state_model,
      add_acknowledged_content_hash]"

section \<open>The declared models\<close>

text \<open>A primary key is unique and indexed; a table is named after its class.\<close>

definition settled :: "field \<Rightarrow> field" where
  "settled f = (if f_pk f then f\<lparr> f_unique := True, f_index := True \<rparr> else f)"

definition declared :: "string \<Rightarrow> string list list \<Rightarrow> (string \<times> field) list \<Rightarrow> model" where
  "declared name uniques fs = \<lparr> m_table = lower name, m_uniques = uniques, m_fields = map_of (map (\<lambda>(n, f). (n, settled f)) fs) \<rparr>"

definition timestamped_fields :: "(string \<times> field) list" where
  "timestamped_fields =
     [(''created_at'', a_field (DatetimeField False True)),
     (''updated_at'', a_field (DatetimeField True False))]"

definition realm_owned_fields :: "(string \<times> field) list" where
  "realm_owned_fields =
     [(''id'', (a_field UUIDField)\<lparr> f_pk := True, f_default := Some DefaultUuid4 \<rparr>),
     (''realm'', a_field (ForeignKeyField (relation ''realm'' ''models.Realm'' None RESTRICT))),
     (''created_at'', a_field (DatetimeField False True)),
     (''updated_at'', a_field (DatetimeField True False))]"

definition declared_user :: "(string \<times> field) list" where
  "declared_user =
     timestamped_fields @
     [(''id'', (a_field UUIDField)\<lparr> f_pk := True, f_default := Some DefaultUuid4 \<rparr>),
     (''email'', (a_field (CharField 320))\<lparr> f_unique := True, f_index := True \<rparr>),
     (''password_hash'', a_field (CharField 255)),
     (''first_name'', a_field (CharField 150)),
     (''last_name'', a_field (CharField 150)),
     (''is_active'', (a_field BooleanField)\<lparr> f_default := Some (DefaultBool True) \<rparr>),
     (''is_superuser'', (a_field BooleanField)\<lparr> f_default := Some (DefaultBool False) \<rparr>),
     (''email_verified'', (a_field BooleanField)\<lparr> f_default := Some (DefaultBool False) \<rparr>),
     (''session_version'', (a_field IntField)\<lparr> f_default := Some (DefaultInt 1) \<rparr>)]"

definition declared_realm :: "(string \<times> field) list" where
  "declared_realm =
     timestamped_fields @
     [(''id'', (a_field UUIDField)\<lparr> f_pk := True, f_default := Some DefaultUuid4 \<rparr>),
     (''name'', a_field (CharField 200)),
     (''slug'', (a_field (CharField 120))\<lparr> f_unique := True, f_index := True \<rparr>),
     (''is_active'', (a_field BooleanField)\<lparr> f_default := Some (DefaultBool True) \<rparr>)]"

definition declared_realm_membership :: "(string \<times> field) list" where
  "declared_realm_membership =
     timestamped_fields @
     [(''id'', (a_field UUIDField)\<lparr> f_pk := True, f_default := Some DefaultUuid4 \<rparr>),
     (''user'', a_field (ForeignKeyField (relation ''user'' ''models.User'' (Some ''memberships'') CASCADE))),
     (''realm'', a_field (ForeignKeyField (relation ''realm'' ''models.Realm'' (Some ''memberships'') CASCADE))),
     (''role'', (a_field (CharField 32))\<lparr> f_default := Some (DefaultStr ''owner'') \<rparr>)]"

definition declared_webauthn_credential :: "(string \<times> field) list" where
  "declared_webauthn_credential =
     timestamped_fields @
     [(''id'', (a_field UUIDField)\<lparr> f_pk := True, f_default := Some DefaultUuid4 \<rparr>),
     (''user'', a_field (ForeignKeyField (relation ''user'' ''models.User'' (Some ''webauthn_credentials'') CASCADE))),
     (''credential_id'', (a_field (CharField 1024))\<lparr> f_unique := True \<rparr>),
     (''public_key'', a_field TextField),
     (''sign_count'', (a_field BigIntField)\<lparr> f_default := Some (DefaultInt 0) \<rparr>),
     (''name'', (a_field (CharField 120))\<lparr> f_default := Some (DefaultStr ''Passkey'') \<rparr>),
     (''device_type'', (a_field (CharField 64))\<lparr> f_default := Some (DefaultStr '''') \<rparr>),
     (''backed_up'', (a_field BooleanField)\<lparr> f_default := Some (DefaultBool False) \<rparr>),
     (''transports'', (a_field JSONField)\<lparr> f_default := Some DefaultList \<rparr>),
     (''last_used_at'', (a_field (DatetimeField False False))\<lparr> f_null := True \<rparr>)]"

definition declared_two_factor_method :: "(string \<times> field) list" where
  "declared_two_factor_method =
     timestamped_fields @
     [(''id'', (a_field UUIDField)\<lparr> f_pk := True, f_default := Some DefaultUuid4 \<rparr>),
     (''user'', a_field (ForeignKeyField (relation ''user'' ''models.User'' (Some ''two_factor_methods'') CASCADE))),
     (''method_type'', (a_field (CharField 32))\<lparr> f_default := Some (DefaultStr ''totp'') \<rparr>),
     (''secret_encrypted'', a_field TextField),
     (''name'', (a_field (CharField 120))\<lparr> f_default := Some (DefaultStr ''Authenticator app'') \<rparr>),
     (''is_enabled'', (a_field BooleanField)\<lparr> f_default := Some (DefaultBool False) \<rparr>),
     (''verified_at'', (a_field (DatetimeField False False))\<lparr> f_null := True \<rparr>),
     (''last_used_at'', (a_field (DatetimeField False False))\<lparr> f_null := True \<rparr>)]"

definition declared_recovery_code :: "(string \<times> field) list" where
  "declared_recovery_code =
     timestamped_fields @
     [(''id'', (a_field UUIDField)\<lparr> f_pk := True, f_default := Some DefaultUuid4 \<rparr>),
     (''user'', a_field (ForeignKeyField (relation ''user'' ''models.User'' (Some ''recovery_codes'') CASCADE))),
     (''code_hash'', (a_field (CharField 64))\<lparr> f_index := True \<rparr>),
     (''used_at'', (a_field (DatetimeField False False))\<lparr> f_null := True \<rparr>)]"

definition declared_authentication_challenge :: "(string \<times> field) list" where
  "declared_authentication_challenge =
     timestamped_fields @
     [(''id'', (a_field UUIDField)\<lparr> f_pk := True, f_default := Some DefaultUuid4 \<rparr>),
     (''user'', (a_field (ForeignKeyField (relation ''user'' ''models.User'' (Some ''authentication_challenges'') CASCADE)))\<lparr> f_null := True \<rparr>),
     (''challenge_type'', (a_field (CharField 32))\<lparr> f_index := True \<rparr>),
     (''challenge_hash'', (a_field (CharField 64))\<lparr> f_unique := True, f_index := True \<rparr>),
     (''expires_at'', (a_field (DatetimeField False False))\<lparr> f_index := True \<rparr>),
     (''consumed_at'', (a_field (DatetimeField False False))\<lparr> f_null := True \<rparr>),
     (''metadata'', (a_field JSONField)\<lparr> f_default := Some DefaultDict \<rparr>)]"

definition declared_audit_event :: "(string \<times> field) list" where
  "declared_audit_event =
     [(''id'', (a_field UUIDField)\<lparr> f_pk := True, f_default := Some DefaultUuid4 \<rparr>),
     (''occurred_at'', (a_field (DatetimeField False True))\<lparr> f_index := True \<rparr>),
     (''realm'', (a_field (ForeignKeyField (relation ''realm'' ''models.Realm'' (Some ''audit_events'') SET_NULL)))\<lparr> f_null := True \<rparr>),
     (''actor_user'', (a_field (ForeignKeyField (relation ''actor_user'' ''models.User'' (Some ''audit_events'') SET_NULL)))\<lparr> f_null := True \<rparr>),
     (''actor_type'', a_field (CharField 32)),
     (''action'', (a_field (CharField 120))\<lparr> f_index := True \<rparr>),
     (''outcome'', (a_field (CharField 32))\<lparr> f_index := True \<rparr>),
     (''target_type'', (a_field (CharField 80))\<lparr> f_null := True \<rparr>),
     (''target_id'', (a_field (CharField 255))\<lparr> f_null := True \<rparr>),
     (''source_ip'', (a_field (CharField 64))\<lparr> f_null := True \<rparr>),
     (''user_agent'', (a_field (CharField 512))\<lparr> f_default := Some (DefaultStr '''') \<rparr>),
     (''superuser_bypass'', (a_field BooleanField)\<lparr> f_default := Some (DefaultBool False) \<rparr>),
     (''metadata'', (a_field JSONField)\<lparr> f_default := Some DefaultDict \<rparr>)]"

definition declared_agent :: "(string \<times> field) list" where
  "declared_agent =
     realm_owned_fields @
     [(''name'', a_field (CharField 200)),
     (''description'', (a_field TextField)\<lparr> f_null := True \<rparr>),
     (''enabled'', (a_field BooleanField)\<lparr> f_default := Some (DefaultBool True) \<rparr>),
     (''archived_at'', (a_field (DatetimeField False False))\<lparr> f_null := True, f_index := True \<rparr>)]"

definition declared_agent_group :: "(string \<times> field) list" where
  "declared_agent_group =
     realm_owned_fields @
     [(''parent'', (a_field (ForeignKeyField (relation ''parent'' ''models.AgentGroup'' (Some ''children'') RESTRICT)))\<lparr> f_null := True \<rparr>),
     (''name'', a_field (CharField 200)),
     (''description'', (a_field TextField)\<lparr> f_null := True \<rparr>),
     (''enabled'', (a_field BooleanField)\<lparr> f_default := Some (DefaultBool True) \<rparr>),
     (''archived_at'', (a_field (DatetimeField False False))\<lparr> f_null := True, f_index := True \<rparr>)]"

definition declared_agent_group_membership :: "(string \<times> field) list" where
  "declared_agent_group_membership =
     [(''id'', (a_field UUIDField)\<lparr> f_pk := True, f_default := Some DefaultUuid4 \<rparr>),
     (''realm'', a_field (ForeignKeyField (relation ''realm'' ''models.Realm'' None RESTRICT))),
     (''agent_group'', a_field (ForeignKeyField (relation ''agent_group'' ''models.AgentGroup'' (Some ''memberships'') CASCADE))),
     (''agent'', a_field (ForeignKeyField (relation ''agent'' ''models.Agent'' (Some ''group_memberships'') CASCADE))),
     (''created_at'', a_field (DatetimeField False True))]"

definition declared_agent_credential :: "(string \<times> field) list" where
  "declared_agent_credential =
     realm_owned_fields @
     [(''agent'', a_field (ForeignKeyField (relation ''agent'' ''models.Agent'' (Some ''credentials'') CASCADE))),
     (''name'', a_field (CharField 120)),
     (''credential_hash'', a_field (CharField 128)),
     (''last_used_at'', (a_field (DatetimeField False False))\<lparr> f_null := True \<rparr>),
     (''expires_at'', (a_field (DatetimeField False False))\<lparr> f_null := True \<rparr>),
     (''revoked_at'', (a_field (DatetimeField False False))\<lparr> f_null := True, f_index := True \<rparr>)]"

definition declared_agent_enrolment_token :: "(string \<times> field) list" where
  "declared_agent_enrolment_token =
     realm_owned_fields @
     [(''agent'', a_field (ForeignKeyField (relation ''agent'' ''models.Agent'' (Some ''enrolment_tokens'') CASCADE))),
     (''token_hash'', (a_field (CharField 64))\<lparr> f_unique := True, f_index := True \<rparr>),
     (''expires_at'', a_field (DatetimeField False False)),
     (''consumed_at'', (a_field (DatetimeField False False))\<lparr> f_null := True, f_index := True \<rparr>),
     (''revoked_at'', (a_field (DatetimeField False False))\<lparr> f_null := True, f_index := True \<rparr>)]"

definition declared_agent_operational_state :: "(string \<times> field) list" where
  "declared_agent_operational_state =
     realm_owned_fields @
     [(''agent'', a_field (OneToOneField (relation ''agent'' ''models.Agent'' (Some ''operational_state'') CASCADE))),
     (''last_heartbeat_at'', (a_field (DatetimeField False False))\<lparr> f_index := True \<rparr>),
     (''agent_version'', a_field (CharField 120)),
     (''platform'', a_field (CharField 120)),
     (''architecture'', a_field (CharField 120)),
     (''hostname'', a_field (CharField 253)),
     (''capabilities'', (a_field JSONField)\<lparr> f_default := Some DefaultDict \<rparr>),
     (''active_configuration_revision'', (a_field BigIntField)\<lparr> f_default := Some (DefaultInt 0) \<rparr>),
     (''known_desired_configuration_revision'', (a_field BigIntField)\<lparr> f_default := Some (DefaultInt 0) \<rparr>),
     (''queue_depth'', (a_field BigIntField)\<lparr> f_default := Some (DefaultInt 0) \<rparr>),
     (''queue_bytes'', (a_field BigIntField)\<lparr> f_default := Some (DefaultInt 0) \<rparr>),
     (''oldest_pending_observation_at'', (a_field (DatetimeField False False))\<lparr> f_null := True \<rparr>),
     (''database_health'', a_field (CharField 16)),
     (''scheduler_state'', a_field (CharField 16)),
     (''agent_time'', a_field (DatetimeField False False)),
     (''clock_offset_ms'', a_field BigIntField),
     (''warnings'', (a_field JSONField)\<lparr> f_default := Some DefaultList \<rparr>)]"

definition declared_target :: "(string \<times> field) list" where
  "declared_target =
     realm_owned_fields @
     [(''name'', a_field (CharField 200)),
     (''description'', (a_field TextField)\<lparr> f_null := True \<rparr>),
     (''address'', a_field (CharField 253)),
     (''enabled'', (a_field BooleanField)\<lparr> f_default := Some (DefaultBool True) \<rparr>),
     (''archived_at'', (a_field (DatetimeField False False))\<lparr> f_null := True, f_index := True \<rparr>)]"

definition declared_target_group :: "(string \<times> field) list" where
  "declared_target_group =
     realm_owned_fields @
     [(''parent'', (a_field (ForeignKeyField (relation ''parent'' ''models.TargetGroup'' (Some ''children'') RESTRICT)))\<lparr> f_null := True \<rparr>),
     (''name'', a_field (CharField 200)),
     (''description'', (a_field TextField)\<lparr> f_null := True \<rparr>),
     (''archived_at'', (a_field (DatetimeField False False))\<lparr> f_null := True, f_index := True \<rparr>)]"

definition declared_target_group_membership :: "(string \<times> field) list" where
  "declared_target_group_membership =
     [(''id'', (a_field UUIDField)\<lparr> f_pk := True, f_default := Some DefaultUuid4 \<rparr>),
     (''realm'', a_field (ForeignKeyField (relation ''realm'' ''models.Realm'' None RESTRICT))),
     (''target_group'', a_field (ForeignKeyField (relation ''target_group'' ''models.TargetGroup'' (Some ''memberships'') CASCADE))),
     (''target'', a_field (ForeignKeyField (relation ''target'' ''models.Target'' (Some ''group_memberships'') CASCADE))),
     (''created_at'', a_field (DatetimeField False True))]"

definition declared_monitor :: "(string \<times> field) list" where
  "declared_monitor =
     realm_owned_fields @
     [(''target'', a_field (ForeignKeyField (relation ''target'' ''models.Target'' (Some ''monitors'') RESTRICT))),
     (''name'', a_field (CharField 200)),
     (''description'', (a_field TextField)\<lparr> f_null := True \<rparr>),
     (''probe_type'', a_field (CharEnumField ''ProbeType'' 16)),
     (''interval_seconds'', a_field IntField),
     (''timeout_seconds'', a_field IntField),
     (''configuration'', (a_field JSONField)\<lparr> f_default := Some DefaultDict \<rparr>),
     (''enabled'', (a_field BooleanField)\<lparr> f_default := Some (DefaultBool True) \<rparr>),
     (''revision'', (a_field IntField)\<lparr> f_default := Some (DefaultInt 1) \<rparr>),
     (''archived_at'', (a_field (DatetimeField False False))\<lparr> f_null := True, f_index := True \<rparr>)]"

definition declared_monitor_agent_assignment :: "(string \<times> field) list" where
  "declared_monitor_agent_assignment =
     realm_owned_fields @
     [(''monitor'', a_field (ForeignKeyField (relation ''monitor'' ''models.Monitor'' (Some ''agent_assignments'') CASCADE))),
     (''agent'', a_field (ForeignKeyField (relation ''agent'' ''models.Agent'' (Some ''monitor_assignments'') CASCADE))),
     (''enabled'', (a_field BooleanField)\<lparr> f_default := Some (DefaultBool True) \<rparr>)]"

definition declared_monitor_agent_group_assignment :: "(string \<times> field) list" where
  "declared_monitor_agent_group_assignment =
     realm_owned_fields @
     [(''monitor'', a_field (ForeignKeyField (relation ''monitor'' ''models.Monitor'' (Some ''agent_group_assignments'') CASCADE))),
     (''agent_group'', a_field (ForeignKeyField (relation ''agent_group'' ''models.AgentGroup'' (Some ''monitor_assignments'') CASCADE))),
     (''enabled'', (a_field BooleanField)\<lparr> f_default := Some (DefaultBool True) \<rparr>)]"

definition declared_agent_configuration_state :: "(string \<times> field) list" where
  "declared_agent_configuration_state =
     realm_owned_fields @
     [(''agent'', a_field (OneToOneField (relation ''agent'' ''models.Agent'' (Some ''configuration_state'') CASCADE))),
     (''desired_revision'', (a_field BigIntField)\<lparr> f_default := Some (DefaultInt 0) \<rparr>),
     (''desired_content_hash'', (a_field (CharField 64))\<lparr> f_default := Some (DefaultStr '''') \<rparr>),
     (''acknowledged_revision'', (a_field BigIntField)\<lparr> f_default := Some (DefaultInt 0) \<rparr>),
     (''acknowledged_content_hash'', (a_field (CharField 64))\<lparr> f_default := Some (DefaultStr '''') \<rparr>),
     (''acknowledged_at'', (a_field (DatetimeField False False))\<lparr> f_null := True \<rparr>)]"

definition declared_agent_configuration_snapshot :: "(string \<times> field) list" where
  "declared_agent_configuration_snapshot =
     [(''id'', (a_field UUIDField)\<lparr> f_pk := True, f_default := Some DefaultUuid4 \<rparr>),
     (''realm'', a_field (ForeignKeyField (relation ''realm'' ''models.Realm'' None RESTRICT))),
     (''agent'', a_field (ForeignKeyField (relation ''agent'' ''models.Agent'' (Some ''configuration_snapshots'') RESTRICT))),
     (''revision'', a_field BigIntField),
     (''content_hash'', a_field (CharField 64)),
     (''configuration'', a_field JSONField),
     (''created_at'', a_field (DatetimeField False True))]"

definition declared_models :: "(string \<times> model) list" where
  "declared_models =
     [(''User'', declared ''User'' [] declared_user),
      (''Realm'', declared ''Realm'' [] declared_realm),
      (''RealmMembership'', declared ''RealmMembership'' [[''user'', ''realm'']] declared_realm_membership),
      (''WebAuthnCredential'', declared ''WebAuthnCredential'' [] declared_webauthn_credential),
      (''TwoFactorMethod'', declared ''TwoFactorMethod'' [[''user'', ''method_type'']] declared_two_factor_method),
      (''RecoveryCode'', declared ''RecoveryCode'' [] declared_recovery_code),
      (''AuthenticationChallenge'', declared ''AuthenticationChallenge'' [] declared_authentication_challenge),
      (''AuditEvent'', declared ''AuditEvent'' [] declared_audit_event),
      (''Agent'', declared ''Agent'' [[''realm'', ''name'']] declared_agent),
      (''AgentGroup'', declared ''AgentGroup'' [] declared_agent_group),
      (''AgentGroupMembership'', declared ''AgentGroupMembership'' [[''realm'', ''agent_group'', ''agent'']] declared_agent_group_membership),
      (''AgentCredential'', declared ''AgentCredential'' [[''realm'', ''agent'', ''name'']] declared_agent_credential),
      (''AgentEnrolmentToken'', declared ''AgentEnrolmentToken'' [] declared_agent_enrolment_token),
      (''AgentOperationalState'', declared ''AgentOperationalState'' [] declared_agent_operational_state),
      (''Target'', declared ''Target'' [[''realm'', ''name'']] declared_target),
      (''TargetGroup'', declared ''TargetGroup'' [] declared_target_group),
      (''TargetGroupMembership'', declared ''TargetGroupMembership'' [[''realm'', ''target_group'', ''target'']] declared_target_group_membership),
      (''Monitor'', declared ''Monitor'' [[''realm'', ''name'']] declared_monitor),
      (''MonitorAgentAssignment'', declared ''MonitorAgentAssignment'' [[''realm'', ''monitor'', ''agent'']] declared_monitor_agent_assignment),
      (''MonitorAgentGroupAssignment'', declared ''MonitorAgentGroupAssignment'' [[''realm'', ''monitor'', ''agent_group'']] declared_monitor_agent_group_assignment),
      (''AgentConfigurationState'', declared ''AgentConfigurationState'' [] declared_agent_configuration_state),
      (''AgentConfigurationSnapshot'', declared ''AgentConfigurationSnapshot'' [[''realm'', ''agent'', ''revision'']] declared_agent_configuration_snapshot)]"

section \<open>Running operations\<close>

text \<open>\<^verbatim>\<open>models.User\<close> is the model \<^verbatim>\<open>User\<close> of the application.\<close>

definition referred_model :: "string \<Rightarrow> string" where
  "referred_model target = removeprefix target ''models.''"

fun field_references :: "field_kind \<Rightarrow> string list" where
  "field_references (ForeignKeyField (Relation target _ _ _ _ _)) = [referred_model target]"
| "field_references (OneToOneField (Relation target _ _ _ _ _)) = [referred_model target]"
| "field_references _ = []"

definition references :: "(string \<times> field) list \<Rightarrow> string list" where
  "references fs = remdups (concat (map (\<lambda>(n, f). field_references (f_kind f)) fs))"

fun has_field :: "schema \<Rightarrow> string \<Rightarrow> string \<Rightarrow> bool" where
  "has_field S m n = (case S m of None \<Rightarrow> False | Some x \<Rightarrow> m_fields x n \<noteq> None)"

fun applicable :: "operation \<Rightarrow> schema \<Rightarrow> bool" where
  "applicable (CreateModel m table uniques fs) S \<longleftrightarrow> S m = None \<and> list_all (\<lambda>r. r = m \<or> S r \<noteq> None) (references fs) \<and>
     distinct (map fst fs) \<and> list_all (list_all (\<lambda>n. n \<in> set (map fst fs))) uniques"
| "applicable (RenameField m old new) S \<longleftrightarrow> has_field S m old \<and> \<not> has_field S m new"
| "applicable (AddField m n f) S \<longleftrightarrow> S m \<noteq> None \<and> \<not> has_field S m n"
| "applicable (AlterField m n f) S \<longleftrightarrow> has_field S m n"

fun all_applicable :: "(operation \<Rightarrow> schema \<Rightarrow> schema) \<Rightarrow> operation list \<Rightarrow> schema \<Rightarrow> bool" where
  "all_applicable step [] S \<longleftrightarrow> True"
| "all_applicable step (op # ops) S \<longleftrightarrow> applicable op S \<and> all_applicable step ops (step op S)"

text \<open>What an operation does to the picture of the models.\<close>

definition with_fields :: "schema \<Rightarrow> string \<Rightarrow> ((string \<rightharpoonup> field) \<Rightarrow> string \<rightharpoonup> field) \<Rightarrow> schema" where
  "with_fields S m g = S(m := map_option (m_fields_update g) (S m))"

fun effect :: "operation \<Rightarrow> schema \<Rightarrow> schema" where
  "effect (CreateModel m table uniques fs) S = S(m \<mapsto> \<lparr> m_table = table, m_uniques = uniques, m_fields = map_of fs \<rparr>)"
| "effect (RenameField m old new) S = with_fields S m (\<lambda>d. (d(old := None))(new := d old))"
| "effect (AddField m n f) S = with_fields S m (\<lambda>d. d(n \<mapsto> f))"
| "effect (AlterField m n f) S = with_fields S m (\<lambda>d. d(n \<mapsto> f))"

locale migration_runner =
  fixes apply_operation :: "operation \<Rightarrow> 's \<Rightarrow> 's" and state_models :: "'s \<Rightarrow> schema"
  assumes create_law: "applicable (CreateModel m table uniques fs) (state_models s) \<Longrightarrow>
      state_models (apply_operation (CreateModel m table uniques fs) s) =
        (state_models s)(m \<mapsto> \<lparr> m_table = table, m_uniques = uniques, m_fields = map_of fs \<rparr>)"
    and rename_law: "applicable (RenameField m old new) (state_models s) \<Longrightarrow>
      state_models (apply_operation (RenameField m old new) s) =
        with_fields (state_models s) m (\<lambda>d. (d(old := None))(new := d old))"
    and add_law: "applicable (AddField m n f) (state_models s) \<Longrightarrow>
      state_models (apply_operation (AddField m n f) s) = with_fields (state_models s) m (\<lambda>d. d(n \<mapsto> f))"
    and alter_law: "applicable (AlterField m n f) (state_models s) \<Longrightarrow>
      state_models (apply_operation (AlterField m n f) s) = with_fields (state_models s) m (\<lambda>d. d(n \<mapsto> f))"
begin

lemma apply_effect: "applicable op (state_models s) \<Longrightarrow> state_models (apply_operation op s) = effect op (state_models s)"
  by (cases op) (simp_all add: create_law rename_law add_law alter_law del: applicable.simps)

lemma run_effects:
  "all_applicable effect ops (state_models s) \<Longrightarrow> state_models (fold apply_operation ops s) = fold effect ops (state_models s)"
  by (induction ops arbitrary: s) (simp_all add: apply_effect)

end

interpretation reference: migration_runner effect "\<lambda>S. S"
  by unfold_locales simp_all

section \<open>The migrations build the declared models\<close>

definition created :: "string \<Rightarrow> string list list \<Rightarrow> (string \<times> field) list \<Rightarrow> operation" where
  "created m uniques fs = CreateModel m (lower m) uniques (map (\<lambda>(n, f). (n, settled f)) fs)"

lemma effect_created: "effect (created m uniques fs) S = S(m \<mapsto> declared m uniques fs)"
  by (simp add: created_def declared_def)

named_theorems schema_fields \<open>the field lists of models and migrations\<close>

lemmas [schema_fields] = a_field_def relation_def settled_def timestamped_fields_def realm_owned_fields_def

lemmas model_fields = create_user_model_def declared_user_def
  create_realm_model_def declared_realm_def
  create_realm_membership_model_def declared_realm_membership_def
  create_webauthn_credential_model_def declared_webauthn_credential_def
  create_two_factor_method_model_def declared_two_factor_method_def
  create_recovery_code_model_def declared_recovery_code_def
  create_authentication_challenge_model_def declared_authentication_challenge_def
  create_audit_event_model_def declared_audit_event_def
  create_agent_model_def declared_agent_def
  create_agent_group_model_def declared_agent_group_def
  create_agent_group_membership_model_def declared_agent_group_membership_def
  create_agent_credential_model_def declared_agent_credential_def
  create_agent_enrolment_token_model_def declared_agent_enrolment_token_def
  create_agent_operational_state_model_def declared_agent_operational_state_def
  create_target_model_def declared_target_def
  create_target_group_model_def declared_target_group_def
  create_target_group_membership_model_def declared_target_group_membership_def
  create_monitor_model_def declared_monitor_def
  create_monitor_agent_assignment_model_def declared_monitor_agent_assignment_def
  create_monitor_agent_group_assignment_model_def declared_monitor_agent_group_assignment_def
  create_agent_configuration_state_model_def declared_agent_configuration_state_def
  create_agent_configuration_snapshot_model_def declared_agent_configuration_snapshot_def

lemma table_names:
  "lower ''User'' = ''user''"
  "lower ''Realm'' = ''realm''"
  "lower ''RealmMembership'' = ''realmmembership''"
  "lower ''WebAuthnCredential'' = ''webauthncredential''"
  "lower ''TwoFactorMethod'' = ''twofactormethod''"
  "lower ''RecoveryCode'' = ''recoverycode''"
  "lower ''AuthenticationChallenge'' = ''authenticationchallenge''"
  "lower ''AuditEvent'' = ''auditevent''"
  "lower ''Agent'' = ''agent''"
  "lower ''AgentGroup'' = ''agentgroup''"
  "lower ''AgentGroupMembership'' = ''agentgroupmembership''"
  "lower ''AgentCredential'' = ''agentcredential''"
  "lower ''AgentEnrolmentToken'' = ''agentenrolmenttoken''"
  "lower ''AgentOperationalState'' = ''agentoperationalstate''"
  "lower ''Target'' = ''target''"
  "lower ''TargetGroup'' = ''targetgroup''"
  "lower ''TargetGroupMembership'' = ''targetgroupmembership''"
  "lower ''Monitor'' = ''monitor''"
  "lower ''MonitorAgentAssignment'' = ''monitoragentassignment''"
  "lower ''MonitorAgentGroupAssignment'' = ''monitoragentgroupassignment''"
  "lower ''AgentConfigurationState'' = ''agentconfigurationstate''"
  "lower ''AgentConfigurationSnapshot'' = ''agentconfigurationsnapshot''"
  by code_simp+

lemma created_models:
  "create_realm_model = created ''Realm'' [] declared_realm"
  "create_realm_membership_model = created ''RealmMembership'' [[''user'', ''realm'']] declared_realm_membership"
  "create_webauthn_credential_model = created ''WebAuthnCredential'' [] declared_webauthn_credential"
  "create_two_factor_method_model = created ''TwoFactorMethod'' [[''user'', ''method_type'']] declared_two_factor_method"
  "create_recovery_code_model = created ''RecoveryCode'' [] declared_recovery_code"
  "create_authentication_challenge_model = created ''AuthenticationChallenge'' [] declared_authentication_challenge"
  "create_audit_event_model = created ''AuditEvent'' [] declared_audit_event"
  "create_agent_model = created ''Agent'' [[''realm'', ''name'']] declared_agent"
  "create_agent_group_model = created ''AgentGroup'' [] declared_agent_group"
  "create_agent_group_membership_model = created ''AgentGroupMembership'' [[''realm'', ''agent_group'', ''agent'']] declared_agent_group_membership"
  "create_agent_credential_model = created ''AgentCredential'' [[''realm'', ''agent'', ''name'']] declared_agent_credential"
  "create_agent_enrolment_token_model = created ''AgentEnrolmentToken'' [] declared_agent_enrolment_token"
  "create_agent_operational_state_model = created ''AgentOperationalState'' [] declared_agent_operational_state"
  "create_target_model = created ''Target'' [[''realm'', ''name'']] declared_target"
  "create_target_group_model = created ''TargetGroup'' [] declared_target_group"
  "create_target_group_membership_model = created ''TargetGroupMembership'' [[''realm'', ''target_group'', ''target'']] declared_target_group_membership"
  "create_monitor_model = created ''Monitor'' [[''realm'', ''name'']] declared_monitor"
  "create_monitor_agent_assignment_model = created ''MonitorAgentAssignment'' [[''realm'', ''monitor'', ''agent'']] declared_monitor_agent_assignment"
  "create_monitor_agent_group_assignment_model = created ''MonitorAgentGroupAssignment'' [[''realm'', ''monitor'', ''agent_group'']] declared_monitor_agent_group_assignment"
  "create_agent_configuration_snapshot_model = created ''AgentConfigurationSnapshot'' [[''realm'', ''agent'', ''revision'']] declared_agent_configuration_snapshot"
  by (simp_all add: created_def model_fields table_names schema_fields)

lemma user_model_migrated:
  "effect alter_session_version (effect add_session_version (effect rename_is_staff (S(''User'' := effect create_user_model T ''User'')))) =
     S(''User'' \<mapsto> declared ''User'' [] declared_user)"
  by (rule ext) (simp add: alter_session_version_def add_session_version_def rename_is_staff_def with_fields_def declared_def
      model_fields table_names schema_fields fun_eq_iff)

lemma state_model_migrated:
  "effect add_acknowledged_content_hash (S(''AgentConfigurationState'' := effect create_agent_configuration_state_model T ''AgentConfigurationState'')) =
     S(''AgentConfigurationState'' \<mapsto> declared ''AgentConfigurationState'' [] declared_agent_configuration_state)"
  by (rule ext) (simp add: add_acknowledged_content_hash_def with_fields_def declared_def
      model_fields table_names schema_fields fun_eq_iff)

lemma user_model_settled:
  assumes "S ''User'' = effect create_user_model Map.empty ''User''"
  shows "effect alter_session_version (effect add_session_version (effect rename_is_staff S)) = S(''User'' \<mapsto> declared ''User'' [] declared_user)"
  using user_model_migrated [of S Map.empty] unfolding assms [symmetric] fun_upd_triv .

lemma state_model_settled:
  assumes "S ''AgentConfigurationState'' = effect create_agent_configuration_state_model Map.empty ''AgentConfigurationState''"
  shows "effect add_acknowledged_content_hash S =
    S(''AgentConfigurationState'' \<mapsto> declared ''AgentConfigurationState'' [] declared_agent_configuration_state)"
  using state_model_migrated [of S Map.empty] unfolding assms [symmetric] fun_upd_triv .

lemma effect_create_user: "effect create_user_model S = S(''User'' := effect create_user_model Map.empty ''User'')"
  by (simp add: create_user_model_def)

lemma effect_create_state:
  "effect create_agent_configuration_state_model S =
     S(''AgentConfigurationState'' := effect create_agent_configuration_state_model Map.empty ''AgentConfigurationState'')"
  by (simp add: create_agent_configuration_state_model_def)

lemma migrated_schema: "fold effect model_operations Map.empty = map_of declared_models"
proof -
  define u where "u = effect create_user_model Map.empty ''User''"
  define a where "a = effect create_agent_configuration_state_model Map.empty ''AgentConfigurationState''"
  have e: "effect create_user_model S = S(''User'' := u)"
    "effect create_agent_configuration_state_model S = S(''AgentConfigurationState'' := a)" for S
    unfolding u_def a_def by (rule effect_create_user effect_create_state)+
  have s: "S ''User'' = u \<Longrightarrow> effect alter_session_version (effect add_session_version (effect rename_is_staff S)) =
      S(''User'' \<mapsto> declared ''User'' [] declared_user)"
    "S ''AgentConfigurationState'' = a \<Longrightarrow> effect add_acknowledged_content_hash S =
      S(''AgentConfigurationState'' \<mapsto> declared ''AgentConfigurationState'' [] declared_agent_configuration_state)" for S
    unfolding u_def a_def by (erule user_model_settled state_model_settled)+
  have "fold effect model_operations Map.empty n = map_of declared_models n" for n
    unfolding model_operations_def created_models
    by (simp add: effect_created e s declared_models_def del: effect.simps)
  then show ?thesis by blast
qed

lemma declared_references:
  "references declared_user = []"
  "references declared_realm = []"
  "references declared_realm_membership = [''User'', ''Realm'']"
  "references declared_webauthn_credential = [''User'']"
  "references declared_two_factor_method = [''User'']"
  "references declared_recovery_code = [''User'']"
  "references declared_authentication_challenge = [''User'']"
  "references declared_audit_event = [''Realm'', ''User'']"
  "references declared_agent = [''Realm'']"
  "references declared_agent_group = [''Realm'', ''AgentGroup'']"
  "references declared_agent_group_membership = [''Realm'', ''AgentGroup'', ''Agent'']"
  "references declared_agent_credential = [''Realm'', ''Agent'']"
  "references declared_agent_enrolment_token = [''Realm'', ''Agent'']"
  "references declared_agent_operational_state = [''Realm'', ''Agent'']"
  "references declared_target = [''Realm'']"
  "references declared_target_group = [''Realm'', ''TargetGroup'']"
  "references declared_target_group_membership = [''Realm'', ''TargetGroup'', ''Target'']"
  "references declared_monitor = [''Realm'', ''Target'']"
  "references declared_monitor_agent_assignment = [''Realm'', ''Monitor'', ''Agent'']"
  "references declared_monitor_agent_group_assignment = [''Realm'', ''Monitor'', ''AgentGroup'']"
  "references declared_agent_configuration_state = [''Realm'', ''Agent'']"
  "references declared_agent_configuration_snapshot = [''Realm'', ''Agent'']"
  by code_simp+

lemma kind_settled [simp]: "f_kind (settled f) = f_kind f"
  by (simp add: settled_def)

lemma references_settled [simp]: "references (map (\<lambda>(n, f). (n, settled f)) fs) = references fs"
  unfolding references_def map_map by (rule arg_cong [of _ _ "\<lambda>g. remdups (concat (map g fs))"]) (auto simp: fun_eq_iff)

lemma names_settled [simp]: "map fst (map (\<lambda>(n, f). (n, settled f)) fs) = map fst fs"
  by (simp add: comp_def case_prod_beta)

lemma applicable_created:
  "applicable (created m uniques fs) S \<longleftrightarrow> S m = None \<and> list_all (\<lambda>r. r = m \<or> S r \<noteq> None) (references fs) \<and>
     distinct (map fst fs) \<and> list_all (list_all (\<lambda>n. n \<in> set (map fst fs))) uniques"
  by (simp only: created_def applicable.simps references_settled names_settled)

lemma declared_names:
  "map fst declared_user = [''created_at'', ''updated_at'', ''id'', ''email'', ''password_hash'', ''first_name'', ''last_name'', ''is_active'', ''is_superuser'', ''email_verified'', ''session_version'']"
  "map fst declared_realm = [''created_at'', ''updated_at'', ''id'', ''name'', ''slug'', ''is_active'']"
  "map fst declared_realm_membership = [''created_at'', ''updated_at'', ''id'', ''user'', ''realm'', ''role'']"
  "map fst declared_webauthn_credential = [''created_at'', ''updated_at'', ''id'', ''user'', ''credential_id'', ''public_key'', ''sign_count'', ''name'', ''device_type'', ''backed_up'', ''transports'', ''last_used_at'']"
  "map fst declared_two_factor_method = [''created_at'', ''updated_at'', ''id'', ''user'', ''method_type'', ''secret_encrypted'', ''name'', ''is_enabled'', ''verified_at'', ''last_used_at'']"
  "map fst declared_recovery_code = [''created_at'', ''updated_at'', ''id'', ''user'', ''code_hash'', ''used_at'']"
  "map fst declared_authentication_challenge = [''created_at'', ''updated_at'', ''id'', ''user'', ''challenge_type'', ''challenge_hash'', ''expires_at'', ''consumed_at'', ''metadata'']"
  "map fst declared_audit_event = [''id'', ''occurred_at'', ''realm'', ''actor_user'', ''actor_type'', ''action'', ''outcome'', ''target_type'', ''target_id'', ''source_ip'', ''user_agent'', ''superuser_bypass'', ''metadata'']"
  "map fst declared_agent = [''id'', ''realm'', ''created_at'', ''updated_at'', ''name'', ''description'', ''enabled'', ''archived_at'']"
  "map fst declared_agent_group = [''id'', ''realm'', ''created_at'', ''updated_at'', ''parent'', ''name'', ''description'', ''enabled'', ''archived_at'']"
  "map fst declared_agent_group_membership = [''id'', ''realm'', ''agent_group'', ''agent'', ''created_at'']"
  "map fst declared_agent_credential = [''id'', ''realm'', ''created_at'', ''updated_at'', ''agent'', ''name'', ''credential_hash'', ''last_used_at'', ''expires_at'', ''revoked_at'']"
  "map fst declared_agent_enrolment_token = [''id'', ''realm'', ''created_at'', ''updated_at'', ''agent'', ''token_hash'', ''expires_at'', ''consumed_at'', ''revoked_at'']"
  "map fst declared_agent_operational_state = [''id'', ''realm'', ''created_at'', ''updated_at'', ''agent'', ''last_heartbeat_at'', ''agent_version'', ''platform'', ''architecture'', ''hostname'', ''capabilities'', ''active_configuration_revision'', ''known_desired_configuration_revision'', ''queue_depth'', ''queue_bytes'', ''oldest_pending_observation_at'', ''database_health'', ''scheduler_state'', ''agent_time'', ''clock_offset_ms'', ''warnings'']"
  "map fst declared_target = [''id'', ''realm'', ''created_at'', ''updated_at'', ''name'', ''description'', ''address'', ''enabled'', ''archived_at'']"
  "map fst declared_target_group = [''id'', ''realm'', ''created_at'', ''updated_at'', ''parent'', ''name'', ''description'', ''archived_at'']"
  "map fst declared_target_group_membership = [''id'', ''realm'', ''target_group'', ''target'', ''created_at'']"
  "map fst declared_monitor = [''id'', ''realm'', ''created_at'', ''updated_at'', ''target'', ''name'', ''description'', ''probe_type'', ''interval_seconds'', ''timeout_seconds'', ''configuration'', ''enabled'', ''revision'', ''archived_at'']"
  "map fst declared_monitor_agent_assignment = [''id'', ''realm'', ''created_at'', ''updated_at'', ''monitor'', ''agent'', ''enabled'']"
  "map fst declared_monitor_agent_group_assignment = [''id'', ''realm'', ''created_at'', ''updated_at'', ''monitor'', ''agent_group'', ''enabled'']"
  "map fst declared_agent_configuration_state = [''id'', ''realm'', ''created_at'', ''updated_at'', ''agent'', ''desired_revision'', ''desired_content_hash'', ''acknowledged_revision'', ''acknowledged_content_hash'', ''acknowledged_at'']"
  "map fst declared_agent_configuration_snapshot = [''id'', ''realm'', ''agent'', ''revision'', ''content_hash'', ''configuration'', ''created_at'']"
  by (simp_all add: model_fields schema_fields)

lemma referred_model_names: "referred_model ''models.Realm'' = ''Realm''" "referred_model ''models.Agent'' = ''Agent''"
  by code_simp+

lemma user_applicable:
  "applicable create_user_model S \<longleftrightarrow> S ''User'' = None"
  "S ''User'' = effect create_user_model Map.empty ''User'' \<Longrightarrow> all_applicable effect [rename_is_staff, add_session_version, alter_session_version] S"
  by (simp_all add: create_user_model_def rename_is_staff_def add_session_version_def alter_session_version_def
      references_def with_fields_def schema_fields)

lemma state_applicable:
  "applicable create_agent_configuration_state_model S \<longleftrightarrow>
     S ''AgentConfigurationState'' = None \<and> S ''Realm'' \<noteq> None \<and> S ''Agent'' \<noteq> None"
  "S ''AgentConfigurationState'' = effect create_agent_configuration_state_model Map.empty ''AgentConfigurationState'' \<Longrightarrow>
     applicable add_acknowledged_content_hash S"
  by (simp_all add: create_agent_configuration_state_model_def add_acknowledged_content_hash_def
      references_def referred_model_names with_fields_def schema_fields)

lemma user_operations_applicable:
  assumes "S ''User'' = effect create_user_model Map.empty ''User''"
  shows "all_applicable effect (rename_is_staff # add_session_version # alter_session_version # ops) S \<longleftrightarrow>
    all_applicable effect ops (S(''User'' \<mapsto> declared ''User'' [] declared_user))"
  using user_applicable(2) [of S, OF assms] user_model_settled [of S, OF assms] by simp

lemma created_then:
  "all_applicable effect (created m uniques fs # ops) S \<longleftrightarrow> S m = None \<and> list_all (\<lambda>r. r = m \<or> S r \<noteq> None) (references fs) \<and>
     distinct (map fst fs) \<and> list_all (list_all (\<lambda>n. n \<in> set (map fst fs))) uniques \<and>
     all_applicable effect ops (S(m \<mapsto> declared m uniques fs))"
  by (simp only: all_applicable.simps(2) applicable_created effect_created conj_assoc)

lemma operations_in_order: "all_applicable effect model_operations Map.empty"
proof -
  define u where "u = effect create_user_model Map.empty ''User''"
  define a where "a = effect create_agent_configuration_state_model Map.empty ''AgentConfigurationState''"
  have e: "effect create_user_model S = S(''User'' := u)"
    "effect create_agent_configuration_state_model S = S(''AgentConfigurationState'' := a)" for S
    unfolding u_def a_def by (rule effect_create_user effect_create_state)+
  have n: "\<exists>y. u = Some y"
    by (simp add: u_def create_user_model_def)
  have c: "all_applicable effect (create_user_model # ops) S \<longleftrightarrow> S ''User'' = None \<and> all_applicable effect ops (S(''User'' := u))"
    "all_applicable effect (create_agent_configuration_state_model # ops) S \<longleftrightarrow> S ''AgentConfigurationState'' = None \<and>
       S ''Realm'' \<noteq> None \<and> S ''Agent'' \<noteq> None \<and> all_applicable effect ops (S(''AgentConfigurationState'' := a))" for S ops
    by (simp_all only: all_applicable.simps(2) user_applicable(1) state_applicable(1) e conj_assoc)
  have s: "S ''User'' = u \<Longrightarrow> all_applicable effect (rename_is_staff # add_session_version # alter_session_version # ops) S \<longleftrightarrow>
      all_applicable effect ops (S(''User'' \<mapsto> declared ''User'' [] declared_user))" for S ops
    unfolding u_def by (rule user_operations_applicable)
  have t: "S ''AgentConfigurationState'' = a \<Longrightarrow> all_applicable effect [add_acknowledged_content_hash] S" for S
    unfolding a_def all_applicable.simps using state_applicable(2) [of S] by simp
  show ?thesis
    unfolding model_operations_def created_models
    by (simp add: created_then declared_references declared_names c s t n
        del: effect.simps applicable.simps all_applicable.simps(2))
qed

text \<open>C14: applied to an empty database in the order of their dependencies, the migrations build exactly the
  models the code declares: the same models with the same tables and unique keys, and in each the same
  fields with the same type, length, nullability, uniqueness, index, default and relation. This holds for every
  implementation of the operations that keeps their laws where an operation is in order, and every one of
  them is: no model or field is made twice, and a relation refers to a model that exists by then.\<close>

theorem migrations_build_declared_models:
  assumes "migration_runner apply_operation state_models" and "state_models s = Map.empty"
  shows "state_models (fold apply_operation model_operations s) = map_of declared_models \<and>
    all_applicable effect model_operations (state_models s)"
  using migration_runner.run_effects [OF assms(1), of model_operations s] operations_in_order migrated_schema assms(2) by simp

theorem migrations_build_declared_models_witness:
  "fold effect model_operations Map.empty = map_of declared_models \<and> all_applicable effect model_operations Map.empty"
  using migrations_build_declared_models [OF reference.migration_runner_axioms, of Map.empty] by simp

end
