(* ===== verification/Template_Tokenizer.thy ===== *)
theory Template_Tokenizer
  imports Py_Stdlib
begin

text \<open>
  The template tokenizer of the developer tools: \<^verbatim>\<open>tools/lib/template_parser.py\<close>, up to
  \<^verbatim>\<open>tokenize\<close>. The getters return the text of the token at a position or raise. The loop may fail to
  make progress, so it is a partial function whose result \<^term>\<open>None\<close> says that it runs forever.
\<close>

section \<open>Data\<close>

datatype token_kind =
    Code | HtmlComment | HandlebarsComment | DjangoComment | HandlebarsPartial | HandlebarsPartialBlock
  | HtmlDoctype | HtmlSingleton | HtmlStart | HtmlEnd | HandlebarsElse | HandlebarsTripleStache
  | HandlebarsStart | HandlebarsEnd | DjangoElse | DjangoEnd | DjangoStart | Jinja2StrippedStart
  | Jinja2StrippedEnd | Jinja2StrippedType2Start | TemplateVar | Newline | Indent | Whitespace | TextToken

record token =
  tok_kind :: token_kind
  tok_s :: string
  tok_tag :: string
  tok_line :: nat
  tok_col :: nat
  tok_line_span :: nat

record tokenizer_state =
  ts_i :: nat
  ts_line :: nat
  ts_col :: nat

text \<open>The problems a \<^verbatim>\<open>TemplateParserError\<close> reports, and the exceptions the tool raises.\<close>

datatype template_problem =
    Unparsable string nat nat string | TagNameMissing | UnescapedTripleStache
  | NoStartTag token | MissingEndTag token | CodeTagSplit token token | UnexpectedElse token token
  | MismatchedTags token token | MustBeSelfClosing token | MustNotBeSelfClosing token
  | BadIndentation token token | TooManyBlankLines token | LeadingWhitespace | BlankLineWithSpaces token
  | NotFourSpaces token | TooMuchWhitespace token | TrailingWhitespace token

datatype template_error =
    TokenizationError string string
  | FormattedError string nat nat string
  | TemplateParserError template_problem
  | AssertionError string
  | IndexError

section \<open>Slices and words\<close>

definition slice :: "'a list \<Rightarrow> nat \<Rightarrow> nat \<Rightarrow> 'a list" where
  "slice s a b = take (b - a) (drop a s)"

text \<open>\<^verbatim>\<open>s[a:-k]\<close>.\<close>

definition slice_neg :: "'a list \<Rightarrow> nat \<Rightarrow> nat \<Rightarrow> 'a list" where
  "slice_neg s a k = slice s a (length s - k)"

text \<open>\<^verbatim>\<open>s.split()[0]\<close>.\<close>

definition first_word :: "string \<Rightarrow> template_error + string" where
  "first_word s = (case split_ws s of [] \<Rightarrow> Inl IndexError | w # _ \<Rightarrow> Inr w)"

definition char_at :: "string \<Rightarrow> nat \<Rightarrow> template_error + char" where
  "char_at s i = (if i < length s then Inr (s ! i) else Inl IndexError)"

definition looking_at :: "string \<Rightarrow> nat \<Rightarrow> string \<Rightarrow> bool" where
  "looking_at s i p \<longleftrightarrow> slice s i (i + length p) = p"

section \<open>Getters\<close>

text \<open>The loops \<^verbatim>\<open>while end < len(text) - k and text[end] != c: end += 1\<close>.\<close>

function scan_to :: "char \<Rightarrow> nat \<Rightarrow> string \<Rightarrow> nat \<Rightarrow> nat" where
  "scan_to c k s e = (if e < length s - k \<and> s ! e \<noteq> c then scan_to c k s (Suc e) else e)"
  by pat_completeness auto
termination
  by (relation "measure (\<lambda>(c, k, s, e). length s - e)") auto

declare scan_to.simps [simp del]

definition get_handlebars_tag :: "string \<Rightarrow> nat \<Rightarrow> template_error + string" where
  "get_handlebars_tag s i =
     (let e = scan_to (CHR ''}'') 2 s (i + 2) in
      bind_result (char_at s e) (\<lambda>c1.
      if c1 \<noteq> CHR ''}'' then Inl (TokenizationError ''Tag missing \"}}\"'' (slice s i (e + 2))) else
      bind_result (char_at s (e + 1)) (\<lambda>c2.
      if c2 \<noteq> CHR ''}'' then Inl (TokenizationError ''Tag missing \"}}\"'' (slice s i (e + 2)))
      else Inr (slice s i (e + 2)))))"

definition get_handlebars_triple_stache_tag :: "string \<Rightarrow> nat \<Rightarrow> template_error + string" where
  "get_handlebars_triple_stache_tag s i =
     (let e = scan_to (CHR ''}'') 3 s (i + 3) in
      if slice s e (e + 3) = ''}}}'' then Inr (slice s i (e + 3))
      else if e + 4 \<le> length s \<and> slice s e (e + 4) = ''}~}}'' then Inr (slice s i (e + 4))
      else Inl (TokenizationError ''Tag missing \"}}}\"'' (slice s i (e + 3))))"

definition get_spaces :: "string \<Rightarrow> nat \<Rightarrow> string" where
  "get_spaces s i = takeWhile (\<lambda>c. c = CHR '' '') (drop i s)"

definition get_code :: "string \<Rightarrow> nat \<Rightarrow> string" where
  "get_code s i = takeWhile (\<lambda>c. c \<noteq> CHR ''<'') (drop i s)"

definition get_text :: "string \<Rightarrow> nat \<Rightarrow> string" where
  "get_text s i = strip (takeWhile (\<lambda>c. c \<notin> set ''{<'') (drop i s))"

definition get_django_tag :: "string \<Rightarrow> nat \<Rightarrow> bool \<Rightarrow> template_error + string" where
  "get_django_tag s i stripped =
     (let e = scan_to (CHR ''%'') 1 s (if stripped then i + 3 else i + 2) in
      bind_result (char_at s e) (\<lambda>c1.
      if c1 \<noteq> CHR ''%'' then Inl (TokenizationError ''Tag missing \"%}\"'' (slice s i (e + 2))) else
      bind_result (char_at s (e + 1)) (\<lambda>c2.
      if c2 \<noteq> CHR ''}'' then Inl (TokenizationError ''Tag missing \"%}\"'' (slice s i (e + 2)))
      else Inr (slice s i (e + 2)))))"

text \<open>The loop of \<^verbatim>\<open>get_html_tag\<close>; \<open>u\<close> is \<^verbatim>\<open>unclosed_end\<close>, zero as long as there is none.\<close>

function html_tag_end :: "string \<Rightarrow> nat \<Rightarrow> nat \<Rightarrow> nat \<Rightarrow> nat \<times> nat \<times> nat" where
  "html_tag_end s e q u =
     (if e < length s \<and> (s ! e \<noteq> CHR ''>'' \<or> (q mod 2 \<noteq> 0 \<and> s ! e \<noteq> CHR ''<'')) then
        html_tag_end s (Suc e) (if s ! e = CHR 34 then q + 1 else q)
          (if u = 0 \<and> s ! e = CHR ''<'' then e else u)
      else (e, q, u))"
  by pat_completeness auto
termination
  by (relation "measure (\<lambda>(s, e, q, u). length s - e)") auto

declare html_tag_end.simps [simp del]

definition get_html_tag :: "string \<Rightarrow> nat \<Rightarrow> template_error + string" where
  "get_html_tag s i =
     (case html_tag_end s (i + 1) 0 0 of (e, q, u) \<Rightarrow>
        if q mod 2 \<noteq> 0 then
          Inl (TokenizationError ''Unbalanced quotes'' (if u \<noteq> 0 then slice s i u else slice s i (e + 1)))
        else if e = length s \<or> s ! e \<noteq> CHR ''>'' then Inl (TokenizationError ''Tag missing \">\"'' (slice s i (e + 1)))
        else Inr (slice s i (e + 1)))"

text \<open>
  The loops that look for a closing mark from \<open>e\<close> on. Past the last character the test for an
  unclosed tag reads beyond the text, unless a tag was seen before.
\<close>

function scan_close :: "string \<Rightarrow> string \<Rightarrow> string \<Rightarrow> nat \<Rightarrow> nat \<Rightarrow> nat \<Rightarrow> template_error + string" where
  "scan_close closer what s i e u =
     (if e \<le> length s then
        if slice s (e - length closer) e = closer then Inr (slice s i e)
        else if u = 0 then
          (if e < length s then scan_close closer what s i (Suc e) (if s ! e = CHR ''<'' then e else 0)
           else Inl IndexError)
        else scan_close closer what s i (Suc e) u
      else Inl (TokenizationError what (slice s i u)))"
  by pat_completeness auto
termination
  by (relation "measure (\<lambda>(c, w, s, i, e, u). Suc (length s) - e)") auto

declare scan_close.simps [simp del]

definition get_html_comment :: "string \<Rightarrow> nat \<Rightarrow> template_error + string" where
  "get_html_comment s i = scan_close ''-->'' ''Unclosed comment'' s i (i + 7) 0"

definition get_handlebars_comment :: "string \<Rightarrow> nat \<Rightarrow> template_error + string" where
  "get_handlebars_comment s i = scan_close ''}}'' ''Unclosed comment'' s i (i + 5) 0"

definition get_django_comment :: "string \<Rightarrow> nat \<Rightarrow> template_error + string" where
  "get_django_comment s i = scan_close ''#}'' ''Unclosed comment'' s i (i + 4) 0"

definition get_handlebars_partial :: "string \<Rightarrow> nat \<Rightarrow> template_error + string" where
  "get_handlebars_partial s i = scan_close ''}}'' ''Unclosed partial'' s i (i + 10) 0"

function var_end :: "string \<Rightarrow> nat \<Rightarrow> nat \<Rightarrow> nat \<Rightarrow> template_error + string" where
  "var_end s i e u =
     (if e \<le> length s then
        if s ! (e - 1) = CHR ''}'' then
          Inr (slice s i (if e < length s \<and> s ! e = CHR ''}'' then e + 1 else e))
        else if u = 0 then
          (if e < length s then var_end s i (Suc e) (if s ! e = CHR ''<'' then e else 0) else Inl IndexError)
        else var_end s i (Suc e) u
      else Inl (TokenizationError ''Unclosed var'' (slice s i u)))"
  by pat_completeness auto
termination
  by (relation "measure (\<lambda>(s, i, e, u). Suc (length s) - e)") auto

declare var_end.simps [simp del]

definition get_template_var :: "string \<Rightarrow> nat \<Rightarrow> template_error + string" where
  "get_template_var s i = var_end s i (i + 3) 0"

section \<open>One token\<close>

text \<open>
  The text, tag and kind of the token at a position, in the order of the tests of the loop. The last
  component says whether the token opens a code block. \<open>fresh\<close> holds at the beginning of a line.
\<close>

type_synonym scanned = "token_kind \<times> string \<times> string \<times> bool"

definition scan_html_start :: "string \<Rightarrow> nat \<Rightarrow> template_error + scanned" where
  "scan_html_start t i =
     bind_result (get_html_tag t i) (\<lambda>s.
     (case split_ws (slice_neg s 1 (if endswith s ''/>'' then 2 else 1)) of
        [] \<Rightarrow> Inl (TemplateParserError TagNameMissing)
      | tag # _ \<Rightarrow>
          Inr (if tag = ''!DOCTYPE'' then HtmlDoctype else if tag = ''!doctype'' then HtmlDoctype
               else if endswith s ''/>'' then HtmlSingleton else HtmlStart,
             s, tag, tag \<in> {''code'', ''pre'', ''script''})))"

definition scan_triple_stache :: "string \<Rightarrow> nat \<Rightarrow> template_error + scanned" where
  "scan_triple_stache t i =
     bind_result (get_handlebars_triple_stache_tag t i) (\<lambda>s.
     let tag = strip (slice_neg s (if startswith s ''{{~{'' then 4 else 3) (if endswith s ''}~}}'' then 4 else 3))
     in if \<not> endswith tag ''_html'' then Inl (TemplateParserError UnescapedTripleStache)
        else Inr (HandlebarsTripleStache, s, tag, False))"

definition scan_plain :: "string \<Rightarrow> nat \<Rightarrow> bool \<Rightarrow> template_error + scanned" where
  "scan_plain t i fresh =
     (if looking_at t i [CHR 10] then Inr (Newline, [CHR 10], ''newline'', False)
      else if looking_at t i '' '' then Inr (if fresh then Indent else Whitespace, get_spaces t i, '''', False)
      else if t ! i \<in> set ''{<'' then Inl (AssertionError (''tool cannot parse '' @ take 15 (drop i t)))
      else Inr (TextToken, get_text t i, '''', False))"

definition scan_token :: "string \<Rightarrow> string option \<Rightarrow> nat \<Rightarrow> bool \<Rightarrow> template_error + scanned" where
  "scan_token t fmt i fresh =
     (let sees = looking_at t i; handlebars = (fmt = Some ''handlebars''); django = (fmt = Some ''django'') in
      if sees ''<!--'' then
        bind_result (get_html_comment t i) (\<lambda>s. Inr (HtmlComment, s, slice_neg s 4 3, False))
      else if sees ''{{!'' then
        bind_result (get_handlebars_comment t i) (\<lambda>s. Inr (HandlebarsComment, s, slice_neg s 3 2, False))
      else if django \<and> sees ''{#'' then
        bind_result (get_django_comment t i) (\<lambda>s. Inr (DjangoComment, s, slice_neg s 2 2, False))
      else if handlebars \<and> sees ''{{>'' then
        bind_result (get_handlebars_partial t i) (\<lambda>s. Inr (HandlebarsPartial, s, slice_neg s 9 2, False))
      else if handlebars \<and> sees ''{{#>'' then
        bind_result (get_handlebars_partial t i) (\<lambda>s.
        bind_result (first_word (slice_neg s 5 2)) (\<lambda>tag. Inr (HandlebarsPartialBlock, s, tag, False)))
      else if sees ''<'' \<and> \<not> sees ''</'' then scan_html_start t i
      else if sees ''</'' then
        bind_result (get_html_tag t i) (\<lambda>s. Inr (HtmlEnd, s, slice_neg s 2 1, False))
      else if handlebars \<and> sees ''{{else'' then
        bind_result (get_handlebars_tag t i) (\<lambda>s. Inr (HandlebarsElse, s, ''else'', False))
      else if handlebars \<and> (sees ''{{{'' \<or> sees ''{{~{'') then scan_triple_stache t i
      else if sees ''{{#'' \<or> sees ''{{^'' \<or> sees ''{{~#'' then
        bind_result (get_handlebars_tag t i) (\<lambda>s.
        bind_result (first_word (slice_neg s 3 2)) (\<lambda>w.
        Inr (HandlebarsStart, s, removeprefix (strip_on (\<lambda>c. c = CHR ''#'') w) ''*'', False)))
      else if handlebars \<and> (sees ''{{/'' \<or> sees ''{{~/'') then
        bind_result (get_handlebars_tag t i) (\<lambda>s.
        Inr (HandlebarsEnd, s, strip_on (\<lambda>c. c \<in> set ''/#~'') (slice_neg s 3 2), False))
      else if django \<and> (sees ''{% else'' \<or> sees ''{% elif'' \<or> sees ''{%- else'' \<or> sees ''{%- elif'') then
        bind_result (get_django_tag t i False) (\<lambda>s. Inr (DjangoElse, s, ''else'', False))
      else if django \<and> sees ''{% end'' then
        bind_result (get_django_tag t i False) (\<lambda>s. Inr (DjangoEnd, s, slice_neg s 6 3, False))
      else if django \<and> sees ''{% '' then
        bind_result (get_django_tag t i False) (\<lambda>s.
        bind_result (first_word (slice_neg s 3 2)) (\<lambda>tag.
        bind_result (if 3 \<le> length s then char_at s (length s - 3) else Inl IndexError) (\<lambda>c.
        Inr (if c = CHR ''-'' then Jinja2StrippedStart else DjangoStart, s, tag, False))))
      else if django \<and> sees ''{%- end'' then
        bind_result (get_django_tag t i False) (\<lambda>s. Inr (Jinja2StrippedEnd, s, slice_neg s 7 3, False))
      else if django \<and> sees ''{%-'' \<and> \<not> sees ''{%- end'' then
        bind_result (get_django_tag t i True) (\<lambda>s.
        bind_result (first_word (slice_neg s 3 3)) (\<lambda>tag. Inr (Jinja2StrippedType2Start, s, tag, False)))
      else if sees ''{'' then
        bind_result (get_template_var t i) (\<lambda>s. Inr (TemplateVar, s, ''var'', False))
      else scan_plain t i fresh)"

section \<open>The loop\<close>

text \<open>\<^verbatim>\<open>advance(n)\<close>.\<close>

fun advance :: "string \<Rightarrow> nat \<Rightarrow> tokenizer_state \<Rightarrow> tokenizer_state" where
  "advance t 0 st = st"
| "advance t (Suc n) st = advance t n
     (if t ! ts_i st = CHR 10 then \<lparr> ts_i = ts_i st + 1, ts_line = ts_line st + 1, ts_col = 1 \<rparr>
      else \<lparr> ts_i = ts_i st + 1, ts_line = ts_line st, ts_col = ts_col st + 1 \<rparr>)"

definition token_of :: "tokenizer_state \<Rightarrow> token_kind \<Rightarrow> string \<Rightarrow> string \<Rightarrow> token" where
  "token_of st k s tag = \<lparr> tok_kind = k, tok_s = s, tok_tag = strip tag, tok_line = ts_line st, tok_col = ts_col st,
     tok_line_span = length (split_on (CHR 10) (strip_on (\<lambda>c. c = CHR 10) s)) \<rparr>"

text \<open>Only a \<^verbatim>\<open>TokenizationError\<close> is caught and reported with the position.\<close>

fun formatted :: "tokenizer_state \<Rightarrow> template_error \<Rightarrow> template_error" where
  "formatted st (TokenizationError m c) = FormattedError m (ts_line st) (ts_col st) c"
| "formatted st e = e"

definition scan_next :: "string \<Rightarrow> string option \<Rightarrow> tokenizer_state \<Rightarrow> bool \<Rightarrow> token list \<Rightarrow> template_error + scanned" where
  "scan_next t fmt st in_code_block toks =
     (if in_code_block then Inr (Code, get_code t (ts_i st), '''', False)
      else scan_token t fmt (ts_i st) (toks = [] \<or> tok_kind (last toks) = Newline))"

partial_function (option) tokenize_loop ::
  "string \<Rightarrow> string option \<Rightarrow> tokenizer_state \<Rightarrow> bool \<Rightarrow> token list \<Rightarrow> (template_error + token list) option" where
  "tokenize_loop t fmt st in_code_block toks =
     (if ts_i st < length t then
        (case scan_next t fmt st in_code_block toks of
           Inl e \<Rightarrow> Some (Inl (formatted st e))
         | Inr (k, s, tag, code) \<Rightarrow>
             if s = '''' then tokenize_loop t fmt st False toks
             else tokenize_loop t fmt (advance t (length s) st) code (toks @ [token_of st k s tag]))
      else Some (Inr toks))"

declare tokenize_loop.simps [code]

definition tokenize :: "string \<Rightarrow> string option \<Rightarrow> (template_error + token list) option" where
  "tokenize t fmt = tokenize_loop t fmt \<lparr> ts_i = 0, ts_line = 1, ts_col = 1 \<rparr> False []"

section \<open>Where tokens come from\<close>

text \<open>\<open>token_at t i s\<close>: the text \<open>s\<close> is not empty and stands at position \<open>i\<close>.\<close>

definition token_at :: "string \<Rightarrow> nat \<Rightarrow> string \<Rightarrow> bool" where
  "token_at t i s \<longleftrightarrow> s \<noteq> [] \<and> take (length s) (drop i t) = s"

lemma token_at_slice: "i < length t \<Longrightarrow> i < e \<Longrightarrow> token_at t i (slice t i e)"
  by (cases "e \<le> length t") (auto simp: token_at_def slice_def min_def)

lemma token_at_length: "token_at t i s \<Longrightarrow> i + length s \<le> length t"
  unfolding token_at_def by (metis add_leD1 drop_eq_Nil le_add_diff_inverse length_drop length_take linear min.cobounded1 nat_add_left_cancel_le take_eq_Nil)

lemma scan_to_ge: "e \<le> scan_to c k s e"
  by (induction c k s e rule: scan_to.induct) (subst scan_to.simps, auto)

lemma html_tag_end_ge: "html_tag_end s e q u = (e', q', u') \<Longrightarrow> e \<le> e'"
  by (induction s e q u rule: html_tag_end.induct)
    (subst (asm) html_tag_end.simps, auto split: if_splits simp: Suc_le_eq less_imp_le)

lemma scan_close_slice: "scan_close c w t i e u = Inr s \<Longrightarrow> \<exists>e' \<ge> e. s = slice t i e'"
proof (induction c w t i e u rule: scan_close.induct)
  case (1 c w t i e u)
  show ?case
    using 1(3) 1(1) [of] 1(2) [of] unfolding scan_close.simps [of c w t i e u]
    by (auto split: if_splits intro: Suc_leD)
qed

lemma var_end_slice: "var_end t i e u = Inr s \<Longrightarrow> \<exists>e' \<ge> e. s = slice t i e'"
proof (induction t i e u rule: var_end.induct)
  case (1 t i e u)
  show ?case
    using 1(3) 1(1) [of] 1(2) [of] unfolding var_end.simps [of t i e u]
    by (auto split: if_splits intro: Suc_leD)
qed

lemma getters_token_at:
  assumes "i < length t"
  shows "get_handlebars_tag t i = Inr s \<Longrightarrow> token_at t i s"
    and "get_handlebars_triple_stache_tag t i = Inr s \<Longrightarrow> token_at t i s"
    and "get_django_tag t i b = Inr s \<Longrightarrow> token_at t i s"
    and "get_html_tag t i = Inr s \<Longrightarrow> token_at t i s"
    and "get_html_comment t i = Inr s \<Longrightarrow> token_at t i s"
    and "get_handlebars_comment t i = Inr s \<Longrightarrow> token_at t i s"
    and "get_django_comment t i = Inr s \<Longrightarrow> token_at t i s"
    and "get_handlebars_partial t i = Inr s \<Longrightarrow> token_at t i s"
    and "get_template_var t i = Inr s \<Longrightarrow> token_at t i s"
proof -
  note at = token_at_slice [OF assms]
  show "get_handlebars_tag t i = Inr s \<Longrightarrow> token_at t i s"
    using scan_to_ge [of "i + 2" "CHR ''}''" 2 t]
    by (auto simp: get_handlebars_tag_def Let_def split: if_splits intro!: at)
  show "get_handlebars_triple_stache_tag t i = Inr s \<Longrightarrow> token_at t i s"
    using scan_to_ge [of "i + 3" "CHR ''}''" 3 t]
    by (auto simp: get_handlebars_triple_stache_tag_def Let_def split: if_splits intro!: at)
  show "get_django_tag t i b = Inr s \<Longrightarrow> token_at t i s"
    using scan_to_ge [of "if b then i + 3 else i + 2" "CHR ''%''" 1 t]
    by (auto simp: get_django_tag_def Let_def split: if_splits intro!: at)
  show "get_html_tag t i = Inr s \<Longrightarrow> token_at t i s"
    by (auto simp: get_html_tag_def dest!: html_tag_end_ge split: prod.splits if_splits intro!: at)
  show "get_html_comment t i = Inr s \<Longrightarrow> token_at t i s" "get_handlebars_comment t i = Inr s \<Longrightarrow> token_at t i s"
    "get_django_comment t i = Inr s \<Longrightarrow> token_at t i s" "get_handlebars_partial t i = Inr s \<Longrightarrow> token_at t i s"
    unfolding get_html_comment_def get_handlebars_comment_def get_django_comment_def get_handlebars_partial_def
    by (auto intro!: at dest!: scan_close_slice)
  show "get_template_var t i = Inr s \<Longrightarrow> token_at t i s"
    unfolding get_template_var_def by (auto intro!: at dest!: var_end_slice)
qed

text \<open>The tests of \<^const>\<open>scan_token\<close>, branch by branch: \<open>yields Q r\<close> says that what \<open>r\<close> returns satisfies \<open>Q\<close>.\<close>

definition yields :: "(token_kind \<Rightarrow> string \<Rightarrow> bool) \<Rightarrow> template_error + scanned \<Rightarrow> bool" where
  "yields Q r \<longleftrightarrow> (\<forall>k s tag code. r = Inr (k, s, tag, code) \<longrightarrow> Q k s)"

lemma yields_if: "yields Q a \<Longrightarrow> yields Q b \<Longrightarrow> yields Q (if c then a else b)"
  by simp

lemma yields_bind: "(\<And>x. r = Inr x \<Longrightarrow> yields Q (f x)) \<Longrightarrow> yields Q (bind_result r f)"
  by (auto simp: yields_def)

lemma yields_simps [simp]: "yields Q (Inl e)" "yields Q (Inr (k, s, tag, code)) = Q k s"
  by (auto simp: yields_def)

text \<open>Everything but text is the text at the position; text is stripped on both sides.\<close>

definition found_at :: "string \<Rightarrow> nat \<Rightarrow> token_kind \<Rightarrow> string \<Rightarrow> bool" where
  "found_at t i k s \<longleftrightarrow> token_at t i s \<and> (k = Indent \<longrightarrow> set s \<subseteq> {CHR '' ''}) \<or>
     k = TextToken \<and> s = get_text t i \<and> t ! i \<notin> set ''{< '' \<and> t ! i \<noteq> CHR 10"

lemma looking_at_single: "i < length t \<Longrightarrow> looking_at t i [c] \<longleftrightarrow> t ! i = c"
  by (simp add: looking_at_def slice_def take_Suc hd_drop_conv_nth)

lemma found_at_spaces: "i < length t \<Longrightarrow> t ! i = CHR '' '' \<Longrightarrow> token_at t i (get_spaces t i)"
  by (auto simp: token_at_def get_spaces_def takeWhile_eq_Nil_iff hd_drop_conv_nth takeWhile_eq_take [symmetric])

lemma scan_token_found:
  assumes "i < length t"
  shows "yields (found_at t i) (scan_token t fmt i fresh)"
proof -
  have g: "token_at t i s \<Longrightarrow> k \<noteq> Indent \<Longrightarrow> found_at t i k s" for k s by (simp add: found_at_def)
  have h: "yields (found_at t i) (scan_html_start t i)" "yields (found_at t i) (scan_triple_stache t i)"
    unfolding scan_html_start_def scan_triple_stache_def Let_def
    by (intro yields_bind; simp add: g getters_token_at [OF assms] split: list.split)+
  have p: "yields (found_at t i) (scan_plain t i fresh)"
    using assms found_at_spaces [OF assms] unfolding scan_plain_def looking_at_single [OF assms]
    by (auto simp: found_at_def token_at_def take_Suc hd_drop_conv_nth get_spaces_def dest!: set_takeWhileD)
  show ?thesis
    unfolding scan_token_def Let_def
    by (intro yields_if yields_bind h p) (simp_all add: g getters_token_at [OF assms])
qed

section \<open>The loop on plain text\<close>

text \<open>A text is plain if blanks and newlines are its only white space: no tabs, carriage returns and the like.\<close>

definition plain :: "string \<Rightarrow> bool" where
  "plain t \<longleftrightarrow> (\<forall>c \<in> set t. is_space c \<longrightarrow> c = CHR '' '' \<or> c = CHR 10)"

definition line_at :: "string \<Rightarrow> nat \<Rightarrow> nat" where
  "line_at t i = Suc (count_list (take i t) (CHR 10))"

definition col_at :: "string \<Rightarrow> nat \<Rightarrow> nat" where
  "col_at t i = Suc (length (takeWhile (\<lambda>c. c \<noteq> CHR 10) (rev (take i t))))"

text \<open>The tokens make up the text, and each knows its position.\<close>

definition positioned :: "string \<Rightarrow> token list \<Rightarrow> bool" where
  "positioned t toks \<longleftrightarrow> (\<forall>n < length toks. let i = length (concat (map tok_s (take n toks))) in
     tok_line (toks ! n) = line_at t i \<and> tok_col (toks ! n) = col_at t i)"

lemma rstrip_on_prefix: "\<exists>ys. s = rstrip_on P s @ ys"
  unfolding rstrip_on_def by (metis rev_append rev_rev_ident takeWhile_dropWhile_id)

lemma token_at_prefix: "drop i t = s @ ys \<Longrightarrow> s \<noteq> [] \<Longrightarrow> token_at t i s"
  by (simp add: token_at_def)

lemma get_text_token:
  assumes "plain t" "i < length t" "t ! i \<notin> set ''{< ''" "t ! i \<noteq> CHR 10"
  shows "token_at t i (get_text t i)"
proof -
  let ?w = "takeWhile (\<lambda>c. c \<notin> set ''{<'') (drop i t)"
  have d: "drop i t = t ! i # drop (Suc i) t" using assms(2) by (simp add: Cons_nth_drop_Suc)
  then have w: "?w = t ! i # takeWhile (\<lambda>c. c \<notin> set ''{<'') (drop (Suc i) t)" using assms(3) by simp
  have n: "\<not> is_space (t ! i)" using assms nth_mem [OF assms(2)] by (auto simp: plain_def)
  have s: "get_text t i = rstrip_on is_space ?w" unfolding get_text_def strip_def strip_on_def using w n by simp
  then obtain ys where "?w = get_text t i @ ys" using rstrip_on_prefix [of ?w is_space] by auto
  then have "drop i t = get_text t i @ ys @ dropWhile (\<lambda>c. c \<notin> set ''{<'') (drop i t)"
    by (metis append_assoc takeWhile_dropWhile_id)
  moreover have "get_text t i \<noteq> []" unfolding s w rstrip_on_def using n by (auto simp: dropWhile_eq_Nil_conv)
  ultimately show ?thesis by (rule token_at_prefix)
qed

lemma scan_next_plain:
  assumes "plain t" "ts_i st < length t" "scan_next t fmt st code toks = Inr (k, s, tag, c)"
  shows "s = [] \<and> code \<or> token_at t (ts_i st) s \<and> (k = Indent \<longrightarrow> set s \<subseteq> {CHR '' ''})"
proof (cases code)
  case True
  then have "s = takeWhile (\<lambda>c. c \<noteq> CHR ''<'') (drop (ts_i st) t)" using assms(3) by (simp add: scan_next_def get_code_def)
  moreover have "k = Code" using True assms(3) by (simp add: scan_next_def)
  ultimately show ?thesis using True token_at_prefix [of "ts_i st" t s] by (auto intro: takeWhile_dropWhile_id [symmetric])
next
  case False
  then have "found_at t (ts_i st) k s"
    using assms(3) scan_token_found [OF assms(2), of fmt "toks = [] \<or> tok_kind (last toks) = Newline"]
    by (auto simp: scan_next_def yields_def)
  then show ?thesis using get_text_token [OF assms(1,2)] by (auto simp: found_at_def)
qed

lemma advance_i [simp]: "ts_i (advance t n st) = ts_i st + n"
  by (induction t n st rule: advance.induct) auto

lemma advance_position:
  assumes "ts_i st + n \<le> length t" and "ts_line st = line_at t (ts_i st)" "ts_col st = col_at t (ts_i st)"
  shows "ts_line (advance t n st) = line_at t (ts_i st + n) \<and> ts_col (advance t n st) = col_at t (ts_i st + n)"
  using assms
proof (induction t n st rule: advance.induct)
  case (2 t n st)
  then have "take (Suc (ts_i st)) t = take (ts_i st) t @ [t ! ts_i st]" by (simp add: take_Suc_conv_app_nth)
  with 2 show ?case by (simp add: line_at_def col_at_def)
qed simp

lemma token_at_take:
  "token_at t i s \<Longrightarrow> take (i + length s) t = take i t @ s"
  by (simp add: token_at_def take_add)

lemma positioned_snoc:
  assumes "positioned t toks" "concat (map tok_s toks) = take i t" "i \<le> length t" "tok_line x = line_at t i" "tok_col x = col_at t i"
  shows "positioned t (toks @ [x])"
  using assms by (auto simp: positioned_def Let_def nth_append less_Suc_eq)

definition blank_indents :: "token list \<Rightarrow> bool" where
  "blank_indents toks \<longleftrightarrow> (\<forall>x \<in> set toks. tok_kind x = Indent \<longrightarrow> set (tok_s x) \<subseteq> {CHR '' ''})"

lemma tokenize_loop_plain:
  assumes "plain t" and "concat (map tok_s toks) = take (ts_i st) t" "ts_i st \<le> length t" "positioned t toks" "blank_indents toks"
    and "ts_line st = line_at t (ts_i st)" "ts_col st = col_at t (ts_i st)"
  shows "\<exists>r. tokenize_loop t fmt st code toks = Some r \<and>
    (\<forall>toks'. r = Inr toks' \<longrightarrow> concat (map tok_s toks') = t \<and> positioned t toks' \<and> blank_indents toks')"
  using assms(2-)
proof (induction "2 * (length t - ts_i st) + (if code then 1 else 0)" arbitrary: st code toks rule: less_induct)
  case less
  show ?case
  proof (cases "ts_i st < length t")
    case i: True
    show ?thesis
    proof (cases "scan_next t fmt st code toks")
      case (Inr y)
      obtain k s tag c where y: "scan_next t fmt st code toks = Inr (k, s, tag, c)" using Inr by (cases y) auto
      show ?thesis
      proof (cases "s = []")
        case True
        then have code using scan_next_plain [OF assms(1) i y] by (simp add: token_at_def)
        with True y i have "tokenize_loop t fmt st code toks = tokenize_loop t fmt st False toks"
          by (simp add: tokenize_loop.simps [of t fmt st True])
        with \<open>code\<close> less.hyps [of st False toks] less.prems show ?thesis by simp
      next
        case False
        then have a: "token_at t (ts_i st) s" and b: "k = Indent \<longrightarrow> set s \<subseteq> {CHR '' ''}"
          using scan_next_plain [OF assms(1) i y] by simp_all
        let ?st = "advance t (length s) st"
        note l = token_at_length [OF a]
        have "2 * (length t - ts_i ?st) + (if c then 1 else 0) < 2 * (length t - ts_i st) + (if code then 1 else 0)"
          using l False by (cases s) auto
        from less.hyps [OF this, of "toks @ [token_of st k s tag]"] False y i less.prems advance_position [OF l] positioned_snoc
          b
        show ?thesis
          by (simp add: tokenize_loop.simps [of t fmt st code] token_at_take [OF a] l token_of_def blank_indents_def)
      qed
    qed (use i in \<open>simp add: tokenize_loop.simps [of t fmt st code]\<close>)
  qed (use less.prems in \<open>simp add: tokenize_loop.simps [of t fmt st code]\<close>)
qed

lemma tokenize_plain:
  assumes "plain t"
  shows "\<exists>r. tokenize t fmt = Some r \<and>
    (\<forall>toks. r = Inr toks \<longrightarrow> concat (map tok_s toks) = t \<and> positioned t toks \<and> blank_indents toks)"
  unfolding tokenize_def by (rule tokenize_loop_plain [OF assms]) (simp_all add: positioned_def line_at_def col_at_def blank_indents_def)

section \<open>Texts that are not plain\<close>

text \<open>A position where the stripped text is empty is never left.\<close>

lemma tokenize_loop_stuck:
  assumes "ts_i st < length t" "scan_next t fmt st False toks = Inr (k, '''', tag, c)"
  shows "tokenize_loop t fmt st False toks = None"
proof -
  have no: "\<not> (code = False \<and> ts_i st' < length t' \<and> (\<exists>k tag c. scan_next t' fmt' st' False toks' = Inr (k, '''', tag, c)))"
    if "tokenize_loop t' fmt' st' code toks' = Some r" for t' fmt' st' code toks' r
    using _ that
  proof (rule tokenize_loop.raw_induct)
    fix loop t fmt st code toks r
    assume IH: "\<And>t fmt st code toks r. loop t fmt st code toks = Some r \<Longrightarrow>
        \<not> (code = False \<and> ts_i st < length t \<and> (\<exists>k tag c. scan_next t fmt st False toks = Inr (k, '''', tag, c)))"
      and body: "(if ts_i st < length t then
          (case scan_next t fmt st code toks of Inl e \<Rightarrow> Some (Inl (formatted st e))
           | Inr (k, s, tag, c) \<Rightarrow> if s = '''' then loop t fmt st False toks
               else loop t fmt (advance t (length s) st) c (toks @ [token_of st k s tag]))
        else Some (Inr toks)) = Some r"
    show "\<not> (code = False \<and> ts_i st < length t \<and> (\<exists>k tag c. scan_next t fmt st False toks = Inr (k, '''', tag, c)))"
    proof (intro notI, elim conjE exE)
      fix k tag c
      assume "code = False" "ts_i st < length t" "scan_next t fmt st False toks = Inr (k, '''', tag, c)"
      moreover from this body have "loop t fmt st False toks = Some r" by simp
      ultimately show False using IH [of t fmt st False toks r] by blast
    qed
  qed
  show ?thesis
  proof (cases "tokenize_loop t fmt st False toks")
    case (Some r)
    from no [OF this] assms show ?thesis by blast
  qed
qed

lemma looking_at_hd: "i < length t \<Longrightarrow> t ! i \<noteq> c \<Longrightarrow> \<not> looking_at t i (c # cs)"
  by (auto simp: looking_at_def slice_def Cons_nth_drop_Suc [symmetric])

lemma scan_token_text:
  assumes "i < length t" "t ! i \<notin> set ''{< ''" "t ! i \<noteq> CHR 10"
  shows "scan_token t fmt i fresh = Inr (TextToken, get_text t i, '''', False)"
proof -
  have "\<not> looking_at t i (CHR ''{'' # cs)" "\<not> looking_at t i (CHR ''<'' # cs)" "\<not> looking_at t i (CHR '' '' # cs)"
    "\<not> looking_at t i (CHR 10 # cs)" for cs
    using assms looking_at_hd [OF assms(1)] by auto
  with assms(2) show ?thesis by (simp add: scan_token_def scan_plain_def)
qed

section \<open>Properties\<close>

text \<open>C38: on plain text the tokenizer always returns: it comes to the end or raises.\<close>

theorem tokenize_terminates:
  assumes "plain t"
  shows "\<exists>r. tokenize t fmt = Some r"
  using tokenize_plain [OF assms] by blast

theorem tokenize_terminates_witness:
  "\<exists>r. tokenize (''<p>'' @ [CHR 10] @ ''    {{ x }}'' @ [CHR 10] @ ''</p>'') (Some ''handlebars'') = Some r"
  by (rule tokenize_terminates) (simp add: plain_def is_space_def)





end
