(* ===== verification/Template_Validator.thy ===== *)
theory Template_Validator
  imports Template_Tokenizer
begin

text \<open>
  The template checks of \<^verbatim>\<open>tools/lib/template_parser.py\<close>: matching of start and end tags, white space
  and indentation. The matcher closures of \<^verbatim>\<open>validate\<close> become a stack of frames; the mutual references
  \<^verbatim>\<open>start_token\<close> and \<^verbatim>\<open>end_token\<close> become the list of links between token indices, in the order they are made.
\<close>

section \<open>Tags\<close>

definition HTML_VOID_TAGS :: "string list" where
  "HTML_VOID_TAGS = [''area'', ''base'', ''br'', ''col'', ''command'', ''embed'', ''hr'', ''img'', ''input'', ''keygen'',
     ''link'', ''meta'', ''param'', ''source'', ''track'', ''wbr'']"

definition HTML_INLINE_TAGS :: "string list" where
  "HTML_INLINE_TAGS = [''a'', ''b'', ''br'', ''button'', ''cite'', ''code'', ''em'', ''i'', ''img'', ''input'', ''kbd'',
     ''label'', ''object'', ''script'', ''select'', ''small'', ''span'', ''strong'', ''textarea'']"

definition is_django_block_tag :: "string \<Rightarrow> bool" where
  "is_django_block_tag tag \<longleftrightarrow> tag \<in> set [''autoescape'', ''block'', ''comment'', ''for'', ''if'', ''ifequal'', ''macro'',
     ''verbatim'', ''blocktrans'', ''trans'', ''raw'', ''with'']"

datatype flavor = Start | End

definition tag_flavor :: "token \<Rightarrow> flavor option" where
  "tag_flavor tok = (case tok_kind tok of
      Code \<Rightarrow> None | DjangoComment \<Rightarrow> None | HandlebarsComment \<Rightarrow> None | HandlebarsPartial \<Rightarrow> None
    | HtmlComment \<Rightarrow> None | HtmlDoctype \<Rightarrow> None | HtmlSingleton \<Rightarrow> None | Indent \<Rightarrow> None | Newline \<Rightarrow> None
    | TemplateVar \<Rightarrow> None | TextToken \<Rightarrow> None | Whitespace \<Rightarrow> None | HandlebarsTripleStache \<Rightarrow> None
    | HandlebarsStart \<Rightarrow> Some Start | HandlebarsPartialBlock \<Rightarrow> Some Start | HtmlStart \<Rightarrow> Some Start
    | DjangoElse \<Rightarrow> Some End | DjangoEnd \<Rightarrow> Some End | HandlebarsElse \<Rightarrow> Some End | HandlebarsEnd \<Rightarrow> Some End
    | HtmlEnd \<Rightarrow> Some End | Jinja2StrippedEnd \<Rightarrow> Some End
    | DjangoStart \<Rightarrow> if is_django_block_tag (tok_tag tok) then Some Start else None
    | Jinja2StrippedStart \<Rightarrow> if is_django_block_tag (tok_tag tok) then Some Start else None
    | Jinja2StrippedType2Start \<Rightarrow> if is_django_block_tag (tok_tag tok) then Some Start else None)"

definition plain_tag :: "token \<Rightarrow> string" where
  "plain_tag tok = strip_on (\<lambda>c. c = CHR ''~'') (tok_tag tok)"

section \<open>Matching\<close>

text \<open>A frame is a start token that waits for its end, with the value \<^verbatim>\<open>foreign\<close> had before it.\<close>

record frame =
  frame_index :: nat
  frame_token :: token
  frame_foreign :: bool

definition is_else :: "token \<Rightarrow> bool" where
  "is_else tok \<longleftrightarrow> tok_tag tok = ''else''"

definition report_problem :: "token \<Rightarrow> token \<Rightarrow> template_problem option" where
  "report_problem start stop =
     (if plain_tag start = ''code'' \<and> tok_line stop = tok_line start + 1 then Some (CodeTagSplit start stop)
      else if is_else stop then
        (if plain_tag start \<notin> {''if'', ''else'', ''unless''} then Some (UnexpectedElse start stop) else None)
      else if plain_tag start \<noteq> plain_tag stop then Some (MismatchedTags start stop)
      else None)"

definition self_closing_problem :: "bool \<Rightarrow> token \<Rightarrow> template_problem option" where
  "self_closing_problem foreign tok =
     (if foreign then None
      else if tok_kind tok = HtmlStart \<and> tok_tag tok \<in> set HTML_VOID_TAGS then Some (MustBeSelfClosing tok)
      else if tok_kind tok = HtmlSingleton \<and> tok_tag tok \<notin> set HTML_VOID_TAGS then Some (MustNotBeSelfClosing tok)
      else None)"

definition opens_foreign :: "token \<Rightarrow> bool" where
  "opens_foreign tok \<longleftrightarrow> plain_tag tok \<in> {''math'', ''svg''}"

fun match_tokens ::
  "(nat \<times> token) list \<Rightarrow> frame list \<Rightarrow> bool \<Rightarrow> (nat \<times> nat) list \<Rightarrow> template_error + (nat \<times> nat) list" where
  "match_tokens [] stack foreign links =
     (case stack of [] \<Rightarrow> Inr links | f # _ \<Rightarrow> Inl (TemplateParserError (MissingEndTag (frame_token f))))"
| "match_tokens ((n, tok) # rest) stack foreign links =
     (case self_closing_problem foreign tok of
        Some p \<Rightarrow> Inl (TemplateParserError p)
      | None \<Rightarrow> (case tag_flavor tok of
          None \<Rightarrow> match_tokens rest stack foreign links
        | Some Start \<Rightarrow>
            match_tokens rest (\<lparr> frame_index = n, frame_token = tok, frame_foreign = foreign \<rparr> # stack)
              (foreign \<or> opens_foreign tok) links
        | Some End \<Rightarrow> (case stack of
            [] \<Rightarrow> Inl (TemplateParserError (NoStartTag tok))
          | f # below \<Rightarrow> (case report_problem (frame_token f) tok of
              Some p \<Rightarrow> Inl (TemplateParserError p)
            | None \<Rightarrow>
                if is_else tok then match_tokens rest stack foreign (links @ [(frame_index f, n)])
                else match_tokens rest below (frame_foreign f) (links @ [(frame_index f, n)])))))"

section \<open>White space\<close>

fun prevent_extra_newlines :: "nat \<Rightarrow> token list \<Rightarrow> template_error + unit" where
  "prevent_extra_newlines blank [] = Inr ()"
| "prevent_extra_newlines blank (tok # rest) =
     (if tok_kind tok \<noteq> Newline then prevent_extra_newlines 0 rest
      else if blank + 1 \<ge> 4 then Inl (TemplateParserError (TooManyBlankLines tok))
      else prevent_extra_newlines (blank + 1) rest)"

definition whitespace_problem :: "token \<Rightarrow> token \<Rightarrow> template_error option" where
  "whitespace_problem tok next_token =
     (if tok_kind tok = Indent then
        (if tok_kind next_token \<in> {Indent, Whitespace} then Some (AssertionError ''programming error parsing indents'')
         else if tok_kind next_token = Newline then Some (TemplateParserError (BlankLineWithSpaces tok))
         else if length (tok_s tok) mod 4 \<noteq> 0 then Some (TemplateParserError (NotFourSpaces tok))
         else None)
      else if tok_kind tok = Whitespace then
        (if length (tok_s tok) > 1 then Some (TemplateParserError (TooMuchWhitespace tok))
         else if tok_kind next_token = Newline then Some (TemplateParserError (TrailingWhitespace tok))
         else None)
      else None)"

text \<open>\<^verbatim>\<open>for i in range(1, len(tokens) - 1)\<close>: every token but the first with the one after it.\<close>

fun check_pairs :: "token list \<Rightarrow> template_error + unit" where
  "check_pairs (tok # next_token # rest) =
     (case whitespace_problem tok next_token of Some e \<Rightarrow> Inl e | None \<Rightarrow> check_pairs (next_token # rest))"
| "check_pairs _ = Inr ()"

definition prevent_whitespace_violations :: "token list \<Rightarrow> template_error + unit" where
  "prevent_whitespace_violations toks =
     (case toks of
        [] \<Rightarrow> Inl IndexError
      | tok # rest \<Rightarrow>
          bind_result (raise_if (tok_kind tok \<in> {Indent, Whitespace}) (TemplateParserError LeadingWhitespace)) (\<lambda>_.
          bind_result (prevent_extra_newlines 0 toks) (\<lambda>_. check_pairs rest)))"

section \<open>Indentation\<close>

definition lstrip :: "string \<Rightarrow> string" where
  "lstrip s = dropWhile is_space s"

definition has_bad_indentation :: "string list \<Rightarrow> token \<Rightarrow> token \<Rightarrow> bool" where
  "has_bad_indentation text_lines start stop \<longleftrightarrow> tok_line stop > tok_line start + 1 \<and>
     (if tok_tag start \<in> set HTML_INLINE_TAGS \<and> tok_kind start = HtmlStart
      then startswith (lstrip (text_lines ! (tok_line stop - 1))) (tok_s stop) \<and> tok_col stop \<noteq> tok_col start
      else tok_col stop \<noteq> tok_col start)"

fun ensure_matching_indentation :: "token list \<Rightarrow> string list \<Rightarrow> (nat \<times> nat) list \<Rightarrow> template_error + unit" where
  "ensure_matching_indentation toks text_lines [] = Inr ()"
| "ensure_matching_indentation toks text_lines ((a, b) # links) =
     (if has_bad_indentation text_lines (toks ! a) (toks ! b)
      then Inl (TemplateParserError (BadIndentation (toks ! a) (toks ! b)))
      else ensure_matching_indentation toks text_lines links)"

section \<open>Validation\<close>

definition check_tokens :: "string \<Rightarrow> token list \<Rightarrow> template_error + token list \<times> (nat \<times> nat) list" where
  "check_tokens t toks =
     bind_result (prevent_whitespace_violations toks) (\<lambda>_.
     bind_result (match_tokens (enumerate 0 toks) [] False []) (\<lambda>links.
     bind_result (ensure_matching_indentation toks (split_on (CHR 10) t) links) (\<lambda>_.
     Inr (toks, links))))"

text \<open>A \<^verbatim>\<open>FormattedError\<close> of the tokenizer becomes a \<^verbatim>\<open>TemplateParserError\<close>.\<close>

fun reraised :: "template_error \<Rightarrow> template_error" where
  "reraised (FormattedError m l c content) = TemplateParserError (Unparsable m l c content)"
| "reraised e = e"

definition validate :: "string \<Rightarrow> string option \<Rightarrow> (template_error + token list \<times> (nat \<times> nat) list) option" where
  "validate t fmt = (case tokenize t fmt of
      None \<Rightarrow> None
    | Some (Inl e) \<Rightarrow> Some (Inl (reraised e))
    | Some (Inr toks) \<Rightarrow> Some (check_tokens t toks))"

section \<open>What matching means\<close>

text \<open>
  \<open>nested fr ts ls\<close>: the tokens \<open>ts\<close> are a sequence of tokens without flavour and of blocks, a start
  token, a body and the end token with the same tag. \<open>body fr s ts ls\<close>: nested tokens, parted by the
  else tokens of \<open>s\<close>. \<open>fr\<close> says whether the tokens are within mathematics or graphics, where tags close
  as they like; \<open>ls\<close> are the links between the indices of start and end tokens.
\<close>

definition allowed :: "bool \<Rightarrow> token \<Rightarrow> bool" where
  "allowed fr tok \<longleftrightarrow> self_closing_problem fr tok = None"

definition else_of :: "token \<Rightarrow> token \<Rightarrow> bool" where
  "else_of s e \<longleftrightarrow> tag_flavor e = Some End \<and> is_else e \<and> plain_tag s \<in> {''if'', ''else'', ''unless''}"

definition end_of :: "token \<Rightarrow> token \<Rightarrow> bool" where
  "end_of s e \<longleftrightarrow> tag_flavor e = Some End \<and> \<not> is_else e \<and> plain_tag s = plain_tag e \<and>
     \<not> (plain_tag s = ''code'' \<and> tok_line e = tok_line s + 1)"

inductive nested :: "bool \<Rightarrow> (nat \<times> token) list \<Rightarrow> (nat \<times> nat) list \<Rightarrow> bool"
  and body :: "bool \<Rightarrow> nat \<times> token \<Rightarrow> (nat \<times> token) list \<Rightarrow> (nat \<times> nat) list \<Rightarrow> bool" where
  no_tokens: "nested fr [] []"
| other: "allowed fr x \<Longrightarrow> tag_flavor x = None \<Longrightarrow> nested fr ts ls \<Longrightarrow> nested fr ((n, x) # ts) ls"
| block: "allowed fr x \<Longrightarrow> tag_flavor x = Some Start \<Longrightarrow> body (fr \<or> opens_foreign x) (n, x) b lb \<Longrightarrow>
    allowed (fr \<or> opens_foreign x) y \<Longrightarrow> end_of x y \<Longrightarrow> nested fr ts ls \<Longrightarrow>
    nested fr ((n, x) # b @ (k, y) # ts) (lb @ (n, k) # ls)"
| plain_body: "nested fr ts ls \<Longrightarrow> body fr s ts ls"
| else_body: "nested fr ts ls \<Longrightarrow> allowed fr y \<Longrightarrow> else_of (snd s) y \<Longrightarrow> body fr s us ks \<Longrightarrow>
    body fr s (ts @ (k, y) # us) (ls @ (fst s, k) # ks)"

lemma report_problem_None:
  assumes "tag_flavor e = Some End"
  shows "report_problem s e = None \<longleftrightarrow> else_of s e \<or> end_of s e"
  using assms by (auto simp: report_problem_def else_of_def end_of_def)

lemma else_not_end: "else_of s e \<Longrightarrow> is_else e" "end_of s e \<Longrightarrow> \<not> is_else e"
  "else_of s e \<Longrightarrow> tag_flavor e = Some End" "end_of s e \<Longrightarrow> tag_flavor e = Some End"
  by (simp_all add: else_of_def end_of_def)

text \<open>The matcher runs over a nested sequence and leaves its stack as it was.\<close>

abbreviation frame_of :: "nat \<times> token \<Rightarrow> bool \<Rightarrow> frame" where
  "frame_of s fr \<equiv> \<lparr> frame_index = fst s, frame_token = snd s, frame_foreign = fr \<rparr>"

lemma match_nested:
  "nested fr ts ls \<Longrightarrow> match_tokens (ts @ rest) stack fr links = match_tokens rest stack fr (links @ ls)"
  "body fr s us ks \<Longrightarrow> match_tokens (us @ rest) (frame_of s fr' # stack) fr links =
     match_tokens rest (frame_of s fr' # stack) fr (links @ ks)"
proof (induction arbitrary: rest stack links and rest stack links fr' rule: nested_body.inducts)
  case (block fr x n b lb y ts ls k)
  then show ?case
    using report_problem_None [of y x] block.IH(1) [of "(k, y) # ts @ rest"] else_not_end [of x y]
    by (simp add: allowed_def)
next
  case (else_body fr ts ls y s us ks k)
  then show ?case using report_problem_None [of y "snd s"] else_not_end [of "snd s" y] by (simp add: allowed_def)
qed (simp_all add: allowed_def)

inductive_cases bodyE: "body fr s ts ls"

lemma body_other:
  assumes "body fr s us ks" "allowed fr x" "tag_flavor x = None"
  shows "body fr s ((n, x) # us) ks"
  using assms(1)
proof (rule bodyE)
  assume "nested fr us ks"
  then show ?thesis using assms(2,3) by (intro plain_body other)
next
  fix ts ls y us' ks' k
  assume *: "us = ts @ (k, y) # us'" "ks = ls @ (fst s, k) # ks'" "nested fr ts ls" "allowed fr y" "else_of (snd s) y" "body fr s us' ks'"
  have "body fr s (((n, x) # ts) @ (k, y) # us') (ls @ (fst s, k) # ks')"
    using * assms(2,3) by (intro else_body other)
  then show ?thesis using * by simp
qed

lemma body_block:
  assumes "body fr s us ks" "allowed fr x" "tag_flavor x = Some Start" "body (fr \<or> opens_foreign x) (n, x) b lb"
    "allowed (fr \<or> opens_foreign x) y" "end_of x y"
  shows "body fr s ((n, x) # b @ (k, y) # us) (lb @ (n, k) # ks)"
  using assms(1)
proof (rule bodyE)
  assume "nested fr us ks"
  then show ?thesis by (rule plain_body [OF block [OF assms(2-6)]])
next
  fix ts ls z us' ks' j
  assume *: "us = ts @ (j, z) # us'" "ks = ls @ (fst s, j) # ks'" "nested fr ts ls" "allowed fr z" "else_of (snd s) z" "body fr s us' ks'"
  have "body fr s (((n, x) # b @ (k, y) # ts) @ (j, z) # us') ((lb @ (n, k) # ls) @ (fst s, j) # ks')"
    using * assms by (intro else_body block)
  then show ?thesis using * by simp
qed

text \<open>If the matcher succeeds with an open start token, the tokens begin with its body and its end.\<close>

lemma match_open:
  assumes "match_tokens ts (f # stack) fr links = Inr links'"
  shows "\<exists>b k e rest ls. ts = b @ (k, e) # rest \<and> body fr (frame_index f, frame_token f) b ls \<and> allowed fr e \<and>
    end_of (frame_token f) e \<and> match_tokens rest stack (frame_foreign f) (links @ ls @ [(frame_index f, k)]) = Inr links'"
  using assms
proof (induction "length ts" arbitrary: ts f stack fr links rule: less_induct)
  case less
  show ?case
  proof (cases ts)
    case Nil
    then show ?thesis using less.prems by simp
  next
    case (Cons nx ts')
    obtain n x where nx: "nx = (n, x)" by (cases nx)
    let ?s = "(frame_index f, frame_token f)"
    have a: "allowed fr x" using less.prems unfolding Cons nx by (simp add: allowed_def split: option.splits)
    have lt: "length ts' < length ts" using Cons by simp
    consider (other) "tag_flavor x = None" | (start) "tag_flavor x = Some Start" | (stop) "tag_flavor x = Some End"
      by (cases "tag_flavor x") (auto intro: flavor.exhaust)
    then show ?thesis
    proof cases
      case other
      then have "match_tokens ts' (f # stack) fr links = Inr links'" using less.prems a unfolding Cons nx by (simp add: allowed_def)
      from less.hyps [OF lt this] obtain b k e rest ls where h: "ts' = b @ (k, e) # rest" "body fr ?s b ls" "allowed fr e"
        "end_of (frame_token f) e" "match_tokens rest stack (frame_foreign f) (links @ ls @ [(frame_index f, k)]) = Inr links'"
        by blast
      then show ?thesis using body_other [OF h(2) a other, of n] unfolding Cons nx
        by (intro exI [of _ "(n, x) # b"] exI [of _ k] exI [of _ e] exI [of _ rest] exI [of _ ls]) simp
    next
      case start
      then have "match_tokens ts' (frame_of (n, x) fr # f # stack) (fr \<or> opens_foreign x) links = Inr links'"
        using less.prems a unfolding Cons nx by (simp add: allowed_def)
      from less.hyps [OF lt this] obtain b1 k1 e1 rest1 ls1 where h1: "ts' = b1 @ (k1, e1) # rest1"
        "body (fr \<or> opens_foreign x) (n, x) b1 ls1" "allowed (fr \<or> opens_foreign x) e1" "end_of x e1"
        "match_tokens rest1 (f # stack) fr (links @ ls1 @ [(n, k1)]) = Inr links'"
        by auto
      have "length rest1 < length ts" using h1(1) Cons by simp
      from less.hyps [OF this h1(5)] obtain b k e rest ls where h: "rest1 = b @ (k, e) # rest" "body fr ?s b ls" "allowed fr e"
        "end_of (frame_token f) e" "match_tokens rest stack (frame_foreign f) ((links @ ls1 @ [(n, k1)]) @ ls @ [(frame_index f, k)]) = Inr links'"
        by blast
      then show ?thesis using body_block [OF h(2) a start h1(2-4), of k1] h1(1) unfolding Cons nx
        by (intro exI [of _ "(n, x) # b1 @ (k1, e1) # b"] exI [of _ k] exI [of _ e] exI [of _ rest] exI [of _ "ls1 @ (n, k1) # ls"]) simp
    next
      case stop
      then have np: "report_problem (frame_token f) x = None" using less.prems a unfolding Cons nx by (simp add: allowed_def split: option.splits)
      show ?thesis
      proof (cases "is_else x")
        case False
        then have "end_of (frame_token f) x" using np report_problem_None [OF stop] else_not_end by blast
        moreover have "match_tokens ts' stack (frame_foreign f) (links @ [(frame_index f, n)]) = Inr links'"
          using less.prems a stop np False unfolding Cons nx by (simp add: allowed_def)
        ultimately show ?thesis using a plain_body [OF no_tokens, of fr ?s] unfolding Cons nx
          by (rule_tac exI [of _ "[]"], rule_tac exI [of _ n], rule_tac exI [of _ x], rule_tac exI [of _ ts'], rule_tac exI [of _ "[]"]) simp
      next
        case True
        then have el: "else_of (frame_token f) x" using np report_problem_None [OF stop] else_not_end by blast
        have "match_tokens ts' (f # stack) fr (links @ [(frame_index f, n)]) = Inr links'"
          using less.prems a stop np True unfolding Cons nx by (simp add: allowed_def)
        from less.hyps [OF lt this] obtain b k e rest ls where h: "ts' = b @ (k, e) # rest" "body fr ?s b ls" "allowed fr e"
          "end_of (frame_token f) e" "match_tokens rest stack (frame_foreign f) ((links @ [(frame_index f, n)]) @ ls @ [(frame_index f, k)]) = Inr links'"
          by blast
        then show ?thesis using else_body [OF no_tokens a _ h(2), of n] el unfolding Cons nx
          by (intro exI [of _ "(n, x) # b"] exI [of _ k] exI [of _ e] exI [of _ rest] exI [of _ "(frame_index f, n) # ls"]) simp
      qed
    qed
  qed
qed

lemma match_nothing_open:
  assumes "match_tokens ts [] fr links = Inr links'"
  shows "\<exists>ls. nested fr ts ls \<and> links' = links @ ls"
  using assms
proof (induction "length ts" arbitrary: ts links rule: less_induct)
  case less
  show ?case
  proof (cases ts)
    case Nil
    then show ?thesis using less.prems no_tokens by auto
  next
    case (Cons nx ts')
    obtain n x where nx: "nx = (n, x)" by (cases nx)
    have a: "allowed fr x" using less.prems unfolding Cons nx by (simp add: allowed_def split: option.splits)
    consider (other) "tag_flavor x = None" | (start) "tag_flavor x = Some Start" | (stop) "tag_flavor x = Some End"
      by (cases "tag_flavor x") (auto intro: flavor.exhaust)
    then show ?thesis
    proof cases
      case other
      then have "match_tokens ts' [] fr links = Inr links'" using less.prems a unfolding Cons nx by (simp add: allowed_def)
      with less.hyps [of ts' links] Cons obtain ls where "nested fr ts' ls" "links' = links @ ls" by auto
      then show ?thesis using nested_body.other [OF a other, of ts' ls n] unfolding Cons nx by blast
    next
      case start
      then have "match_tokens ts' [frame_of (n, x) fr] (fr \<or> opens_foreign x) links = Inr links'"
        using less.prems a unfolding Cons nx by (simp add: allowed_def)
      from match_open [OF this] obtain b k e rest ls where h: "ts' = b @ (k, e) # rest"
        "body (fr \<or> opens_foreign x) (n, x) b ls" "allowed (fr \<or> opens_foreign x) e" "end_of x e"
        "match_tokens rest [] fr (links @ ls @ [(n, k)]) = Inr links'"
        by auto
      with less.hyps [of rest "links @ ls @ [(n, k)]"] Cons obtain ks where "nested fr rest ks" "links' = (links @ ls @ [(n, k)]) @ ks" by auto
      then show ?thesis using block [OF a start h(2-4), of rest ks k] h(1) unfolding Cons nx by auto
    next
      case stop
      then show ?thesis using less.prems a unfolding Cons nx by (simp add: allowed_def)
    qed
  qed
qed

text \<open>The matcher accepts exactly the nested sequences.\<close>

lemma match_tokens_iff: "match_tokens ts [] fr [] = Inr ls \<longleftrightarrow> nested fr ts ls"
  using match_nothing_open [of ts fr "[]" ls] match_nested(1) [of fr ts ls "[]" "[]" "[]"] by auto

section \<open>What the other checks mean\<close>

definition four_newlines :: "token_kind list \<Rightarrow> bool" where
  "four_newlines ks \<longleftrightarrow> (\<exists>i. take 4 (drop i ks) = replicate 4 Newline)"

lemma four_newlines_skip:
  assumes "x \<noteq> Newline" "k < 4"
  shows "four_newlines (replicate k Newline @ x # xs) \<longleftrightarrow> four_newlines xs"
proof
  assume "four_newlines (replicate k Newline @ x # xs)"
  then obtain i where i: "take 4 (drop i (replicate k Newline @ x # xs)) = replicate 4 Newline" by (auto simp: four_newlines_def)
  have "k < i"
  proof (rule ccontr)
    assume "\<not> k < i"
    then have "take 4 (drop i (replicate k Newline @ x # xs)) ! (k - i) = x" using assms(2) by (simp add: nth_append)
    then show False using i assms \<open>\<not> k < i\<close> by (simp add: nth_replicate less_imp_diff_less)
  qed
  then have "take 4 (drop (i - Suc k) xs) = replicate 4 Newline" using i by (simp add: drop_Cons')
  then show "four_newlines xs" by (auto simp: four_newlines_def)
next
  assume "four_newlines xs"
  then obtain i where "take 4 (drop i xs) = replicate 4 Newline" by (auto simp: four_newlines_def)
  then have "take 4 (drop (Suc k + i) (replicate k Newline @ x # xs)) = replicate 4 Newline" by simp
  then show "four_newlines (replicate k Newline @ x # xs)" unfolding four_newlines_def by blast
qed

lemma four_newlines_at_once: "four_newlines (replicate 4 Newline @ xs)"
  unfolding four_newlines_def by (rule exI [of _ 0]) simp

lemma prevent_extra_newlines_iff:
  "k < 4 \<Longrightarrow> prevent_extra_newlines k toks = Inr () \<longleftrightarrow> \<not> four_newlines (replicate k Newline @ map tok_kind toks)"
proof (induction k toks rule: prevent_extra_newlines.induct)
  case (1 k)
  have "take 4 (drop i (replicate k Newline)) \<noteq> replicate 4 Newline" for i
    using 1 by (metis length_drop length_replicate length_take min_less_iff_conj not_less diff_le_self order_less_irrefl le_less_trans)
  then show ?case by (simp add: four_newlines_def)
next
  case (2 k tok rest)
  have s: "replicate k Newline @ Newline # map tok_kind rest = replicate (Suc k) Newline @ map tok_kind rest"
    by (simp add: replicate_app_Cons_same)
  show ?case
  proof (cases "tok_kind tok = Newline")
    case False
    then show ?thesis using 2 four_newlines_skip [OF False, of k] by simp
  next
    case True
    show ?thesis
    proof (cases "k = 3")
      case 3: True
      then have "replicate k Newline @ map tok_kind (tok # rest) = replicate 4 Newline @ map tok_kind rest"
        using s True by (simp add: numeral_eq_Suc)
      then show ?thesis using True 3 four_newlines_at_once [of "map tok_kind rest"] by (simp only: prevent_extra_newlines.simps) simp
    next
      case False
      then have "k + 1 < 4" using 2(3) by simp
      moreover have "replicate k Newline @ map tok_kind (tok # rest) = replicate (k + 1) Newline @ map tok_kind rest"
        by (simp only: list.map True s Suc_eq_plus1)
      ultimately show ?thesis using 2(2) True by (simp only: prevent_extra_newlines.simps) simp
    qed
  qed
qed

lemma check_pairs_iff:
  "check_pairs toks = Inr () \<longleftrightarrow> (\<forall>i. Suc i < length toks \<longrightarrow> whitespace_problem (toks ! i) (toks ! Suc i) = None)"
proof (induction toks rule: check_pairs.induct)
  case (1 x y rest)
  show ?case
  proof (cases "whitespace_problem x y")
    case None
    with 1 show ?thesis by (auto simp: nth_Cons' less_Suc_eq_0_disj)
  qed auto
qed simp_all

lemma ensure_matching_indentation_iff:
  "ensure_matching_indentation toks text_lines ls = Inr () \<longleftrightarrow>
     (\<forall>(a, b) \<in> set ls. \<not> has_bad_indentation text_lines (toks ! a) (toks ! b))"
  by (induction ls) (auto split: if_splits)

section \<open>Properties\<close>

text \<open>C35: a template is accepted exactly if its tokens are properly nested (every start tag has its own
  end tag, blocks do not overlap, else tags stand only between the branches of a conditional, void
  elements and only these are self-closing outside graphics and mathematics), no white space rule is
  broken, and the end of every block of more than two lines stands in the column of its start. The
  stack of matchers accepts neither more nor less than this grammar, and it links each end to its start.\<close>

theorem validate_accepts_iff:
  "validate t fmt = Some (Inr (toks, ls)) \<longleftrightarrow>
     tokenize t fmt = Some (Inr toks) \<and> toks \<noteq> [] \<and> tok_kind (hd toks) \<notin> {Indent, Whitespace} \<and>
     \<not> four_newlines (map tok_kind toks) \<and>
     (\<forall>i. 1 \<le> i \<and> i + 1 < length toks \<longrightarrow> whitespace_problem (toks ! i) (toks ! (i + 1)) = None) \<and>
     nested False (enumerate 0 toks) ls \<and>
     (\<forall>(a, b) \<in> set ls. \<not> has_bad_indentation (split_on (CHR 10) t) (toks ! a) (toks ! b))"
proof -
  have w: "prevent_whitespace_violations toks = Inr () \<longleftrightarrow> toks \<noteq> [] \<and> tok_kind (hd toks) \<notin> {Indent, Whitespace} \<and>
      \<not> four_newlines (map tok_kind toks) \<and>
      (\<forall>i. 1 \<le> i \<and> i + 1 < length toks \<longrightarrow> whitespace_problem (toks ! i) (toks ! (i + 1)) = None)"
  proof (cases toks)
    case (Cons x rest)
    have "(\<forall>i. Suc i < length rest \<longrightarrow> whitespace_problem (rest ! i) (rest ! Suc i) = None) \<longleftrightarrow>
        (\<forall>i. 1 \<le> i \<and> i + 1 < length toks \<longrightarrow> whitespace_problem (toks ! i) (toks ! (i + 1)) = None)"
      unfolding Cons by (auto simp: nth_Cons' gr0_conv_Suc Suc_le_eq)
    then show ?thesis
      using prevent_extra_newlines_iff [of 0 toks] check_pairs_iff [of rest] Cons
      by (simp add: prevent_whitespace_violations_def)
  qed (simp add: prevent_whitespace_violations_def)
  have "check_tokens t toks = Inr (toks, ls) \<longleftrightarrow> prevent_whitespace_violations toks = Inr () \<and>
      nested False (enumerate 0 toks) ls \<and>
      (\<forall>(a, b) \<in> set ls. \<not> has_bad_indentation (split_on (CHR 10) t) (toks ! a) (toks ! b))"
    by (auto simp: check_tokens_def match_tokens_iff ensure_matching_indentation_iff [symmetric])
  moreover have "validate t fmt = Some (Inr (toks, ls)) \<longleftrightarrow> tokenize t fmt = Some (Inr toks) \<and> check_tokens t toks = Inr (toks, ls)"
    by (auto simp: validate_def check_tokens_def split: option.splits sum.splits)
  ultimately show ?thesis using w by blast
qed

text \<open>A small template with a conditional.\<close>

definition sample_template :: string where
  "sample_template = ''<p>'' @ [CHR 10] @ ''    {{#if a}}'' @ [CHR 10] @ ''    <b>x</b>'' @ [CHR 10] @ ''    {{else}}'' @ [CHR 10] @
     ''    y'' @ [CHR 10] @ ''    {{/if}}'' @ [CHR 10] @ ''</p>'' @ [CHR 10]"

definition sample_tokens :: "token list" where
  "sample_tokens = (case tokenize sample_template (Some ''handlebars'') of Some (Inr toks) \<Rightarrow> toks | _ \<Rightarrow> [])"

lemma sample_template_validates:
  "validate sample_template (Some ''handlebars'') = Some (Inr (sample_tokens, [(6, 8), (3, 11), (3, 17), (0, 19)]))"
  by code_simp

theorem validate_accepts_iff_witness:
  "validate sample_template (Some ''handlebars'') = Some (Inr (sample_tokens, [(6, 8), (3, 11), (3, 17), (0, 19)])) \<and>
   nested False (enumerate 0 sample_tokens) [(6, 8), (3, 11), (3, 17), (0, 19)]"
  using validate_accepts_iff [THEN iffD1, OF sample_template_validates] sample_template_validates by blast

end
