(* ===== verification/Template_Printer.thy ===== *)
theory Template_Printer
  imports Template_Validator
begin

text \<open>
  The pretty printer of templates, \<^verbatim>\<open>tools/lib/pretty_print.py\<close>. The fields the printer sets on the token
  objects are a record per token, addressed by the token's index; \<^verbatim>\<open>start_token\<close> and \<^verbatim>\<open>end_token\<close> are read off
  the links the validator made.
\<close>

section \<open>State\<close>

record printed =
  pr_new_s :: string
  pr_indent :: "string option"
  pr_orig_indent :: "string option"
  pr_child_indent :: "string option"
  pr_indent_is_final :: bool
  pr_parent_token :: "nat option"

definition unprinted :: "token \<Rightarrow> printed" where
  "unprinted tok = \<lparr> pr_new_s = tok_s tok, pr_indent = None, pr_orig_indent = None, pr_child_indent = None,
     pr_indent_is_final = False, pr_parent_token = None \<rparr>"

definition start_of :: "(nat \<times> nat) list \<Rightarrow> nat \<Rightarrow> nat option" where
  "start_of links i = map_option fst (find (\<lambda>(a, b). b = i) links)"

definition has_end :: "(nat \<times> nat) list \<Rightarrow> nat \<Rightarrow> bool" where
  "has_end links i \<longleftrightarrow> list_ex (\<lambda>(a, b). a = i) links"

definition set_at :: "nat \<Rightarrow> (printed \<Rightarrow> printed) \<Rightarrow> printed list \<Rightarrow> printed list" where
  "set_at i f ps = ps[i := f (ps ! i)]"

section \<open>Steps\<close>

definition shift_step :: "token list \<Rightarrow> nat \<Rightarrow> printed list \<Rightarrow> printed list" where
  "shift_step toks i ps =
     (if tok_kind (toks ! i) = Indent then
        set_at i (pr_new_s_update (\<lambda>_. '''')) (set_at (i + 1) (pr_indent_update (\<lambda>_. Some (tok_s (toks ! i)))) ps)
      else if tok_kind (toks ! i) = Newline \<and> tok_kind (toks ! (i + 1)) \<noteq> Indent then
        set_at (i + 1) (pr_indent_update (\<lambda>_. Some '''')) ps
      else ps)"

definition shift_indents_to_the_next_tokens :: "token list \<Rightarrow> printed list \<Rightarrow> template_error + printed list" where
  "shift_indents_to_the_next_tokens toks ps =
     (if toks = [] then Inl IndexError
      else Inr (fold (shift_step toks) [0..<length toks - 1] (set_at 0 (pr_indent_update (\<lambda>_. Some '''')) ps)))"

definition token_allows_children_to_skip_indents :: "token \<Rightarrow> bool" where
  "token_allows_children_to_skip_indents tok \<longleftrightarrow> tok_tag tok \<noteq> ''each'' \<and>
     (tok_kind tok \<in> {DjangoStart, HandlebarsStart} \<or> tok_tag tok = ''a'')"

text \<open>The first child with an indent decides how far the children of a block are indented.\<close>

definition settle_block :: "token list \<Rightarrow> nat \<Rightarrow> nat option \<Rightarrow> printed list \<Rightarrow> printed list" where
  "settle_block toks i cur ps = (case cur of
      None \<Rightarrow> ps
    | Some c \<Rightarrow>
        if pr_indent (ps ! i) = None then ps else
        let ps1 = (if \<not> pr_indent_is_final (ps ! c) \<and> pr_indent (ps ! i) = pr_orig_indent (ps ! c) \<and>
                      token_allows_children_to_skip_indents (toks ! c)
                   then set_at c (\<lambda>p. p\<lparr> pr_child_indent := pr_indent p \<rparr>) ps else ps)
        in set_at c (pr_indent_is_final_update (\<lambda>_. True)) ps1)"

definition enter_block :: "nat \<Rightarrow> nat option \<Rightarrow> printed list \<Rightarrow> template_error + printed list" where
  "enter_block i cur ps =
     (if pr_indent (ps ! i) = None then Inr ps else
      let ps1 = set_at i (\<lambda>p. p\<lparr> pr_orig_indent := pr_indent p \<rparr>) ps in
      bind_result (case cur of
          None \<Rightarrow> Inr ''''
        | Some c \<Rightarrow> (case pr_child_indent (ps1 ! c) of None \<Rightarrow> Inl (AssertionError '''') | Some x \<Rightarrow> Inr x)) (\<lambda>x.
      Inr (set_at i (\<lambda>p. p\<lparr> pr_indent := Some x, pr_child_indent := Some (x @ ''    '') \<rparr>) ps1)))"

text \<open>One iteration of \<^verbatim>\<open>adjust_block_indentation\<close>; \<open>cur\<close> is the local \<^verbatim>\<open>start_token\<close>.\<close>

definition adjust_step ::
  "token list \<Rightarrow> (nat \<times> nat) list \<Rightarrow> nat \<Rightarrow> nat option \<Rightarrow> printed list \<Rightarrow> template_error + nat option \<times> printed list" where
  "adjust_step toks links i cur ps =
     (let tok = toks ! i in
      if tok_kind tok \<in> {Indent, Whitespace, Newline} then Inr (cur, ps)
      else if tok_tag tok \<in> {''code'', ''pre''} then Inr (cur, ps)
      else if tok_tag tok = ''else'' then
        (case start_of links i of
           None \<Rightarrow> Inl (AssertionError '''')
         | Some c \<Rightarrow> Inr (cur, if pr_indent (ps ! i) = None then ps
                           else set_at i (pr_indent_update (\<lambda>_. pr_indent (ps ! c))) ps))
      else
        let ps = settle_block toks i cur ps in
        if has_end links i then
          bind_result (enter_block i cur ps) (\<lambda>ps'. Inr (Some i, set_at i (pr_parent_token_update (\<lambda>_. cur)) ps'))
        else (case start_of links i of
           Some s \<Rightarrow>
             if cur \<noteq> Some s then Inl (AssertionError (''was unexpected in '' @ tok_s tok))
             else Inr (pr_parent_token (ps ! s),
               if pr_indent (ps ! i) = None then ps else set_at i (pr_indent_update (\<lambda>_. pr_indent (ps ! s))) ps)
         | None \<Rightarrow>
             if pr_indent (ps ! i) = None then Inr (cur, ps)
             else (case cur of
                None \<Rightarrow> Inr (cur, set_at i (pr_indent_update (\<lambda>_. Some '''')) ps)
              | Some c \<Rightarrow> Inr (cur, if pr_child_indent (ps ! c) = None then ps
                              else set_at i (pr_indent_update (\<lambda>_. pr_child_indent (ps ! c))) ps))))"

fun adjust_from :: "token list \<Rightarrow> (nat \<times> nat) list \<Rightarrow> nat list \<Rightarrow> nat option \<Rightarrow> printed list \<Rightarrow> template_error + printed list" where
  "adjust_from toks links [] cur ps = Inr ps"
| "adjust_from toks links (i # is) cur ps =
     bind_result (adjust_step toks links i cur ps) (\<lambda>(cur', ps'). adjust_from toks links is cur' ps')"

definition adjust_block_indentation :: "token list \<Rightarrow> (nat \<times> nat) list \<Rightarrow> printed list \<Rightarrow> template_error + printed list" where
  "adjust_block_indentation toks links ps = adjust_from toks links [0..<length toks] None ps"

fun join_lines :: "string list \<Rightarrow> string" where
  "join_lines [] = ''''"
| "join_lines [x] = x"
| "join_lines (x # y # xs) = x @ [CHR 10] @ join_lines (y # xs)"

definition fix_line :: "string \<Rightarrow> string \<Rightarrow> string" where
  "fix_line continue_indent frag = (if strip frag = '''' then '''' else continue_indent @ strip frag)"

definition fix_multi_line :: "token \<Rightarrow> printed \<Rightarrow> printed" where
  "fix_multi_line tok p =
     (if tok_kind tok = Code then p
      else if tok_line_span tok = 1 then p
      else (case pr_indent p of
         None \<Rightarrow> p
       | Some indent \<Rightarrow>
           let continue_indent = (if tok_kind tok \<in> {DjangoComment, HandlebarsComment, HtmlComment, TextToken} then indent
                                  else indent @ ''    '');
               frags = split_on (CHR 10) (pr_new_s p)
           in p\<lparr> pr_new_s := hd frags @ [CHR 10] @ join_lines (map (fix_line continue_indent) (tl frags)) \<rparr>))"

definition fix_indents_for_multi_line_tags :: "token list \<Rightarrow> printed list \<Rightarrow> printed list" where
  "fix_indents_for_multi_line_tags toks ps = map2 fix_multi_line toks ps"

definition apply_token_indents :: "printed list \<Rightarrow> printed list" where
  "apply_token_indents ps = map (\<lambda>p. case pr_indent p of
      None \<Rightarrow> p | Some indent \<Rightarrow> p\<lparr> pr_new_s := indent @ pr_new_s p \<rparr>) ps"

definition pretty_print_html :: "token list \<Rightarrow> (nat \<times> nat) list \<Rightarrow> template_error + string" where
  "pretty_print_html toks links =
     bind_result (shift_indents_to_the_next_tokens toks (map unprinted toks)) (\<lambda>ps1.
     bind_result (adjust_block_indentation toks links ps1) (\<lambda>ps2.
     Inr (concat (map pr_new_s (apply_token_indents (fix_indents_for_multi_line_tags toks ps2))))))"

text \<open>
  \<^verbatim>\<open>validate_indent_html\<close> on a file with contents \<open>html\<close>: its answer and the contents of the file
  afterwards. The report it prints otherwise is left out.
\<close>

definition validate_indent_html :: "string \<Rightarrow> token list \<Rightarrow> (nat \<times> nat) list \<Rightarrow> bool \<Rightarrow> template_error + bool \<times> string" where
  "validate_indent_html html toks links fix_file =
     bind_result (pretty_print_html toks links) (\<lambda>phtml.
     if split_on (CHR 10) html \<noteq> split_on (CHR 10) phtml then
       (if fix_file then Inr (True, phtml) else Inr (False, html))
     else Inr (True, html))"

section \<open>The printer only moves white space\<close>

text \<open>The visible characters of a text, in order.\<close>

definition ink :: "string \<Rightarrow> string" where
  "ink s = filter (\<lambda>c. \<not> is_space c) s"

lemma ink_append [simp]: "ink (a @ b) = ink a @ ink b" and ink_Nil [simp]: "ink [] = []"
  by (simp_all add: ink_def)

lemma ink_concat: "ink (concat xs) = concat (map ink xs)"
  by (induction xs) simp_all

lemma ink_newline [simp]: "ink (CHR 10 # s) = ink s"
  by (simp add: ink_def is_space_def)

lemma ink_blanks: "set s \<subseteq> {CHR '' ''} \<Longrightarrow> ink s = []"
  by (auto simp: ink_def is_space_def filter_empty_conv)

lemma ink_strip [simp]: "ink (strip s) = ink s"
proof -
  have d: "filter (\<lambda>c. \<not> P c) (dropWhile P s) = filter (\<lambda>c. \<not> P c) s" for P :: "char \<Rightarrow> bool" and s by (induction s) auto
  show ?thesis unfolding ink_def strip_def strip_on_def rstrip_on_def by (simp add: d rev_filter [symmetric])
qed

lemma ink_split: "concat (map ink (split_on (CHR 10) s)) = ink s"
proof (induction s)
  case (Cons c s)
  obtain p ps where "split_on (CHR 10) s = p # ps" by (cases "split_on (CHR 10) s") auto
  moreover have "is_space (CHR 10)" by (simp add: is_space_def)
  ultimately show ?case using Cons by (auto simp: ink_def)
qed simp

lemma ink_join: "ink (join_lines xs) = concat (map ink xs)"
  by (induction xs rule: join_lines.induct) simp_all

definition ok_printed :: "nat \<Rightarrow> token \<Rightarrow> printed \<Rightarrow> bool" where
  "ok_printed n tok p \<longleftrightarrow> ink (pr_new_s p) = ink (tok_s tok) \<and> opt_all (\<lambda>x. ink x = []) (pr_indent p) \<and>
     opt_all (\<lambda>x. ink x = []) (pr_child_indent p) \<and> opt_all (\<lambda>c. c < n) (pr_parent_token p)"

abbreviation all_ok :: "token list \<Rightarrow> printed list \<Rightarrow> bool" where
  "all_ok toks ps \<equiv> list_all2 (ok_printed (length toks)) toks ps"

lemma set_at_ok:
  assumes "all_ok toks ps" and "i < length toks \<Longrightarrow> ok_printed (length toks) (toks ! i) (ps ! i) \<Longrightarrow> ok_printed (length toks) (toks ! i) (f (ps ! i))"
  shows "all_ok toks (set_at i f ps)"
  unfolding list_all2_conv_all_nth
proof (intro conjI allI impI)
  show "length toks = length (set_at i f ps)" using assms(1) by (simp add: set_at_def list_all2_lengthD)
  fix j assume j: "j < length toks"
  then have "j < length ps" "ok_printed (length toks) (toks ! j) (ps ! j)"
    using assms(1) unfolding list_all2_conv_all_nth by metis+
  then show "ok_printed (length toks) (toks ! j) (set_at i f ps ! j)"
    using assms(2) j by (cases "j = i") (simp_all add: set_at_def)
qed

lemma all_ok_nth: "all_ok toks ps \<Longrightarrow> i < length toks \<Longrightarrow> ok_printed (length toks) (toks ! i) (ps ! i)"
  by (simp add: list_all2_nthD)

lemma shift_ok:
  assumes "blank_indents toks" and "shift_indents_to_the_next_tokens toks (map unprinted toks) = Inr ps"
  shows "all_ok toks ps"
proof -
  have step: "all_ok toks (shift_step toks i ps)" if "all_ok toks ps" "i < length toks" for i ps
  proof -
    have b: "ink (tok_s (toks ! i)) = []" if "tok_kind (toks ! i) = Indent"
      using assms(1) \<open>i < length toks\<close> that by (intro ink_blanks) (auto simp: blank_indents_def)
    have c: "all_ok toks (set_at (i + 1) (pr_indent_update (\<lambda>_. Some x)) ps)" if "ink x = []" for x
      using \<open>all_ok toks ps\<close> by (rule set_at_ok) (simp add: ok_printed_def that)
    show ?thesis
    proof (cases "tok_kind (toks ! i) = Indent")
      case True
      from c [OF b [OF True]]
      have "all_ok toks (set_at i (pr_new_s_update (\<lambda>_. '''')) (set_at (i + 1) (pr_indent_update (\<lambda>_. Some (tok_s (toks ! i)))) ps))"
        by (rule set_at_ok) (simp add: ok_printed_def b [OF True])
      then show ?thesis using True by (simp add: shift_step_def)
    qed (use that c [of "''''"] in \<open>simp add: shift_step_def\<close>)
  qed
  have folded: "all_ok toks (fold (shift_step toks) is ps)" if "all_ok toks ps" "set is \<subseteq> {..<length toks}" for "is" ps
    using that by (induction "is" arbitrary: ps) (auto simp: step)
  have "all_ok toks (map unprinted toks)"
    by (simp add: list_all2_conv_all_nth ok_printed_def unprinted_def)
  then have "all_ok toks (set_at 0 (pr_indent_update (\<lambda>_. Some '''')) (map unprinted toks))"
    by (rule set_at_ok) (simp add: ok_printed_def)
  then have "all_ok toks (fold (shift_step toks) [0..<length toks - 1] (set_at 0 (pr_indent_update (\<lambda>_. Some '''')) (map unprinted toks)))"
    by (rule folded) auto
  then show ?thesis using assms(2) by (simp add: shift_indents_to_the_next_tokens_def split: if_splits)
qed

definition links_within :: "nat \<Rightarrow> (nat \<times> nat) list \<Rightarrow> bool" where
  "links_within n links \<longleftrightarrow> (\<forall>(a, b) \<in> set links. a < n)"

lemma start_of_within: "links_within n links \<Longrightarrow> start_of links i = Some a \<Longrightarrow> a < n"
  by (induction links) (auto simp: start_of_def links_within_def split: if_splits)

lemma settle_block_ok:
  assumes "all_ok toks ps" "opt_all (\<lambda>c. c < length toks) cur"
  shows "all_ok toks (settle_block toks i cur ps)"
proof (cases cur)
  case (Some c)
  have "all_ok toks (set_at c (\<lambda>p. p\<lparr> pr_child_indent := pr_indent p \<rparr>) ps)"
    using assms(1) by (rule set_at_ok) (simp add: ok_printed_def)
  then have "all_ok toks (set_at c (pr_indent_is_final_update (\<lambda>_. True)) (if b then set_at c (\<lambda>p. p\<lparr> pr_child_indent := pr_indent p \<rparr>) ps else ps))" for b
    using assms(1) by (intro set_at_ok) (auto simp: ok_printed_def)
  then show ?thesis using Some assms(1) by (simp only: settle_block_def option.case Let_def) simp
qed (use assms in \<open>simp add: settle_block_def\<close>)

lemma enter_block_ok:
  assumes "all_ok toks ps" "opt_all (\<lambda>c. c < length toks) cur" "enter_block i cur ps = Inr ps'"
  shows "all_ok toks ps'"
proof (cases "pr_indent (ps ! i) = None")
  case False
  let ?ps = "set_at i (\<lambda>p. p\<lparr> pr_orig_indent := pr_indent p \<rparr>) ps"
  obtain x where x: "(case cur of None \<Rightarrow> Inr '''' | Some c \<Rightarrow>
        (case pr_child_indent (?ps ! c) of None \<Rightarrow> Inl (AssertionError '''') | Some x \<Rightarrow> Inr x)) = Inr x"
      "ps' = set_at i (\<lambda>p. p\<lparr> pr_indent := Some x, pr_child_indent := Some (x @ ''    '') \<rparr>) ?ps"
    using assms(3) False by (auto simp: enter_block_def Let_def)
  have ok: "all_ok toks ?ps" using assms(1) by (rule set_at_ok) (simp add: ok_printed_def)
  have "ink x = []"
  proof (cases cur)
    case (Some c)
    then have "ok_printed (length toks) (toks ! c) (?ps ! c)" "pr_child_indent (?ps ! c) = Some x"
      using assms(2) all_ok_nth [OF ok] x(1) by (simp_all split: option.splits)
    then show ?thesis by (simp add: ok_printed_def)
  qed (use x(1) in simp)
  moreover have "ink ''    '' = []" by (rule ink_blanks) simp
  ultimately show ?thesis unfolding x(2) by (intro set_at_ok [OF ok]) (simp add: ok_printed_def)
qed (use assms in \<open>simp add: enter_block_def\<close>)

lemma set_indent_ok:
  assumes "all_ok toks ps" "opt_all (\<lambda>x. ink x = []) v"
  shows "all_ok toks (set_at i (pr_indent_update (\<lambda>_. v)) ps)"
  using assms(1) by (rule set_at_ok) (simp add: ok_printed_def assms(2))

lemma adjust_step_ok:
  assumes "links_within (length toks) links" "i < length toks" "all_ok toks ps" "opt_all (\<lambda>c. c < length toks) cur"
    and "adjust_step toks links i cur ps = Inr (cur', ps')"
  shows "all_ok toks ps' \<and> opt_all (\<lambda>c. c < length toks) cur'"
proof -
  let ?tok = "toks ! i" and ?ps = "settle_block toks i cur ps"
  note ok = settle_block_ok [OF assms(3,4), of i]
  have blank: "opt_all (\<lambda>x. ink x = []) (pr_indent (qs ! c))" "opt_all (\<lambda>x. ink x = []) (pr_child_indent (qs ! c))"
      "opt_all (\<lambda>c. c < length toks) (pr_parent_token (qs ! c))" if "c < length toks" "all_ok toks qs" for qs c
    using all_ok_nth [OF that(2,1)] by (simp_all add: ok_printed_def)
  consider (skip) "(cur', ps') = (cur, ps)"
    | (branch) c where "start_of links i = Some c" "cur' = cur" "ps' = set_at i (pr_indent_update (\<lambda>_. pr_indent (ps ! c))) ps"
    | (start) qs where "enter_block i cur ?ps = Inr qs" "cur' = Some i" "ps' = set_at i (pr_parent_token_update (\<lambda>_. cur)) qs"
    | (stop) c where "cur = Some c" "cur' = pr_parent_token (?ps ! c)"
        "ps' = ?ps \<or> ps' = set_at i (pr_indent_update (\<lambda>_. pr_indent (?ps ! c))) ?ps"
    | (top) "cur' = cur" "ps' = ?ps \<or> ps' = set_at i (pr_indent_update (\<lambda>_. Some '''')) ?ps"
    | (child) c where "cur = Some c" "cur' = cur" "ps' = set_at i (pr_indent_update (\<lambda>_. pr_child_indent (?ps ! c))) ?ps"
    using assms(5) unfolding adjust_step_def Let_def
    by (auto split: if_splits option.splits)
  then show ?thesis
  proof cases
    case skip then show ?thesis using assms by simp
  next
    case (branch c)
    then show ?thesis using assms(3,4) set_indent_ok [OF assms(3) blank(1) [OF start_of_within [OF assms(1) branch(1)] assms(3)]] by simp
  next
    case (start qs)
    have "all_ok toks ps'" unfolding start(3) by (rule set_at_ok [OF enter_block_ok [OF ok assms(4) start(1)]]) (simp add: ok_printed_def assms(4))
    then show ?thesis using start(2) assms(2) by simp
  next
    case (stop c)
    then have "c < length toks" using assms(4) by simp
    with stop show ?thesis using ok set_indent_ok [OF ok blank(1)] blank(3) by auto
  next
    case top
    then show ?thesis using ok assms(4) set_indent_ok [OF ok, of "Some ''''"] by auto
  next
    case (child c)
    then show ?thesis using ok assms(4) set_indent_ok [OF ok blank(2) [of c]] by simp
  qed
qed

lemma adjust_from_ok:
  assumes "links_within (length toks) links"
  shows "set is \<subseteq> {..<length toks} \<Longrightarrow> all_ok toks ps \<Longrightarrow> opt_all (\<lambda>c. c < length toks) cur \<Longrightarrow>
    adjust_from toks links is cur ps = Inr ps' \<Longrightarrow> all_ok toks ps'"
proof (induction "is" arbitrary: cur ps)
  case (Cons i "is")
  from Cons.prems(4) obtain cur1 ps1 where "adjust_step toks links i cur ps = Inr (cur1, ps1)" "adjust_from toks links is cur1 ps1 = Inr ps'"
    by auto
  with adjust_step_ok [OF assms _ Cons.prems(2,3), of i] Cons show ?case by auto
qed simp

lemma fix_line_ink:
  assumes "ink c = []"
  shows "ink (fix_line c y) = ink y"
proof (cases "strip y = ''''")
  case True
  then have "ink y = []" by (metis ink_strip ink_Nil)
  then show ?thesis using True by (simp add: fix_line_def)
qed (simp add: fix_line_def assms)

lemma fix_multi_line_ink:
  assumes "ok_printed n tok p"
  shows "ink (pr_new_s (fix_multi_line tok p)) = ink (tok_s tok) \<and> opt_all (\<lambda>x. ink x = []) (pr_indent (fix_multi_line tok p))"
proof (cases "tok_kind tok = Code \<or> tok_line_span tok = 1 \<or> pr_indent p = None")
  case False
  then obtain x where x: "pr_indent p = Some x" "ink x = []" using assms by (auto simp: ok_printed_def)
  let ?c = "if tok_kind tok \<in> {DjangoComment, HandlebarsComment, HtmlComment, TextToken} then x else x @ ''    ''"
  have c: "ink ?c = []" using x(2) ink_blanks [of "''    ''"] by simp
  note f = fix_line_ink [OF c]
  have "ink (pr_new_s (fix_multi_line tok p)) = ink (hd (split_on (CHR 10) (pr_new_s p))) @ concat (map ink (tl (split_on (CHR 10) (pr_new_s p))))"
    using False x(1) f by (simp add: fix_multi_line_def Let_def ink_join comp_def)
  also have "\<dots> = ink (pr_new_s p)"
    using ink_split [of "pr_new_s p"] by (cases "split_on (CHR 10) (pr_new_s p)") simp_all
  finally show ?thesis using assms x False by (simp add: ok_printed_def fix_multi_line_def Let_def)
qed (use assms in \<open>auto simp: ok_printed_def fix_multi_line_def\<close>)

lemma printed_ink:
  assumes "all_ok toks ps"
  shows "ink (concat (map pr_new_s (apply_token_indents (fix_indents_for_multi_line_tags toks ps)))) = ink (concat (map tok_s toks))"
proof -
  have "map ink (map pr_new_s (apply_token_indents (fix_indents_for_multi_line_tags toks ps))) = map ink (map tok_s toks)"
    using assms
  proof (induction rule: list_all2_induct)
    case (Cons x xs y ys)
    from fix_multi_line_ink [OF Cons(1)] Cons(3) show ?case
      by (auto simp: apply_token_indents_def fix_indents_for_multi_line_tags_def split: option.split)
  qed (simp add: apply_token_indents_def fix_indents_for_multi_line_tags_def)
  then show ?thesis by (simp only: ink_concat)
qed

lemma pretty_print_ink:
  assumes "blank_indents toks" "links_within (length toks) links" "pretty_print_html toks links = Inr out"
  shows "ink out = ink (concat (map tok_s toks))"
proof -
  obtain ps1 ps2 where p: "shift_indents_to_the_next_tokens toks (map unprinted toks) = Inr ps1"
      "adjust_from toks links [0..<length toks] None ps1 = Inr ps2"
      "out = concat (map pr_new_s (apply_token_indents (fix_indents_for_multi_line_tags toks ps2)))"
    using assms(3) by (auto simp: pretty_print_html_def adjust_block_indentation_def)
  have "all_ok toks ps2" by (rule adjust_from_ok [OF assms(2) _ shift_ok [OF assms(1) p(1)] _ p(2)]) auto
  then show ?thesis unfolding p(3) by (rule printed_ink)
qed

lemma nested_links:
  "nested fr ts ls \<Longrightarrow> fst ` set ls \<subseteq> fst ` set ts"
  "body fr s us ks \<Longrightarrow> fst ` set ks \<subseteq> insert (fst s) (fst ` set us)"
  by (induction rule: nested_body.inducts) (simp_all add: image_Un le_supI1 le_supI2 subset_insertI2, blast+)

lemma enumerate_indices: "fst ` set (enumerate 0 toks) \<subseteq> {..<length toks}"
  by (auto simp: in_set_enumerate_eq)

definition untidy_template :: string where
  "untidy_template = ''<p>'' @ [CHR 10] @ ''x'' @ [CHR 10] @ ''</p>'' @ [CHR 10]"

definition untidy_tokens :: "token list" where
  "untidy_tokens = (case tokenize untidy_template None of Some (Inr toks) \<Rightarrow> toks | _ \<Rightarrow> [])"

lemma untidy_template_formatted:
  "validate untidy_template None = Some (Inr (untidy_tokens, [(0, 4)]))"
  "validate_indent_html untidy_template untidy_tokens [(0, 4)] True =
     Inr (True, ''<p>'' @ [CHR 10] @ ''    x'' @ [CHR 10] @ ''</p>'' @ [CHR 10])"
  by code_simp+


text \<open>The printer gives up on some accepted templates: a block that begins a line inside a block that does not.\<close>

definition awkward_template :: string where
  "awkward_template = ''x<a>'' @ [CHR 10] @ ''    <b>y</b></a>'' @ [CHR 10]"

definition awkward_tokens :: "token list" where
  "awkward_tokens = (case tokenize awkward_template None of Some (Inr toks) \<Rightarrow> toks | _ \<Rightarrow> [])"

lemma accepted_template_not_printed:
  "validate awkward_template None = Some (Inr (awkward_tokens, [(4, 6), (1, 7)]))"
  "pretty_print_html awkward_tokens [(4, 6), (1, 7)] = Inl (AssertionError '''')"
  by code_simp+

end
