(* ===== verification/Developer_Tools.thy ===== *)
theory Developer_Tools
  imports Template_Tokenizer
begin

text \<open>
  Smaller tools of \<^verbatim>\<open>tools/\<close>: the identifiers used in templates (\<^verbatim>\<open>lib/html_branches.py\<close>), the rule on commit titles
  (\<^verbatim>\<open>lib/gitlint_rules.py\<close>) and how the linter's findings are grouped and ordered (\<^verbatim>\<open>ruff_tui.py\<close>, \<^verbatim>\<open>ruff_summary.py\<close>).
  The menus and the processes these tools start are left out.
\<close>

section \<open>Identifiers and classes in templates\<close>

record tag_info =
  ti_tag :: string
  ti_classes :: "string list"
  ti_ids :: "string list"
  ti_token :: token

definition words :: "tag_info \<Rightarrow> string list" where
  "words ti = [ti_tag ti] @ map (\<lambda>s. ''.'' @ s) (ti_classes ti) @ map (\<lambda>s. ''#'' @ s) (ti_ids ti)"

definition tag_text :: "tag_info \<Rightarrow> string" where
  "tag_text ti = ti_tag ti @ (if ti_classes ti \<noteq> [] then ''.'' @ join_with ''.'' (ti_classes ti) else []) @
     (if ti_ids ti \<noteq> [] then ''#'' @ join_with ''#'' (ti_ids ti) else [])"

text \<open>\<open>outside\<close> says whether the position is outside braces, \<open>s\<close> is the piece read so far.\<close>

fun split_pieces :: "bool \<Rightarrow> string \<Rightarrow> string \<Rightarrow> string list" where
  "split_pieces outside s [] = (if s \<noteq> '''' then [s] else [])"
| "split_pieces outside s (ch # rest) =
     (let outside' = (if ch = CHR ''}'' then True else if ch = CHR ''{'' then False else outside) in
      if ch = CHR '' '' \<and> outside' then (if s \<noteq> '''' then [s] else []) @ split_pieces outside' '''' rest
      else split_pieces outside' (s @ [ch]) rest)"

definition split_for_id_and_class :: "string \<Rightarrow> string list" where
  "split_for_id_and_class element = split_pieces True '''' element"

text \<open>\<^verbatim>\<open>re.search\<close> for an attribute: the first place where the prefix is followed, on one line, by the quote.\<close>

fun search_attribute :: "string \<Rightarrow> char \<Rightarrow> string \<Rightarrow> string option" where
  "search_attribute prefix quote s =
     (let v = takeWhile (\<lambda>c. c \<noteq> quote) (drop (length prefix) s) in
      if startswith s prefix \<and> length prefix + length v < length s \<and> CHR 10 \<notin> set v then Some v
      else (case s of [] \<Rightarrow> None | _ # rest \<Rightarrow> search_attribute prefix quote rest))"

declare search_attribute.simps [simp del]

definition found_pieces :: "string \<Rightarrow> char \<Rightarrow> string \<Rightarrow> string list" where
  "found_pieces prefix quote s = (case search_attribute (prefix @ [quote]) quote s of
      None \<Rightarrow> [] | Some g \<Rightarrow> split_for_id_and_class g)"

definition get_tag_info :: "token \<Rightarrow> tag_info" where
  "get_tag_info tok = \<lparr> ti_tag = tok_tag tok,
     ti_classes = found_pieces '' class='' (CHR 0x22) (tok_s tok) @ found_pieces '' class='' (CHR 0x27) (tok_s tok),
     ti_ids = found_pieces '' id='' (CHR 0x22) (tok_s tok) @ found_pieces '' id='' (CHR 0x27) (tok_s tok),
     ti_token = tok \<rparr>"

type_synonym id_dict = "string \<Rightarrow> string list"

definition note_ids :: "string \<Rightarrow> token \<Rightarrow> id_dict \<Rightarrow> id_dict" where
  "note_ids fn tok d = fold (\<lambda>i d. d(i := d i @ [''Line '' @ dec (tok_line tok) @ '':'' @ fn])) (ti_ids (get_tag_info tok)) d"

text \<open>\<open>None\<close> where tokenizing does not end; the texts of the files are an argument. An identifier that was not seen has
  the empty list, as in a \<^verbatim>\<open>defaultdict\<close>.\<close>

fun build_id_dict :: "(string \<times> string) list \<Rightarrow> id_dict \<Rightarrow> (template_error + id_dict) option" where
  "build_id_dict [] d = Some (Inr d)"
| "build_id_dict ((fn, t) # files) d = (case tokenize t None of
      None \<Rightarrow> None
    | Some (Inl e) \<Rightarrow> Some (Inl e)
    | Some (Inr toks) \<Rightarrow> build_id_dict files (fold (note_ids fn) toks d))"

definition ids_of_file :: "string \<times> string \<Rightarrow> (string \<times> string) list" where
  "ids_of_file f = (case tokenize (snd f) None of
      Some (Inr toks) \<Rightarrow> [(i, ''Line '' @ dec (tok_line tok) @ '':'' @ fst f). tok \<leftarrow> toks, i \<leftarrow> ti_ids (get_tag_info tok)]
    | _ \<Rightarrow> [])"

lemma split_pieces_nonempty: "p \<in> set (split_pieces outside s e) \<Longrightarrow> p \<noteq> ''''"
  by (induction outside s e rule: split_pieces.induct) (auto simp: Let_def split: if_splits)

lemma split_pieces_content:
  "filter (\<lambda>c. c \<noteq> CHR '' '') (concat (split_pieces outside s e)) = filter (\<lambda>c. c \<noteq> CHR '' '') (s @ e)"
  by (induction outside s e rule: split_pieces.induct) (auto simp: Let_def split: if_splits)

text \<open>Splitting drops nothing but blanks, and yields no empty name.\<close>

lemma split_for_id_and_class_content:
  "filter (\<lambda>c. c \<noteq> CHR '' '') (concat (split_for_id_and_class e)) = filter (\<lambda>c. c \<noteq> CHR '' '') e \<and>
   '''' \<notin> set (split_for_id_and_class e)"
  using split_pieces_content [of True "''''" e] split_pieces_nonempty [of "''''" True "''''" e]
  by (auto simp: split_for_id_and_class_def)

lemma split_example: "split_for_id_and_class ''red black {{ a|b|c }}'' = [''red'', ''black'', ''{{ a|b|c }}'']"
  by code_simp

lemma note_ids_places:
  "note_ids fn tok d i = d i @ [p. (j, p) \<leftarrow> map (\<lambda>j. (j, ''Line '' @ dec (tok_line tok) @ '':'' @ fn)) (ti_ids (get_tag_info tok)), j = i]"
proof -
  have "fold (\<lambda>i d. d(i := d i @ [p])) is d i = d i @ [q. (j, q) \<leftarrow> map (\<lambda>j. (j, p)) is, j = i]" for p "is" and d :: id_dict
    by (induction "is" arbitrary: d) auto
  then show ?thesis by (simp add: note_ids_def)
qed

lemma fold_note_ids:
  "fold (note_ids fn) toks d i = d i @ [p. (j, p) \<leftarrow> [(j, ''Line '' @ dec (tok_line tok) @ '':'' @ fn). tok \<leftarrow> toks, j \<leftarrow> ti_ids (get_tag_info tok)], j = i]"
  by (induction toks arbitrary: d) (simp_all add: note_ids_places del: fun_upd_apply)

text \<open>The dictionary lists every place of an identifier once, in the order of files and lines.\<close>

lemma build_id_dict_complete:
  "build_id_dict files d = Some (Inr d') \<Longrightarrow> d' i = d i @ [p. (j, p) \<leftarrow> concat (map ids_of_file files), j = i]"
proof (induction files arbitrary: d)
  case (Cons f files)
  obtain fn t where f: "f = (fn, t)" by (cases f)
  from Cons.prems obtain toks where t: "tokenize t None = Some (Inr toks)"
    and b: "build_id_dict files (fold (note_ids fn) toks d) = Some (Inr d')"
    by (auto simp: f split: option.splits sum.splits)
  from Cons.IH [OF b] t show ?case by (simp add: f fold_note_ids ids_of_file_def)
qed simp

section \<open>Commit titles\<close>

definition TENSE_DATA :: "(string list \<times> string) list" where
  "TENSE_DATA =
     [([''adds'', ''adding'', ''added''], ''add''), ([''allows'', ''allowing'', ''allowed''], ''allow''),
     ([''amends'', ''amending'', ''amended''], ''amend''), ([''bumps'', ''bumping'', ''bumped''], ''bump''),
     ([''calculates'', ''calculating'', ''calculated''], ''calculate''),
     ([''changes'', ''changing'', ''changed''], ''change''), ([''cleans'', ''cleaning'', ''cleaned''], ''clean''),
     ([''commits'', ''committing'', ''committed''], ''commit''),
     ([''corrects'', ''correcting'', ''corrected''], ''correct''), ([''creates'', ''creating'', ''created''], ''create''),
     ([''darkens'', ''darkening'', ''darkened''], ''darken''), ([''disables'', ''disabling'', ''disabled''], ''disable''),
     ([''displays'', ''displaying'', ''displayed''], ''display''),
     ([''documents'', ''documenting'', ''documented''], ''document''), ([''drys'', ''drying'', ''dryed''], ''dry''),
     ([''ends'', ''ending'', ''ended''], ''end''), ([''enforces'', ''enforcing'', ''enforced''], ''enforce''),
     ([''enqueues'', ''enqueuing'', ''enqueued''], ''enqueue''),
     ([''extracts'', ''extracting'', ''extracted''], ''extract''),
     ([''finishes'', ''finishing'', ''finished''], ''finish''), ([''fixes'', ''fixing'', ''fixed''], ''fix''),
     ([''formats'', ''formatting'', ''formatted''], ''format''), ([''guards'', ''guarding'', ''guarded''], ''guard''),
     ([''handles'', ''handling'', ''handled''], ''handle''), ([''hides'', ''hiding'', ''hid''], ''hide''),
     ([''increases'', ''increasing'', ''increased''], ''increase''),
     ([''ignores'', ''ignoring'', ''ignored''], ''ignore''),
     ([''implements'', ''implementing'', ''implemented''], ''implement''),
     ([''improves'', ''improving'', ''improved''], ''improve''), ([''keeps'', ''keeping'', ''kept''], ''keep''),
     ([''kills'', ''killing'', ''killed''], ''kill''), ([''makes'', ''making'', ''made''], ''make''),
     ([''merges'', ''merging'', ''merged''], ''merge''), ([''moves'', ''moving'', ''moved''], ''move''),
     ([''permits'', ''permitting'', ''permitted''], ''permit''),
     ([''prevents'', ''preventing'', ''prevented''], ''prevent''), ([''pushes'', ''pushing'', ''pushed''], ''push''),
     ([''rebases'', ''rebasing'', ''rebased''], ''rebase''),
     ([''refactors'', ''refactoring'', ''refactored''], ''refactor''),
     ([''removes'', ''removing'', ''removed''], ''remove''), ([''renames'', ''renaming'', ''renamed''], ''rename''),
     ([''reorders'', ''reordering'', ''reordered''], ''reorder''),
     ([''replaces'', ''replacing'', ''replaced''], ''replace''),
     ([''requires'', ''requiring'', ''required''], ''require''),
     ([''restores'', ''restoring'', ''restored''], ''restore''), ([''sends'', ''sending'', ''sent''], ''send''),
     ([''sets'', ''setting''], ''set''), ([''separates'', ''separating'', ''separated''], ''separate''),
     ([''shows'', ''showing'', ''showed''], ''show''), ([''simplifies'', ''simplifying'', ''simplified''], ''simplify''),
     ([''skips'', ''skipping'', ''skipped''], ''skip''), ([''sorts'', ''sorting''], ''sort''),
     ([''speeds'', ''speeding'', ''sped''], ''speed''), ([''starts'', ''starting'', ''started''], ''start''),
     ([''supports'', ''supporting'', ''supported''], ''support''), ([''takes'', ''taking'', ''took''], ''take''),
     ([''testing'', ''tested''], ''test''), ([''truncates'', ''truncating'', ''truncated''], ''truncate''),
     ([''updates'', ''updating'', ''updated''], ''update''), ([''uses'', ''using'', ''used''], ''use'')]"

definition TENSE_CORRECTIONS :: "string \<rightharpoonup> string" where
  "TENSE_CORRECTIONS = map_of (rev [(w, imperative). (ws, imperative) \<leftarrow> TENSE_DATA, w \<leftarrow> ws])"

text \<open>The title after the first \<^verbatim>\<open>": "\<close>, or all of it.\<close>

fun after_prefix :: "string \<Rightarrow> string option" where
  "after_prefix [] = None"
| "after_prefix (c # cs) = (if startswith (c # cs) '': '' then Some (drop 1 cs) else after_prefix cs)"

definition titled :: "string \<Rightarrow> string" where
  "titled line = (case after_prefix line of None \<Rightarrow> line | Some rest \<Rightarrow> rest)"

text \<open>\<open>Inl\<close> the \<^verbatim>\<open>IndexError\<close> of a title without a word; otherwise the word and its imperative if the title is refused.\<close>

definition imperative_mood :: "string \<Rightarrow> string + (string \<times> string) option" where
  "imperative_mood line = (case split_ws (titled line) of
      [] \<Rightarrow> Inl ''IndexError''
    | w # _ \<Rightarrow> Inr (map_option (\<lambda>imperative. (lower w, imperative)) (TENSE_CORRECTIONS (lower w))))"

lemma blank_title: "split_ws (titled line) = [] \<longleftrightarrow> imperative_mood line = Inl ''IndexError''"
  by (auto simp: imperative_mood_def split: list.splits)

lemma title_after_prefix: "titled ''api: Fix the door'' = ''Fix the door''" "split_ws (titled ''api: '') = []"
  by code_simp+

section \<open>Findings of the linter\<close>

record issue =
  iss_code :: string
  iss_message :: string
  iss_filepath :: string
  iss_line :: int
  iss_col :: int

type_synonym 'a dict = "(string \<times> 'a) list"

definition bump :: "string \<Rightarrow> ('a option \<Rightarrow> 'a) \<Rightarrow> 'a dict \<Rightarrow> 'a dict" where
  "bump k f d = (if map_of d k = None then d @ [(k, f None)] else map (\<lambda>(j, v). (j, if j = k then f (Some v) else v)) d)"

definition group_step :: "issue \<Rightarrow> nat dict \<times> string dict \<times> issue list dict \<Rightarrow> nat dict \<times> string dict \<times> issue list dict" where
  "group_step iss = (\<lambda>(counts, first_msg, by_code).
     (bump (iss_code iss) (\<lambda>v. case v of None \<Rightarrow> 1 | Some n \<Rightarrow> n + 1) counts,
      bump (iss_code iss) (\<lambda>v. case v of None \<Rightarrow> iss_message iss | Some x \<Rightarrow> x) first_msg,
      bump (iss_code iss) (\<lambda>v. case v of None \<Rightarrow> [iss] | Some xs \<Rightarrow> xs @ [iss]) by_code))"

definition group_by_code :: "issue list \<Rightarrow> nat dict \<times> string dict \<times> issue list dict" where
  "group_by_code issues = fold group_step issues ([], [], [])"

text \<open>\<^verbatim>\<open>most_common\<close> is stable: codes with the same count keep the order of their first finding.\<close>

definition most_common :: "nat dict \<Rightarrow> string list" where
  "most_common counts = map fst (sort_key (\<lambda>(_, n). - int n) counts)"

definition sorted_codes :: "string \<Rightarrow> nat dict \<Rightarrow> string list" where
  "sorted_codes order counts = (if order = ''freq'' then most_common counts else sort (map fst counts))"

definition occurrences :: "issue list \<Rightarrow> issue list" where
  "occurrences issues = sort_key iss_filepath (sort_key iss_line (sort_key iss_col issues))"

text \<open>The message in a summary line, at most ninety characters.\<close>

definition short_message :: "string \<Rightarrow> string" where
  "short_message msg = (let short = map (\<lambda>c. if c = CHR 10 then CHR '' '' else c) (strip msg) in
     if length short > 90 then take 87 short @ ''...'' else short)"

text \<open>The tally of \<^verbatim>\<open>ruff_summary.py\<close> skips findings without a code and keeps the first message that is not empty.\<close>

definition tally_step :: "issue \<Rightarrow> nat dict \<times> string dict \<Rightarrow> nat dict \<times> string dict" where
  "tally_step iss = (\<lambda>(counts, messages). if iss_code iss = '''' then (counts, messages) else
     (bump (iss_code iss) (\<lambda>v. case v of None \<Rightarrow> 1 | Some n \<Rightarrow> n + 1) counts,
      bump (iss_code iss) (\<lambda>v. case v of None \<Rightarrow> iss_message iss | Some x \<Rightarrow> if x = '''' then iss_message iss else x) messages))"

lemma map_of_bump: "map_of (bump k f d) j = (if j = k then Some (f (map_of d k)) else map_of d j)"
proof -
  have "map_of (map (\<lambda>(j, v). (j, if j = k then f (Some v) else v)) d) j =
      (if j = k then map_option (\<lambda>v. f (Some v)) (map_of d k) else map_of d j)"
    by (induction d) auto
  then show ?thesis by (auto simp: bump_def map_add_def split: option.splits)
qed

text \<open>What the groups hold: a code's count, its first message and its findings in order.\<close>

lemma group_by_code_groups:
  assumes "group_by_code issues = (counts, first_msg, by_code)"
  shows "let own = filter (\<lambda>x. iss_code x = c) issues in
    map_of counts c = (if own = [] then None else Some (length own)) \<and>
    map_of first_msg c = (if own = [] then None else Some (iss_message (hd own))) \<and>
    map_of by_code c = (if own = [] then None else Some own)"
  using assms
proof (induction issues arbitrary: counts first_msg by_code rule: rev_induct)
  case (snoc x xs)
  obtain a b d where g: "group_by_code xs = (a, b, d)" by (metis surj_pair)
  from snoc.IH [OF g] snoc.prems g show ?case
    by (auto simp: group_by_code_def group_step_def map_of_bump Let_def hd_append split: option.splits)
qed (simp add: group_by_code_def)

lemma short_message_bound: "length (short_message msg) \<le> 90"
  by (simp add: short_message_def Let_def)

end
