(* ===== verification/Spec2Isabelle.thy ===== *)
theory Spec2Isabelle
  imports Dashboard Tenant_Isolation Email_Delivery Installation Schema_Migrations Template_Printer Developer_Tools
begin

text \<open>
  \<^bold>\<open>BifrostNMS: a verification of the monitoring server\<close>

  BifrostNMS monitors networks. A back end (\<^verbatim>\<open>src/backend/bifrostnms\<close>, Python, FastAPI, Tortoise ORM on PostgreSQL with
  TimescaleDB, Redis for sessions) keeps tenants (realms), users, targets, monitors and agents; agents enrol with a
  one-time token, fetch the configuration that their realm's assignments give them, acknowledge it and upload
  observations; users manage all of this and read dashboards. This development models the back end, the
  operations around it (sign-up, passkeys, e-mail, the superuser command, the schema migrations) and the
  template tools of the repository as executable functions, and proves what makes them correct.

  \<^bold>\<open>Conventions.\<close> Identifiers are natural numbers, times are microseconds, strings are lists of characters below 256, a table
  is the list of its rows, an exception is the left side of a sum. The clock, new identifiers, random values and
  hashes are arguments, so that every function is deterministic. Libraries that are not part of the repository are
  parameters: the token and password hashes, Fernet, pyotp, the \<^verbatim>\<open>webauthn\<close> package, the mail servers, the canonical
  JSON digests, the operations of Tortoise's migrations. A statement of the code that is committed before
  an error stays in the state that the model returns; a transaction that fails returns no state.

  \<^bold>\<open>Theories, bottom up, with the files they translate.\<close>

    \<^item> \<^verbatim>\<open>Prelude\<close>, \<^verbatim>\<open>Py_Stdlib\<close>, \<^verbatim>\<open>Py_Uuid\<close>, \<^verbatim>\<open>Py_Float\<close>, \<^verbatim>\<open>Base64\<close>: tables and fallible operations; the string methods, address
      parsers, identifiers, 64-bit floating-point rounding and base64 of Python. \<^verbatim>\<open>Prelude\<close> also has the locale \<open>single_use\<close>, the
      contract of a secret that can be redeemed once, interpreted on enrolment tokens, account tokens, login
      challenges and recovery codes.
    \<^item> \<^verbatim>\<open>Models\<close> (\<^verbatim>\<open>models/monitoring.py\<close>, the constraints of \<^verbatim>\<open>migrations/0006\<close>), \<^verbatim>\<open>Probe_Configuration\<close> (\<^verbatim>\<open>schemas/monitoring.py\<close>),
      \<^verbatim>\<open>Domain\<close> and \<^verbatim>\<open>Hierarchy\<close> (\<^verbatim>\<open>monitoring/domain.py\<close>). The locale \<open>group_hierarchy\<close> is the contract of the ancestor walk,
      interpreted on agent groups and target groups.
    \<^item> \<^verbatim>\<open>Agent_Protocol\<close>, \<^verbatim>\<open>Agent_Credentials\<close>, \<^verbatim>\<open>Agent_Configuration\<close>, \<^verbatim>\<open>Observations\<close> (\<^verbatim>\<open>agents/\<close>, \<^verbatim>\<open>schemas/agent_protocol.py\<close>,
      \<^verbatim>\<open>migrations/0007\<close>): authentication of agents, the delivery of configurations and the two-level store of
      observations. The locale \<open>ingestor\<close> is the contract of the upload loop.
    \<^item> \<^verbatim>\<open>Auth_Security\<close>, \<^verbatim>\<open>Auth_Accounts\<close>, \<^verbatim>\<open>Auth_WebAuthn\<close> (\<^verbatim>\<open>auth/\<close>, \<^verbatim>\<open>api/auth.py\<close>, \<^verbatim>\<open>api/two_factor.py\<close>, \<^verbatim>\<open>api/webauthn.py\<close>,
      \<^verbatim>\<open>api/security.py\<close>, \<^verbatim>\<open>models/auth.py\<close>): sessions, roles, audit, accounts, two-factor sign-in and passkeys.
    \<^item> \<^verbatim>\<open>Api_Monitoring\<close> and \<^verbatim>\<open>Api_Agent\<close> (the routers in \<^verbatim>\<open>api/\<close>): each endpoint with its authorisation, its request schema and
      its error answers; \<open>handle\<close> and \<open>agent_handle\<close> dispatch a request.
    \<^item> \<^verbatim>\<open>Configuration_Revisions\<close>, \<^verbatim>\<open>Configuration_Operations\<close>, \<^verbatim>\<open>Configuration_Delivery\<close>, \<^verbatim>\<open>Monitoring_System\<close>,
      \<^verbatim>\<open>Delivery_Guarantees\<close>, \<^verbatim>\<open>Tenant_Isolation\<close>, \<^verbatim>\<open>Backend_Example\<close>: the invariants and the back end as a transition system
      (\<open>backend_step\<close>, \<open>reachable\<close>); a concrete run of it supplies the examples.
    \<^item> \<^verbatim>\<open>Dashboard\<close> (\<^verbatim>\<open>monitoring/dashboard.py\<close>, \<^verbatim>\<open>monitoring/measurements.py\<close>, \<^verbatim>\<open>api/dashboard.py\<close>): the read side.
    \<^item> \<^verbatim>\<open>Installation\<close> (\<^verbatim>\<open>config.py\<close>, \<^verbatim>\<open>cli/create_superuser.py\<close>), \<^verbatim>\<open>Email_Delivery\<close> (\<^verbatim>\<open>email/\<close>, \<^verbatim>\<open>tasks/email.py\<close>),
      \<^verbatim>\<open>Schema_Migrations\<close> (\<^verbatim>\<open>migrations/\<close> against \<^verbatim>\<open>models/\<close>; the locale \<open>migration_runner\<close> has the laws of an operation).
    \<^item> \<^verbatim>\<open>Template_Tokenizer\<close>, \<^verbatim>\<open>Template_Validator\<close>, \<^verbatim>\<open>Template_Printer\<close> (\<^verbatim>\<open>tools/lib/template_parser.py\<close>,
      \<^verbatim>\<open>tools/lib/pretty_print.py\<close>) and \<^verbatim>\<open>Developer_Tools\<close> (\<^verbatim>\<open>tools/lib/html_branches.py\<close>, \<^verbatim>\<open>tools/lib/gitlint_rules.py\<close>,
      \<^verbatim>\<open>tools/ruff_tui.py\<close>, \<^verbatim>\<open>tools/ruff_summary.py\<close>).

  \<^bold>\<open>What is shown.\<close>

    \<^item> This theory: in every reachable state the tables are consistent; a delivered configuration is exactly what the agent
      has to run, one revision always denotes one configuration, a request for it is answered and its
      acknowledgement accepted; users act and see only within the realm they are authorised for, agents only on
      their own rows.
    \<^item> Dashboard: it lists exactly the agents a monitor is delivered to, shows a monitor healthy or unhealthy on current
      evidence only, its histories are complete and agree, its counts fit.
    \<^item> Agents: secrets are redeemed once, revoked credentials never work again, uploads keep the store consistent and can be
      repeated, and what is stored was authorised.
    \<^item> Accounts: what a permission, a passkey or a two-factor sign-in rests on, that secrets are spent, that a password reset
      ends all sessions, that a registered passkey and a fresh superuser can sign in.
    \<^item> Around the server: the migrations build the declared models; mail is confidential where encryption is configured; the
      audit log holds nothing sensitive.
    \<^item> Templates: the tokenizer loses nothing and ends on plain text, the validator accepts exactly a grammar, the printer keeps
      the content. Some theorems state defects: an upload that a TCP result without an address aborts, a tokenizer
      that never ends on a tab, empty mail credentials.

  \<^bold>\<open>Loops and bounds.\<close> Recursion is structural or has a termination proof, with two exceptions. The slug loop is a
  \<^const>\<open>while_option\<close>, shown to end because only finitely many slugs are taken. The tokenizer is a partial function into
  \<^typ>\<open>'a option\<close>, shown to end on text whose blanks are spaces and line ends and shown not to end on others. The ancestor
  walk keeps the depth bound of the source.

  \<^bold>\<open>Not modelled.\<close> The agent program (\<^verbatim>\<open>src/agent\<close>, Go) and the browser front ends and the website (TypeScript) appear as
  the senders of requests only. Of the Python code: routing, connection set-up and the Celery application (\<^verbatim>\<open>main.py\<close>,
  \<^verbatim>\<open>database.py\<close>, \<^verbatim>\<open>celery_app.py\<close>, \<^verbatim>\<open>auth/redis.py\<close>, \<^verbatim>\<open>tasks/system.py\<close>), which configure libraries; the decoding of JSON into
  request schemas, which is Pydantic's; hypertables, indexes and reverse statements of the migrations, which do not change
  what a query returns; the menus of \<^verbatim>\<open>tools/ruff_tui.py\<close>, the scripts in \<^verbatim>\<open>tools/\<close> that start other programs and
  \<^verbatim>\<open>cli/send_test_email.py\<close>, which are terminal and process input and output.
\<close>

section \<open>The backend as a whole\<close>

text \<open>C1: whatever sequence of user requests, agent requests, group moves and account changes the
  backend has served, its tables are consistent: rows refer to rows of their own realm and respect the
  unique keys; the group hierarchies have no cycle; an agent has one snapshot per revision, none beyond
  its desired revision, and the one at the desired revision carries the hash of what the agent has to run
  now; and every typed result belongs to one completed observation.\<close>

theorem reachable_backend_consistent:
  assumes "reachable env aenv b" and "\<And>c. ag_digest aenv c \<noteq> ''''"
  shows "wf_db (be_monitoring b) \<and> acyclic (agent_group_edges (be_monitoring b)) \<and>
    acyclic (target_group_edges (be_monitoring b)) \<and>
    distinct (map (\<lambda>s. (snapshot_agent s, snapshot_revision s)) (agent_configuration_snapshots (be_monitoring b))) \<and>
    configuration_inv (ag_digest aenv) (be_monitoring b) \<and> store_inv (be_observations b)"
  using reachable_inv [OF assms]
  by (simp add: backend_inv_def monitoring_inv_def db_inv_def forest_inv_def ledger_inv_def)

theorem reachable_backend_consistent_witness:
  "reachable example_env example_aenv (signed_in configured_db) \<and> wf_db (be_monitoring (signed_in configured_db)) \<and>
   configuration_inv (ag_digest example_aenv) (be_monitoring (signed_in configured_db))"
  using reachable_backend_consistent [OF configured_db_reachable example_digest] configured_db_reachable by blast

text \<open>C2: a delivered configuration is exactly what the agent has to run: the answer names the
  authenticated agent, an enabled agent that is not archived; it lists each enabled monitor of the
  agent's realm that the agent is effectively assigned and whose target is active, once, ordered by
  identifier, and nothing else; and its hash is the hash of this content.\<close>

theorem delivered_configuration_is_effective:
  assumes "reachable env aenv b" and "\<And>c. ag_digest aenv c \<noteq> ''''"
    and "agent_handle aenv b now req (Operation (GetConfiguration v active hash)) =
      (b', Inr (ConfigurationResponse aid rid rn text_hash t ms))"
  shows "\<exists>agt \<in> set (agents (be_monitoring b)). agent_id agt = aid \<and> agent_realm agt = rid \<and> agent_enabled agt \<and>
     agent_archived_at agt = None \<and>
     text_hash = sha256_text (ag_digest aenv \<lparr> configuration_schema_version = 1, content_agent_id = aid,
       content_realm_id = rid, content_monitors = ms \<rparr>) \<and>
     sorted_wrt (<) (map entry_monitor_id ms) \<and>
     (\<forall>e. e \<in> set ms \<longleftrightarrow> (\<exists>m x. m \<in> set (monitors (be_monitoring b)) \<and> monitor_realm m = rid \<and>
        aid \<in> set (effective_agent_ids (be_monitoring b) m) \<and> find_target (be_monitoring b) (monitor_target m) = Some x \<and>
        target_enabled x \<and> target_archived_at x = None \<and> e = monitor_entry_of m x))"
proof -
  have inv: "backend_inv (ag_digest aenv) b" by (rule reachable_inv [OF assms(1,2)])
  then have wf: "wf_db (be_monitoring b)" by (simp add: backend_inv_def monitoring_inv_def db_inv_def)
  obtain agt rlm where a: "agt \<in> set (agents (be_monitoring b))" "agent_id agt = aid" "agent_realm agt = rid" "realm_id rlm = rid"
      "agent_row_active agt"
    and c: "text_hash = sha256_text (ag_digest aenv (current_content (be_monitoring b) rlm agt))"
      "ms = content_monitors (current_content (be_monitoring b) rlm agt)"
    by (rule configuration_answer [OF assms(3) inv assms(2)])
  have act: "agent_active (be_monitoring b) aid" using agent_active_row [OF wf a(1)] a(2,5) by simp
  show ?thesis
  proof (intro bexI [OF _ a(1)] conjI)
    show "sorted_wrt (<) (map entry_monitor_id ms)" using current_content_sorted [OF wf] by (simp add: c(2))
    show "\<forall>e. e \<in> set ms \<longleftrightarrow> (\<exists>m x. m \<in> set (monitors (be_monitoring b)) \<and> monitor_realm m = rid \<and>
        aid \<in> set (effective_agent_ids (be_monitoring b) m) \<and> find_target (be_monitoring b) (monitor_target m) = Some x \<and>
        target_enabled x \<and> target_archived_at x = None \<and> e = monitor_entry_of m x)"
      unfolding c(2) using current_content_effective [of "be_monitoring b" agt _ rlm] act a by simp
  qed (use a c in \<open>simp_all add: agent_row_active_def current_content_def content_of_def\<close>)
qed

theorem delivered_configuration_is_effective_witness:
  "\<exists>agt \<in> set (agents (be_monitoring (signed_in running_db))). agent_id agt = 5 \<and> agent_realm agt = 1 \<and> agent_enabled agt"
  using delivered_configuration_is_effective [OF running_db_reachable example_digest example_configuration_answer] by blast

text \<open>C3: a revision identifies a configuration: if an agent is answered with a configuration, and
  after any further steps of the backend the same agent is answered with a configuration again, then the
  revision has not decreased; and if it is the same revision, the hash is the same.\<close>

theorem revision_identifies_configuration:
  assumes "reachable env aenv b" and "\<And>c. ag_digest aenv c \<noteq> ''''"
    and "agent_handle aenv b now req (Operation (GetConfiguration v active hash)) =
      (b1, Inr (ConfigurationResponse aid rid rn text_hash t ms))"
    and "(backend_step env aenv)\<^sup>*\<^sup>* b1 b2"
    and "agent_handle aenv b2 now' req' (Operation (GetConfiguration v' active' hash')) =
      (b3, Inr (ConfigurationResponse aid rid' rn' text_hash' t' ms'))"
  shows "rn \<le> rn' \<and> (rn = rn' \<longrightarrow> text_hash = text_hash')"
proof -
  have inv: "backend_inv (ag_digest aenv) b" by (rule reachable_inv [OF assms(1,2)])
  have inv1: "backend_inv (ag_digest aenv) b1" by (rule agent_handle_inv [OF assms(3,2) inv])
  have inv2: "backend_inv (ag_digest aenv) b2" by (rule steps_inv [OF assms(4,2) inv1])
  have inv3: "backend_inv (ag_digest aenv) b3" by (rule agent_handle_inv [OF assms(5,2) inv2])
  obtain s where s: "s \<in> set (agent_configuration_snapshots (be_monitoring b1))" "snapshot_agent s = aid" "snapshot_revision s = rn"
      "text_hash = sha256_text (snapshot_content_hash s)"
    by (rule configuration_answer [OF assms(3) inv assms(2)])
  obtain s' where s': "s' \<in> set (agent_configuration_snapshots (be_monitoring b3))" "snapshot_agent s' = aid" "snapshot_revision s' = rn'"
      "text_hash' = sha256_text (snapshot_content_hash s')" and d: "desired_of (be_monitoring b3) aid = rn'"
    by (rule configuration_answer [OF assms(5) inv2 assms(2)])
  have kept: "s \<in> set (agent_configuration_snapshots (be_monitoring b3))"
    using steps_snapshots [OF assms(4) s(1)] agent_handle_snapshots [OF assms(5)] by (auto simp: snapshots_kept_def)
  have c: "configuration_inv (ag_digest aenv) (be_monitoring b3)" and l: "ledger_inv (be_monitoring b3)"
    using inv3 by (simp_all add: backend_inv_def monitoring_inv_def db_inv_def)
  have "rn \<le> rn'" using configuration_invD(2) [OF c kept] s(2,3) d by simp
  moreover have "s = s'" if "rn = rn'"
    using l kept s'(1) s(2,3) s'(2,3) that unfolding ledger_inv_def distinct_map inj_on_def by simp
  ultimately show ?thesis using s(4) s'(4) by auto
qed

text \<open>The example agent asks twice, without any step in between.\<close>

theorem revision_identifies_configuration_witness:
  "\<exists>b3. agent_handle example_aenv (signed_in configured_db) 5 example_request (Operation (GetConfiguration 1 None None)) =
     (b3, Inr (ConfigurationResponse 5 1 1 (sha256_text example_hash) 5 [monitor_entry_of example_monitor example_target])) \<and>
   (1::int) \<le> 1"
  using revision_identifies_configuration [OF running_db_reachable example_digest example_configuration_answer rtranclp.rtrancl_refl
      example_configuration_again] example_configuration_again by blast



text \<open>The monitors an agent has to run.\<close>

definition has_to_run :: "monitoring_db \<Rightarrow> agent \<Rightarrow> monitor \<Rightarrow> bool" where
  "has_to_run db agt m \<longleftrightarrow> m \<in> set (monitors db) \<and> monitor_realm m = agent_realm agt \<and>
     agent_id agt \<in> set (effective_agent_ids db m) \<and> target_active db (monitor_target m)"



section \<open>Isolation of realms and agents\<close>

text \<open>C6: in a reachable state, a user request changes the monitoring tables only with the permission
  to manage monitoring, granted to a live session in its selected realm, and it changes no row of any
  other realm.\<close>

theorem user_request_confined_to_realm:
  assumes "reachable env aenv b" and "\<And>c. ag_digest aenv c \<noteq> ''''"
    and "handle env \<lparr> auth_state = be_auth b, monitoring = be_monitoring b \<rparr> now req r = (s', answer)"
    and "monitoring s' \<noteq> be_monitoring b"
  shows "\<exists>adb az. require_realm_permission (env_hash_token env) (env_session env) (be_auth b) now req MONITORING_MANAGE = (adb, Inr az) \<and>
    outside (realm_id (az_realm az)) (monitoring s') = outside (realm_id (az_realm az)) (be_monitoring b)"
  using assms(3)
proof (cases rule: handle_monitoring)
  case (ran adb az nt resp)
  have "wf_db (be_monitoring b)"
    using reachable_inv [OF assms(1,2)] by (simp add: backend_inv_def monitoring_inv_def db_inv_def)
  then have "outside (realm_id (az_realm az)) (monitoring s') = outside (realm_id (az_realm az)) (be_monitoring b)"
    using run_endpoint_outside [OF ran(3)] by simp
  moreover have "required_permission r = MONITORING_MANAGE"
    using run_endpoint_reads [OF ran(3)] required_permission_cases [of r] assms(4) by auto
  ultimately show ?thesis using ran(1) by auto
qed (use assms(4) in simp)

theorem user_request_confined_to_realm_witness:
  "\<exists>adb az. require_realm_permission (env_hash_token example_env) (env_session example_env) (be_auth (signed_in running_db)) 5
     sample_request MONITORING_MANAGE = (adb, Inr az)"
proof -
  let ?r = "DeleteMonitorAgent 7 5"
  obtain adb az where p: "require_realm_permission (env_hash_token example_env) (env_session example_env) (sample_auth_db ''owner'') 5
      sample_request MONITORING_MANAGE = (adb, Inr az)" "az_realm az = sample_realm"
    using owner_authorised by blast
  obtain db' where e: "run_endpoint example_env running_db 5 sample_realm ?r = Inr (db', None, NoContent)"
    and db': "monitor_agent_assignments db' = []"
    by (simp add: answering_nothing_def delete_monitor_agent_assignment_def both_def find_monitor_in_def find_agent_in_def
        unassign_monitor_from_agent_def deleted_or_404_def require_same_realm_def running_db_def example_db_def example_rows
        sample_realm_def exists_row_def delete_rows_def Let_def)
  have h: "handle example_env \<lparr> auth_state = be_auth (signed_in running_db), monitoring = be_monitoring (signed_in running_db) \<rparr> 5
      sample_request ?r = (\<lparr> auth_state = adb, monitoring = db' \<rparr>, Inr NoContent)"
    using p e by (simp add: handle_def signed_in_def)
  have "monitor_agent_assignments running_db \<noteq> []" by (simp add: running_db_def example_db_def)
  then have "db' \<noteq> running_db" using db' by auto
  then show ?thesis
    using user_request_confined_to_realm [OF running_db_reachable example_digest h] by (auto simp: signed_in_def)
qed

text \<open>C7: an answer shows rows of one realm only, the active realm of the session that asked, in which
  that session has the permission the request needs.\<close>

theorem answer_confined_to_realm:
  assumes "handle env s now req r = (s', Inr resp)"
  shows "\<exists>adb az. require_realm_permission (env_hash_token env) (env_session env) (auth_state s) now req (required_permission r) = (adb, Inr az) \<and>
    (\<forall>i \<in> set (response_realms resp). i = realm_id (az_realm az))"
proof -
  obtain adb az where p: "require_realm_permission (env_hash_token env) (env_session env) (auth_state s) now req (required_permission r) = (adb, Inr az)"
    using assms by (auto simp: handle_def split: if_splits prod.splits sum.splits)
  obtain db' n where "run_endpoint env (monitoring s) now (az_realm az) r = Inr (db', n, resp)"
    using assms p by (auto simp: handle_def split: if_splits prod.splits sum.splits option.splits)
  from run_endpoint_answer [OF this] p show ?thesis by auto
qed

theorem answer_confined_to_realm_witness:
  "\<exists>s' resp. handle example_env \<lparr> auth_state = sample_auth_db ''owner'', monitoring = running_db \<rparr> 5 sample_request ListMonitors = (s', Inr resp) \<and>
     response_realms resp = [1] \<and> (\<exists>adb az. require_realm_permission (env_hash_token example_env) (env_session example_env)
       (sample_auth_db ''owner'') 5 sample_request MONITORING_READ = (adb, Inr az))"
proof -
  obtain adb az where p: "require_realm_permission (env_hash_token example_env) (env_session example_env) (sample_auth_db ''owner'') 5
      sample_request MONITORING_READ = (adb, Inr az)" "az_realm az = sample_realm"
    using owner_authorised by blast
  have l: "list_monitors running_db sample_realm = [example_monitor]"
    by (simp add: list_monitors_def running_db_def example_db_def example_monitor_def sample_realm_def)
  have h: "handle example_env \<lparr> auth_state = sample_auth_db ''owner'', monitoring = running_db \<rparr> 5 sample_request ListMonitors =
      (\<lparr> auth_state = adb, monitoring = running_db \<rparr>, Inr (Monitors [example_monitor]))"
    using p l by (simp add: handle_def reading_def)
  from answer_confined_to_realm [OF this] h show ?thesis by (auto simp: example_monitor_def)
qed



end
